(* ===== verification/Prelude.thy ===== *)
theory Prelude
  imports Main "HOL-Library.Word"
begin

text \<open>
  Shared vocabulary of the development: C strings that may be NULL, the collections the
  component proofs use, and generic lemmas on lists and options.

  A \<open>const char *\<close> of the sources is a \<open>cstr\<close>: \<open>None\<close> is the NULL pointer and
  \<open>Some s\<close> a string, whose characters are bytes. \<open>gboolean\<close> results that come with a
  \<open>GError\<close> are values of \<open>gerror + 'a\<close>, see theory \<open>Errors\<close>.
\<close>

named_theorems cstr_simps \<open>unfolding of the NULL-aware string tests\<close>
named_theorems model_defs \<open>definitions a component unfolds in its own proofs\<close>
named_theorems frame \<open>fields an operation leaves alone\<close>

type_synonym cstr = "string option"
type_synonym u8 = "8 word"
type_synonym u32 = "32 word"
type_synonym strmap = "(string \<times> string) list"

section \<open>NULL-aware string tests\<close>

text \<open>\<open>value && strlen (value)\<close> and \<open>value && value[0]\<close>, as the sources write it.\<close>

definition nonempty :: "cstr \<Rightarrow> bool" where
  "nonempty s \<longleftrightarrow> (case s of None \<Rightarrow> False | Some t \<Rightarrow> t \<noteq> [])"

text \<open>\<open>value && !strcmp (value, lit)\<close>.\<close>

definition streq :: "cstr \<Rightarrow> string \<Rightarrow> bool" where
  "streq s lit \<longleftrightarrow> (case s of None \<Rightarrow> False | Some t \<Rightarrow> t = lit)"

lemma nonempty_simps [simp, cstr_simps]:
  "\<not> nonempty None"
  "nonempty (Some t) \<longleftrightarrow> t \<noteq> []"
  by (simp_all add: nonempty_def)

lemma streq_simps [simp, cstr_simps]:
  "\<not> streq None lit"
  "streq (Some t) lit \<longleftrightarrow> t = lit"
  by (simp_all add: streq_def)

lemma streq_iff: "streq s lit \<longleftrightarrow> s = Some lit"
  by (cases s) simp_all

lemma nonempty_iff: "nonempty s \<longleftrightarrow> (\<exists>c t. s = Some (c # t))"
  by (cases s) (auto simp: neq_Nil_conv)

lemma nonemptyE [elim]:
  assumes "nonempty s"
  obtains t where "s = Some t" "t \<noteq> []"
  using assms by (cases s) auto

lemma streq_nonempty: "streq s lit \<Longrightarrow> lit \<noteq> [] \<Longrightarrow> nonempty s"
  by (simp add: streq_iff)

text \<open>\<open>g_str_has_prefix\<close> and \<open>!strncmp (s, p, strlen (p))\<close>.\<close>

fun has_prefix :: "string \<Rightarrow> string \<Rightarrow> bool" where
  "has_prefix s [] = True"
| "has_prefix [] (p # ps) = False"
| "has_prefix (c # cs) (p # ps) = (c = p \<and> has_prefix cs ps)"

lemma has_prefix_iff: "has_prefix s p \<longleftrightarrow> take (length p) s = p"
  by (induction s p rule: has_prefix.induct) auto

lemma has_prefix_append [simp]: "has_prefix (p @ s) p"
  by (simp add: has_prefix_iff)

lemma has_prefix_length: "has_prefix s p \<Longrightarrow> length p \<le> length s"
  by (induction s p rule: has_prefix.induct) auto

section \<open>Lists and options\<close>

lemma option_or_cases: "(case a of None \<Rightarrow> b | Some v \<Rightarrow> Some v) = (if a = None then b else a)"
  by (cases a) auto

lemma case_option_self: "(case v of None \<Rightarrow> None | Some w \<Rightarrow> Some w) = v"
  by (cases v) simp_all

lemma filter_takeWhile_empty: "(\<forall>x \<in> set xs. \<not> P x) \<Longrightarrow> filter P xs = []"
  by (induction xs) auto

lemma takeWhile_dropWhile_all: "\<forall>x \<in> set xs. P x \<Longrightarrow> takeWhile P xs = xs \<and> dropWhile P xs = []"
  by (induction xs) auto

lemma fold_invariant_list:
  "P s \<Longrightarrow> (\<And>x s. x \<in> set xs \<Longrightarrow> P s \<Longrightarrow> P (f x s)) \<Longrightarrow> P (fold f xs s)"
  by (induction xs arbitrary: s) auto

end
