(* ===== verification/Store.thy ===== *)
theory Store
  imports Prelude
begin

text \<open>
  The key/value interface the sources use again and again: the data items and the secrets
  of an \<open>NMSettingVpn\<close>, a \<open>GHashTable\<close> of strings, a process environment. The locale
  states what a lookup returns after an update; its clients (the editors, the auth dialog,
  the environment builder) are sequences of updates, some of them conditional, and the
  lemmas here say what such a sequence leaves in the store.

  The concrete store is an association list that keeps the order in which keys were first
  inserted, so that a theorem about a traversal holds for every order.
\<close>

section \<open>Association lists as stores\<close>

fun sput :: "string \<Rightarrow> 'v \<Rightarrow> (string \<times> 'v) list \<Rightarrow> (string \<times> 'v) list" where
  "sput k v [] = [(k, v)]"
| "sput k v ((k', v') # xs) = (if k = k' then (k, v) # xs else (k', v') # sput k v xs)"

definition sdel :: "string \<Rightarrow> (string \<times> 'v) list \<Rightarrow> (string \<times> 'v) list" where
  "sdel k xs = filter (\<lambda>(k', _). k' \<noteq> k) xs"

lemma map_of_sput: "map_of (sput k v xs) k' = (if k = k' then Some v else map_of xs k')"
  by (induction k v xs rule: sput.induct) auto

lemma map_of_sdel: "map_of (sdel k xs) k' = (if k = k' then None else map_of xs k')"
  by (induction xs) (auto simp: sdel_def)

lemma keys_sput: "fst ` set (sput k v xs) = insert k (fst ` set xs)"
  by (induction k v xs rule: sput.induct) auto

lemma set_sput_subset: "set (sput k v xs) \<subseteq> insert (k, v) (set xs)"
  by (induction k v xs rule: sput.induct) auto

lemma distinct_sput: "distinct (map fst xs) \<Longrightarrow> distinct (map fst (sput k v xs))"
proof (induction k v xs rule: sput.induct)
  case (2 k v k' v' xs)
  then show ?case using keys_sput [of k v xs] by auto
qed auto

lemma sput_not_Nil [simp]: "sput k v xs \<noteq> []"
  by (induction k v xs rule: sput.induct) auto

section \<open>Sequences of updates\<close>

text \<open>
  An update list entry \<open>(k, None)\<close> stands for a guarded \<open>add\<close> whose guard was false:
  the store is not touched.
\<close>

definition put_opt :: "(string \<Rightarrow> 'v \<Rightarrow> 's \<Rightarrow> 's) \<Rightarrow> string \<times> 'v option \<Rightarrow> 's \<Rightarrow> 's" where
  "put_opt put kv s = (case snd kv of None \<Rightarrow> s | Some v \<Rightarrow> put (fst kv) v s)"

definition put_opts :: "(string \<Rightarrow> 'v \<Rightarrow> 's \<Rightarrow> 's) \<Rightarrow> (string \<times> 'v option) list \<Rightarrow> 's \<Rightarrow> 's" where
  "put_opts put kvs s = fold (put_opt put) kvs s"

text \<open>The last entry of \<open>k\<close> that carries a value.\<close>

fun last_put :: "(string \<times> 'v option) list \<Rightarrow> string \<Rightarrow> 'v option" where
  "last_put [] k = None"
| "last_put ((k', v) # kvs) k =
     (case last_put kvs k of Some w \<Rightarrow> Some w | None \<Rightarrow> if k' = k then v else None)"

lemma put_opts_simps [simp]:
  "put_opts put [] s = s"
  "put_opts put ((k, None) # kvs) s = put_opts put kvs s"
  "put_opts put ((k, Some v) # kvs) s = put_opts put kvs (put k v s)"
  by (simp_all add: put_opts_def put_opt_def)

lemma last_put_None: "k \<notin> fst ` set kvs \<Longrightarrow> last_put kvs k = None"
  by (induction kvs k rule: last_put.induct) auto

lemma last_put_some_key: "last_put kvs k = Some v \<Longrightarrow> k \<in> fst ` set kvs"
  using last_put_None by fastforce

section \<open>The interfaces\<close>

locale kv_put =
  fixes get :: "'s \<Rightarrow> string \<Rightarrow> 'v option"
    and put :: "string \<Rightarrow> 'v \<Rightarrow> 's \<Rightarrow> 's"
  assumes get_put_same: "get (put k v s) k = Some v"
    and get_put_other: "k \<noteq> k' \<Longrightarrow> get (put k v s) k' = get s k'"
begin

lemma get_put: "get (put k v s) k' = (if k = k' then Some v else get s k')"
  by (simp add: get_put_same get_put_other)

lemma get_put_opt: "get (put_opt put (k, v) s) k' = (if k = k' \<and> v \<noteq> None then v else get s k')"
  by (auto simp: put_opt_def get_put split: option.splits)

lemma get_put_opts:
  "get (put_opts put kvs s) k = (case last_put kvs k of Some v \<Rightarrow> Some v | None \<Rightarrow> get s k)"
proof (induction kvs k arbitrary: s rule: last_put.induct)
  case (2 k' v kvs k)
  then show ?case
    by (cases v) (auto simp: get_put split: option.splits)
qed simp

lemma get_put_opts_other: "k \<notin> fst ` set kvs \<Longrightarrow> get (put_opts put kvs s) k = get s k"
  by (simp add: get_put_opts last_put_None)

lemma get_put_opts_fresh: "get s k = None \<Longrightarrow> get (put_opts put kvs s) k = last_put kvs k"
  by (simp add: get_put_opts split: option.splits)

end

locale kv_store = kv_put +
  fixes del :: "string \<Rightarrow> 'a \<Rightarrow> 'a"
  assumes get_del_same: "get (del k s) k = None"
    and get_del_other: "k \<noteq> k' \<Longrightarrow> get (del k s) k' = get s k'"
begin

lemma get_del: "get (del k s) k' = (if k = k' then None else get s k')"
  by (simp add: get_del_same get_del_other)

lemma get_del_put: "get (del k (put k v s)) k' = get (del k s) k'"
  by (simp add: get_del get_put)

lemma get_put_del: "get (put k v (del k s)) k' = get (put k v s) k'"
  by (simp add: get_del get_put)

end

end
