(* ===== verification/Defines.thy ===== *)
theory Defines
  imports Prelude
begin

text \<open>
  The names of \<open>shared/nm-service-defines.h\<close>: the D-Bus names of the service and the keys of
  the VPN data items and secrets.
\<close>

definition NM_VPN_SERVICE_TYPE_OPENCONNECT :: string where [simp]: "NM_VPN_SERVICE_TYPE_OPENCONNECT = ''org.freedesktop.NetworkManager.gpclient''"
definition NM_DBUS_SERVICE_OPENCONNECT :: string where [simp]: "NM_DBUS_SERVICE_OPENCONNECT = ''org.freedesktop.NetworkManager.gpclient''"
definition NM_DBUS_INTERFACE_OPENCONNECT :: string where [simp]: "NM_DBUS_INTERFACE_OPENCONNECT = ''org.freedesktop.NetworkManager.gpclient''"
definition NM_DBUS_PATH_OPENCONNECT :: string where [simp]: "NM_DBUS_PATH_OPENCONNECT = ''/org/freedesktop/NetworkManager/gpclient''"
definition NM_OPENCONNECT_KEY_GATEWAY :: string where [simp]: "NM_OPENCONNECT_KEY_GATEWAY = ''gateway''"
definition NM_OPENCONNECT_KEY_PORTAL :: string where [simp]: "NM_OPENCONNECT_KEY_PORTAL = ''portal''"
definition NM_OPENCONNECT_KEY_AUTO_GATEWAY :: string where [simp]: "NM_OPENCONNECT_KEY_AUTO_GATEWAY = ''auto_gateway''"
definition NM_OPENCONNECT_KEY_AS_GATEWAY :: string where [simp]: "NM_OPENCONNECT_KEY_AS_GATEWAY = ''as_gateway''"
definition NM_OPENCONNECT_KEY_BROWSER :: string where [simp]: "NM_OPENCONNECT_KEY_BROWSER = ''browser''"
definition NM_OPENCONNECT_KEY_CLIENT_VERSION :: string where [simp]: "NM_OPENCONNECT_KEY_CLIENT_VERSION = ''client_version''"
definition NM_OPENCONNECT_KEY_HOST_ID :: string where [simp]: "NM_OPENCONNECT_KEY_HOST_ID = ''host_id''"
definition NM_OPENCONNECT_KEY_FIX_OPENSSL :: string where [simp]: "NM_OPENCONNECT_KEY_FIX_OPENSSL = ''fix_openssl''"
definition NM_OPENCONNECT_KEY_IGNORE_TLS_ERRORS :: string where [simp]: "NM_OPENCONNECT_KEY_IGNORE_TLS_ERRORS = ''ignore_tls_errors''"
definition NM_OPENCONNECT_KEY_COOKIE :: string where [simp]: "NM_OPENCONNECT_KEY_COOKIE = ''cookie''"
definition NM_OPENCONNECT_KEY_GWCERT :: string where [simp]: "NM_OPENCONNECT_KEY_GWCERT = ''gwcert''"
definition NM_OPENCONNECT_KEY_RESOLVE :: string where [simp]: "NM_OPENCONNECT_KEY_RESOLVE = ''resolve''"
definition NM_OPENCONNECT_KEY_AUTHTYPE :: string where [simp]: "NM_OPENCONNECT_KEY_AUTHTYPE = ''authtype''"
definition NM_OPENCONNECT_KEY_USERCERT :: string where [simp]: "NM_OPENCONNECT_KEY_USERCERT = ''usercert''"
definition NM_OPENCONNECT_KEY_CACERT :: string where [simp]: "NM_OPENCONNECT_KEY_CACERT = ''cacert''"
definition NM_OPENCONNECT_KEY_PRIVKEY :: string where [simp]: "NM_OPENCONNECT_KEY_PRIVKEY = ''userkey''"
definition NM_OPENCONNECT_KEY_KEY_PASS :: string where [simp]: "NM_OPENCONNECT_KEY_KEY_PASS = ''key_pass''"
definition NM_OPENCONNECT_KEY_MTU :: string where [simp]: "NM_OPENCONNECT_KEY_MTU = ''mtu''"
definition NM_OPENCONNECT_KEY_PEM_PASSPHRASE_FSID :: string where [simp]: "NM_OPENCONNECT_KEY_PEM_PASSPHRASE_FSID = ''pem_passphrase_fsid''"
definition NM_OPENCONNECT_KEY_PREVENT_INVALID_CERT :: string where [simp]: "NM_OPENCONNECT_KEY_PREVENT_INVALID_CERT = ''prevent_invalid_cert''"
definition NM_OPENCONNECT_KEY_DISABLE_UDP :: string where [simp]: "NM_OPENCONNECT_KEY_DISABLE_UDP = ''disable_udp''"
definition NM_OPENCONNECT_KEY_NO_DTLS :: string where [simp]: "NM_OPENCONNECT_KEY_NO_DTLS = ''no_dtls''"
definition NM_OPENCONNECT_KEY_PROTOCOL :: string where [simp]: "NM_OPENCONNECT_KEY_PROTOCOL = ''protocol''"
definition NM_OPENCONNECT_KEY_PROXY :: string where [simp]: "NM_OPENCONNECT_KEY_PROXY = ''proxy''"
definition NM_OPENCONNECT_KEY_CSD_ENABLE :: string where [simp]: "NM_OPENCONNECT_KEY_CSD_ENABLE = ''enable_csd_trojan''"
definition NM_OPENCONNECT_KEY_USERAGENT :: string where [simp]: "NM_OPENCONNECT_KEY_USERAGENT = ''useragent''"
definition NM_OPENCONNECT_KEY_CSD_WRAPPER :: string where [simp]: "NM_OPENCONNECT_KEY_CSD_WRAPPER = ''csd_wrapper''"
definition NM_OPENCONNECT_KEY_TOKEN_MODE :: string where [simp]: "NM_OPENCONNECT_KEY_TOKEN_MODE = ''stoken_source''"
definition NM_OPENCONNECT_KEY_TOKEN_SECRET :: string where [simp]: "NM_OPENCONNECT_KEY_TOKEN_SECRET = ''stoken_string''"
definition NM_OPENCONNECT_KEY_REPORTED_OS :: string where [simp]: "NM_OPENCONNECT_KEY_REPORTED_OS = ''reported_os''"
definition NM_OPENCONNECT_KEY_MCACERT :: string where [simp]: "NM_OPENCONNECT_KEY_MCACERT = ''mcacert''"
definition NM_OPENCONNECT_KEY_MCAKEY :: string where [simp]: "NM_OPENCONNECT_KEY_MCAKEY = ''mcakey''"
definition NM_OPENCONNECT_KEY_MCA_PASS :: string where [simp]: "NM_OPENCONNECT_KEY_MCA_PASS = ''mca_key_pass''"
definition NM_OPENCONNECT_KEY_ENTRA_CA :: string where [simp]: "NM_OPENCONNECT_KEY_ENTRA_CA = ''entra_conditional_access''"
definition NM_OPENCONNECT_KEY_ENTRA_CA_SSO_URL :: string where [simp]: "NM_OPENCONNECT_KEY_ENTRA_CA_SSO_URL = ''entra_conditional_access_sso_url''"
definition NM_OPENCONNECT_KEY_ENTRA_CA_AUTHORITY :: string where [simp]: "NM_OPENCONNECT_KEY_ENTRA_CA_AUTHORITY = ''entra_conditional_access_authority''"
definition NM_OPENCONNECT_KEY_ENTRA_CA_CLIENT_ID :: string where [simp]: "NM_OPENCONNECT_KEY_ENTRA_CA_CLIENT_ID = ''entra_conditional_access_client_id''"
definition NM_OPENCONNECT_KEY_ENTRA_CA_REDIRECT_URI :: string where [simp]: "NM_OPENCONNECT_KEY_ENTRA_CA_REDIRECT_URI = ''entra_conditional_access_redirect_uri''"

end
