(* ===== verification/Settings.thy ===== *)
theory Settings
  imports Store Defines
begin

text \<open>
  The connection profile as the sources see it through libnm: a connection setting and a
  VPN setting with its data items and its secrets. libnm keeps both in string tables; here
  they are stores (theory \<open>Store\<close>), read and written through the libnm accessors the
  sources call. How libnm stores secret flags is not modelled: a function that reads or
  writes flags takes \<open>get_flags\<close> or \<open>set_flags\<close> as an argument.
\<close>

section \<open>Profiles\<close>

record vpn_setting =
  vs_data :: strmap
  vs_secrets :: strmap
  vs_service :: string
  vs_timeout :: nat

text \<open>A permission entry is \<open>None\<close> when \<open>nm_setting_connection_get_permission\<close> fails.\<close>

record con_setting =
  cs_id :: cstr
  cs_interface :: cstr
  cs_permissions :: "(cstr \<times> cstr) option list"

record connection =
  c_con :: "con_setting option"
  c_vpn :: "vpn_setting option"

definition nm_setting_vpn_new :: vpn_setting where
  "nm_setting_vpn_new = \<lparr>vs_data = [], vs_secrets = [], vs_service = [], vs_timeout = 0\<rparr>"

section \<open>Data items and secrets\<close>

definition get_data_item :: "vpn_setting \<Rightarrow> string \<Rightarrow> cstr" where
  "get_data_item s k = map_of (vs_data s) k"

definition add_data_item :: "string \<Rightarrow> string \<Rightarrow> vpn_setting \<Rightarrow> vpn_setting" where
  "add_data_item k v s = s\<lparr>vs_data := sput k v (vs_data s)\<rparr>"

definition remove_data_item :: "string \<Rightarrow> vpn_setting \<Rightarrow> vpn_setting" where
  "remove_data_item k s = s\<lparr>vs_data := sdel k (vs_data s)\<rparr>"

definition get_secret :: "vpn_setting \<Rightarrow> string \<Rightarrow> cstr" where
  "get_secret s k = map_of (vs_secrets s) k"

definition add_secret :: "string \<Rightarrow> string \<Rightarrow> vpn_setting \<Rightarrow> vpn_setting" where
  "add_secret k v s = s\<lparr>vs_secrets := sput k v (vs_secrets s)\<rparr>"

definition remove_secret :: "string \<Rightarrow> vpn_setting \<Rightarrow> vpn_setting" where
  "remove_secret k s = s\<lparr>vs_secrets := sdel k (vs_secrets s)\<rparr>"

interpretation data_items: kv_store get_data_item add_data_item remove_data_item
  by unfold_locales
    (simp_all add: get_data_item_def add_data_item_def remove_data_item_def map_of_sput map_of_sdel)

interpretation secrets: kv_store get_secret add_secret remove_secret
  by unfold_locales
    (simp_all add: get_secret_def add_secret_def remove_secret_def map_of_sput map_of_sdel)

lemma data_secret_frame [simp, frame]:
  "get_secret (add_data_item k v s) = get_secret s"
  "get_secret (remove_data_item k s) = get_secret s"
  "get_data_item (add_secret k v s) = get_data_item s"
  "get_data_item (remove_secret k s) = get_data_item s"
  "vs_service (add_data_item k v s) = vs_service s"
  "vs_timeout (add_data_item k v s) = vs_timeout s"
  by (auto simp: get_secret_def get_data_item_def add_data_item_def add_secret_def
      remove_data_item_def remove_secret_def)

lemma get_data_new [simp]: "get_data_item nm_setting_vpn_new k = None"
  by (simp add: get_data_item_def nm_setting_vpn_new_def)

lemma get_secret_new [simp]: "get_secret nm_setting_vpn_new k = None"
  by (simp add: get_secret_def nm_setting_vpn_new_def)

section \<open>Secret flags\<close>

definition NM_SETTING_SECRET_FLAG_NONE :: u32 where [simp]: "NM_SETTING_SECRET_FLAG_NONE = 0"
definition NM_SETTING_SECRET_FLAG_AGENT_OWNED :: u32 where [simp]: "NM_SETTING_SECRET_FLAG_AGENT_OWNED = 1"
definition NM_SETTING_SECRET_FLAG_NOT_SAVED :: u32 where [simp]: "NM_SETTING_SECRET_FLAG_NOT_SAVED = 2"
definition NM_SETTING_SECRET_FLAG_NOT_REQUIRED :: u32 where [simp]: "NM_SETTING_SECRET_FLAG_NOT_REQUIRED = 4"

type_synonym get_flags = "vpn_setting \<Rightarrow> string \<Rightarrow> u32 option"
type_synonym set_flags = "string \<Rightarrow> u32 \<Rightarrow> vpn_setting \<Rightarrow> vpn_setting"

end
