(* ===== verification/Errors.thy ===== *)
theory Errors
  imports Prelude
begin

text \<open>
  The errors the sources report through \<open>g_set_error\<close>. One constructor per call site
  family, carrying the arguments of its message; \<open>error_code\<close> gives the domain and code a
  caller can test. A function that takes \<open>GError **error\<close> and returns a success flag is
  a function into \<open>gerror + 'a\<close>.
\<close>

datatype err_code =
    VPN_ERROR_BAD_ARGUMENTS
  | VPN_ERROR_INVALID_CONNECTION
  | VPN_ERROR_LAUNCH_FAILED
  | VPN_ERROR_FAILED
  | SPAWN_ERROR_FAILED
  | FILE_ERROR_NOENT
  | EDITOR_ERROR_FAILED
  | EDITOR_ERROR_INVALID_PROPERTY
  | EDITOR_ERROR_MISSING_PROPERTY
  | IMPORT_EXPORT_ERROR_UNKNOWN
  | IMPORT_EXPORT_ERROR_NOT_OPENCONNECT
  | IMPORT_EXPORT_ERROR_BAD_DATA
  | UTILS_ERROR_UNKNOWN
  | UTILS_ERROR_CANCELLED_DISPOSING
  | IO_ERROR_CANCELLED
  | FOREIGN_ERROR

datatype gerror =
    BadIntegerProperty string int int
  | BadBooleanProperty string
  | UnhandledPropertyType string
  | NoConfigurationOptions
  | NoSecrets
  | UnsafeSecretFlags string
  | InvalidConnectionSettings
  | CannotOpenTun
  | CannotCreateNamedTun string
  | CannotCreateVpnX
  | CannotSetTunOwner nat
  | CannotSetTunPersistence
  | AlreadyRunning int
  | LockOwnedByRunning int
  | CannotRemoveStaleLock
  | NoGatewaySpecified
  | NoAuthenticationJson
  | VersionUnsupported string
  | MissingProperty string
  | InvalidProperty string
  | EditorCreateFailed
  | PluginNameUnavailable
  | MissingPluginFile string
  | CannotLoadPlugin string
  | CannotLoadFactory string
  | UnknownEditorError
  | ImportParseFailed
  | ImportNoHost
  | ExportCannotOpen
  | ExportMissingGateway
  | UtilsError string
  | CancelledDisposing string
  | RequestCancelled
  | Foreign string

fun error_code :: "gerror \<Rightarrow> err_code" where
  "error_code (BadIntegerProperty _ _ _) = VPN_ERROR_BAD_ARGUMENTS"
| "error_code (BadBooleanProperty _) = VPN_ERROR_BAD_ARGUMENTS"
| "error_code (UnhandledPropertyType _) = VPN_ERROR_BAD_ARGUMENTS"
| "error_code NoConfigurationOptions = VPN_ERROR_BAD_ARGUMENTS"
| "error_code NoSecrets = VPN_ERROR_BAD_ARGUMENTS"
| "error_code (UnsafeSecretFlags _) = VPN_ERROR_INVALID_CONNECTION"
| "error_code InvalidConnectionSettings = VPN_ERROR_INVALID_CONNECTION"
| "error_code CannotOpenTun = VPN_ERROR_LAUNCH_FAILED"
| "error_code (CannotCreateNamedTun _) = VPN_ERROR_LAUNCH_FAILED"
| "error_code CannotCreateVpnX = VPN_ERROR_LAUNCH_FAILED"
| "error_code (CannotSetTunOwner _) = VPN_ERROR_LAUNCH_FAILED"
| "error_code CannotSetTunPersistence = VPN_ERROR_LAUNCH_FAILED"
| "error_code (AlreadyRunning _) = VPN_ERROR_LAUNCH_FAILED"
| "error_code (LockOwnedByRunning _) = VPN_ERROR_LAUNCH_FAILED"
| "error_code CannotRemoveStaleLock = VPN_ERROR_LAUNCH_FAILED"
| "error_code NoGatewaySpecified = VPN_ERROR_LAUNCH_FAILED"
| "error_code NoAuthenticationJson = VPN_ERROR_LAUNCH_FAILED"
| "error_code (VersionUnsupported _) = SPAWN_ERROR_FAILED"
| "error_code (MissingProperty _) = EDITOR_ERROR_MISSING_PROPERTY"
| "error_code (InvalidProperty _) = EDITOR_ERROR_INVALID_PROPERTY"
| "error_code EditorCreateFailed = EDITOR_ERROR_FAILED"
| "error_code PluginNameUnavailable = VPN_ERROR_FAILED"
| "error_code (MissingPluginFile _) = FILE_ERROR_NOENT"
| "error_code (CannotLoadPlugin _) = VPN_ERROR_FAILED"
| "error_code (CannotLoadFactory _) = VPN_ERROR_FAILED"
| "error_code UnknownEditorError = VPN_ERROR_FAILED"
| "error_code ImportParseFailed = IMPORT_EXPORT_ERROR_NOT_OPENCONNECT"
| "error_code ImportNoHost = IMPORT_EXPORT_ERROR_BAD_DATA"
| "error_code ExportCannotOpen = IMPORT_EXPORT_ERROR_UNKNOWN"
| "error_code ExportMissingGateway = IMPORT_EXPORT_ERROR_BAD_DATA"
| "error_code (UtilsError _) = UTILS_ERROR_UNKNOWN"
| "error_code (CancelledDisposing _) = UTILS_ERROR_CANCELLED_DISPOSING"
| "error_code RequestCancelled = IO_ERROR_CANCELLED"
| "error_code (Foreign _) = FOREIGN_ERROR"

text \<open>
  \<open>g_set_error\<close> on an error that is already set keeps the first one (GLib only logs a
  warning), so the first error wins.
\<close>

definition g_set_error :: "gerror \<Rightarrow> gerror option \<Rightarrow> gerror option" where
  "g_set_error e err = (case err of None \<Rightarrow> Some e | Some e0 \<Rightarrow> Some e0)"

lemma g_set_error_simps [simp]:
  "g_set_error e None = Some e"
  "g_set_error e (Some e0) = Some e0"
  by (simp_all add: g_set_error_def)

lemma g_set_error_not_None [simp]: "g_set_error e err \<noteq> None"
  by (cases err) auto

end
