(* ===== verification/CLib.thy ===== *)
theory CLib
  imports Errors
begin

unbundle bit_operations_syntax

text \<open>
  The part of the C library the sources use: \<open>strtol\<close> in base 10 with its saturation and
  end pointer, \<open>atoi\<close>, decimal printing, the wait-status macros and the syslog levels.
  \<open>long\<close> is 64 bits wide (LP64), \<open>int\<close> 32 bits. \<open>strtol\<close> follows glibc: no digits
  give 0 with \<open>errno\<close> unchanged and the end pointer at the start of the string.
\<close>

section \<open>Characters\<close>

definition c_isspace :: "char \<Rightarrow> bool" where
  "c_isspace c \<longleftrightarrow>
     c = CHR 0x20 \<or> c = CHR 0x09 \<or> c = CHR 0x0A \<or> c = CHR 0x0B \<or> c = CHR 0x0C \<or> c = CHR 0x0D"

text \<open>\<open>g_ascii_isspace\<close> leaves out the vertical tab.\<close>

definition g_ascii_isspace :: "char \<Rightarrow> bool" where
  "g_ascii_isspace c \<longleftrightarrow>
     c = CHR 0x20 \<or> c = CHR 0x09 \<or> c = CHR 0x0A \<or> c = CHR 0x0C \<or> c = CHR 0x0D"

definition is_digit :: "char \<Rightarrow> bool" where
  "is_digit c \<longleftrightarrow> 48 \<le> (of_char c :: nat) \<and> (of_char c :: nat) \<le> 57"

definition digit_val :: "char \<Rightarrow> nat" where
  "digit_val c = (of_char c :: nat) - 48"

lemma g_isspace_imp_c: "g_ascii_isspace c \<Longrightarrow> c_isspace c"
  by (auto simp: g_ascii_isspace_def c_isspace_def)

lemma digit_not_space [simp]: "is_digit c \<Longrightarrow> \<not> c_isspace c"
  by (auto simp: is_digit_def c_isspace_def)

lemma digit_not_g_space [simp]: "is_digit c \<Longrightarrow> \<not> g_ascii_isspace c"
  using digit_not_space g_isspace_imp_c by blast

lemma digit_not_sign [simp]: "is_digit c \<Longrightarrow> c \<noteq> CHR ''-''" "is_digit c \<Longrightarrow> c \<noteq> CHR ''+''"
  by (auto simp: is_digit_def)

section \<open>Numbers\<close>

definition digits_value :: "string \<Rightarrow> nat" where
  "digits_value ds = foldl (\<lambda>a c. 10 * a + digit_val c) 0 ds"

definition LONG_MAX :: int where "LONG_MAX = 2 ^ 63 - 1"
definition LONG_MIN :: int where "LONG_MIN = - (2 ^ 63)"
definition INT_MAX :: int where "INT_MAX = 2 ^ 31 - 1"

definition take_sign :: "string \<Rightarrow> bool \<times> string" where
  "take_sign s =
     (case s of [] \<Rightarrow> (False, [])
      | c # cs \<Rightarrow> if c = CHR ''-'' then (True, cs) else if c = CHR ''+'' then (False, cs) else (False, s))"

text \<open>\<open>strtol (s, &end, 10)\<close>: the value, whether \<open>errno\<close> is \<open>ERANGE\<close>, and \<open>end\<close>.\<close>

definition strtol10 :: "string \<Rightarrow> int \<times> bool \<times> string" where
  "strtol10 s =
     (let (neg, u) = take_sign (dropWhile c_isspace s);
          ds = takeWhile is_digit u;
          rest = dropWhile is_digit u;
          v = (if neg then - int (digits_value ds) else int (digits_value ds))
      in if ds = [] then (0, False, s)
         else if v > LONG_MAX then (LONG_MAX, True, rest)
         else if v < LONG_MIN then (LONG_MIN, True, rest)
         else (v, False, rest))"

text \<open>glibc's \<open>atoi\<close> is \<open>(int) strtol (s, NULL, 10)\<close>.\<close>

definition atoi :: "string \<Rightarrow> int" where
  "atoi s = sint (word_of_int (fst (strtol10 s)) :: u32)"

text \<open>\<open>%lu\<close> and, for a value that is not negative, \<open>%d\<close> and \<open>%ld\<close>.\<close>

fun show_nat :: "nat \<Rightarrow> string" where
  "show_nat n =
     (if n < 10 then [char_of (48 + n)] else show_nat (n div 10) @ [char_of (48 + n mod 10)])"

declare show_nat.simps [simp del]

lemma show_nat_digit:
  "show_nat 0 = ''0''" "show_nat 1 = ''1''" "show_nat 2 = ''2''" "show_nat 3 = ''3''" "show_nat 4 = ''4''"
  "show_nat 5 = ''5''" "show_nat 6 = ''6''" "show_nat 7 = ''7''" "show_nat 8 = ''8''" "show_nat 9 = ''9''"
  by code_simp+

definition show_int :: "int \<Rightarrow> string" where
  "show_int i = (if i < 0 then CHR ''-'' # show_nat (nat (- i)) else show_nat (nat i))"

lemma digit_char: "n < 10 \<Longrightarrow> is_digit (char_of (48 + n)) \<and> digit_val (char_of (48 + n)) = n"
  by (simp add: is_digit_def digit_val_def of_char_of)

lemma show_nat_digits: "\<forall>c \<in> set (show_nat n). is_digit c"
proof (induction n rule: show_nat.induct)
  case (1 n)
  then show ?case
    using digit_char [of n] digit_char [of "n mod 10"]
    by (cases "n < 10") (auto simp: show_nat.simps [of n])
qed

lemma show_nat_nonempty [simp]: "show_nat n \<noteq> []"
  by (subst show_nat.simps) simp

lemma digits_value_snoc: "digits_value (ds @ [c]) = 10 * digits_value ds + digit_val c"
  by (simp add: digits_value_def)

lemma digits_value_show [simp]: "digits_value (show_nat n) = n"
proof (induction n rule: show_nat.induct)
  case (1 n)
  show ?case
  proof (cases "n < 10")
    case True
    then show ?thesis
      using digit_char [of n] by (simp add: show_nat.simps [of n] digits_value_def)
  next
    case False
    with 1 show ?thesis
      using digit_char [of "n mod 10"] by (simp add: show_nat.simps [of n] digits_value_snoc)
  qed
qed

lemma show_nat_hd: "\<exists>c cs. show_nat n = c # cs \<and> is_digit c"
  using show_nat_digits [of n] show_nat_nonempty [of n] by (cases "show_nat n") auto

lemma take_sign_digit: "is_digit c \<Longrightarrow> take_sign (c # cs) = (False, c # cs)"
  by (simp add: take_sign_def)

lemma digits_span:
  assumes "\<forall>c \<in> set ds. is_digit c" "rest = [] \<or> \<not> is_digit (hd rest)"
  shows "takeWhile is_digit (ds @ rest) = ds" "dropWhile is_digit (ds @ rest) = rest"
proof -
  have "takeWhile is_digit rest = [] \<and> dropWhile is_digit rest = rest"
    using assms(2) by (cases rest) auto
  then show "takeWhile is_digit (ds @ rest) = ds" "dropWhile is_digit (ds @ rest) = rest"
    using assms(1) by auto
qed

text \<open>What \<open>strtol10\<close> does on a well-formed number, and what it has read when it stopped.\<close>

lemma take_sign_parts:
  assumes "take_sign t = (neg, u)"
  obtains sg where "sg \<in> {[], ''-'', ''+''}" "t = sg @ u" "neg \<longleftrightarrow> sg = ''-''"
  using assms by (auto simp: take_sign_def split: list.splits if_splits)

lemma strtol10_parse:
  assumes ws: "\<forall>c \<in> set ws. c_isspace c" and sg: "sg \<in> {[], ''-'', ''+''}"
    and ds: "ds \<noteq> []" "\<forall>c \<in> set ds. is_digit c" and rest: "rest = [] \<or> \<not> is_digit (hd rest)"
    and v: "v = (if sg = ''-'' then - int (digits_value ds) else int (digits_value ds))"
    and range: "LONG_MIN \<le> v" "v \<le> LONG_MAX"
  shows "strtol10 (ws @ sg @ ds @ rest) = (v, False, rest)"
proof -
  obtain c cs where c: "ds = c # cs" "is_digit c"
    using ds by (cases ds) auto
  have "\<not> c_isspace (hd (sg @ ds @ rest))"
    using sg c by (auto simp: c_isspace_def is_digit_def)
  moreover have "sg @ ds @ rest \<noteq> []" using ds by simp
  ultimately have "dropWhile c_isspace (sg @ ds @ rest) = sg @ ds @ rest"
    by (cases "sg @ ds @ rest") auto
  then have drop: "dropWhile c_isspace (ws @ sg @ ds @ rest) = sg @ ds @ rest"
    using ws by (simp add: dropWhile_append2)
  have sign: "take_sign (sg @ ds @ rest) = (sg = ''-'', ds @ rest)"
    using sg c by (auto simp: take_sign_def)
  show ?thesis
    using digits_span [OF ds(2) rest] ds(1) v range by (simp add: strtol10_def drop sign)
qed

lemma strtol10_inv:
  assumes s: "strtol10 s = (v, False, e)" and e: "e \<noteq> s"
  shows "\<exists>ws sg ds. s = ws @ sg @ ds @ e \<and> (\<forall>c \<in> set ws. c_isspace c) \<and> sg \<in> {[], ''-'', ''+''} \<and>
    ds \<noteq> [] \<and> (\<forall>c \<in> set ds. is_digit c) \<and>
    v = (if sg = ''-'' then - int (digits_value ds) else int (digits_value ds)) \<and>
    LONG_MIN \<le> v \<and> v \<le> LONG_MAX"
proof -
  define ws where "ws = takeWhile c_isspace s"
  obtain neg u where u: "take_sign (dropWhile c_isspace s) = (neg, u)"
    by (cases "take_sign (dropWhile c_isspace s)")
  obtain sg where sg: "sg \<in> {[], ''-'', ''+''}" "dropWhile c_isspace s = sg @ u" "neg \<longleftrightarrow> sg = ''-''"
    using take_sign_parts [OF u] by blast
  define ds where "ds = takeWhile is_digit u"
  have *: "ds \<noteq> []" "e = dropWhile is_digit u"
    "v = (if neg then - int (digits_value ds) else int (digits_value ds))"
    "LONG_MIN \<le> v" "v \<le> LONG_MAX"
    using s e by (auto simp: strtol10_def u Let_def ds_def split: if_splits)
  have "s = ws @ sg @ ds @ e"
    using sg(2) *(2) by (metis append_assoc ds_def takeWhile_dropWhile_id ws_def)
  moreover have "\<forall>c \<in> set ws. c_isspace c" "\<forall>c \<in> set ds. is_digit c"
    by (auto simp: ws_def ds_def dest: set_takeWhileD)
  ultimately show ?thesis
    using * sg by blast
qed

text \<open>Printing then parsing gives the number back, white space in front or not.\<close>

lemma strtol10_show_nat:
  assumes "int n \<le> LONG_MAX" "rest = [] \<or> \<not> is_digit (hd rest)" "\<forall>c \<in> set ws. c_isspace c"
  shows "strtol10 (ws @ show_nat n @ rest) = (int n, False, rest)"
  using strtol10_parse [of ws "[]" "show_nat n" rest "int n"] assms show_nat_digits [of n]
  by (simp add: LONG_MIN_def)

lemma strtol10_bounds: "LONG_MIN \<le> fst (strtol10 s)" "fst (strtol10 s) \<le> LONG_MAX"
  by (auto simp: strtol10_def Let_def LONG_MIN_def LONG_MAX_def split: prod.splits)

lemma strtol10_no_digits:
  assumes "takeWhile is_digit (snd (take_sign (dropWhile c_isspace s))) = []"
  shows "strtol10 s = (0, False, s)"
  using assms by (auto simp: strtol10_def Let_def split: prod.splits)

lemma strtol10_Nil [simp]: "strtol10 [] = (0, False, [])"
  by (simp add: strtol10_def take_sign_def)

lemma atoi_show_nat: "int n \<le> INT_MAX \<Longrightarrow> atoi (show_nat n) = int n"
proof -
  assume n: "int n \<le> INT_MAX"
  then have "fst (strtol10 (show_nat n)) = int n"
    using strtol10_show_nat [of n "[]" "[]"] by (simp add: INT_MAX_def LONG_MAX_def)
  moreover have "signed_take_bit 31 (int n) = int n"
    using n by (intro signed_take_bit_int_eq_self) (simp_all add: INT_MAX_def)
  ultimately show ?thesis
    by (simp only: atoi_def sint_sbintrunc') simp
qed

section \<open>Wait status\<close>

definition WTERMSIG :: "u32 \<Rightarrow> u32" where "WTERMSIG st = st AND 0x7f"
definition WEXITSTATUS :: "u32 \<Rightarrow> u32" where "WEXITSTATUS st = drop_bit 8 (st AND 0xff00)"
definition WIFEXITED :: "u32 \<Rightarrow> bool" where "WIFEXITED st \<longleftrightarrow> WTERMSIG st = 0"
definition WIFSTOPPED :: "u32 \<Rightarrow> bool" where "WIFSTOPPED st \<longleftrightarrow> st AND 0xff = 0x7f"
definition WIFSIGNALED :: "u32 \<Rightarrow> bool" where
  "WIFSIGNALED st \<longleftrightarrow> WTERMSIG st \<noteq> 0 \<and> WTERMSIG st \<noteq> 0x7f"

lemmas wait_status_defs = WTERMSIG_def WEXITSTATUS_def WIFEXITED_def WIFSTOPPED_def WIFSIGNALED_def

lemma wait_status_exclusive:
  "WIFEXITED st \<Longrightarrow> \<not> WIFSIGNALED st"
  by (simp add: wait_status_defs)

section \<open>Syslog levels\<close>

definition LOG_WARNING :: int where [simp]: "LOG_WARNING = 4"
definition LOG_NOTICE :: int where [simp]: "LOG_NOTICE = 5"
definition LOG_INFO :: int where [simp]: "LOG_INFO = 6"
definition LOG_DEBUG :: int where [simp]: "LOG_DEBUG = 7"

end
