(* ===== verification/Nm_Utils.thy ===== *)
theory Nm_Utils
  imports CLib
begin

text \<open>
  \<open>shared/nm-utils\<close>: the strict integer and boolean parsers, the cancellation errors, the
  property setter with error reporting and the log-level tags.

  \<open>g_ascii_strtoll\<close> is GLib code, so it is the argument \<open>strtoll\<close> of the parser; its
  documentation says it behaves like the C function in the C locale, which is
  \<open>c_strtoll\<close> for base 10.
\<close>

datatype errno = EOK | EINVAL | ERANGE

type_synonym strtoll = "string \<Rightarrow> nat \<Rightarrow> int \<times> errno \<times> string"

definition c_strtoll :: "string \<Rightarrow> int \<times> errno \<times> string" where
  "c_strtoll s = (case strtol10 s of (v, er, e) \<Rightarrow> (v, if er then ERANGE else EOK, e))"

section \<open>Strict integers\<close>

definition nm_utils_ascii_str_to_int64 ::
  "strtoll \<Rightarrow> cstr \<Rightarrow> nat \<Rightarrow> int \<Rightarrow> int \<Rightarrow> int \<Rightarrow> int \<times> errno" where
  "nm_utils_ascii_str_to_int64 strtoll str base lo hi fallback =
     (case map_option (dropWhile g_ascii_isspace) str of
        None \<Rightarrow> (fallback, EINVAL)
      | Some s \<Rightarrow>
          if s = [] then (fallback, EINVAL)
          else
            let (v, err, e) = strtoll s base in
            if err \<noteq> EOK then (fallback, err)
            else if e \<noteq> [] \<and> dropWhile g_ascii_isspace e \<noteq> [] then (fallback, EINVAL)
            else if v > hi \<or> v < lo then (fallback, ERANGE)
            else (v, EOK))"

lemma str_to_int64_cases:
  "snd (nm_utils_ascii_str_to_int64 strtoll str base lo hi fallback) = EOK \<Longrightarrow>
     lo \<le> fst (nm_utils_ascii_str_to_int64 strtoll str base lo hi fallback) \<and>
     fst (nm_utils_ascii_str_to_int64 strtoll str base lo hi fallback) \<le> hi"
  "snd (nm_utils_ascii_str_to_int64 strtoll str base lo hi fallback) \<noteq> EOK \<Longrightarrow>
     fst (nm_utils_ascii_str_to_int64 strtoll str base lo hi fallback) = fallback"
  by (auto simp: nm_utils_ascii_str_to_int64_def Let_def split: option.splits prod.splits if_splits)

lemma dropWhile_Nil_iff: "dropWhile P xs = [] \<longleftrightarrow> (\<forall>x \<in> set xs. P x)"
  by (induction xs) auto

lemma str_to_int64_accepts:
  assumes std: "strtoll s' 10 = c_strtoll s'" and s': "s' = dropWhile g_ascii_isspace s"
    and ok: "nm_utils_ascii_str_to_int64 strtoll (Some s) 10 lo hi fallback = (v, EOK)"
  shows "\<exists>e. strtol10 s' = (v, False, e) \<and> e \<noteq> s' \<and> (\<forall>c \<in> set e. g_ascii_isspace c) \<and> lo \<le> v \<and> v \<le> hi"
proof -
  obtain v' er e where st: "strtol10 s' = (v', er, e)"
    by (cases "strtol10 s'")
  have "s' \<noteq> []" "\<not> er" "e = [] \<or> dropWhile g_ascii_isspace e = []" "v = v'" "lo \<le> v" "v \<le> hi"
    using ok std st s'
    by (auto simp: nm_utils_ascii_str_to_int64_def c_strtoll_def Let_def split: if_splits)
  moreover have "e \<noteq> s'"
    using calculation(1,3) s' by (metis dropWhile_idem)
  ultimately show ?thesis
    using st by (auto simp: dropWhile_Nil_iff)
qed

lemma str_to_int64_of_strtol:
  assumes std: "strtoll s' 10 = c_strtoll s'" and s': "s' = dropWhile g_ascii_isspace s"
    and st: "strtol10 s' = (v, False, e)" "e \<noteq> s'" and e: "\<forall>c \<in> set e. g_ascii_isspace c"
    and range: "lo \<le> v" "v \<le> hi"
  shows "nm_utils_ascii_str_to_int64 strtoll (Some s) 10 lo hi fallback = (v, EOK)"
proof -
  have "s' \<noteq> []" using st by auto
  with assms show ?thesis
    by (auto simp: nm_utils_ascii_str_to_int64_def c_strtoll_def Let_def dropWhile_Nil_iff)
qed

section \<open>Booleans\<close>

definition g_ascii_tolower :: "char \<Rightarrow> char" where
  "g_ascii_tolower c =
     (let n = (of_char c :: nat) in if 65 \<le> n \<and> n \<le> 90 then char_of (n + 32) else c)"

definition strcaseeq :: "string \<Rightarrow> string \<Rightarrow> bool" where
  "strcaseeq s t \<longleftrightarrow> map g_ascii_tolower s = map g_ascii_tolower t"

definition g_strchomp :: "string \<Rightarrow> string" where
  "g_strchomp s = rev (dropWhile g_ascii_isspace (rev s))"

definition nm_utils_ascii_str_to_bool :: "cstr \<Rightarrow> int \<Rightarrow> int" where
  "nm_utils_ascii_str_to_bool str default_value =
     (case str of
        None \<Rightarrow> default_value
      | Some s0 \<Rightarrow>
          let s = dropWhile g_ascii_isspace s0 in
          if s = [] then default_value
          else
            let t = (if g_ascii_isspace (last s) then g_strchomp s else s) in
            if strcaseeq t ''true'' \<or> strcaseeq t ''yes'' \<or> strcaseeq t ''on'' \<or> strcaseeq t ''1''
            then 1
            else if strcaseeq t ''false'' \<or> strcaseeq t ''no'' \<or> strcaseeq t ''off'' \<or> strcaseeq t ''0''
            then 0
            else default_value)"

section \<open>Cancellation\<close>

definition nm_utils_error_set_cancelled :: "gerror option \<Rightarrow> bool \<Rightarrow> cstr \<Rightarrow> gerror option" where
  "nm_utils_error_set_cancelled err is_disposing instance_name =
     (if is_disposing
      then g_set_error (CancelledDisposing
             (if nonempty instance_name then the instance_name else ''source'')) err
      else g_set_error RequestCancelled err)"

definition nm_utils_error_is_cancelled :: "gerror option \<Rightarrow> bool \<Rightarrow> bool" where
  "nm_utils_error_is_cancelled err consider_is_disposing =
     (case err of
        None \<Rightarrow> False
      | Some e \<Rightarrow>
          if error_code e = IO_ERROR_CANCELLED then True
          else consider_is_disposing \<and> error_code e = UTILS_ERROR_CANCELLED_DISPOSING)"

section \<open>Setting a GObject property\<close>

text \<open>
  The parts of a \<open>GParamSpec\<close> the setter reads. The type system of GObject is the
  argument of the setter: the property table of the object, whether the owner class is
  loaded, the value transformation and the validation, which returns the value it
  corrected, if it had to.
\<close>

record 'v pspec =
  ps_name :: string
  ps_writable :: bool
  ps_construct_only :: bool
  ps_lax_validation :: bool
  ps_class_loaded :: bool
  ps_transform :: "'v \<Rightarrow> 'v option"
  ps_validate :: "'v \<Rightarrow> 'v option"

definition nm_g_object_set_property ::
  "(string \<Rightarrow> 'v pspec option) \<Rightarrow> (string \<Rightarrow> 'v \<Rightarrow> 'o \<Rightarrow> 'o) \<Rightarrow> 'o \<Rightarrow> string \<Rightarrow> 'v \<Rightarrow> gerror + 'o" where
  "nm_g_object_set_property find_property set_property obj name value =
     (case find_property name of
        None \<Rightarrow> Inl (UtilsError name)
      | Some pspec \<Rightarrow>
          if \<not> ps_writable pspec then Inl (UtilsError (ps_name pspec))
          else if ps_construct_only pspec then Inl (UtilsError (ps_name pspec))
          else if \<not> ps_class_loaded pspec then Inl (UtilsError (ps_name pspec))
          else
            case ps_transform pspec value of
              None \<Rightarrow> Inl (UtilsError (ps_name pspec))
            | Some tmp \<Rightarrow>
                case ps_validate pspec tmp of
                  Some fixed \<Rightarrow>
                    if \<not> ps_lax_validation pspec then Inl (UtilsError (ps_name pspec))
                    else Inr (set_property name fixed obj)
                | None \<Rightarrow> Inr (set_property name tmp obj))"

section \<open>Log-level tags\<close>

datatype nm_level = LError | LWarn | LInfo | LDebug | LTrace

fun level_rank :: "nm_level \<Rightarrow> nat" where
  "level_rank LError = 0"
| "level_rank LWarn = 1"
| "level_rank LInfo = 2"
| "level_rank LDebug = 3"
| "level_rank LTrace = 4"

lemma level_rank_inj [simp]: "level_rank a = level_rank b \<longleftrightarrow> a = b"
  by (cases a; cases b) simp_all

instantiation nm_level :: linorder
begin

definition less_eq_nm_level :: "nm_level \<Rightarrow> nm_level \<Rightarrow> bool" where
  "less_eq_nm_level a b \<longleftrightarrow> level_rank a \<le> level_rank b"

definition less_nm_level :: "nm_level \<Rightarrow> nm_level \<Rightarrow> bool" where
  "less_nm_level a b \<longleftrightarrow> level_rank a < level_rank b"

instance
  by standard (auto simp: less_eq_nm_level_def less_nm_level_def simp flip: level_rank_inj)

end

fun level_tag :: "nm_level \<Rightarrow> string" where
  "level_tag LError = ''<error>''"
| "level_tag LWarn = ''<warn>''"
| "level_tag LInfo = ''<info>''"
| "level_tag LDebug = ''<debug>''"
| "level_tag LTrace = ''<trace>''"

definition syslog_level :: "int \<Rightarrow> nm_level" where
  "syslog_level n =
     (if n \<ge> LOG_DEBUG then LTrace
      else if n \<ge> LOG_INFO then LDebug
      else if n \<ge> LOG_NOTICE then LInfo
      else if n \<ge> LOG_WARNING then LWarn
      else LError)"

definition nm_utils_syslog_to_str :: "int \<Rightarrow> string" where
  "nm_utils_syslog_to_str n = level_tag (syslog_level n)"

lemma syslog_level_mono: "m \<le> n \<Longrightarrow> syslog_level m \<le> syslog_level n"
  by (auto simp: syslog_level_def less_eq_nm_level_def)

section \<open>What the strict integer parser accepts\<close>

definition int_text :: "string \<Rightarrow> int \<Rightarrow> bool" where
  "int_text s v \<longleftrightarrow> (\<exists>ws sg ds ws'. s = ws @ sg @ ds @ ws' \<and> (\<forall>c \<in> set ws. c_isspace c) \<and>
     sg \<in> {[], ''-'', ''+''} \<and> ds \<noteq> [] \<and> (\<forall>c \<in> set ds. is_digit c) \<and> (\<forall>c \<in> set ws'. g_ascii_isspace c) \<and>
     v = (if sg = ''-'' then - int (digits_value ds) else int (digits_value ds)))"

lemma dropWhile_spaces:
  assumes "sg \<in> {[], ''-'', ''+''}" "ds \<noteq> []" "\<forall>c \<in> set ds. is_digit c"
  shows "dropWhile g_ascii_isspace (ws @ sg @ ds @ e) = dropWhile g_ascii_isspace ws @ sg @ ds @ e"
proof -
  have "dropWhile g_ascii_isspace (sg @ ds @ e) = sg @ ds @ e"
    using assms digit_not_g_space by (cases ds) (auto simp: g_ascii_isspace_def)
  then show ?thesis by (induction ws) auto
qed

text \<open>C39: The strict parser accepts exactly the texts made of optional white space, an optional sign,
  decimal digits and optional white space, whose value is in range; it returns that value, and for
  anything else, trailing garbage included, the fallback.\<close>

theorem str_to_int64_exact:
  assumes std: "\<forall>s. strtoll s 10 = c_strtoll s" and range: "LONG_MIN \<le> lo" "hi \<le> LONG_MAX"
  shows "nm_utils_ascii_str_to_int64 strtoll (Some s) 10 lo hi fallback = (v, EOK) \<longleftrightarrow>
    int_text s v \<and> lo \<le> v \<and> v \<le> hi"
proof
  let ?s = "dropWhile g_ascii_isspace s"
  assume "nm_utils_ascii_str_to_int64 strtoll (Some s) 10 lo hi fallback = (v, EOK)"
  with std str_to_int64_accepts [of strtoll ?s s lo hi fallback v] obtain e where
    e: "strtol10 ?s = (v, False, e)" "e \<noteq> ?s" "\<forall>c \<in> set e. g_ascii_isspace c" "lo \<le> v" "v \<le> hi"
    by auto
  with strtol10_inv [OF e(1,2)] obtain ws sg ds where
    d: "?s = ws @ sg @ ds @ e" "\<forall>c \<in> set ws. c_isspace c" "sg \<in> {[], ''-'', ''+''}" "ds \<noteq> []"
      "\<forall>c \<in> set ds. is_digit c" "v = (if sg = ''-'' then - int (digits_value ds) else int (digits_value ds))"
    by blast
  have "s = (takeWhile g_ascii_isspace s @ ws) @ sg @ ds @ e"
    using d(1) takeWhile_dropWhile_id [of g_ascii_isspace s] by simp
  moreover have "\<forall>c \<in> set (takeWhile g_ascii_isspace s @ ws). c_isspace c"
    using d(2) g_isspace_imp_c by (auto dest: set_takeWhileD)
  ultimately show "int_text s v \<and> lo \<le> v \<and> v \<le> hi"
    unfolding int_text_def using d e by blast
next
  assume "int_text s v \<and> lo \<le> v \<and> v \<le> hi"
  then obtain ws sg ds e where d: "s = ws @ sg @ ds @ e" "\<forall>c \<in> set ws. c_isspace c" "sg \<in> {[], ''-'', ''+''}"
      "ds \<noteq> []" "\<forall>c \<in> set ds. is_digit c" "\<forall>c \<in> set e. g_ascii_isspace c"
      "v = (if sg = ''-'' then - int (digits_value ds) else int (digits_value ds))" "lo \<le> v" "v \<le> hi"
    unfolding int_text_def by blast
  let ?s = "dropWhile g_ascii_isspace ws @ sg @ ds @ e"
  have s': "?s = dropWhile g_ascii_isspace s"
    using dropWhile_spaces [OF d(3-5)] d(1) by simp
  have "e = [] \<or> \<not> is_digit (hd e)"
    using d(6) digit_not_g_space by (cases e) auto
  then have "strtol10 ?s = (v, False, e)"
    using d range by (intro strtol10_parse) (auto dest: set_dropWhileD)
  moreover have "e \<noteq> ?s" using d(4) by auto
  ultimately show "nm_utils_ascii_str_to_int64 strtoll (Some s) 10 lo hi fallback = (v, EOK)"
    using str_to_int64_of_strtol [of strtoll ?s s v e lo hi fallback] std s' d by simp
qed

theorem str_to_int64_exact_witness:
  "nm_utils_ascii_str_to_int64 (\<lambda>s b. c_strtoll s) (Some '' 7 '') 10 0 7 5 = (7, EOK)"
proof -
  have "int_text '' 7 '' 7"
    unfolding int_text_def
    by (intro exI [of _ "'' ''"] exI [of _ "[]"] exI [of _ "''7''"])
      (simp add: c_isspace_def g_ascii_isspace_def is_digit_def digits_value_def digit_val_def)
  then show ?thesis
    using str_to_int64_exact [of "\<lambda>s b. c_strtoll s" 0 7 "'' 7 ''" 5 7] by (simp add: LONG_MIN_def LONG_MAX_def)
qed

end
