(* ===== verification/Platform.thy ===== *)
theory Platform
  imports Settings Errors CLib Nm_Utils
begin

text \<open>
  What the service asks of the system it runs on. The answers of the kernel, of libc's user
  database, of \<open>g_spawn_*\<close> and of NetworkManager's D-Bus properties during one handler call
  are the fields of the record \<open>sys\<close>, an argument of the handlers; nothing is assumed about
  them unless a lemma says so. What a handler does to the system is recorded in \<open>world\<close>: the
  descriptors of \<open>/dev/net/tun\<close> it holds, the TUN devices it has made persistent, and the
  sequence of externally visible actions.

  The configured paths of \<open>shared/nm-gpclient-paths.h\<close> are the record \<open>config\<close>.
\<close>

section \<open>Configuration\<close>

record config =
  cfg_gpclient_binary :: string
  cfg_gpauth_binary :: string
  cfg_modprobe :: string
  cfg_lock_file :: string
  cfg_libexecdir :: string

definition NM_GPCLIENT_HELPER_PATH :: "config \<Rightarrow> string" where
  "NM_GPCLIENT_HELPER_PATH cfg = cfg_libexecdir cfg @ ''/nm-gpclient-service-helper''"

definition NM_GPCLIENT_BROWSER_HELPER_PATH :: "config \<Rightarrow> string" where
  "NM_GPCLIENT_BROWSER_HELPER_PATH cfg = cfg_libexecdir cfg @ ''/nm-gpclient-browser-helper''"

definition NM_OPENCONNECT_USER :: string where
  "NM_OPENCONNECT_USER = ''nm-gpclient''"

section \<open>Answers of the system\<close>

record passwd =
  pw_name :: string
  pw_uid :: nat
  pw_gid :: nat
  pw_dir :: string

datatype kill_result = KillOk | KillEPERM | KillError
datatype unlink_result = UnlinkOk | UnlinkENOENT | UnlinkError

text \<open>
  NetworkManager on the system bus: whether a connection can be had, and the value of each
  property (\<open>bus_get path interface property\<close>; \<open>Inl\<close> is a failed call).
\<close>

datatype variant = VString string | VBool bool | VInt64 int | VPaths "string list"

record nm_bus =
  bus_ok :: bool
  bus_get :: "string \<Rightarrow> string \<Rightarrow> string \<Rightarrow> gerror + variant"

record sys =
  sys_euid :: nat
  sys_getpwnam :: "string \<Rightarrow> passwd option"
  sys_environ :: strmap
  sys_file_exists :: "string \<Rightarrow> bool"
  sys_open_tun :: bool
  sys_tunsetiff :: "string \<Rightarrow> string option"
  sys_tunsetowner :: "string \<Rightarrow> nat \<Rightarrow> bool"
  sys_tunsetpersist :: "string \<Rightarrow> bool \<Rightarrow> bool"
  sys_lock_contents :: cstr
  sys_kill :: "int \<Rightarrow> int \<Rightarrow> kill_result"
  sys_proc_comm :: "int \<Rightarrow> cstr"
  sys_unlink_lock :: unlink_result
  sys_spawn_sync :: "string list \<Rightarrow> gerror + u32 \<times> cstr"
  sys_spawn_async :: "string list \<Rightarrow> strmap \<Rightarrow> gerror + int"
  sys_write :: "string \<Rightarrow> int"
  sys_timeout_id :: nat
  sys_bus :: nm_bus

section \<open>Effects on the system\<close>

datatype failure = LOGIN_FAILED | CONNECT_FAILED

datatype action =
    Deactivate string
  | UnlinkLock
  | Spawn "string list" strmap int
  | WriteStdin string
  | CloseStdin
  | AddChildWatch int
  | Kill int int
  | Waitpid int
  | AddTimeout nat
  | RemoveSource nat
  | ReportFailure failure
  | ReportDisconnect
  | MainLoopQuit
  | RunModuleLoader "string list"

record world =
  gl_tun_owner :: nat
  gl_tun_group :: nat
  tun_fds :: nat
  persistent_tuns :: "string list"
  trace :: "action list"

definition act :: "action \<Rightarrow> 'a world_scheme \<Rightarrow> 'a world_scheme" where
  "act a w = w\<lparr>trace := trace w @ [a]\<rparr>"

lemma act_simps [simp, frame]:
  "trace (act a w) = trace w @ [a]"
  "tun_fds (act a w) = tun_fds w"
  "persistent_tuns (act a w) = persistent_tuns w"
  "gl_tun_owner (act a w) = gl_tun_owner w"
  "gl_tun_group (act a w) = gl_tun_group w"
  by (simp_all add: act_def)

section \<open>The version prerequisite\<close>

text \<open>\<open>shared/nm-gpclient-version.h\<close>.\<close>

definition version_supported :: "string \<Rightarrow> u32 \<Rightarrow> cstr \<Rightarrow> bool" where
  "version_supported program status output \<longleftrightarrow>
     (let prefix = program @ '' 3.'' in
      WIFEXITED status \<and> WEXITSTATUS status = 0 \<and>
      (case output of
         None \<Rightarrow> False
       | Some out \<Rightarrow>
           has_prefix out prefix \<and>
           (case drop (length prefix) out of [] \<Rightarrow> False | c # _ \<Rightarrow> is_digit c)))"

definition nm_gpclient_check_version ::
  "(string list \<Rightarrow> gerror + u32 \<times> cstr) \<Rightarrow> string \<Rightarrow> string \<Rightarrow> gerror + unit" where
  "nm_gpclient_check_version spawn_sync binary program =
     (case spawn_sync [binary, ''--version''] of
        Inl e \<Rightarrow> Inl e
      | Inr (status, output) \<Rightarrow>
          if version_supported program status output then Inr () else Inl (VersionUnsupported program))"

lemma version_supported_iff:
  "version_supported program status output \<longleftrightarrow>
     WIFEXITED status \<and> WEXITSTATUS status = 0 \<and>
     (\<exists>c rest. output = Some (program @ '' 3.'' @ c # rest) \<and> is_digit c)"
proof (cases "output")
  case (Some out)
  have "has_prefix out p \<and> (case drop (length p) out of [] \<Rightarrow> False | c # _ \<Rightarrow> is_digit c) \<longleftrightarrow>
    (\<exists>c rest. out = p @ c # rest \<and> is_digit c)" for p
  proof
    assume "has_prefix out p \<and> (case drop (length p) out of [] \<Rightarrow> False | c # _ \<Rightarrow> is_digit c)"
    then obtain c rest where "take (length p) out = p" "drop (length p) out = c # rest" "is_digit c"
      by (auto simp: has_prefix_iff split: list.splits)
    then show "\<exists>c rest. out = p @ c # rest \<and> is_digit c"
      by (metis append_take_drop_id)
  qed (auto simp: has_prefix_iff)
  from this [of "program @ '' 3.''"] show ?thesis
    by (auto simp: version_supported_def Some Let_def)
qed (simp add: version_supported_def)

text \<open>The version check passes exactly when the program can be run, exits with status 0 and its
  output starts with \<open><program> 3.<digit>\<close>; a run that fails is reported with the error of the run,
  anything else as an unsupported version.\<close>

theorem check_version_spec:
  "nm_gpclient_check_version spawn_sync binary program =
    (case spawn_sync [binary, ''--version''] of
       Inl e \<Rightarrow> Inl e
     | Inr (status, output) \<Rightarrow>
         if WIFEXITED status \<and> WEXITSTATUS status = 0 \<and>
            (\<exists>c rest. output = Some (program @ '' 3.'' @ c # rest) \<and> is_digit c)
         then Inr () else Inl (VersionUnsupported program))"
  by (simp add: nm_gpclient_check_version_def version_supported_iff split: sum.splits)

section \<open>A sample system\<close>

text \<open>A system on which every call succeeds and nothing is left over, for the examples.\<close>

definition sample_bus :: nm_bus where
  "sample_bus = \<lparr>bus_ok = False, bus_get = (\<lambda>p i n. Inl (Foreign ''no bus''))\<rparr>"

definition sample_sys :: sys where
  "sample_sys = \<lparr>sys_euid = 0,
     sys_getpwnam = (\<lambda>n. if n = ''nm-gpclient'' then Some \<lparr>pw_name = n, pw_uid = 990, pw_gid = 990, pw_dir = ''/var/lib''\<rparr>
                        else if n = ''ann'' then Some \<lparr>pw_name = n, pw_uid = 7, pw_gid = 8, pw_dir = ''/home/ann''\<rparr>
                        else None),
     sys_environ = [(''PATH'', ''/bin'')],
     sys_file_exists = (\<lambda>p. False),
     sys_open_tun = True,
     sys_tunsetiff = (\<lambda>n. Some n),
     sys_tunsetowner = (\<lambda>n u. True),
     sys_tunsetpersist = (\<lambda>n b. True),
     sys_lock_contents = None,
     sys_kill = (\<lambda>p s. KillOk),
     sys_proc_comm = (\<lambda>p. Some (''gpclient'' @ [CHR 0x0A])),
     sys_unlink_lock = UnlinkOk,
     sys_spawn_sync = (\<lambda>argv. Inr (0, Some ''gpclient 3.1'')),
     sys_spawn_async = (\<lambda>argv envp. Inr 4242),
     sys_write = (\<lambda>s. int (length s)),
     sys_timeout_id = 1,
     sys_bus = sample_bus\<rparr>"

definition sample_config :: config where
  "sample_config = \<lparr>cfg_gpclient_binary = ''/usr/bin/gpclient'', cfg_gpauth_binary = ''/usr/bin/gpauth'',
     cfg_modprobe = ''/sbin/modprobe'', cfg_lock_file = ''/run/gpclient.lock'', cfg_libexecdir = ''/usr/libexec''\<rparr>"

definition sample_world :: world where
  "sample_world = \<lparr>gl_tun_owner = 0, gl_tun_group = 0, tun_fds = 0, persistent_tuns = [], trace = []\<rparr>"

end
