(* ===== verification/Service_Env.thy ===== *)
theory Service_Env
  imports Platform
begin

text \<open>
  \<open>build_gpclient_env\<close>: the environment of the root \<open>gpclient\<close> child, which names the desktop
  user the way \<open>sudo -E\<close> would. The user is the first \<open>user\<close> permission of the profile.
\<close>

definition PATH_MAX :: nat where "PATH_MAX = 4096"

text \<open>The \<open>for\<close> loop over the permissions: it stops at the first named user.\<close>

fun permission_user :: "(cstr \<times> cstr) option list \<Rightarrow> string option" where
  "permission_user [] = None"
| "permission_user (None # ps) = permission_user ps"
| "permission_user (Some (ptype, pitem) # ps) =
     (if streq ptype ''user'' \<and> nonempty pitem then pitem else permission_user ps)"

definition env_setall :: "(string \<times> string) list \<Rightarrow> strmap \<Rightarrow> strmap" where
  "env_setall kvs envp = put_opts sput (map (\<lambda>(k, v). (k, Some v)) kvs) envp"

definition user_env :: "(string \<Rightarrow> bool) \<Rightarrow> passwd \<Rightarrow> (string \<times> string) list" where
  "user_env file_exists pw =
     (let runtime_dir = ''/run/user/'' @ show_nat (pw_uid pw);
          dbus_address = ''unix:path='' @ runtime_dir @ ''/bus'';
          wayland_path = runtime_dir @ ''/wayland-0'';
          xauthority = take (PATH_MAX - 1) (pw_dir pw @ ''/.Xauthority'')
      in [(''SUDO_UID'', show_nat (pw_uid pw)),
          (''SUDO_GID'', show_nat (pw_gid pw)),
          (''SUDO_USER'', pw_name pw),
          (''HOME'', pw_dir pw),
          (''USER'', pw_name pw),
          (''LOGNAME'', pw_name pw),
          (''BROWSER'', ''firefox''),
          (''RUST_BACKTRACE'', ''1''),
          (''RUST_LIB_BACKTRACE'', ''1''),
          (''XDG_RUNTIME_DIR'', runtime_dir),
          (''DBUS_SESSION_BUS_ADDRESS'', dbus_address)] @
         (if file_exists wayland_path
          then [(''WAYLAND_DISPLAY'', ''wayland-0''),
                (''XDG_SESSION_TYPE'', ''wayland''),
                (''MOZ_ENABLE_WAYLAND'', ''1'')]
          else [(''DISPLAY'', '':0''),
                (''XDG_SESSION_TYPE'', ''x11'')] @
               (if file_exists xauthority then [(''XAUTHORITY'', xauthority)] else [])))"

definition build_gpclient_env :: "sys \<Rightarrow> con_setting option \<Rightarrow> strmap option" where
  "build_gpclient_env sys s_con =
     (case s_con of
        None \<Rightarrow> None
      | Some con \<Rightarrow>
          if sys_euid sys \<noteq> 0 then None
          else
            case permission_user (cs_permissions con) of
              None \<Rightarrow> None
            | Some user \<Rightarrow>
                case sys_getpwnam sys user of
                  None \<Rightarrow> None
                | Some pw \<Rightarrow>
                    Some (env_setall (user_env (sys_file_exists sys) pw) (sys_environ sys)))"

interpretation environ_kv: kv_put map_of sput
  by unfold_locales (simp_all add: map_of_sput)

lemma last_put_map_Some: "last_put (map (\<lambda>(k, v). (k, Some v)) kvs) k = map_of (rev kvs) k"
  by (induction kvs) (auto split: option.splits simp: map_add_def)

lemma env_setall_lookup:
  "map_of (env_setall kvs envp) k = (case map_of (rev kvs) k of Some v \<Rightarrow> Some v | None \<Rightarrow> map_of envp k)"
  by (simp add: env_setall_def environ_kv.get_put_opts last_put_map_Some)

lemma env_setall_other: "k \<notin> fst ` set kvs \<Longrightarrow> map_of (env_setall kvs envp) k = map_of envp k"
  by (simp add: env_setall_lookup map_of_eq_None_iff split: option.splits)
    (metis list.set_map map_of_eq_None_iff not_Some_eq set_rev)

lemma build_env_cases:
  assumes "build_gpclient_env sys (Some con) = Some envp"
  obtains user pw where "sys_euid sys = 0" "permission_user (cs_permissions con) = Some user"
    "sys_getpwnam sys user = Some pw"
    "envp = env_setall (user_env (sys_file_exists sys) pw) (sys_environ sys)"
  using assms by (auto simp: build_gpclient_env_def split: if_splits option.splits)

lemma permission_user_sound:
  "permission_user ps = Some u \<Longrightarrow> u \<noteq> [] \<and> Some (Some ''user'', Some u) \<in> set ps"
  by (induction ps rule: permission_user.induct) (auto split: if_splits simp: streq_iff)

text \<open>The variables a wayland session has are absent from an X11 one, and the other way round.\<close>

lemma user_env_keys:
  "fst ` set (user_env fe pw) \<subseteq> set [''SUDO_UID'', ''SUDO_GID'', ''SUDO_USER'', ''HOME'', ''USER'', ''LOGNAME'',
     ''BROWSER'', ''RUST_BACKTRACE'', ''RUST_LIB_BACKTRACE'', ''XDG_RUNTIME_DIR'', ''DBUS_SESSION_BUS_ADDRESS'',
     ''WAYLAND_DISPLAY'', ''XDG_SESSION_TYPE'', ''MOZ_ENABLE_WAYLAND'', ''DISPLAY'', ''XAUTHORITY'']"
  by (auto simp: user_env_def Let_def)

text \<open>When the service builds an environment for the child, it runs as root, the user is a
  non-empty \<open>user\<close> permission of the profile known to the user database, the child sees that user's
  identity and session bus, the session type is \<open>wayland\<close> exactly when the wayland socket exists,
  and no variable outside the sixteen the builder owns changes.\<close>

theorem build_env_spec:
  assumes "build_gpclient_env sys (Some con) = Some envp"
  shows "\<exists>user pw. sys_euid sys = 0 \<and> Some (Some ''user'', Some user) \<in> set (cs_permissions con) \<and>
     sys_getpwnam sys user = Some pw \<and>
     map_of envp ''SUDO_UID'' = Some (show_nat (pw_uid pw)) \<and>
     map_of envp ''SUDO_GID'' = Some (show_nat (pw_gid pw)) \<and>
     map_of envp ''SUDO_USER'' = Some (pw_name pw) \<and>
     map_of envp ''HOME'' = Some (pw_dir pw) \<and>
     map_of envp ''DBUS_SESSION_BUS_ADDRESS'' = Some (''unix:path=/run/user/'' @ show_nat (pw_uid pw) @ ''/bus'') \<and>
     map_of envp ''XDG_SESSION_TYPE'' =
       Some (if sys_file_exists sys (''/run/user/'' @ show_nat (pw_uid pw) @ ''/wayland-0'')
             then ''wayland'' else ''x11'') \<and>
     (\<forall>k. k \<notin> fst ` set (user_env (sys_file_exists sys) pw) \<longrightarrow> map_of envp k = map_of (sys_environ sys) k)"
proof -
  from assms obtain user pw where *: "sys_euid sys = 0" "permission_user (cs_permissions con) = Some user"
    "sys_getpwnam sys user = Some pw"
    "envp = env_setall (user_env (sys_file_exists sys) pw) (sys_environ sys)"
    by (rule build_env_cases)
  have "Some (Some ''user'', Some user) \<in> set (cs_permissions con)"
    using permission_user_sound *(2) by blast
  then show ?thesis
    using * env_setall_other
    by (intro exI [of _ user] exI [of _ pw]) (simp add: env_setall_lookup user_env_def Let_def)
qed

lemma sample_build_env:
  "build_gpclient_env sample_sys (Some \<lparr>cs_id = None, cs_interface = None, cs_permissions = [Some (Some ''user'', Some ''ann'')]\<rparr>) =
     Some (env_setall (user_env (\<lambda>p. False) \<lparr>pw_name = ''ann'', pw_uid = 7, pw_gid = 8, pw_dir = ''/home/ann''\<rparr>) [(''PATH'', ''/bin'')])"
  by (simp add: build_gpclient_env_def sample_sys_def)

theorem build_env_spec_witness:
  "\<exists>user. Some (Some ''user'', Some user) \<in> {Some (Some ''user'', Some ''ann'')}"
  using build_env_spec [OF sample_build_env] by auto

end
