(* ===== verification/Validation.thy ===== *)
theory Validation
  imports Settings Errors CLib
begin

text \<open>
  \<open>src/nm-gpclient-service.c\<close>: the tables of known settings and secrets, the validation
  of one item against a table, and the three validators that \<open>real_connect\<close> and
  \<open>real_need_secrets\<close> call before they accept a profile.
\<close>

section \<open>Tables\<close>

datatype gtype = G_TYPE_NONE | G_TYPE_STRING | G_TYPE_INT | G_TYPE_BOOLEAN | G_TYPE_OTHER

record valid_property =
  vp_name :: cstr
  vp_type :: gtype
  vp_int_min :: int
  vp_int_max :: int

definition vprop :: "string \<Rightarrow> gtype \<Rightarrow> valid_property" where
  "vprop n t = \<lparr>vp_name = Some n, vp_type = t, vp_int_min = 0, vp_int_max = 0\<rparr>"

definition vsentinel :: valid_property where
  "vsentinel = \<lparr>vp_name = None, vp_type = G_TYPE_NONE, vp_int_min = 0, vp_int_max = 0\<rparr>"

definition valid_properties :: "valid_property list" where
  "valid_properties = [
     vprop NM_OPENCONNECT_KEY_GATEWAY G_TYPE_STRING,
     vprop NM_OPENCONNECT_KEY_CACERT G_TYPE_STRING,
     vprop NM_OPENCONNECT_KEY_AUTHTYPE G_TYPE_STRING,
     vprop NM_OPENCONNECT_KEY_USERCERT G_TYPE_STRING,
     vprop NM_OPENCONNECT_KEY_PRIVKEY G_TYPE_STRING,
     vprop NM_OPENCONNECT_KEY_KEY_PASS G_TYPE_STRING,
     vprop NM_OPENCONNECT_KEY_MTU G_TYPE_STRING,
     vprop NM_OPENCONNECT_KEY_CLIENT_VERSION G_TYPE_STRING,
     vprop NM_OPENCONNECT_KEY_HOST_ID G_TYPE_STRING,
     vprop NM_OPENCONNECT_KEY_FIX_OPENSSL G_TYPE_BOOLEAN,
     vprop NM_OPENCONNECT_KEY_IGNORE_TLS_ERRORS G_TYPE_BOOLEAN,
     vprop NM_OPENCONNECT_KEY_PEM_PASSPHRASE_FSID G_TYPE_BOOLEAN,
     vprop NM_OPENCONNECT_KEY_PREVENT_INVALID_CERT G_TYPE_BOOLEAN,
     vprop NM_OPENCONNECT_KEY_DISABLE_UDP G_TYPE_BOOLEAN,
     vprop NM_OPENCONNECT_KEY_NO_DTLS G_TYPE_BOOLEAN,
     vprop NM_OPENCONNECT_KEY_PROTOCOL G_TYPE_STRING,
     vprop NM_OPENCONNECT_KEY_PROXY G_TYPE_STRING,
     vprop NM_OPENCONNECT_KEY_CSD_ENABLE G_TYPE_BOOLEAN,
     vprop NM_OPENCONNECT_KEY_CSD_WRAPPER G_TYPE_STRING,
     vprop NM_OPENCONNECT_KEY_TOKEN_MODE G_TYPE_STRING,
     vprop NM_OPENCONNECT_KEY_TOKEN_SECRET G_TYPE_STRING,
     vprop NM_OPENCONNECT_KEY_REPORTED_OS G_TYPE_STRING,
     vprop NM_OPENCONNECT_KEY_MCACERT G_TYPE_STRING,
     vprop NM_OPENCONNECT_KEY_MCAKEY G_TYPE_STRING,
     vprop NM_OPENCONNECT_KEY_MCA_PASS G_TYPE_STRING,
     vsentinel]"

definition valid_secrets :: "valid_property list" where
  "valid_secrets = [
     vprop NM_OPENCONNECT_KEY_COOKIE G_TYPE_STRING,
     vprop NM_OPENCONNECT_KEY_GATEWAY G_TYPE_STRING,
     vprop NM_OPENCONNECT_KEY_GWCERT G_TYPE_STRING,
     vprop NM_OPENCONNECT_KEY_RESOLVE G_TYPE_STRING,
     vsentinel]"

section \<open>One item\<close>

text \<open>
  \<open>vi_unknown\<close> collects the keys for which the \<open>property unknown\<close> warning is logged; the
  error branch next to that warning is dead code (\<open>if (0)\<close>) and has no counterpart.
\<close>

record validate_info =
  vi_error :: "gerror option"
  vi_have_items :: bool
  vi_unknown :: "string list"

datatype scan = Returned "gerror option" | AtSentinel "gerror option"

definition NM_SETTING_NAME :: string where [simp]: "NM_SETTING_NAME = ''name''"

text \<open>The loop over the table: \<open>return\<close> in the middle, or the sentinel reached.\<close>

fun validate_scan :: "valid_property list \<Rightarrow> string \<Rightarrow> string \<Rightarrow> gerror option \<Rightarrow> scan" where
  "validate_scan [] key value err = AtSentinel err"
| "validate_scan (prop # props) key value err =
     (case vp_name prop of
        None \<Rightarrow> AtSentinel err
      | Some n \<Rightarrow>
          if n \<noteq> key then validate_scan props key value err
          else case vp_type prop of
              G_TYPE_STRING \<Rightarrow> Returned err
            | G_TYPE_INT \<Rightarrow>
                (case strtol10 value of (tmp, erange, _) \<Rightarrow>
                   if \<not> erange \<and> tmp \<ge> vp_int_min prop \<and> tmp \<le> vp_int_max prop then Returned err
                   else validate_scan props key value
                     (g_set_error (BadIntegerProperty key (vp_int_min prop) (vp_int_max prop)) err))
            | G_TYPE_BOOLEAN \<Rightarrow>
                if value = ''yes'' \<or> value = ''no'' then Returned err
                else validate_scan props key value (g_set_error (BadBooleanProperty key) err)
            | _ \<Rightarrow> validate_scan props key value (g_set_error (UnhandledPropertyType key) err))"

definition validate_one_property ::
  "valid_property list \<Rightarrow> string \<times> string \<Rightarrow> validate_info \<Rightarrow> validate_info" where
  "validate_one_property table kv info =
     (case kv of (key, value) \<Rightarrow>
        if vi_error info \<noteq> None then info
        else
          let info = info\<lparr>vi_have_items := True\<rparr> in
          if key = NM_SETTING_NAME then info
          else
            case validate_scan table key value (vi_error info) of
              Returned err \<Rightarrow> info\<lparr>vi_error := err\<rparr>
            | AtSentinel err \<Rightarrow>
                if has_prefix key ''form:'' then info\<lparr>vi_error := err\<rparr>
                else info\<lparr>vi_error := err, vi_unknown := vi_unknown info @ [key]\<rparr>)"

section \<open>The validators\<close>

definition validate_foreach :: "valid_property list \<Rightarrow> strmap \<Rightarrow> validate_info" where
  "validate_foreach table items =
     fold (validate_one_property table) items
       \<lparr>vi_error = None, vi_have_items = False, vi_unknown = []\<rparr>"

definition nm_openconnect_properties_validate :: "vpn_setting \<Rightarrow> gerror + unit" where
  "nm_openconnect_properties_validate s_vpn =
     (let info = validate_foreach valid_properties (vs_data s_vpn) in
      if \<not> vi_have_items info then Inl NoConfigurationOptions
      else case vi_error info of Some e \<Rightarrow> Inl e | None \<Rightarrow> Inr ())"

definition nm_openconnect_secrets_validate :: "vpn_setting \<Rightarrow> gerror + unit" where
  "nm_openconnect_secrets_validate s_vpn =
     (let info = validate_foreach valid_secrets (vs_secrets s_vpn) in
      if \<not> vi_have_items info then Inl NoSecrets
      else case vi_error info of Some e \<Rightarrow> Inl e | None \<Rightarrow> Inr ())"

text \<open>The loop of \<open>validate_auth_secret_flags\<close> over the two keys stops at the first bad one.\<close>

fun check_secret_flags :: "get_flags \<Rightarrow> vpn_setting \<Rightarrow> string list \<Rightarrow> gerror + unit" where
  "check_secret_flags get_flags s_vpn [] = Inr ()"
| "check_secret_flags get_flags s_vpn (key # keys) =
     (if get_flags s_vpn key = Some NM_SETTING_SECRET_FLAG_NOT_SAVED \<or>
         get_flags s_vpn key =
           Some (NM_SETTING_SECRET_FLAG_NOT_SAVED OR NM_SETTING_SECRET_FLAG_AGENT_OWNED)
      then check_secret_flags get_flags s_vpn keys
      else Inl (UnsafeSecretFlags key))"

definition validate_auth_secret_flags :: "get_flags \<Rightarrow> vpn_setting \<Rightarrow> gerror + unit" where
  "validate_auth_secret_flags get_flags s_vpn =
     check_secret_flags get_flags s_vpn [NM_OPENCONNECT_KEY_COOKIE, NM_OPENCONNECT_KEY_GATEWAY]"

section \<open>What a table accepts\<close>

text \<open>
  The contract of a table: the sentinel is its last entry and its only one without a name,
  no key occurs twice, and every entry is a string or a boolean. Under it, an item is
  rejected exactly when its key is a boolean one and its value neither \<open>yes\<close> nor \<open>no\<close>.
\<close>

definition boolean_key :: "valid_property list \<Rightarrow> string \<Rightarrow> bool" where
  "boolean_key table k \<longleftrightarrow> (\<exists>p \<in> set table. vp_name p = Some k \<and> vp_type p = G_TYPE_BOOLEAN)"

definition known_key :: "valid_property list \<Rightarrow> string \<Rightarrow> bool" where
  "known_key table k \<longleftrightarrow> Some k \<in> vp_name ` set table"

definition bad_item :: "valid_property list \<Rightarrow> string \<times> string \<Rightarrow> bool" where
  "bad_item table kv \<longleftrightarrow>
     fst kv \<noteq> NM_SETTING_NAME \<and> boolean_key table (fst kv) \<and> snd kv \<noteq> ''yes'' \<and> snd kv \<noteq> ''no''"

definition first_bad :: "valid_property list \<Rightarrow> strmap \<Rightarrow> gerror option" where
  "first_bad table items = map_option (\<lambda>kv. BadBooleanProperty (fst kv)) (find (bad_item table) items)"

lemma validate_scan_unknown:
  "Some key \<notin> vp_name ` set props \<Longrightarrow> validate_scan props key value err = AtSentinel err"
  by (induction props) (auto split: option.splits)

locale prop_table =
  fixes table :: "valid_property list"
  assumes names_distinct: "distinct (map vp_name table)"
    and sentinel_last: "table \<noteq> []" "last table = vsentinel"
    and entry_types: "p \<in> set table \<Longrightarrow> vp_name p \<noteq> None \<Longrightarrow> vp_type p \<in> {G_TYPE_STRING, G_TYPE_BOOLEAN}"
begin

lemma scan_suffix:
  assumes "table = pre @ props" "props \<noteq> []"
  shows "validate_scan props key value err =
    (if Some key \<in> vp_name ` set props
     then if boolean_key props key \<and> value \<noteq> ''yes'' \<and> value \<noteq> ''no''
          then AtSentinel (g_set_error (BadBooleanProperty key) err) else Returned err
     else AtSentinel err)"
  using assms
proof (induction props arbitrary: pre err)
  case (Cons p props)
  have last: "last (p # props) = vsentinel"
    using sentinel_last Cons.prems by simp
  show ?case
  proof (cases "vp_name p")
    case None
    have "props = []"
    proof (rule ccontr)
      assume "props \<noteq> []"
      then have "vsentinel \<in> set props" using last by (metis last.simps last_in_set)
      then have "None \<in> vp_name ` set props" by (force simp: vsentinel_def)
      then show False using names_distinct Cons.prems None by auto
    qed
    then show ?thesis using None by auto
  next
    case (Some n)
    then have "props \<noteq> []" using last by (auto simp: vsentinel_def)
    then have IH: "validate_scan props key value err' =
      (if Some key \<in> vp_name ` set props
       then if boolean_key props key \<and> value \<noteq> ''yes'' \<and> value \<noteq> ''no''
            then AtSentinel (g_set_error (BadBooleanProperty key) err') else Returned err'
       else AtSentinel err')" for err'
      using Cons.IH [of "pre @ [p]" err'] Cons.prems by simp
    have types: "vp_type p = G_TYPE_STRING \<or> vp_type p = G_TYPE_BOOLEAN"
      using entry_types [of p] Cons.prems Some by auto
    have fresh: "Some n \<notin> vp_name ` set props"
      using names_distinct Cons.prems(1) Some by (simp add: image_iff)
    show ?thesis
    proof (cases "n = key")
      case False
      with Some IH show ?thesis by (auto simp: boolean_key_def)
    next
      case True
      then have "\<not> boolean_key props key" using fresh by (force simp: boolean_key_def)
      then show ?thesis
        using Some True types validate_scan_unknown fresh by (auto simp: boolean_key_def)
    qed
  qed
qed simp

lemma scan_table:
  "validate_scan table key value err =
    (if known_key table key
     then if boolean_key table key \<and> value \<noteq> ''yes'' \<and> value \<noteq> ''no''
          then AtSentinel (g_set_error (BadBooleanProperty key) err) else Returned err
     else AtSentinel err)"
  using scan_suffix [of "[]" table] sentinel_last by (simp add: known_key_def)

lemma boolean_known: "boolean_key table k \<Longrightarrow> known_key table k"
  by (force simp: boolean_key_def known_key_def)

lemma validate_one_error:
  assumes "vi_error info = None"
  shows "vi_error (validate_one_property table kv info) =
      (if bad_item table kv then Some (BadBooleanProperty (fst kv)) else None)"
    and "vi_have_items (validate_one_property table kv info)"
  using assms boolean_known
  by (auto simp: validate_one_property_def scan_table bad_item_def Let_def split: prod.splits)

lemma validate_one_stuck:
  "vi_error info \<noteq> None \<Longrightarrow> validate_one_property table kv info = info"
  by (auto simp: validate_one_property_def split: prod.splits)

lemma validate_fold_stuck:
  "vi_error info \<noteq> None \<Longrightarrow> fold (validate_one_property table) items info = info"
  by (induction items) (auto simp: validate_one_stuck)

lemma validate_fold:
  assumes "vi_error info = None"
  shows "vi_error (fold (validate_one_property table) items info) = first_bad table items \<and>
    (vi_have_items (fold (validate_one_property table) items info) \<longleftrightarrow> vi_have_items info \<or> items \<noteq> [])"
  using assms
proof (induction items arbitrary: info)
  case Nil
  then show ?case by (simp add: first_bad_def)
next
  case (Cons kv items)
  let ?info = "validate_one_property table kv info"
  show ?case
  proof (cases "bad_item table kv")
    case True
    then have "vi_error ?info = Some (BadBooleanProperty (fst kv))" "vi_have_items ?info"
      using validate_one_error Cons.prems by auto
    then show ?thesis
      using True by (simp add: validate_fold_stuck first_bad_def)
  next
    case False
    then show ?thesis
      using validate_one_error [of info kv] Cons by (simp add: first_bad_def)
  qed
qed

lemma foreach_result:
  "vi_error (validate_foreach table items) = first_bad table items"
  "vi_have_items (validate_foreach table items) \<longleftrightarrow> items \<noteq> []"
  using validate_fold [of "\<lparr>vi_error = None, vi_have_items = False, vi_unknown = []\<rparr>" items]
  by (simp_all add: validate_foreach_def)

lemma foreach_unknown:
  assumes "first_bad table items = None"
  shows "vi_unknown (validate_foreach table items) =
    filter (\<lambda>k. k \<noteq> NM_SETTING_NAME \<and> \<not> known_key table k \<and> \<not> has_prefix k ''form:'') (map fst items)"
proof -
  have "vi_error info = None \<Longrightarrow> first_bad table items = None \<Longrightarrow>
     vi_unknown (fold (validate_one_property table) items info) = vi_unknown info @
     filter (\<lambda>k. k \<noteq> NM_SETTING_NAME \<and> \<not> known_key table k \<and> \<not> has_prefix k ''form:'') (map fst items)" for info
  proof (induction items arbitrary: info)
    case (Cons kv items)
    have ok: "\<not> bad_item table kv" "first_bad table items = None"
      using Cons.prems by (auto simp: first_bad_def split: if_splits)
    let ?info = "validate_one_property table kv info"
    have "vi_error ?info = None"
      using validate_one_error [of info kv] Cons.prems ok by simp
    moreover have "vi_unknown ?info = vi_unknown info @
      filter (\<lambda>k. k \<noteq> NM_SETTING_NAME \<and> \<not> known_key table k \<and> \<not> has_prefix k ''form:'') [fst kv]"
      using ok Cons.prems boolean_known
      by (auto simp: validate_one_property_def scan_table bad_item_def Let_def split: prod.splits)
    ultimately show ?case
      using Cons.IH [of ?info] ok by simp
  qed simp
  then show ?thesis
    using assms by (simp add: validate_foreach_def)
qed

end

text \<open>Both tables of the service keep the contract.\<close>

lemmas table_defs = valid_properties_def valid_secrets_def vprop_def vsentinel_def

interpretation vprops: prop_table valid_properties
  by unfold_locales (auto simp: table_defs)

interpretation vsecs: prop_table valid_secrets
  by unfold_locales (auto simp: table_defs)

definition boolean_settings :: "string list" where
  "boolean_settings = [NM_OPENCONNECT_KEY_FIX_OPENSSL, NM_OPENCONNECT_KEY_IGNORE_TLS_ERRORS,
     NM_OPENCONNECT_KEY_PEM_PASSPHRASE_FSID, NM_OPENCONNECT_KEY_PREVENT_INVALID_CERT,
     NM_OPENCONNECT_KEY_DISABLE_UDP, NM_OPENCONNECT_KEY_NO_DTLS, NM_OPENCONNECT_KEY_CSD_ENABLE]"

lemma boolean_key_properties: "boolean_key valid_properties k \<longleftrightarrow> k \<in> set boolean_settings"
  by (auto simp: boolean_key_def table_defs boolean_settings_def)

lemma boolean_key_secrets: "\<not> boolean_key valid_secrets k"
  by (auto simp: boolean_key_def table_defs)

lemma bad_item_properties:
  "bad_item valid_properties (k, v) \<longleftrightarrow> k \<in> set boolean_settings \<and> v \<noteq> ''yes'' \<and> v \<noteq> ''no''"
  by (auto simp: bad_item_def boolean_key_properties boolean_settings_def)

lemma properties_validate_cases:
  "nm_openconnect_properties_validate s =
    (if vs_data s = [] then Inl NoConfigurationOptions
     else case first_bad valid_properties (vs_data s) of Some e \<Rightarrow> Inl e | None \<Rightarrow> Inr ())"
  by (simp add: nm_openconnect_properties_validate_def vprops.foreach_result Let_def)

lemma first_bad_None_iff:
  "first_bad table items = None \<longleftrightarrow> (\<forall>kv \<in> set items. \<not> bad_item table kv)"
  by (auto simp: first_bad_def find_None_iff)

lemma bad_item_properties_fun:
  "bad_item valid_properties = (\<lambda>(k, v). k \<in> set boolean_settings \<and> v \<notin> {''yes'', ''no''})"
  by (auto simp: fun_eq_iff bad_item_properties)

lemma properties_validate_ok:
  "nm_openconnect_properties_validate s = Inr () \<longleftrightarrow>
     vs_data s \<noteq> [] \<and> (\<forall>kv \<in> set (vs_data s). \<not> bad_item valid_properties kv)"
  using first_bad_None_iff [of valid_properties "vs_data s"]
  by (auto simp: properties_validate_cases split: option.splits)

text \<open>The property validator rejects a profile without data items, and otherwise reports the
  first data item, in the order of traversal, whose key is one of the seven boolean settings of
  the table and whose value is neither \<open>yes\<close> nor \<open>no\<close>; every other profile is accepted.\<close>

theorem properties_validate_spec:
  "nm_openconnect_properties_validate s =
    (if vs_data s = [] then Inl NoConfigurationOptions
     else case find (\<lambda>(k, v). k \<in> set boolean_settings \<and> v \<notin> {''yes'', ''no''}) (vs_data s) of
            None \<Rightarrow> Inr ()
          | Some (k, v) \<Rightarrow> Inl (BadBooleanProperty k))"
  by (auto simp: properties_validate_cases first_bad_def bad_item_properties_fun split: option.splits)

text \<open>The secrets validator only asks for at least one secret: no secret of its table is boolean.\<close>

lemma secrets_validate_cases:
  "nm_openconnect_secrets_validate s = (if vs_secrets s = [] then Inl NoSecrets else Inr ())"
proof -
  have "first_bad valid_secrets (vs_secrets s) = None"
    by (auto simp: first_bad_None_iff bad_item_def boolean_key_secrets)
  then show ?thesis
    by (simp add: nm_openconnect_secrets_validate_def vsecs.foreach_result Let_def)
qed

definition safe_flags :: "u32 option \<Rightarrow> bool" where
  "safe_flags f \<longleftrightarrow> f = Some 2 \<or> f = Some 3"

lemma check_secret_flags_cases:
  "check_secret_flags get_flags s keys =
    (case find (\<lambda>k. \<not> safe_flags (get_flags s k)) keys of None \<Rightarrow> Inr () | Some k \<Rightarrow> Inl (UnsafeSecretFlags k))"
  by (induction keys) (simp_all add: safe_flags_def)

text \<open>A profile passes the secret-flag check exactly when the flags of both \<open>cookie\<close> and
  \<open>gateway\<close> can be read and are \<open>NOT_SAVED\<close>, alone or with \<open>AGENT_OWNED\<close>; otherwise the error is
  an invalid-connection error that names the first offending secret.\<close>

theorem auth_secret_flags_spec:
  "validate_auth_secret_flags get_flags s =
    (if \<not> safe_flags (get_flags s ''cookie'') then Inl (UnsafeSecretFlags ''cookie'')
     else if \<not> safe_flags (get_flags s ''gateway'') then Inl (UnsafeSecretFlags ''gateway'')
     else Inr ())"
  by (simp add: validate_auth_secret_flags_def check_secret_flags_cases)

text \<open>The unsafe combinations of the three flag bits, as the repository's tests list them.\<close>

lemma safe_flags_bits:
  "safe_flags (Some f) \<longleftrightarrow>
    f AND NM_SETTING_SECRET_FLAG_NOT_SAVED = NM_SETTING_SECRET_FLAG_NOT_SAVED \<and>
    f OR NM_SETTING_SECRET_FLAG_AGENT_OWNED = 3"
  if "f < 8"
proof -
  have "f \<in> {0, 1, 2, 3, 4, 5, 6, 7}"
    using that by (auto simp: word_less_nat_alt unat_arith_simps) presburger?
  then show ?thesis by (auto simp: safe_flags_def)
qed

text \<open>The settings that choose the server (\<open>portal\<close>, \<open>auto_gateway\<close>, \<open>as_gateway\<close>), the browser
  and the two flag items every accepted profile carries are not in the table of known settings:
  validating a profile logs each of them as an unknown property.\<close>

theorem documented_settings_are_unknown:
  assumes "nm_openconnect_properties_validate s = Inr ()"
    and "k \<in> {''portal'', ''auto_gateway'', ''as_gateway'', ''browser'', ''cookie-flags'', ''gateway-flags''}"
    and "(k, v) \<in> set (vs_data s)"
  shows "k \<in> set (vi_unknown (validate_foreach valid_properties (vs_data s)))"
proof -
  have "first_bad valid_properties (vs_data s) = None"
    using assms(1) by (auto simp: properties_validate_cases split: if_splits option.splits)
  moreover have "k \<in> fst ` set (vs_data s)" using assms(3) by force
  moreover have "\<not> known_key valid_properties k" "k \<noteq> NM_SETTING_NAME" "\<not> has_prefix k ''form:''"
    using assms(2) by (auto simp: known_key_def table_defs)
  ultimately show ?thesis
    by (simp add: vprops.foreach_unknown)
qed

theorem documented_settings_are_unknown_witness:
  "''portal'' \<in> set (vi_unknown (validate_foreach valid_properties
     [(''portal'', ''vpn.example.edu''), (''no_dtls'', ''yes'')]))"
proof -
  let ?s = "nm_setting_vpn_new\<lparr>vs_data := [(''portal'', ''vpn.example.edu''), (''no_dtls'', ''yes'')]\<rparr>"
  have "nm_openconnect_properties_validate ?s = Inr ()"
    by (simp add: properties_validate_ok bad_item_properties boolean_settings_def)
  from documented_settings_are_unknown [OF this, of "''portal''" "''vpn.example.edu''"]
  show ?thesis by simp
qed

end
