(* ===== verification/Command.thy ===== *)
theory Command
  imports Service_Env Validation
begin

text \<open>
  The command line and environment \<open>nm_openconnect_start_openconnect_binary\<close> builds for the
  \<open>gpclient\<close> child, in the order the function builds them. The definitions take the VPN setting
  the function reads; the fatal guards, the TUN device and the launch itself are in \<open>Service\<close>.
\<close>

section \<open>Which gateway\<close>

definition props_portal :: "vpn_setting \<Rightarrow> cstr" where
  "props_portal s_vpn = get_data_item s_vpn NM_OPENCONNECT_KEY_PORTAL"

definition props_vpn_gw :: "vpn_setting \<Rightarrow> cstr" where
  "props_vpn_gw s_vpn =
     (let gw = get_secret s_vpn NM_OPENCONNECT_KEY_GATEWAY in
      if \<not> nonempty gw then get_data_item s_vpn NM_OPENCONNECT_KEY_GATEWAY else gw)"

definition direct_gateway_mode :: "vpn_setting \<Rightarrow> bool" where
  "direct_gateway_mode s_vpn =
     (let direct = streq (get_data_item s_vpn NM_OPENCONNECT_KEY_AS_GATEWAY) ''yes'' in
      if \<not> nonempty (props_portal s_vpn) then True else direct)"

definition connect_server :: "vpn_setting \<Rightarrow> cstr" where
  "connect_server s_vpn =
     (if direct_gateway_mode s_vpn
      then (if nonempty (props_vpn_gw s_vpn) then props_vpn_gw s_vpn else props_portal s_vpn)
      else (if nonempty (props_portal s_vpn) then props_portal s_vpn else props_vpn_gw s_vpn))"

section \<open>Environment\<close>

definition gpclient_env :: "config \<Rightarrow> sys \<Rightarrow> con_setting \<Rightarrow> vpn_setting \<Rightarrow> strmap" where
  "gpclient_env cfg sys s_con s_vpn =
     (let props_browser = get_data_item s_vpn NM_OPENCONNECT_KEY_BROWSER;
          envp = (case build_gpclient_env sys (Some s_con) of None \<Rightarrow> sys_environ sys | Some envp \<Rightarrow> envp);
          envp = sput ''GP_AUTH_BINARY'' (cfg_gpauth_binary cfg) envp
      in sput ''NM_GPCLIENT_BROWSER''
           (case props_browser of Some b \<Rightarrow> if b \<noteq> [] then b else ''default'' | None \<Rightarrow> ''default'') envp)"

section \<open>Arguments\<close>

text \<open>\<open>if (value && strlen (value))\<close> add \<open>opt\<close> and the value.\<close>

definition opt_arg :: "string \<Rightarrow> cstr \<Rightarrow> string list" where
  "opt_arg opt val = (case val of None \<Rightarrow> [] | Some v \<Rightarrow> if v \<noteq> [] then [opt, v] else [])"

definition flag_arg :: "string \<Rightarrow> bool \<Rightarrow> string list" where
  "flag_arg opt b = (if b then [opt] else [])"

definition key_pass :: "vpn_setting \<Rightarrow> cstr" where
  "key_pass s_vpn =
     (let p = get_secret s_vpn NM_OPENCONNECT_KEY_KEY_PASS in
      if \<not> nonempty p then get_data_item s_vpn NM_OPENCONNECT_KEY_KEY_PASS else p)"

definition gateway_args :: "vpn_setting \<Rightarrow> string list" where
  "gateway_args s_vpn =
     (if direct_gateway_mode s_vpn then [''--as-gateway'']
      else if nonempty (props_portal s_vpn) then
        (if streq (get_data_item s_vpn NM_OPENCONNECT_KEY_AUTO_GATEWAY) ''yes'' then [''--auto-gateway'']
         else opt_arg ''--gateway'' (props_vpn_gw s_vpn))
      else [])"

definition global_args :: "vpn_setting \<Rightarrow> string list" where
  "global_args s_vpn =
     flag_arg ''--fix-openssl'' (streq (get_data_item s_vpn NM_OPENCONNECT_KEY_FIX_OPENSSL) ''yes'') @
     flag_arg ''--ignore-tls-errors'' (streq (get_data_item s_vpn NM_OPENCONNECT_KEY_IGNORE_TLS_ERRORS) ''yes'')"

definition option_args :: "vpn_setting \<Rightarrow> string list" where
  "option_args s_vpn =
     opt_arg ''--mtu'' (get_data_item s_vpn NM_OPENCONNECT_KEY_MTU) @
     opt_arg ''--certificate'' (get_data_item s_vpn NM_OPENCONNECT_KEY_USERCERT) @
     opt_arg ''--sslkey'' (get_data_item s_vpn NM_OPENCONNECT_KEY_PRIVKEY) @
     opt_arg ''--key-password'' (key_pass s_vpn) @
     opt_arg ''--client-version'' (get_data_item s_vpn NM_OPENCONNECT_KEY_CLIENT_VERSION) @
     opt_arg ''--os'' (get_data_item s_vpn NM_OPENCONNECT_KEY_REPORTED_OS)"

definition base_args :: "config \<Rightarrow> vpn_setting \<Rightarrow> string list" where
  "base_args cfg s_vpn =
     [cfg_gpclient_binary cfg] @
     global_args s_vpn @
     [''connect''] @ (case connect_server s_vpn of Some server \<Rightarrow> [server] | None \<Rightarrow> []) @
     [''--lock-file'', cfg_lock_file cfg] @
     flag_arg ''--cookie-on-stdin'' (nonempty (get_secret s_vpn NM_OPENCONNECT_KEY_COOKIE)) @
     [''--browser'', NM_GPCLIENT_BROWSER_HELPER_PATH cfg] @
     gateway_args s_vpn @
     option_args s_vpn @
     [''--script'', NM_GPCLIENT_HELPER_PATH cfg]"

definition no_dtls :: "vpn_setting \<Rightarrow> bool" where
  "no_dtls s_vpn =
     (let v = get_data_item s_vpn NM_OPENCONNECT_KEY_NO_DTLS;
          v = (case v of None \<Rightarrow> get_data_item s_vpn NM_OPENCONNECT_KEY_DISABLE_UDP | Some x \<Rightarrow> Some x)
      in case v of None \<Rightarrow> True | Some x \<Rightarrow> x \<noteq> ''no'')"

definition hip_args :: "vpn_setting \<Rightarrow> string list" where
  "hip_args s_vpn =
     (if streq (get_data_item s_vpn NM_OPENCONNECT_KEY_CSD_ENABLE) ''yes'' then
        (case get_data_item s_vpn NM_OPENCONNECT_KEY_CSD_WRAPPER of
           None \<Rightarrow> []
         | Some wrapper \<Rightarrow> [''--hip''] @ (if wrapper \<noteq> [] then [wrapper] else []))
      else [])"

definition verbose_args :: "int \<Rightarrow> string list" where
  "verbose_args level =
     (if level \<ge> LOG_INFO then [''--verbose''] @ (if level \<ge> LOG_DEBUG then [''--verbose''] else []) else [])"

definition gpclient_argv :: "config \<Rightarrow> int \<Rightarrow> vpn_setting \<Rightarrow> cstr \<Rightarrow> string list" where
  "gpclient_argv cfg level s_vpn tun_name =
     base_args cfg s_vpn @
     (case tun_name of Some name \<Rightarrow> [''--interface'', name] | None \<Rightarrow> []) @
     flag_arg ''--no-dtls'' (no_dtls s_vpn) @ hip_args s_vpn @ verbose_args level"

section \<open>The connection mode the arguments stand for\<close>

text \<open>What the user configured, as README.md words it: a gateway to log into directly, or a portal
  with automatic, explicit or interactive choice of the gateway.\<close>

datatype conn_mode = Direct string | PortalAuto string | PortalGateway string string | PortalOnly string

definition val :: "cstr \<Rightarrow> cstr" where
  "val s = (if nonempty s then s else None)"

definition configured_mode :: "vpn_setting \<Rightarrow> conn_mode option" where
  "configured_mode s =
     (let as_gw = (get_data_item s ''as_gateway'' = Some ''yes'');
          auto = (get_data_item s ''auto_gateway'' = Some ''yes'');
          gw = (case val (get_secret s ''gateway'') of Some g \<Rightarrow> Some g | None \<Rightarrow> val (get_data_item s ''gateway''))
      in case (val (get_data_item s ''portal''), gw) of
           (None, None) \<Rightarrow> None
         | (None, Some g) \<Rightarrow> Some (Direct g)
         | (Some p, None) \<Rightarrow> Some (if as_gw then Direct p else if auto then PortalAuto p else PortalOnly p)
         | (Some p, Some g) \<Rightarrow>
             Some (if as_gw then Direct g else if auto then PortalAuto p else PortalGateway p g))"

fun mode_server :: "conn_mode \<Rightarrow> string" where
  "mode_server (Direct g) = g"
| "mode_server (PortalAuto p) = p"
| "mode_server (PortalGateway p g) = p"
| "mode_server (PortalOnly p) = p"

fun mode_args :: "conn_mode \<Rightarrow> string list" where
  "mode_args (Direct g) = [''--as-gateway'']"
| "mode_args (PortalAuto p) = [''--auto-gateway'']"
| "mode_args (PortalGateway p g) = [''--gateway'', g]"
| "mode_args (PortalOnly p) = []"

lemma val_simps [simp]: "val (Some v) = (if v = [] then None else Some v)" "val None = None"
  by (simp_all add: val_def)

lemma props_vpn_gw_alt:
  "nonempty (props_vpn_gw s) \<longleftrightarrow>
     nonempty (get_secret s ''gateway'') \<or> nonempty (get_data_item s ''gateway'')"
  by (simp add: props_vpn_gw_def Let_def)

lemma configured_mode_Some:
  "configured_mode s \<noteq> None \<longleftrightarrow> nonempty (props_vpn_gw s) \<or> nonempty (props_portal s)"
  by (cases "get_data_item s ''portal''"; cases "get_secret s ''gateway''"; cases "get_data_item s ''gateway''")
    (auto simp: configured_mode_def props_vpn_gw_def props_portal_def Let_def)

lemma mode_refinement:
  "configured_mode s = Some m \<Longrightarrow> connect_server s = Some (mode_server m) \<and> gateway_args s = mode_args m"
  by (cases "get_data_item s ''portal''"; cases "get_secret s ''gateway''"; cases "get_data_item s ''gateway''")
    (auto simp: configured_mode_def connect_server_def gateway_args_def direct_gateway_mode_def
      props_portal_def props_vpn_gw_def opt_arg_def streq_iff Let_def split: if_splits)

section \<open>The whole command line\<close>

text \<open>The options next to those of the mode, each with the value it takes, if any, in their order: before the
  subcommand, and after the server before and behind the options of the mode.\<close>

definition given :: "string \<Rightarrow> cstr \<Rightarrow> (string \<times> cstr) list" where
  "given opt v = (case val v of None \<Rightarrow> [] | Some w \<Rightarrow> [(opt, Some w)])"

definition present :: "string \<Rightarrow> bool \<Rightarrow> (string \<times> cstr) list" where
  "present opt b = (if b then [(opt, None)] else [])"

definition global_options :: "vpn_setting \<Rightarrow> (string \<times> cstr) list" where
  "global_options s = present ''--fix-openssl'' (get_data_item s NM_OPENCONNECT_KEY_FIX_OPENSSL = Some ''yes'') @
     present ''--ignore-tls-errors'' (get_data_item s NM_OPENCONNECT_KEY_IGNORE_TLS_ERRORS = Some ''yes'')"

definition early_options :: "config \<Rightarrow> vpn_setting \<Rightarrow> (string \<times> cstr) list" where
  "early_options cfg s = [(''--lock-file'', Some (cfg_lock_file cfg))] @
     present ''--cookie-on-stdin'' (nonempty (get_secret s ''cookie'')) @
     [(''--browser'', Some (NM_GPCLIENT_BROWSER_HELPER_PATH cfg))]"

definition late_options :: "config \<Rightarrow> int \<Rightarrow> vpn_setting \<Rightarrow> cstr \<Rightarrow> (string \<times> cstr) list" where
  "late_options cfg level s tun =
     given ''--mtu'' (get_data_item s NM_OPENCONNECT_KEY_MTU) @
     given ''--certificate'' (get_data_item s NM_OPENCONNECT_KEY_USERCERT) @
     given ''--sslkey'' (get_data_item s NM_OPENCONNECT_KEY_PRIVKEY) @
     given ''--key-password'' (case val (get_secret s NM_OPENCONNECT_KEY_KEY_PASS) of
         Some p \<Rightarrow> Some p | None \<Rightarrow> get_data_item s NM_OPENCONNECT_KEY_KEY_PASS) @
     given ''--client-version'' (get_data_item s NM_OPENCONNECT_KEY_CLIENT_VERSION) @
     given ''--os'' (get_data_item s NM_OPENCONNECT_KEY_REPORTED_OS) @
     [(''--script'', Some (NM_GPCLIENT_HELPER_PATH cfg))] @
     (case tun of Some name \<Rightarrow> [(''--interface'', Some name)] | None \<Rightarrow> []) @
     present ''--no-dtls'' (no_dtls s) @
     (if get_data_item s NM_OPENCONNECT_KEY_CSD_ENABLE = Some ''yes'' then
        (case get_data_item s NM_OPENCONNECT_KEY_CSD_WRAPPER of None \<Rightarrow> [] | Some w \<Rightarrow> [(''--hip'', val (Some w))])
      else []) @
     present ''--verbose'' (level \<ge> LOG_INFO) @ present ''--verbose'' (level \<ge> LOG_INFO \<and> level \<ge> LOG_DEBUG)"

definition option_words :: "(string \<times> cstr) list \<Rightarrow> string list" where
  "option_words opts = concat (map (\<lambda>(opt, v). case v of None \<Rightarrow> [opt] | Some w \<Rightarrow> [opt, w]) opts)"

definition gateway_options :: "string list" where
  "gateway_options = [''--as-gateway'', ''--auto-gateway'', ''--gateway'']"

lemma option_words_simps [simp]:
  "option_words [] = []" "option_words ((opt, None) # opts) = opt # option_words opts"
  "option_words ((opt, Some w) # opts) = opt # w # option_words opts"
  "option_words (xs @ ys) = option_words xs @ option_words ys"
  "option_words (given opt v) = opt_arg opt v" "option_words (present opt b) = flag_arg opt b"
  by (auto simp: option_words_def given_def present_def opt_arg_def flag_arg_def split: option.split)

lemma option_words_tables:
  "option_words (global_options s) = global_args s"
  "option_words (late_options cfg level s tun) = option_args s @ [''--script'', NM_GPCLIENT_HELPER_PATH cfg] @
     (case tun of Some name \<Rightarrow> [''--interface'', name] | None \<Rightarrow> []) @ flag_arg ''--no-dtls'' (no_dtls s) @
     hip_args s @ verbose_args level"
proof -
  have "opt_arg opt (case val p of Some p \<Rightarrow> Some p | None \<Rightarrow> d) = opt_arg opt (if nonempty p then p else d)" for opt p d
    by (cases p) (auto simp: opt_arg_def)
  then show "option_words (late_options cfg level s tun) = option_args s @ [''--script'', NM_GPCLIENT_HELPER_PATH cfg] @
     (case tun of Some name \<Rightarrow> [''--interface'', name] | None \<Rightarrow> []) @ flag_arg ''--no-dtls'' (no_dtls s) @
     hip_args s @ verbose_args level"
    by (simp add: late_options_def option_args_def key_pass_def hip_args_def verbose_args_def flag_arg_def streq_iff Let_def
        split: option.split)
qed (simp add: global_options_def global_args_def streq_iff)

lemma other_options:
  "list_all (\<lambda>(opt, v). opt \<notin> set gateway_options) (global_options s @ early_options cfg s @ late_options cfg level s tun)"
  by (simp add: global_options_def early_options_def late_options_def given_def present_def gateway_options_def
      split: option.split)

section \<open>Properties\<close>

text \<open>C11: The command line refines the configured connection mode: whenever a portal or a gateway is
  configured, it is exactly the program, the two global options the profile switches on, \<open>connect\<close> with
  the server of the mode, the lock file, cookie and browser options, the options of the mode, and the options
  of the profile, the script, the interface and the verbosity, each with its own value and in this order.
  None of the options around those of the mode is one that chooses a gateway.\<close>

theorem gateway_mode_refinement:
  assumes "configured_mode s_vpn = Some m"
  shows "gpclient_argv cfg level s_vpn tun =
      cfg_gpclient_binary cfg # option_words (global_options s_vpn) @ [''connect'', mode_server m] @
      option_words (early_options cfg s_vpn) @ mode_args m @ option_words (late_options cfg level s_vpn tun) \<and>
    list_all (\<lambda>(opt, v). opt \<notin> set gateway_options)
      (global_options s_vpn @ early_options cfg s_vpn @ late_options cfg level s_vpn tun)"
  using mode_refinement [OF assms] other_options
  by (simp add: option_words_tables) (simp add: gpclient_argv_def base_args_def early_options_def)

lemma no_dtls_frame [simp, frame]: "no_dtls (add_secret k c s) = no_dtls s"
  by (simp add: no_dtls_def Let_def cong: option.case_cong)

lemma hip_args_frame [simp, frame]: "hip_args (add_secret k c s) = hip_args s"
  by (simp add: hip_args_def cong: option.case_cong)

lemma argv_cookie_only_presence:
  assumes "nonempty (get_secret s_vpn ''cookie'')" "c \<noteq> []"
  shows "gpclient_argv cfg level (add_secret ''cookie'' c s_vpn) tun = gpclient_argv cfg level s_vpn tun"
  using assms
  by (simp add: gpclient_argv_def base_args_def global_args_def option_args_def gateway_args_def connect_server_def direct_gateway_mode_def
      props_portal_def props_vpn_gw_def key_pass_def
      secrets.get_put Let_def)

text \<open>The variables \<open>main\<close> sets for the helper reach the child unchanged.\<close>

definition handoff_keys :: "string list" where
  "handoff_keys = [''NM_VPN_LOG_LEVEL'', ''NM_VPN_LOG_PREFIX_TOKEN'', ''NM_DBUS_SERVICE_OPENCONNECT'']"

lemma gpclient_env_keeps:
  assumes "k \<in> set handoff_keys"
  shows "map_of (gpclient_env cfg sys s_con s_vpn) k = map_of (sys_environ sys) k"
proof -
  have "map_of envp k = map_of (sys_environ sys) k" if "build_gpclient_env sys (Some s_con) = Some envp" for envp
  proof -
    from that obtain user pw where e: "envp = env_setall (user_env (sys_file_exists sys) pw) (sys_environ sys)"
      by (rule build_env_cases)
    have "k \<notin> fst ` set (user_env (sys_file_exists sys) pw)"
      using assms user_env_keys [of "sys_file_exists sys" pw] by (auto simp: handoff_keys_def)
    then show ?thesis unfolding e by (rule env_setall_other)
  qed
  then show ?thesis
    using assms by (auto simp: gpclient_env_def Let_def map_of_sput handoff_keys_def split: option.split)
qed

lemma env_no_secret: "gpclient_env cfg sys s_con (add_secret k c s_vpn) = gpclient_env cfg sys s_con s_vpn"
  by (simp add: gpclient_env_def)

text \<open>The authentication JSON does not leak into places other processes can read: replacing the
  cookie of a profile by any other changes neither the command line nor the environment of the
  child.\<close>

theorem cookie_not_in_argv_or_env:
  assumes "nonempty (get_secret s_vpn ''cookie'')" "c \<noteq> []"
  shows "gpclient_argv cfg level (add_secret ''cookie'' c s_vpn) tun = gpclient_argv cfg level s_vpn tun \<and>
    gpclient_env cfg sys s_con (add_secret ''cookie'' c s_vpn) = gpclient_env cfg sys s_con s_vpn"
  using assms by (simp add: argv_cookie_only_presence env_no_secret)

text \<open>The child's environment always names the configured authenticator and a browser, whatever
  the service's own environment or the user's says, and defaults the browser to \<open>default\<close>.\<close>

theorem env_overrides:
  "map_of (gpclient_env cfg sys s_con s_vpn) ''GP_AUTH_BINARY'' = Some (cfg_gpauth_binary cfg) \<and>
   map_of (gpclient_env cfg sys s_con s_vpn) ''NM_GPCLIENT_BROWSER'' =
     (case val (get_data_item s_vpn ''browser'') of Some b \<Rightarrow> Some b | None \<Rightarrow> Some ''default'')"
  by (simp add: gpclient_env_def Let_def map_of_sput split: option.splits)

section \<open>Examples\<close>

definition sample_vpn :: vpn_setting where
  "sample_vpn = \<lparr>vs_data = [(''portal'', ''vpn.example''), (''cookie-flags'', ''2''), (''gateway-flags'', ''2''),
       (''no_dtls'', ''yes'')],
     vs_secrets = [(''cookie'', ''JSON''), (''gateway'', ''gw.example'')],
     vs_service = NM_VPN_SERVICE_TYPE_OPENCONNECT, vs_timeout = 0\<rparr>"

theorem gateway_mode_refinement_witness:
  "gpclient_argv sample_config 5 sample_vpn None =
      [''/usr/bin/gpclient'', ''connect'', ''vpn.example'', ''--lock-file'', ''/run/gpclient.lock'',
       ''--cookie-on-stdin'', ''--browser'', ''/usr/libexec/nm-gpclient-browser-helper'',
       ''--gateway'', ''gw.example'', ''--script'', NM_GPCLIENT_HELPER_PATH sample_config, ''--no-dtls'']"
proof -
  have "configured_mode sample_vpn = Some (PortalGateway ''vpn.example'' ''gw.example'')" by code_simp
  moreover have "option_words (global_options sample_vpn) = []" by code_simp
  moreover have "option_words (early_options sample_config sample_vpn) = [''--lock-file'', ''/run/gpclient.lock'',
      ''--cookie-on-stdin'', ''--browser'', ''/usr/libexec/nm-gpclient-browser-helper'']" by code_simp
  moreover have "option_words (late_options sample_config 5 sample_vpn None) =
      [''--script'', NM_GPCLIENT_HELPER_PATH sample_config, ''--no-dtls'']" by code_simp
  ultimately show ?thesis
    using gateway_mode_refinement [of sample_vpn _ sample_config 5 None] by (simp add: sample_config_def)
qed

theorem cookie_not_in_argv_or_env_witness:
  "gpclient_argv sample_config 5 (add_secret ''cookie'' ''other'' sample_vpn) None = gpclient_argv sample_config 5 sample_vpn None"
  using cookie_not_in_argv_or_env [of sample_vpn "''other''" sample_config 5 None]
  by (simp add: sample_vpn_def get_secret_def)

end
