(* ===== verification/Tun.thy ===== *)
theory Tun
  imports Platform
begin

text \<open>
  The TUN device of a connection in \<open>src/nm-gpclient-service.c\<close>: creating it persistently before
  \<open>gpclient\<close> runs, destroying it afterwards, and asking NetworkManager to deactivate the profile it
  generates for a leftover device. A kernel or D-Bus answer is a field of \<open>sys\<close>.

  Not modelled: \<open>strcpy\<close> of a name of \<open>IFNAMSIZ\<close> bytes in \<open>destroy_persistent_tundev\<close> would write
  past \<open>ifr_name\<close>; the kernel only hands out shorter names.
\<close>

section \<open>Creating and destroying the device\<close>

definition IFNAMSIZ :: nat where "IFNAMSIZ = 16"

definition vpn_name :: "nat \<Rightarrow> string" where
  "vpn_name i = ''vpn'' @ show_nat i"

text \<open>The probing loop: \<open>for (i = 0; i < 256; i++)\<close>, left by the first successful \<open>TUNSETIFF\<close>.\<close>

function (sequential) probe_vpn :: "(string \<Rightarrow> string option) \<Rightarrow> nat \<Rightarrow> string option" where
  "probe_vpn tunsetiff i =
     (if i < 256 then
        case tunsetiff (vpn_name i) of
          Some name \<Rightarrow> Some name
        | None \<Rightarrow> probe_vpn tunsetiff (i + 1)
      else None)"
  by pat_completeness auto
termination by (relation "measure (\<lambda>(t, i). 256 - i)") auto

declare probe_vpn.simps [simp del]

definition attach_tun :: "sys \<Rightarrow> cstr \<Rightarrow> gerror + string" where
  "attach_tun sys suggested_name =
     (case suggested_name of
        Some s \<Rightarrow>
          (let ifr_name = take IFNAMSIZ s in
           case sys_tunsetiff sys ifr_name of
             None \<Rightarrow> Inl (CannotCreateNamedTun ifr_name)
           | Some name \<Rightarrow> Inr name)
      | None \<Rightarrow>
          (case probe_vpn (sys_tunsetiff sys) 0 of
             None \<Rightarrow> Inl CannotCreateVpnX
           | Some name \<Rightarrow> Inr name))"

text \<open>\<open>Inr None\<close> is NULL without an error: there is no such user, so no device is prepared. Every
  error return after \<open>open\<close> leaves the descriptor open.\<close>

definition create_persistent_tundev ::
  "sys \<Rightarrow> cstr \<Rightarrow> 'a world_scheme \<Rightarrow> (gerror + cstr) \<times> 'a world_scheme" where
  "create_persistent_tundev sys suggested_name w =
     (case sys_getpwnam sys NM_OPENCONNECT_USER of
        None \<Rightarrow> (Inr None, w)
      | Some pw \<Rightarrow>
          (let w = w\<lparr>gl_tun_owner := pw_uid pw, gl_tun_group := pw_gid pw\<rparr> in
           if \<not> sys_open_tun sys then (Inl CannotOpenTun, w)
           else
             let w = w\<lparr>tun_fds := tun_fds w + 1\<rparr> in
             case attach_tun sys suggested_name of
               Inl e \<Rightarrow> (Inl e, w)
             | Inr name \<Rightarrow>
                 if \<not> sys_tunsetowner sys name (gl_tun_owner w)
                 then (Inl (CannotSetTunOwner (gl_tun_owner w)), w)
                 else if \<not> sys_tunsetpersist sys name True
                 then (Inl CannotSetTunPersistence, w)
                 else (Inr (Some (take IFNAMSIZ name)),
                       w\<lparr>persistent_tuns := take IFNAMSIZ name # persistent_tuns w,
                         tun_fds := tun_fds w - 1\<rparr>)))"

definition destroy_persistent_tundev :: "sys \<Rightarrow> string \<Rightarrow> 'a world_scheme \<Rightarrow> 'a world_scheme" where
  "destroy_persistent_tundev sys tun_name w =
     (if \<not> sys_open_tun sys then w
      else case sys_tunsetiff sys tun_name of
             None \<Rightarrow> w
           | Some name \<Rightarrow>
               if \<not> sys_tunsetpersist sys name False then w
               else w\<lparr>persistent_tuns := remove1 tun_name (persistent_tuns w)\<rparr>)"

section \<open>The profile NetworkManager assumes for a leftover device\<close>

definition NM_BUS_IFACE :: string where "NM_BUS_IFACE = ''org.freedesktop.NetworkManager''"
definition NM_ACTIVE_IFACE :: string where
  "NM_ACTIVE_IFACE = ''org.freedesktop.NetworkManager.Connection.Active''"
definition NM_DEVICE_IFACE :: string where
  "NM_DEVICE_IFACE = ''org.freedesktop.NetworkManager.Device''"
definition NM_TUN_IFACE :: string where
  "NM_TUN_IFACE = ''org.freedesktop.NetworkManager.Device.Tun''"

definition nm_get_property :: "nm_bus \<Rightarrow> string \<Rightarrow> string \<Rightarrow> string \<Rightarrow> variant option" where
  "nm_get_property bus path iface property =
     (case bus_get bus path iface property of Inl e \<Rightarrow> None | Inr v \<Rightarrow> Some v)"

text \<open>GLib's accessors on a value of another type complain and return NULL, FALSE or 0.\<close>

fun g_variant_get_string :: "variant \<Rightarrow> cstr" where
  "g_variant_get_string (VString s) = Some s" | "g_variant_get_string _ = None"
fun g_variant_get_boolean :: "variant \<Rightarrow> bool" where
  "g_variant_get_boolean (VBool b) = b" | "g_variant_get_boolean _ = False"
fun g_variant_get_int64 :: "variant \<Rightarrow> int" where
  "g_variant_get_int64 (VInt64 i) = i" | "g_variant_get_int64 _ = 0"
fun g_variant_paths :: "variant \<Rightarrow> string list" where
  "g_variant_paths (VPaths ps) = ps" | "g_variant_paths _ = []"

text \<open>The body of the device loop: \<open>continue\<close> goes on with the rest, \<open>break\<close> leaves with TRUE.\<close>

fun scan_devices :: "nm_bus \<Rightarrow> string \<Rightarrow> nat \<Rightarrow> string list \<Rightarrow> bool" where
  "scan_devices bus tun_name tun_owner [] = False"
| "scan_devices bus tun_name tun_owner (path # paths) =
     (case nm_get_property bus path NM_DEVICE_IFACE ''Interface'' of
        None \<Rightarrow> scan_devices bus tun_name tun_owner paths
      | Some iface_v \<Rightarrow>
          if \<not> streq (g_variant_get_string iface_v) tun_name
          then scan_devices bus tun_name tun_owner paths
          else case nm_get_property bus path NM_TUN_IFACE ''Owner'' of
                 Some owner_v \<Rightarrow>
                   if g_variant_get_int64 owner_v \<noteq> int tun_owner
                   then scan_devices bus tun_name tun_owner paths
                   else True
               | None \<Rightarrow> True)"

definition active_connection_uses_tun :: "nm_bus \<Rightarrow> string \<Rightarrow> string \<Rightarrow> nat \<Rightarrow> bool" where
  "active_connection_uses_tun bus active_path tun_name tun_owner =
     (case nm_get_property bus active_path NM_ACTIVE_IFACE ''Type'' of
        None \<Rightarrow> False
      | Some type_v \<Rightarrow>
          if \<not> streq (g_variant_get_string type_v) ''tun'' then False
          else if (case nm_get_property bus active_path NM_ACTIVE_IFACE ''Vpn'' of
                     Some vpn_v \<Rightarrow> g_variant_get_boolean vpn_v | None \<Rightarrow> False) then False
          else case nm_get_property bus active_path NM_ACTIVE_IFACE ''Devices'' of
                 None \<Rightarrow> False
               | Some devices_v \<Rightarrow> scan_devices bus tun_name tun_owner (g_variant_paths devices_v))"

text \<open>A \<open>Deactivate\<close> action is a \<open>DeactivateConnection\<close> call; its failure is only logged.\<close>

fun deactivate_loop :: "nm_bus \<Rightarrow> string \<Rightarrow> nat \<Rightarrow> string list \<Rightarrow> 'a world_scheme \<Rightarrow> 'a world_scheme" where
  "deactivate_loop bus tun_name uid [] w = w"
| "deactivate_loop bus tun_name uid (path # paths) w =
     (if \<not> active_connection_uses_tun bus path tun_name uid
      then deactivate_loop bus tun_name uid paths w
      else deactivate_loop bus tun_name uid paths (act (Deactivate path) w))"

definition deactivate_assumed_tun_connection ::
  "sys \<Rightarrow> cstr \<Rightarrow> 'a world_scheme \<Rightarrow> 'a world_scheme" where
  "deactivate_assumed_tun_connection sys tun_name w =
     (case tun_name of
        None \<Rightarrow> w
      | Some name \<Rightarrow>
          if name = [] then w
          else case sys_getpwnam sys NM_OPENCONNECT_USER of
                 None \<Rightarrow> w
               | Some pw \<Rightarrow>
                   if \<not> bus_ok (sys_bus sys) then w
                   else case nm_get_property (sys_bus sys) ''/org/freedesktop/NetworkManager''
                               NM_BUS_IFACE ''ActiveConnections'' of
                          None \<Rightarrow> w
                        | Some active_v \<Rightarrow>
                            deactivate_loop (sys_bus sys) name (pw_uid pw) (g_variant_paths active_v) w)"

section \<open>Facts\<close>

lemma probe_vpn_least:
  "probe_vpn t k = Some n \<Longrightarrow>
     \<exists>i. k \<le> i \<and> i < 256 \<and> t (vpn_name i) = Some n \<and> (\<forall>j. k \<le> j \<and> j < i \<longrightarrow> t (vpn_name j) = None)"
proof (induction t k rule: probe_vpn.induct)
  case (1 t k)
  show ?case
  proof (cases "t (vpn_name k)")
    case (Some m)
    with 1(2) have "m = n" "k < 256" by (simp_all add: probe_vpn.simps [of t k] split: if_splits)
    with Some have "k \<le> k \<and> k < 256 \<and> t (vpn_name k) = Some n \<and> (\<forall>j. k \<le> j \<and> j < k \<longrightarrow> t (vpn_name j) = None)"
      by (metis le_refl not_le)
    then show ?thesis by (rule exI [of _ k])
  next
    case None
    with 1(2) have "k < 256" "probe_vpn t (k + 1) = Some n" by (simp_all add: probe_vpn.simps [of t k] split: if_splits)
    with 1(1) None obtain i where i: "k + 1 \<le> i" "i < 256" "t (vpn_name i) = Some n"
      "\<forall>j. k + 1 \<le> j \<and> j < i \<longrightarrow> t (vpn_name j) = None" by blast
    have "\<forall>j. k \<le> j \<and> j < i \<longrightarrow> t (vpn_name j) = None"
    proof (intro allI impI)
      fix j assume "k \<le> j \<and> j < i"
      then have "j = k \<or> k + 1 \<le> j \<and> j < i" by arith
      with i(4) None show "t (vpn_name j) = None" by blast
    qed
    with i show ?thesis by (intro exI [of _ i]) simp
  qed
qed

lemma attach_tun_no_open_error: "attach_tun sys s \<noteq> Inl CannotOpenTun"
  by (simp add: attach_tun_def Let_def split: option.splits)

lemma create_tun_simps [simp, frame]:
  "trace (snd (create_persistent_tundev sys s w)) = trace w"
  "world.more (snd (create_persistent_tundev sys s w)) = world.more w"
  by (simp_all add: create_persistent_tundev_def Let_def split: option.splits sum.splits)

text \<open>The kernel accepts the three calls that remove the device.\<close>

definition tun_removable :: "sys \<Rightarrow> string \<Rightarrow> bool" where
  "tun_removable sys n \<longleftrightarrow> sys_open_tun sys \<and>
     (case sys_tunsetiff sys n of None \<Rightarrow> False | Some m \<Rightarrow> sys_tunsetpersist sys m False)"

lemma destroy_tun_cases:
  "destroy_persistent_tundev sys n w =
     (if tun_removable sys n then w\<lparr>persistent_tuns := remove1 n (persistent_tuns w)\<rparr> else w)"
  by (auto simp: destroy_persistent_tundev_def tun_removable_def split: option.splits)

lemma destroy_tun_simps [simp, frame]:
  "trace (destroy_persistent_tundev sys n w) = trace w"
  "tun_fds (destroy_persistent_tundev sys n w) = tun_fds w"
  "gl_tun_owner (destroy_persistent_tundev sys n w) = gl_tun_owner w"
  "gl_tun_group (destroy_persistent_tundev sys n w) = gl_tun_group w"
  "world.more (destroy_persistent_tundev sys n w) = world.more w"
  by (simp_all add: destroy_persistent_tundev_def split: option.splits)

lemma deactivate_loop_trace:
  "deactivate_loop bus n uid ps w =
     w\<lparr>trace := trace w @ map Deactivate (filter (\<lambda>p. active_connection_uses_tun bus p n uid) ps)\<rparr>"
  by (induction ps arbitrary: w) (simp_all add: act_def)

text \<open>What a generated profile for device \<open>tun_name\<close> is.\<close>

definition device_matches :: "nm_bus \<Rightarrow> string \<Rightarrow> nat \<Rightarrow> string \<Rightarrow> bool" where
  "device_matches bus tun_name uid path \<longleftrightarrow>
     (\<exists>v. nm_get_property bus path NM_DEVICE_IFACE ''Interface'' = Some v \<and> g_variant_get_string v = Some tun_name) \<and>
     (\<forall>v. nm_get_property bus path NM_TUN_IFACE ''Owner'' = Some v \<longrightarrow> g_variant_get_int64 v = int uid)"

definition assumed_profile :: "nm_bus \<Rightarrow> string \<Rightarrow> nat \<Rightarrow> string \<Rightarrow> bool" where
  "assumed_profile bus tun_name uid path \<longleftrightarrow>
     (\<exists>v. nm_get_property bus path NM_ACTIVE_IFACE ''Type'' = Some v \<and> g_variant_get_string v = Some ''tun'') \<and>
     (\<forall>v. nm_get_property bus path NM_ACTIVE_IFACE ''Vpn'' = Some v \<longrightarrow> \<not> g_variant_get_boolean v) \<and>
     (\<exists>v. nm_get_property bus path NM_ACTIVE_IFACE ''Devices'' = Some v \<and>
          (\<exists>d \<in> set (g_variant_paths v). device_matches bus tun_name uid d))"

lemma scan_devices_iff: "scan_devices bus n uid ps \<longleftrightarrow> (\<exists>d \<in> set ps. device_matches bus n uid d)"
  by (induction ps) (auto simp: device_matches_def streq_iff split: option.splits if_splits)

lemma active_connection_uses_tun_iff:
  "active_connection_uses_tun bus p n uid = assumed_profile bus n uid p"
  by (auto simp: active_connection_uses_tun_def assumed_profile_def scan_devices_iff streq_iff split: option.splits)

lemma deactivate_frame [simp, frame]:
  "tun_fds (deactivate_assumed_tun_connection sys n w) = tun_fds w"
  "persistent_tuns (deactivate_assumed_tun_connection sys n w) = persistent_tuns w"
  "world.more (deactivate_assumed_tun_connection sys n w) = world.more w"
  by (simp_all add: deactivate_assumed_tun_connection_def deactivate_loop_trace split: option.splits)

lemma deactivate_trace:
  "\<exists>as. trace (deactivate_assumed_tun_connection sys n w) = trace w @ as \<and> (\<forall>a \<in> set as. \<exists>p. a = Deactivate p)"
  by (auto simp: deactivate_assumed_tun_connection_def deactivate_loop_trace split: option.splits)

section \<open>Properties\<close>

text \<open>Creating the device accounts for its resources: a name is returned only for a device that
  is now persistent and whose descriptor is closed; an error leaves no new persistent device, and
  exactly the errors after \<open>open\<close> leave one descriptor of \<open>/dev/net/tun\<close> open; without the service
  user nothing happens.\<close>

theorem create_tun_resources:
  "case create_persistent_tundev sys suggested w of
     (Inl e, w') \<Rightarrow> persistent_tuns w' = persistent_tuns w \<and>
       tun_fds w' = tun_fds w + (if e = CannotOpenTun then 0 else 1)
   | (Inr None, w') \<Rightarrow> w' = w \<and> sys_getpwnam sys NM_OPENCONNECT_USER = None
   | (Inr (Some name), w') \<Rightarrow> persistent_tuns w' = name # persistent_tuns w \<and> tun_fds w' = tun_fds w \<and>
       (\<exists>pw. sys_getpwnam sys NM_OPENCONNECT_USER = Some pw \<and> gl_tun_owner w' = pw_uid pw) \<and>
       (\<exists>full. attach_tun sys suggested = Inr full \<and> name = take IFNAMSIZ full \<and>
          sys_tunsetowner sys full (gl_tun_owner w') \<and> sys_tunsetpersist sys full True)"
proof (cases "sys_getpwnam sys NM_OPENCONNECT_USER")
  case (Some pw)
  show ?thesis
  proof (cases "attach_tun sys suggested")
    case (Inl e)
    with attach_tun_no_open_error [of sys suggested] show ?thesis
      by (auto simp: create_persistent_tundev_def Let_def Some)
  qed (simp add: create_persistent_tundev_def Let_def Some)
qed (simp add: create_persistent_tundev_def)

text \<open>Without a configured name the device gets the first free \<open>vpn<i>\<close>, \<open>i < 256\<close>: every smaller
  number was refused by the kernel.\<close>

theorem create_tun_first_free:
  assumes "create_persistent_tundev sys None w = (Inr (Some name), w')"
  shows "\<exists>i < 256. (\<exists>full. sys_tunsetiff sys (vpn_name i) = Some full \<and> name = take IFNAMSIZ full) \<and>
           (\<forall>j < i. sys_tunsetiff sys (vpn_name j) = None)"
proof -
  from assms obtain full where "probe_vpn (sys_tunsetiff sys) 0 = Some full" "name = take IFNAMSIZ full"
    by (auto simp: create_persistent_tundev_def attach_tun_def Let_def split: option.splits if_splits)
  then show ?thesis using probe_vpn_least [of "sys_tunsetiff sys" 0 full] by auto
qed

text \<open>Destroying the device that was just created restores the set of persistent devices, when
  the kernel accepts the same calls again.\<close>

theorem destroy_after_create:
  assumes "create_persistent_tundev sys suggested w = (Inr (Some name), w')"
    and "tun_removable sys' name"
  shows "persistent_tuns (destroy_persistent_tundev sys' name w') = persistent_tuns w \<and>
    tun_fds (destroy_persistent_tundev sys' name w') = tun_fds w"
proof -
  have "persistent_tuns w' = name # persistent_tuns w" "tun_fds w' = tun_fds w"
    using assms(1) by (auto simp: create_persistent_tundev_def Let_def split: option.splits if_splits sum.splits)
  with assms(2) show ?thesis by (simp add: destroy_tun_cases)
qed

text \<open>The cleanup asks NetworkManager to deactivate, in their order, exactly the active
  connections of type \<open>tun\<close> that are not VPNs and have a device of that interface name whose owner,
  where NetworkManager tells it, is the service user; and it does nothing else.\<close>

theorem deactivate_exactly_assumed:
  "deactivate_assumed_tun_connection sys (Some name) w =
     (case (sys_getpwnam sys NM_OPENCONNECT_USER,
            nm_get_property (sys_bus sys) ''/org/freedesktop/NetworkManager'' NM_BUS_IFACE ''ActiveConnections'') of
        (Some pw, Some active) \<Rightarrow>
          if name \<noteq> [] \<and> bus_ok (sys_bus sys)
          then w\<lparr>trace := trace w @ map Deactivate
                 (filter (assumed_profile (sys_bus sys) name (pw_uid pw)) (g_variant_paths active))\<rparr>
          else w
      | _ \<Rightarrow> w)"
  by (simp add: deactivate_assumed_tun_connection_def deactivate_loop_trace active_connection_uses_tun_iff
      split: option.splits)

section \<open>Examples\<close>

text \<open>A kernel on which \<open>vpn0\<close> is taken.\<close>

definition busy_kernel :: sys where
  "busy_kernel = sample_sys\<lparr>sys_tunsetiff := (\<lambda>n. if n = ''vpn0'' then None else Some n)\<rparr>"

lemma busy_kernel_probe: "probe_vpn (sys_tunsetiff busy_kernel) 0 = Some ''vpn1''"
  by (simp add: probe_vpn.simps [of _ 0] probe_vpn.simps [of _ 1] vpn_name_def busy_kernel_def show_nat_digit
      flip: One_nat_def)

lemma busy_kernel_fields:
  "sys_getpwnam busy_kernel ''nm-gpclient'' = Some \<lparr>pw_name = ''nm-gpclient'', pw_uid = 990, pw_gid = 990, pw_dir = ''/var/lib''\<rparr>"
  "sys_open_tun busy_kernel" "sys_tunsetowner busy_kernel n u" "sys_tunsetpersist busy_kernel n b"
  by (simp_all add: busy_kernel_def sample_sys_def)

lemma busy_kernel_create:
  "create_persistent_tundev busy_kernel None sample_world =
     (Inr (Some ''vpn1''), sample_world\<lparr>gl_tun_owner := 990, gl_tun_group := 990, persistent_tuns := [''vpn1'']\<rparr>)"
  by (simp add: create_persistent_tundev_def attach_tun_def busy_kernel_probe IFNAMSIZ_def Let_def
      busy_kernel_fields NM_OPENCONNECT_USER_def)
    (simp add: sample_world_def)

theorem create_tun_first_free_witness:
  "\<exists>i < 256. (\<exists>full. sys_tunsetiff busy_kernel (vpn_name i) = Some full \<and> ''vpn1'' = take IFNAMSIZ full) \<and>
     (\<forall>j < i. sys_tunsetiff busy_kernel (vpn_name j) = None)"
  by (rule create_tun_first_free [OF busy_kernel_create])

theorem destroy_after_create_witness:
  "persistent_tuns (destroy_persistent_tundev busy_kernel ''vpn1''
     (sample_world\<lparr>gl_tun_owner := 990, gl_tun_group := 990, persistent_tuns := [''vpn1'']\<rparr>)) = []"
  using destroy_after_create [OF busy_kernel_create, of busy_kernel]
  by (simp add: tun_removable_def busy_kernel_def sample_sys_def sample_world_def)

end
