(* ===== verification/Lock.thy ===== *)
theory Lock
  imports Platform
begin

text \<open>
  The \<open>gpclient\<close> lock file in \<open>src/nm-gpclient-service.c\<close>: reading the pid it names, telling
  whether that process lives and is a \<open>gpclient\<close>, and clearing a stale file before a new child is
  started.
\<close>

definition read_gpclient_lock_pid :: "sys \<Rightarrow> int option" where
  "read_gpclient_lock_pid sys =
     (case sys_lock_contents sys of
        None \<Rightarrow> None
      | Some contents \<Rightarrow>
          (let (parsed, erange, e) = strtol10 contents in
           if erange \<or> e = contents \<or> parsed \<le> 0 \<or> parsed > INT_MAX then None else Some parsed))"

definition pid_is_running :: "sys \<Rightarrow> int \<Rightarrow> bool" where
  "pid_is_running sys pid = (if sys_kill sys pid 0 = KillOk then True else sys_kill sys pid 0 = KillEPERM)"

text \<open>\<open>fgets\<close> into a buffer of \<open>n\<close> bytes: NULL at end of file, else at most \<open>n - 1\<close> bytes, up to and
  with the first newline.\<close>

fun fgets_bytes :: "nat \<Rightarrow> string \<Rightarrow> string" where
  "fgets_bytes 0 s = []"
| "fgets_bytes (Suc n) [] = []"
| "fgets_bytes (Suc n) (c # cs) = (if c = CHR 0x0A then [c] else c # fgets_bytes n cs)"

definition fgets :: "nat \<Rightarrow> string \<Rightarrow> cstr" where
  "fgets n s = (if s = [] then None else Some (fgets_bytes (n - 1) s))"

definition pid_comm_is_gpclient :: "sys \<Rightarrow> int \<Rightarrow> bool" where
  "pid_comm_is_gpclient sys pid =
     (case sys_proc_comm sys pid of
        None \<Rightarrow> True
      | Some file \<Rightarrow>
          (case fgets 64 file of
             None \<Rightarrow> False
           | Some comm \<Rightarrow> g_strchomp comm = ''gpclient''))"

definition prepare_gpclient_lock ::
  "config \<Rightarrow> sys \<Rightarrow> 'a world_scheme \<Rightarrow> (gerror + unit) \<times> 'a world_scheme" where
  "prepare_gpclient_lock cfg sys w =
     (if \<not> sys_file_exists sys (cfg_lock_file cfg) then (Inr (), w)
      else case (case read_gpclient_lock_pid sys of
                   None \<Rightarrow> None
                 | Some pid \<Rightarrow> if pid_is_running sys pid then Some pid else None) of
             Some pid \<Rightarrow>
               if pid_comm_is_gpclient sys pid then (Inl (AlreadyRunning pid), w)
               else (Inl (LockOwnedByRunning pid), w)
           | None \<Rightarrow>
               (let w = act UnlinkLock w in
                if sys_unlink_lock sys = UnlinkError then (Inl CannotRemoveStaleLock, w)
                else (Inr (), w)))"

section \<open>Facts\<close>

lemma read_lock_pid_show:
  assumes "0 < pid" "int pid \<le> INT_MAX" "rest = [] \<or> \<not> is_digit (hd rest)"
    and "sys_lock_contents sys = Some (show_nat pid @ rest)"
  shows "read_gpclient_lock_pid sys = Some (int pid)"
proof -
  have "strtol10 (show_nat pid @ rest) = (int pid, False, rest)"
    using strtol10_show_nat [of pid rest "[]"] assms by (simp add: LONG_MAX_def INT_MAX_def)
  moreover have "rest \<noteq> show_nat pid @ rest"
    using show_nat_digits [of pid] by auto
  ultimately show ?thesis using assms by (simp add: read_gpclient_lock_pid_def)
qed

lemma read_lock_pid_range: "read_gpclient_lock_pid sys = Some pid \<Longrightarrow> 0 < pid \<and> pid \<le> INT_MAX"
  by (auto simp: read_gpclient_lock_pid_def Let_def split: option.splits if_splits prod.splits)

lemma fgets_line:
  "CHR 0x0A \<notin> set s \<Longrightarrow> length s < n \<Longrightarrow> fgets_bytes n (s @ CHR 0x0A # rest) = s @ [CHR 0x0A]"
proof (induction s arbitrary: n)
  case Nil
  then show ?case by (cases n) simp_all
next
  case (Cons a s)
  then show ?case by (cases n) auto
qed

lemma comm_is_gpclient_kernel:
  assumes "sys_proc_comm sys pid = Some (name @ [CHR 0x0A])" "CHR 0x0A \<notin> set name" "length name < 63"
    "\<forall>c \<in> set name. \<not> g_ascii_isspace c"
  shows "pid_comm_is_gpclient sys pid \<longleftrightarrow> name = ''gpclient''"
proof -
  have "fgets 64 (name @ [CHR 0x0A]) = Some (name @ [CHR 0x0A])"
    using fgets_line [of name 63 "[]"] assms by (simp add: fgets_def)
  moreover have "g_strchomp (name @ [CHR 0x0A]) = name"
  proof -
    have "dropWhile g_ascii_isspace (rev name) = rev name"
      using assms(4) by (cases "rev name") (auto simp: rev_eq_Cons_iff)
    then show ?thesis by (simp add: g_strchomp_def g_ascii_isspace_def)
  qed
  ultimately show ?thesis using assms(1) by (simp add: pid_comm_is_gpclient_def)
qed

lemma prepare_lock_frame [simp, frame]:
  "tun_fds (snd (prepare_gpclient_lock cfg sys w)) = tun_fds w"
  "persistent_tuns (snd (prepare_gpclient_lock cfg sys w)) = persistent_tuns w"
  "world.more (snd (prepare_gpclient_lock cfg sys w)) = world.more w"
  by (simp_all add: prepare_gpclient_lock_def act_def Let_def split: option.splits)

text \<open>The live process a lock file names, if any.\<close>

definition live_holder :: "sys \<Rightarrow> int option" where
  "live_holder sys =
     (case read_gpclient_lock_pid sys of
        None \<Rightarrow> None | Some pid \<Rightarrow> if sys_kill sys pid 0 \<in> {KillOk, KillEPERM} then Some pid else None)"

lemma prepare_lock_cases:
  "prepare_gpclient_lock cfg sys w =
     (if \<not> sys_file_exists sys (cfg_lock_file cfg) then (Inr (), w)
      else case live_holder sys of
             Some pid \<Rightarrow> (Inl ((if pid_comm_is_gpclient sys pid then AlreadyRunning else LockOwnedByRunning) pid), w)
           | None \<Rightarrow> (if sys_unlink_lock sys = UnlinkError then Inl CannotRemoveStaleLock else Inr (), act UnlinkLock w))"
  by (auto simp: prepare_gpclient_lock_def live_holder_def pid_is_running_def Let_def split: option.splits)

lemma prepare_lock_trace:
  "trace (snd (prepare_gpclient_lock cfg sys w)) = trace w \<or>
   trace (snd (prepare_gpclient_lock cfg sys w)) = trace w @ [UnlinkLock]"
  by (auto simp: prepare_lock_cases split: option.splits)

section \<open>Properties\<close>

text \<open>C12: The lock of a live process is never removed: when the file exists and holds the decimal pid
  of a process that exists (even one the service may not signal), whatever follows the digits, the
  start is refused with that pid and the file is left alone.\<close>

theorem live_lock_is_kept:
  assumes "sys_file_exists sys (cfg_lock_file cfg)"
    and "sys_lock_contents sys = Some (show_nat pid @ rest)" "rest = [] \<or> \<not> is_digit (hd rest)"
    and "0 < pid" "int pid \<le> INT_MAX" "sys_kill sys (int pid) 0 \<in> {KillOk, KillEPERM}"
  shows "prepare_gpclient_lock cfg sys w =
    (Inl (if pid_comm_is_gpclient sys (int pid) then AlreadyRunning (int pid) else LockOwnedByRunning (int pid)), w)"
  using assms read_lock_pid_show [of pid rest sys] by (simp add: prepare_lock_cases live_holder_def)

text \<open>The start goes on after the lock check only when there is no lock file, or when the file
  named no live process and the one action taken is its removal; an error leaves the world unchanged
  except for a failed attempt to remove a stale file.\<close>

theorem lock_prepared_spec:
  "case prepare_gpclient_lock cfg sys w of
     (Inr _, w') \<Rightarrow> (if sys_file_exists sys (cfg_lock_file cfg)
       then live_holder sys = None \<and> w' = w\<lparr>trace := trace w @ [UnlinkLock]\<rparr> else w' = w)
   | (Inl e, w') \<Rightarrow> sys_file_exists sys (cfg_lock_file cfg) \<and>
       (if e = CannotRemoveStaleLock
        then live_holder sys = None \<and> w' = w\<lparr>trace := trace w @ [UnlinkLock]\<rparr>
        else live_holder sys \<noteq> None \<and> w' = w)"
  by (simp add: prepare_lock_cases act_def split: option.splits)

section \<open>Examples\<close>

definition locked_sys :: sys where
  "locked_sys = sample_sys\<lparr>sys_file_exists := (\<lambda>p. p = ''/run/gpclient.lock''),
     sys_lock_contents := Some (show_nat 77 @ [CHR 0x0A]), sys_kill := (\<lambda>p s. KillEPERM)\<rparr>"

lemma locked_sys_fields:
  "sys_file_exists locked_sys (cfg_lock_file sample_config)"
  "sys_lock_contents locked_sys = Some (show_nat 77 @ [CHR 0x0A])"
  "sys_kill locked_sys pid sig = KillEPERM"
  "sys_proc_comm locked_sys pid = Some (''gpclient'' @ [CHR 0x0A])"
  by (simp_all add: locked_sys_def sample_sys_def sample_config_def)

theorem live_lock_is_kept_witness:
  "prepare_gpclient_lock sample_config locked_sys sample_world = (Inl (AlreadyRunning 77), sample_world)"
proof -
  have "pid_comm_is_gpclient locked_sys (int 77)"
    using comm_is_gpclient_kernel [OF locked_sys_fields(4)] by (simp add: g_ascii_isspace_def)
  then show ?thesis
    using live_lock_is_kept [OF locked_sys_fields(1,2), of sample_world] locked_sys_fields(3)
    by (simp add: INT_MAX_def is_digit_def)
qed

end
