(* ===== verification/Transition.thy ===== *)
theory Transition
  imports Prelude
begin

text \<open>
  Reachability over a step relation, and the interface of an inductive invariant: the event loop of
  the service and the collection loop of the auth dialog are both instances.
\<close>

lemma filter_split:
  "filter P us = xs @ x # ys \<Longrightarrow> \<exists>us1 us2. us = us1 @ x # us2 \<and> filter P us2 = ys"
proof (induction xs arbitrary: us)
  case Nil
  then show ?case using filter_eq_ConsD [of P us x ys] by auto
next
  case (Cons a xs)
  then obtain vs ws where "us = vs @ a # ws" "xs @ x # ys = filter P ws"
    using filter_eq_ConsD [of P us a "xs @ x # ys"] by auto
  with Cons.IH [of ws] obtain us1 us2 where "ws = us1 @ x # us2" "filter P us2 = ys" by auto
  with \<open>us = vs @ a # ws\<close> have "us = (vs @ a # us1) @ x # us2" by simp
  with \<open>filter P us2 = ys\<close> show ?case by blast
qed

inductive reach :: "('s \<Rightarrow> bool) \<Rightarrow> ('s \<Rightarrow> 's \<Rightarrow> bool) \<Rightarrow> 's \<Rightarrow> bool" for init step where
  reach_init: "init s \<Longrightarrow> reach init step s"
| reach_step: "reach init step s \<Longrightarrow> step s s' \<Longrightarrow> reach init step s'"

lemma reach_mono: "reach init step s \<Longrightarrow> (\<And>s s'. step s s' \<Longrightarrow> step' s s') \<Longrightarrow> reach init step' s"
  by (induction rule: reach.induct) (auto intro: reach.intros)

locale invariant_system =
  fixes init :: "'s \<Rightarrow> bool"
    and step :: "'s \<Rightarrow> 's \<Rightarrow> bool"
    and inv :: "'s \<Rightarrow> bool"
  assumes inv_init: "init s \<Longrightarrow> inv s"
    and inv_step: "inv s \<Longrightarrow> step s s' \<Longrightarrow> inv s'"
begin

lemma reach_inv: "reach init step s \<Longrightarrow> inv s"
  by (induction rule: reach.induct) (auto intro: inv_init inv_step)

lemma steps_inv: "step\<^sup>*\<^sup>* s s' \<Longrightarrow> inv s \<Longrightarrow> inv s'"
  by (induction rule: rtranclp_induct) (auto intro: inv_step)

end

end
