(* ===== verification/Service.thy ===== *)
theory Service
  imports Command Tun Lock Transition
begin

text \<open>
  The state of \<open>nm-gpclient-service\<close> (\<open>NMOpenconnectPluginPrivate\<close> and the globals \<open>gl\<close>), the
  virtual methods libnm calls (connect, need-secrets, disconnect), the callbacks of the main loop
  (child exit, kill timeout, \<open>quit\<close>), signals and start-up.

  Handlers are functions of the answers of the system (\<open>sys\<close>) and of the state; what they do to
  processes is appended to the trace. \<open>watches\<close> are the attached child watches and \<open>stdin_fds\<close>
  counts open write ends of children's pipes. The child-watch callback ends in one of two libnm
  calls, recorded as \<open>ReportFailure\<close> or \<open>ReportDisconnect\<close>; libnm turns the second into a call of
  \<open>real_disconnect\<close>, which does nothing then because the pid is already 0.
\<close>

section \<open>State\<close>

record service = world +
  gl_debug :: bool
  log_level :: int
  gl_loop :: bool
  loop_quit :: bool
  priv_pid :: int
  priv_tun_name :: cstr
  disconnect_requested :: bool
  quit_pending :: bool
  kill_timeout :: nat
  watches :: "int list"
  stdin_fds :: nat

definition SIGINT :: int where "SIGINT = 2"
definition SIGKILL :: int where "SIGKILL = 9"
definition SIGTERM :: int where "SIGTERM = 15"

definition LOGD_enabled :: "service \<Rightarrow> bool" where
  "LOGD_enabled s \<longleftrightarrow> log_level s \<ge> LOG_INFO"

section \<open>Starting gpclient\<close>

text \<open>The cookie and a newline on the child's standard input. A short write returns without closing
  the pipe, without an error, and before the child is recorded.\<close>

definition feed_cookie :: "sys \<Rightarrow> string \<Rightarrow> service \<Rightarrow> bool \<times> service" where
  "feed_cookie sys cookie s =
     (let s = act (WriteStdin cookie) s in
      if sys_write sys cookie \<noteq> int (length cookie) then (False, s)
      else
        let s = act (WriteStdin [CHR 0x0A]) s in
        if sys_write sys [CHR 0x0A] \<noteq> 1 then (False, s)
        else (True, (act CloseStdin s)\<lparr>stdin_fds := stdin_fds s - 1\<rparr>))"

text \<open>\<open>Inl None\<close> is the return value \<open>-1\<close> with no error set.\<close>

definition launch_gpclient ::
  "sys \<Rightarrow> string list \<Rightarrow> strmap \<Rightarrow> cstr \<Rightarrow> service \<Rightarrow> (gerror option + unit) \<times> service" where
  "launch_gpclient sys argv envp cookie s =
     (case sys_spawn_async sys argv envp of
        Inl e \<Rightarrow> (Inl (Some e), s)
      | Inr pid \<Rightarrow>
          (let s = (act (Spawn argv envp pid) s)\<lparr>stdin_fds := stdin_fds s + (if nonempty cookie then 1 else 0)\<rparr>;
               (fed, s) = (case cookie of Some c \<Rightarrow> if c \<noteq> [] then feed_cookie sys c s else (True, s) | None \<Rightarrow> (True, s))
           in if \<not> fed then (Inl None, s)
              else (Inr (), (act (AddChildWatch pid) s)
                     \<lparr>priv_pid := pid, disconnect_requested := False, watches := watches s @ [pid]\<rparr>)))"

definition nm_openconnect_start_openconnect_binary ::
  "config \<Rightarrow> sys \<Rightarrow> con_setting \<Rightarrow> vpn_setting \<Rightarrow> service \<Rightarrow> (gerror option + unit) \<times> service" where
  "nm_openconnect_start_openconnect_binary cfg sys s_con s_vpn s =
     (case nm_gpclient_check_version (sys_spawn_sync sys) (cfg_gpclient_binary cfg) ''gpclient'' of
        Inl e \<Rightarrow> (Inl (Some e), s)
      | Inr _ \<Rightarrow>
          if \<not> nonempty (props_vpn_gw s_vpn) \<and> \<not> nonempty (props_portal s_vpn)
          then (Inl (Some NoGatewaySpecified), s)
          else
            let props_cookie = get_secret s_vpn NM_OPENCONNECT_KEY_COOKIE in
            if \<not> nonempty props_cookie then (Inl (Some NoAuthenticationJson), s)
            else
              let envp = gpclient_env cfg sys s_con s_vpn;
                  (r, s) = create_persistent_tundev sys (cs_interface s_con) s
              in case r of
                   Inl e \<Rightarrow> (Inl (Some e), s\<lparr>priv_tun_name := None\<rparr>)
                 | Inr tun_name \<Rightarrow>
                     let s = s\<lparr>priv_tun_name := tun_name\<rparr>;
                         argv = gpclient_argv cfg (log_level s) s_vpn tun_name;
                         (r, s) = prepare_gpclient_lock cfg sys s
                     in case r of
                          Inl e \<Rightarrow>
                            (Inl (Some e),
                             case priv_tun_name s of
                               Some name \<Rightarrow> (destroy_persistent_tundev sys name s)\<lparr>priv_tun_name := None\<rparr>
                             | None \<Rightarrow> s)
                        | Inr _ \<Rightarrow> launch_gpclient sys argv envp props_cookie s)"

section \<open>The virtual methods\<close>

text \<open>\<open>Aborted\<close> is a failed \<open>g_assert\<close>: libnm always passes both settings.\<close>

datatype connect_result = Aborted | Failed "gerror option" | Connected

definition real_connect ::
  "config \<Rightarrow> get_flags \<Rightarrow> sys \<Rightarrow> connection \<Rightarrow> service \<Rightarrow> connect_result \<times> service" where
  "real_connect cfg get_flags sys connection s =
     (case c_con connection of
        None \<Rightarrow> (Aborted, s)
      | Some s_con \<Rightarrow>
          case c_vpn connection of
            None \<Rightarrow> (Aborted, s)
          | Some s_vpn \<Rightarrow>
              case validate_auth_secret_flags get_flags s_vpn of
                Inl e \<Rightarrow> (Failed (Some e), s)
              | Inr _ \<Rightarrow>
                  case nm_openconnect_properties_validate s_vpn of
                    Inl e \<Rightarrow> (Failed (Some e), s)
                  | Inr _ \<Rightarrow>
                      case nm_openconnect_secrets_validate s_vpn of
                        Inl e \<Rightarrow> (Failed (Some e), s)
                      | Inr _ \<Rightarrow>
                          let (r, s) = nm_openconnect_start_openconnect_binary cfg sys s_con s_vpn s
                          in (case r of Inl e \<Rightarrow> Failed e | Inr _ \<Rightarrow> Connected, s))"

definition NM_SETTING_VPN_SETTING_NAME :: string where "NM_SETTING_VPN_SETTING_NAME = ''vpn''"

text \<open>\<open>Inr (Some name)\<close> is TRUE with \<open>*setting_name = name\<close>, \<open>Inr None\<close> is FALSE without an error.\<close>

definition real_need_secrets ::
  "get_flags \<Rightarrow> sys \<Rightarrow> connection \<Rightarrow> service \<Rightarrow> (gerror + cstr) \<times> service" where
  "real_need_secrets get_flags sys connection s =
     (case c_vpn connection of
        None \<Rightarrow> (Inl InvalidConnectionSettings, s)
      | Some s_vpn \<Rightarrow>
          case validate_auth_secret_flags get_flags s_vpn of
            Inl e \<Rightarrow> (Inl e, s)
          | Inr _ \<Rightarrow>
              let s = (if priv_pid s = 0 then
                         let tun_name = (case c_con connection of Some s_con \<Rightarrow> cs_interface s_con | None \<Rightarrow> None)
                         in deactivate_assumed_tun_connection sys
                              (if nonempty tun_name then tun_name else Some ''vpn0'') s
                       else s)
              in if get_secret s_vpn NM_OPENCONNECT_KEY_GATEWAY = None \<and>
                    get_data_item s_vpn NM_OPENCONNECT_KEY_GATEWAY = None \<and>
                    get_data_item s_vpn NM_OPENCONNECT_KEY_PORTAL = None
                 then (Inr (Some NM_SETTING_VPN_SETTING_NAME), s)
                 else if \<not> nonempty (get_secret s_vpn NM_OPENCONNECT_KEY_COOKIE)
                 then (Inr (Some NM_SETTING_VPN_SETTING_NAME), s)
                 else (Inr None, s))"

definition real_disconnect :: "sys \<Rightarrow> service \<Rightarrow> service" where
  "real_disconnect sys s =
     (if priv_pid s \<noteq> 0 then
        let s = s\<lparr>disconnect_requested := True\<rparr>;
            s = act (Kill (- priv_pid s) SIGINT) s;
            s = (if sys_kill sys (- priv_pid s) SIGINT \<noteq> KillOk then act (Kill (priv_pid s) SIGINT) s else s)
        in if kill_timeout s = 0
           then (act (AddTimeout 2000) s)\<lparr>kill_timeout := sys_timeout_id sys\<rparr>
           else s
      else s)"

section \<open>Callbacks of the main loop\<close>

definition ensure_killed :: "sys \<Rightarrow> service \<Rightarrow> service" where
  "ensure_killed sys s =
     (let pid = priv_pid s;
          s = s\<lparr>kill_timeout := 0\<rparr>
      in if pid = 0 then s
         else if sys_kill sys (- pid) 0 = KillOk then act (Kill (- pid) SIGKILL) s
         else if sys_kill sys pid 0 = KillOk then act (Kill pid SIGKILL) s
         else s)"

text \<open>The status the callback reports: \<open>WEXITSTATUS\<close> when the exit was unexpected and normal, else 0.\<close>

definition exit_error :: "bool \<Rightarrow> u32 \<Rightarrow> u32" where
  "exit_error requested status =
     (if requested then 0 else if WIFEXITED status then WEXITSTATUS status else 0)"

definition openconnect_watch_cb :: "sys \<Rightarrow> int \<Rightarrow> u32 \<Rightarrow> service \<Rightarrow> service" where
  "openconnect_watch_cb sys pid status s =
     (let disconnect_req = disconnect_requested s;
          error = exit_error disconnect_req status;
          s = (act (Waitpid pid) s)\<lparr>watches := remove1 pid (watches s)\<rparr>;
          s = (if kill_timeout s \<noteq> 0 then (act (RemoveSource (kill_timeout s)) s)\<lparr>kill_timeout := 0\<rparr> else s);
          s = s\<lparr>priv_pid := 0, disconnect_requested := False\<rparr>;
          s = (case priv_tun_name s of
                 Some name \<Rightarrow>
                   (destroy_persistent_tundev sys name (deactivate_assumed_tun_connection sys (Some name) s))
                     \<lparr>priv_tun_name := None\<rparr>
               | None \<Rightarrow> s)
      in if disconnect_req then
           (if quit_pending s \<and> gl_loop s then (act MainLoopQuit s)\<lparr>loop_quit := True\<rparr> else s)
         else if error = 2 then act (ReportFailure LOGIN_FAILED) s
         else if error = 1 then act (ReportFailure CONNECT_FAILED) s
         else act ReportDisconnect s)"

definition quit_mainloop :: "sys \<Rightarrow> service \<Rightarrow> service" where
  "quit_mainloop sys s =
     (if priv_pid s \<noteq> 0 then
        let s = s\<lparr>quit_pending := True\<rparr>
        in if \<not> disconnect_requested s then real_disconnect sys s else s
      else (act MainLoopQuit s)\<lparr>loop_quit := True\<rparr>)"

definition signal_handler :: "int \<Rightarrow> service \<Rightarrow> service" where
  "signal_handler signo s =
     (if signo = SIGINT \<or> signo = SIGTERM then (act MainLoopQuit s)\<lparr>loop_quit := True\<rparr> else s)"

section \<open>Facts\<close>

lemma act_service [simp, frame]:
  "priv_pid (act a s) = priv_pid s" "priv_tun_name (act a s) = priv_tun_name s"
  "disconnect_requested (act a s) = disconnect_requested s" "quit_pending (act a s) = quit_pending s"
  "kill_timeout (act a s) = kill_timeout s" "watches (act a s) = watches s" "stdin_fds (act a s) = stdin_fds s"
  "loop_quit (act a s) = loop_quit s" "gl_loop (act a s) = gl_loop s" "log_level (act a s) = log_level s"
  "gl_debug (act a s) = gl_debug s"
  by (simp_all add: act_def)

text \<open>The TUN and lock operations only touch the \<open>world\<close> part of the state.\<close>

lemma more_eqD:
  assumes "world.more (s' :: service) = world.more s"
  shows "priv_pid s' = priv_pid s" "priv_tun_name s' = priv_tun_name s"
    "disconnect_requested s' = disconnect_requested s" "quit_pending s' = quit_pending s"
    "kill_timeout s' = kill_timeout s" "watches s' = watches s" "stdin_fds s' = stdin_fds s"
    "loop_quit s' = loop_quit s" "gl_loop s' = gl_loop s" "log_level s' = log_level s" "gl_debug s' = gl_debug s"
  using assms by (cases s, cases s', simp)+

lemmas world_op_frame [simp, frame] =
  more_eqD [OF create_tun_simps(2)] more_eqD [OF destroy_tun_simps(5)]
  more_eqD [OF deactivate_frame(3)] more_eqD [OF prepare_lock_frame(3)]

lemma create_tun_persistent:
  "set (persistent_tuns w) \<subseteq> set (persistent_tuns (snd (create_persistent_tundev sys n w)))"
  "fst (create_persistent_tundev sys n w) = Inr (Some t) \<Longrightarrow>
     t \<in> set (persistent_tuns (snd (create_persistent_tundev sys n w)))"
  by (auto simp: create_persistent_tundev_def Let_def split: option.splits sum.splits if_splits)

text \<open>Kinds of actions, to project a trace.\<close>

fun is_spawn :: "action \<Rightarrow> bool" where
  "is_spawn (Spawn _ _ _) = True" | "is_spawn _ = False"
fun is_report :: "action \<Rightarrow> bool" where
  "is_report (ReportFailure _) = True" | "is_report ReportDisconnect = True" | "is_report _ = False"
fun is_kill :: "action \<Rightarrow> bool" where
  "is_kill (Kill _ _) = True" | "is_kill _ = False"

definition is_ctl :: "action \<Rightarrow> bool" where
  "is_ctl a \<longleftrightarrow> is_spawn a \<or> is_kill a"

lemma is_ctl_simps [simp]:
  "is_ctl (Spawn argv envp pid)" "is_ctl (Kill p sig)" "\<not> is_ctl (Deactivate x)" "\<not> is_ctl UnlinkLock"
  "\<not> is_ctl (WriteStdin c)" "\<not> is_ctl CloseStdin" "\<not> is_ctl (AddChildWatch p)" "\<not> is_ctl (Waitpid p)"
  "\<not> is_ctl (AddTimeout n)" "\<not> is_ctl (RemoveSource n)" "\<not> is_ctl (ReportFailure f)"
  "\<not> is_ctl ReportDisconnect" "\<not> is_ctl MainLoopQuit" "\<not> is_ctl (RunModuleLoader as)"
  by (simp_all add: is_ctl_def)

lemma deactivate_filter:
  "(\<And>p. \<not> P (Deactivate p)) \<Longrightarrow>
     filter P (trace (deactivate_assumed_tun_connection sys n w)) = filter P (trace w)"
  using deactivate_trace [of sys n w] by (fastforce simp: filter_empty_conv)

lemma prepare_lock_filter:
  "\<not> P UnlinkLock \<Longrightarrow> filter P (trace (snd (prepare_gpclient_lock cfg sys w))) = filter P (trace w)"
  using prepare_lock_trace [of cfg sys w] by auto

text \<open>Everything \<open>feed_cookie\<close> does.\<close>

lemma feed_cookie_frame [simp, frame]:
  "priv_pid (snd (feed_cookie sys c s)) = priv_pid s"
  "priv_tun_name (snd (feed_cookie sys c s)) = priv_tun_name s"
  "disconnect_requested (snd (feed_cookie sys c s)) = disconnect_requested s"
  "quit_pending (snd (feed_cookie sys c s)) = quit_pending s"
  "kill_timeout (snd (feed_cookie sys c s)) = kill_timeout s"
  "watches (snd (feed_cookie sys c s)) = watches s"
  "loop_quit (snd (feed_cookie sys c s)) = loop_quit s"
  "gl_loop (snd (feed_cookie sys c s)) = gl_loop s"
  "log_level (snd (feed_cookie sys c s)) = log_level s"
  "persistent_tuns (snd (feed_cookie sys c s)) = persistent_tuns s"
  "stdin_fds (snd (feed_cookie sys c s)) = stdin_fds s - (if fst (feed_cookie sys c s) then 1 else 0)"
  "filter is_spawn (trace (snd (feed_cookie sys c s))) = filter is_spawn (trace s)"
  "filter is_kill (trace (snd (feed_cookie sys c s))) = filter is_kill (trace s)"
  "filter is_ctl (trace (snd (feed_cookie sys c s))) = filter is_ctl (trace s)"
  by (simp_all add: feed_cookie_def Let_def)

lemma launch_cases:
  assumes "launch_gpclient sys argv envp (Some c) s = (r, s')" "c \<noteq> []"
  obtains (spawn) e where "r = Inl (Some e)" "s' = s" "sys_spawn_async sys argv envp = Inl e"
  | (pipe) pid where "r = Inl None" "sys_spawn_async sys argv envp = Inr pid" "stdin_fds s' = stdin_fds s + 1"
      "priv_pid s' = priv_pid s" "watches s' = watches s" "priv_tun_name s' = priv_tun_name s"
      "disconnect_requested s' = disconnect_requested s" "kill_timeout s' = kill_timeout s"
      "quit_pending s' = quit_pending s" "loop_quit s' = loop_quit s" "persistent_tuns s' = persistent_tuns s"
      "filter is_spawn (trace s') = filter is_spawn (trace s) @ [Spawn argv envp pid]"
      "filter is_kill (trace s') = filter is_kill (trace s)" "gl_loop s' = gl_loop s"
      "filter is_ctl (trace s') = filter is_ctl (trace s) @ [Spawn argv envp pid]"
  | (ok) pid where "r = Inr ()" "sys_spawn_async sys argv envp = Inr pid" "stdin_fds s' = stdin_fds s"
      "priv_pid s' = pid" "watches s' = watches s @ [pid]" "priv_tun_name s' = priv_tun_name s"
      "\<not> disconnect_requested s'" "kill_timeout s' = kill_timeout s"
      "quit_pending s' = quit_pending s" "loop_quit s' = loop_quit s" "persistent_tuns s' = persistent_tuns s"
      "filter is_spawn (trace s') = filter is_spawn (trace s) @ [Spawn argv envp pid]"
      "filter is_kill (trace s') = filter is_kill (trace s)" "gl_loop s' = gl_loop s"
      "filter is_ctl (trace s') = filter is_ctl (trace s) @ [Spawn argv envp pid]"
proof (cases "sys_spawn_async sys argv envp")
  case (Inl e)
  with assms show ?thesis by (intro spawn) (auto simp: launch_gpclient_def)
next
  case (Inr pid)
  let ?s1 = "(act (Spawn argv envp pid) s)\<lparr>stdin_fds := stdin_fds s + 1\<rparr>"
  obtain fed s2 where f: "feed_cookie sys c ?s1 = (fed, s2)" by (cases "feed_cookie sys c ?s1")
  note fr = feed_cookie_frame [of sys c ?s1, unfolded f fst_conv snd_conv]
  have rs: "(r, s') = (if \<not> fed then (Inl None, s2) else (Inr (), (act (AddChildWatch pid) s2)
      \<lparr>priv_pid := pid, disconnect_requested := False, watches := watches s2 @ [pid]\<rparr>))"
    using assms f Inr by (simp add: launch_gpclient_def Let_def)
  show ?thesis
  proof (cases fed)
    case True
    with rs fr Inr show ?thesis by (intro ok [of pid]) simp_all
  next
    case False
    with rs fr Inr show ?thesis by (intro pipe [of pid]) simp_all
  qed
qed

text \<open>The part of the state a start that does not launch anything leaves alone.\<close>

definition same_child :: "service \<Rightarrow> service \<Rightarrow> bool" where
  "same_child s s' \<longleftrightarrow> priv_pid s' = priv_pid s \<and> watches s' = watches s \<and> stdin_fds s' = stdin_fds s \<and>
     disconnect_requested s' = disconnect_requested s \<and> kill_timeout s' = kill_timeout s \<and>
     quit_pending s' = quit_pending s \<and> loop_quit s' = loop_quit s \<and> gl_loop s' = gl_loop s \<and>
     log_level s' = log_level s \<and>
     filter is_spawn (trace s') = filter is_spawn (trace s) \<and> filter is_kill (trace s') = filter is_kill (trace s) \<and>
     filter is_ctl (trace s') = filter is_ctl (trace s)"

lemma same_child_refl [simp]: "same_child s s"
  by (simp add: same_child_def)

lemma same_child_trans: "same_child s s' \<Longrightarrow> same_child s' s'' \<Longrightarrow> same_child s s''"
  by (simp add: same_child_def)

lemma same_child_tun_name [simp]:
  "same_child s (s'\<lparr>priv_tun_name := n\<rparr>) = same_child s s'"
  "same_child (s\<lparr>priv_tun_name := n\<rparr>) s' = same_child s s'"
  by (simp_all add: same_child_def)

lemma same_child_ops [simp]:
  "same_child s (snd (create_persistent_tundev sys n s))"
  "same_child s (destroy_persistent_tundev sys m s)"
  "same_child s (snd (prepare_gpclient_lock cfg sys s))"
  "same_child s (deactivate_assumed_tun_connection sys n s)"
  by (simp_all add: same_child_def prepare_lock_filter deactivate_filter)

definition start_guards :: "config \<Rightarrow> sys \<Rightarrow> vpn_setting \<Rightarrow> bool" where
  "start_guards cfg sys s_vpn \<longleftrightarrow>
     nm_gpclient_check_version (sys_spawn_sync sys) (cfg_gpclient_binary cfg) ''gpclient'' = Inr () \<and>
     configured_mode s_vpn \<noteq> None \<and> nonempty (get_secret s_vpn ''cookie'')"

lemma start_cases:
  assumes "nm_openconnect_start_openconnect_binary cfg sys s_con s_vpn s = (r, s')"
  obtains (refused) e where "r = Inl (Some e)" "same_child s s'" "s' = s \<or> start_guards cfg sys s_vpn \<and> priv_tun_name s' = None"
  | (launched) tun s1 cookie where "start_guards cfg sys s_vpn" "get_secret s_vpn ''cookie'' = Some cookie" "cookie \<noteq> []"
      "same_child s s1" "priv_tun_name s1 = tun" "fst (create_persistent_tundev sys (cs_interface s_con) s) = Inr tun"
      "persistent_tuns s1 = persistent_tuns (snd (create_persistent_tundev sys (cs_interface s_con) s))"
      "sys_file_exists sys (cfg_lock_file cfg) \<Longrightarrow> live_holder sys = None"
      "launch_gpclient sys (gpclient_argv cfg (log_level s) s_vpn tun) (gpclient_env cfg sys s_con s_vpn) (Some cookie) s1 = (r, s')"
proof -
  let ?start = "nm_openconnect_start_openconnect_binary cfg sys s_con s_vpn s"
  let ?c1 = "create_persistent_tundev sys (cs_interface s_con) s"
  note start = nm_openconnect_start_openconnect_binary_def [of cfg sys s_con s_vpn s]
  show thesis
  proof (cases "start_guards cfg sys s_vpn")
    case False
    then consider e where "nm_gpclient_check_version (sys_spawn_sync sys) (cfg_gpclient_binary cfg) ''gpclient'' = Inl e"
      | "\<not> nonempty (props_vpn_gw s_vpn) \<and> \<not> nonempty (props_portal s_vpn)" | "\<not> nonempty (get_secret s_vpn ''cookie'')"
      unfolding start_guards_def configured_mode_Some by (metis old.unit.exhaust sumE)
    then have "fst ?start \<in> range (Inl \<circ> Some) \<and> snd ?start = s"
      by cases (auto simp: start Let_def split: sum.splits)
    then obtain e where "r = Inl (Some e)" "s' = s"
      using assms by auto
    with False show thesis by (intro refused [of e]) auto
  next
    case True
    then obtain cookie where c: "get_secret s_vpn ''cookie'' = Some cookie" "cookie \<noteq> []"
      by (auto simp: start_guards_def)
    have ver: "nm_gpclient_check_version (sys_spawn_sync sys) (cfg_gpclient_binary cfg) ''gpclient'' = Inr ()"
      and gw: "(\<not> nonempty (props_vpn_gw s_vpn) \<and> \<not> nonempty (props_portal s_vpn)) = False"
      using True unfolding start_guards_def configured_mode_Some by blast+
    show thesis
    proof (cases "fst ?c1")
      case (Inl e)
      then have "?start = (Inl (Some e), (snd ?c1)\<lparr>priv_tun_name := None\<rparr>)"
        by (simp add: gw start ver c Let_def split_beta)
      with assms show thesis by (intro refused [of e]) (auto simp: True)
    next
      case (Inr tun)
      let ?s2 = "(snd ?c1)\<lparr>priv_tun_name := tun\<rparr>"
      let ?l = "prepare_gpclient_lock cfg sys ?s2"
      have st: "?start = (case fst ?l of
          Inl e \<Rightarrow> (Inl (Some e), case priv_tun_name (snd ?l) of
             Some name \<Rightarrow> (destroy_persistent_tundev sys name (snd ?l))\<lparr>priv_tun_name := None\<rparr> | None \<Rightarrow> snd ?l)
        | Inr _ \<Rightarrow> launch_gpclient sys (gpclient_argv cfg (log_level s) s_vpn tun) (gpclient_env cfg sys s_con s_vpn) (Some cookie) (snd ?l))"
        by (simp add: gw start ver c Let_def split_beta Inr cong: sum.case_cong)
      have sc: "same_child s (snd ?l)"
        by (rule same_child_trans [of s "?s2"]) (simp_all del: same_child_tun_name(2))
      show thesis
      proof (cases "fst ?l")
        case (Inl e)
        have "same_child s (destroy_persistent_tundev sys name (snd ?l))" for name
          using sc same_child_ops(2) by (rule same_child_trans)
        with assms st Inl sc show thesis
          by (intro refused [of e]) (auto simp: True split: option.splits)
      next
        case lock: (Inr u)
        have "sys_file_exists sys (cfg_lock_file cfg) \<Longrightarrow> live_holder sys = None"
          using lock by (auto simp: prepare_lock_cases split: option.splits if_splits)
        with assms st lock sc c True Inr show thesis
          by (intro launched [of cookie "snd ?l" tun]) simp_all
      qed
    qed
  qed
qed

lemma validate_flags_ok:
  "validate_auth_secret_flags gf v = Inr () \<longleftrightarrow> safe_flags (gf v ''cookie'') \<and> safe_flags (gf v ''gateway'')"
  by (simp add: validate_auth_secret_flags_def check_secret_flags_cases)

text \<open>A profile whose contents \<open>real_connect\<close> accepts.\<close>

definition acceptable :: "get_flags \<Rightarrow> vpn_setting \<Rightarrow> bool" where
  "acceptable gf v \<longleftrightarrow> safe_flags (gf v ''cookie'') \<and> safe_flags (gf v ''gateway'') \<and>
     vs_data v \<noteq> [] \<and> vs_secrets v \<noteq> [] \<and> filter (bad_item valid_properties) (vs_data v) = []"

lemma real_connect_cases:
  "real_connect cfg gf sys \<lparr>c_con = Some s_con, c_vpn = Some v\<rparr> s =
     (if acceptable gf v
      then let (r, s') = nm_openconnect_start_openconnect_binary cfg sys s_con v s
           in (case r of Inl e \<Rightarrow> Failed e | Inr _ \<Rightarrow> Connected, s')
      else (Failed (Some (case validate_auth_secret_flags gf v of Inl e \<Rightarrow> e | Inr _ \<Rightarrow>
              case nm_openconnect_properties_validate v of Inl e \<Rightarrow> e | Inr _ \<Rightarrow> NoSecrets)), s))"
proof -
  have "acceptable gf v \<longleftrightarrow> validate_auth_secret_flags gf v = Inr () \<and>
      nm_openconnect_properties_validate v = Inr () \<and> nm_openconnect_secrets_validate v = Inr ()"
    by (auto simp: acceptable_def validate_flags_ok properties_validate_ok secrets_validate_cases filter_empty_conv)
  then show ?thesis
    by (auto simp: real_connect_def secrets_validate_cases split: sum.splits if_splits)
qed

section \<open>Properties\<close>

text \<open>C6: A connection is reported as started only for a profile with safe secret flags, accepted
  properties, secrets and a server, with a supported \<open>gpclient\<close>, when no live process holds the
  lock; then exactly one child was spawned, with the command line and environment of the profile,
  its pipe is closed again, and its pid is the one the plugin records and watches.\<close>

theorem connect_starts_one_child:
  assumes "real_connect cfg gf sys \<lparr>c_con = Some s_con, c_vpn = Some v\<rparr> s = (Connected, s')"
  shows "acceptable gf v \<and> start_guards cfg sys v \<and>
    (sys_file_exists sys (cfg_lock_file cfg) \<longrightarrow> live_holder sys = None) \<and>
    (\<exists>pid. let argv = gpclient_argv cfg (log_level s) v (priv_tun_name s'); envp = gpclient_env cfg sys s_con v in
       sys_spawn_async sys argv envp = Inr pid \<and> priv_pid s' = pid \<and> watches s' = watches s @ [pid] \<and>
       \<not> disconnect_requested s' \<and> stdin_fds s' = stdin_fds s \<and>
       filter is_spawn (trace s') = filter is_spawn (trace s) @ [Spawn argv envp pid])"
proof -
  have acc: "acceptable gf v"
    and st: "nm_openconnect_start_openconnect_binary cfg sys s_con v s = (Inr (), s')"
    using assms by (auto simp: real_connect_cases split: if_splits sum.splits prod.splits)
  from st show ?thesis
  proof (cases rule: start_cases)
    case (launched tun s1 cookie)
    from launched(9,3) show ?thesis
    proof (cases rule: launch_cases)
      case (ok pid)
      with launched acc show ?thesis by (auto simp: same_child_def Let_def)
    qed simp_all
  qed simp
qed


end
