(* ===== verification/Service_Loop.thy ===== *)
theory Service_Loop
  imports Service
begin

text \<open>
  The event loop of the service: what each callback guarantees, and, with the events as a step
  relation, the invariants of every run in which libnm only asks for a new connection when no child
  is left; and what goes wrong when it asks while a requested shutdown is still pending.
\<close>

section \<open>Single callbacks\<close>

definition exit_report :: "u32 \<Rightarrow> action" where
  "exit_report status =
     (if WIFEXITED status \<and> WEXITSTATUS status = 2 then ReportFailure LOGIN_FAILED
      else if WIFEXITED status \<and> WEXITSTATUS status = 1 then ReportFailure CONNECT_FAILED
      else ReportDisconnect)"

lemma watch_cb_fields [simp]:
  "priv_pid (openconnect_watch_cb sys pid st s) = 0"
  "\<not> disconnect_requested (openconnect_watch_cb sys pid st s)"
  "kill_timeout (openconnect_watch_cb sys pid st s) = 0"
  "priv_tun_name (openconnect_watch_cb sys pid st s) = None"
  "watches (openconnect_watch_cb sys pid st s) = remove1 pid (watches s)"
  "stdin_fds (openconnect_watch_cb sys pid st s) = stdin_fds s"
  "quit_pending (openconnect_watch_cb sys pid st s) = quit_pending s"
  "gl_loop (openconnect_watch_cb sys pid st s) = gl_loop s"
  "loop_quit (openconnect_watch_cb sys pid st s) =
     (loop_quit s \<or> disconnect_requested s \<and> quit_pending s \<and> gl_loop s)"
  by (auto simp: openconnect_watch_cb_def Let_def split: option.splits)

lemma watch_cb_reports:
  "filter is_report (trace (openconnect_watch_cb sys pid st s)) =
     filter is_report (trace s) @ (if disconnect_requested s then [] else [exit_report st])"
  by (auto simp: openconnect_watch_cb_def Let_def deactivate_filter exit_error_def exit_report_def split: option.splits)

lemma watch_cb_other_filters:
  "filter is_kill (trace (openconnect_watch_cb sys pid st s)) = filter is_kill (trace s)"
  "filter is_ctl (trace (openconnect_watch_cb sys pid st s)) = filter is_ctl (trace s)"
  by (auto simp: openconnect_watch_cb_def Let_def deactivate_filter split: option.splits)

lemma watch_cb_tuns:
  "persistent_tuns (openconnect_watch_cb sys pid st s) =
     (case priv_tun_name s of
        Some n \<Rightarrow> if tun_removable sys n then remove1 n (persistent_tuns s) else persistent_tuns s
      | None \<Rightarrow> persistent_tuns s)"
  by (auto simp: openconnect_watch_cb_def Let_def destroy_tun_cases split: option.splits)

text \<open>C13: When the child exits, the plugin forgets it, its timer, the disconnect request and the
  TUN device, which is removed when the kernel cooperates. An unexpected exit is reported once: exit
  code 2 as a login failure, 1 as a connection failure, anything else as a disconnect. A
  requested one is not reported, and ends the main loop exactly when a quit was waiting for it.\<close>

theorem child_exit_spec:
  "let s' = openconnect_watch_cb sys pid st s in
     priv_pid s' = 0 \<and> kill_timeout s' = 0 \<and> \<not> disconnect_requested s' \<and> priv_tun_name s' = None \<and>
     watches s' = remove1 pid (watches s) \<and>
     filter is_report (trace s') = filter is_report (trace s) @ (if disconnect_requested s then [] else [exit_report st]) \<and>
     loop_quit s' = (loop_quit s \<or> disconnect_requested s \<and> quit_pending s \<and> gl_loop s) \<and>
     persistent_tuns s' =
       (case priv_tun_name s of
          Some n \<Rightarrow> if tun_removable sys n then remove1 n (persistent_tuns s) else persistent_tuns s
        | None \<Rightarrow> persistent_tuns s)"
  by (simp add: Let_def watch_cb_reports watch_cb_tuns)

lemma real_disconnect_fields [simp]:
  "priv_pid (real_disconnect sys s) = priv_pid s"
  "priv_tun_name (real_disconnect sys s) = priv_tun_name s"
  "watches (real_disconnect sys s) = watches s"
  "stdin_fds (real_disconnect sys s) = stdin_fds s"
  "persistent_tuns (real_disconnect sys s) = persistent_tuns s"
  "quit_pending (real_disconnect sys s) = quit_pending s"
  "gl_loop (real_disconnect sys s) = gl_loop s"
  "loop_quit (real_disconnect sys s) = loop_quit s"
  "disconnect_requested (real_disconnect sys s) = (disconnect_requested s \<or> priv_pid s \<noteq> 0)"
  "kill_timeout (real_disconnect sys s) =
     (if priv_pid s \<noteq> 0 \<and> kill_timeout s = 0 then sys_timeout_id sys else kill_timeout s)"
  by (auto simp: real_disconnect_def Let_def)

text \<open>A call of \<open>kill\<close> on the group, and on the process alone when that failed.\<close>

definition sigint_kills :: "sys \<Rightarrow> int \<Rightarrow> action list" where
  "sigint_kills sys pid =
     (if pid = 0 then []
      else Kill (- pid) SIGINT # (if sys_kill sys (- pid) SIGINT = KillOk then [] else [Kill pid SIGINT]))"

lemma real_disconnect_kills:
  "filter is_kill (trace (real_disconnect sys s)) = filter is_kill (trace s) @ sigint_kills sys (priv_pid s)"
  "filter is_ctl (trace (real_disconnect sys s)) = filter is_ctl (trace s) @ sigint_kills sys (priv_pid s)"
  "filter is_report (trace (real_disconnect sys s)) = filter is_report (trace s)"
  by (auto simp: real_disconnect_def sigint_kills_def Let_def)

lemma quit_mainloop_cases:
  "quit_mainloop sys s =
     (if priv_pid s = 0 then (act MainLoopQuit s)\<lparr>loop_quit := True\<rparr>
      else if disconnect_requested s then s\<lparr>quit_pending := True\<rparr>
      else real_disconnect sys (s\<lparr>quit_pending := True\<rparr>))"
  by (simp add: quit_mainloop_def Let_def)

text \<open>libnm's \<open>quit\<close> without a child ends the main loop at once. With one, the loop goes on with
  the quit pending, and the child is asked to stop, once: a disconnect that was already requested
  is not repeated. Nothing is reported as a failure.\<close>

theorem quit_spec:
  "let s' = quit_mainloop sys s in
     loop_quit s' = (loop_quit s \<or> priv_pid s = 0) \<and>
     priv_pid s' = priv_pid s \<and> watches s' = watches s \<and>
     quit_pending s' = (if priv_pid s = 0 then quit_pending s else True) \<and>
     disconnect_requested s' = (if priv_pid s = 0 then disconnect_requested s else True) \<and>
     filter is_kill (trace s') = filter is_kill (trace s) @
       (if disconnect_requested s then [] else sigint_kills sys (priv_pid s)) \<and>
     filter is_report (trace s') = filter is_report (trace s)"
  by (auto simp: quit_mainloop_cases Let_def real_disconnect_kills sigint_kills_def)

text \<open>C32: A quit with a child is completed by the exit of that child, whatever its status: the TUN
  device is given up, the loop ends, and nothing is reported as a failure.\<close>

theorem quit_completes_on_exit:
  assumes "priv_pid s \<noteq> 0" "gl_loop s"
  shows "let s' = openconnect_watch_cb sys' (priv_pid s) st (quit_mainloop sys s) in
    loop_quit s' \<and> priv_pid s' = 0 \<and> priv_tun_name s' = None \<and>
    filter is_report (trace s') = filter is_report (trace s)"
  using assms
  by (simp add: Let_def watch_cb_reports quit_mainloop_cases real_disconnect_kills)

text \<open>The kill timer sends \<open>SIGKILL\<close> to the child's process group when that can be signalled,
  else to the child when that can be, else not at all; without a child it does nothing.\<close>

theorem ensure_killed_spec:
  "kill_timeout (ensure_killed sys s) = 0 \<and> priv_pid (ensure_killed sys s) = priv_pid s \<and>
   trace (ensure_killed sys s) = trace s @
     (if priv_pid s = 0 then []
      else map (\<lambda>p. Kill p SIGKILL) (take 1 (filter (\<lambda>p. sys_kill sys p 0 = KillOk) [- priv_pid s, priv_pid s])))"
  by (simp add: ensure_killed_def Let_def)

section \<open>Asking for secrets\<close>

definition server_configured :: "vpn_setting \<Rightarrow> bool" where
  "server_configured v \<longleftrightarrow> get_secret v ''gateway'' \<noteq> None \<or> get_data_item v ''gateway'' \<noteq> None \<or>
     get_data_item v ''portal'' \<noteq> None"

lemma need_secrets_result:
  "fst (real_need_secrets gf sys c s) =
     (case c_vpn c of
        None \<Rightarrow> Inl InvalidConnectionSettings
      | Some v \<Rightarrow>
          (case validate_auth_secret_flags gf v of
             Inl e \<Rightarrow> Inl e
           | Inr _ \<Rightarrow> Inr (if server_configured v \<and> nonempty (get_secret v ''cookie'') then None else Some ''vpn'')))"
  by (auto simp: real_need_secrets_def server_configured_def NM_SETTING_VPN_SETTING_NAME_def Let_def
      split: option.splits sum.splits)

lemma need_secrets_same_child: "same_child s (snd (real_need_secrets gf sys c s))"
  by (simp add: real_need_secrets_def Let_def split: option.splits sum.splits)

lemma need_secrets_frame [simp]:
  "persistent_tuns (snd (real_need_secrets gf sys c s)) = persistent_tuns s"
  "priv_tun_name (snd (real_need_secrets gf sys c s)) = priv_tun_name s"
  by (simp_all add: real_need_secrets_def Let_def split: option.splits sum.splits)

text \<open>Secrets are asked for exactly when the profile names no server or carries no cookie, and
  never for a profile with unsafe secret flags, which is an error; the request starts, stops and
  forgets nothing, and touches NetworkManager's connections only when no child is running.\<close>

theorem need_secrets_spec:
  "fst (real_need_secrets gf sys c s) =
     (case c_vpn c of
        None \<Rightarrow> Inl InvalidConnectionSettings
      | Some v \<Rightarrow>
          if \<not> safe_flags (gf v ''cookie'') then Inl (UnsafeSecretFlags ''cookie'')
          else if \<not> safe_flags (gf v ''gateway'') then Inl (UnsafeSecretFlags ''gateway'')
          else Inr (if server_configured v \<and> nonempty (get_secret v ''cookie'') then None else Some ''vpn'')) \<and>
   same_child s (snd (real_need_secrets gf sys c s)) \<and>
   (priv_pid s = 0 \<or> snd (real_need_secrets gf sys c s) = s)"
proof -
  have "priv_pid s = 0 \<or> snd (real_need_secrets gf sys c s) = s"
    by (auto simp: real_need_secrets_def Let_def split: option.splits sum.splits)
  then show ?thesis
    by (auto simp: need_secrets_same_child need_secrets_result validate_auth_secret_flags_def check_secret_flags_cases
        split: option.splits)
qed

text \<open>Once the plugin says it needs no more secrets, a connection attempt with the same profile is
  not turned away for its secret flags, for missing secrets or for a missing cookie.\<close>

theorem need_secrets_then_connect:
  assumes "fst (real_need_secrets gf sys c s) = Inr None"
  shows "\<exists>v. c_vpn c = Some v \<and> validate_auth_secret_flags gf v = Inr () \<and>
    nm_openconnect_secrets_validate v = Inr () \<and> nonempty (get_secret v ''cookie'')"
proof -
  from assms obtain v where v: "c_vpn c = Some v" "validate_auth_secret_flags gf v = Inr ()"
    "nonempty (get_secret v ''cookie'')"
    by (auto simp: need_secrets_result split: option.splits sum.splits if_splits)
  then have "vs_secrets v \<noteq> []" by (auto simp: get_secret_def)
  with v show ?thesis by (simp add: secrets_validate_cases)
qed

section \<open>A failed spawn\<close>

text \<open>When \<open>gpclient\<close> cannot be spawned the persistent TUN device created for it is left behind,
  and the plugin still holds its name, although no child will ever exit and remove it.\<close>

theorem spawn_failure_leaves_tun:
  assumes "acceptable gf v" "start_guards cfg sys v"
    and "fst (create_persistent_tundev sys (cs_interface s_con) s) = Inr (Some name)"
    and "\<not> sys_file_exists sys (cfg_lock_file cfg)" "sys_spawn_async sys = (\<lambda>argv envp. Inl e)"
  shows "let (r, s') = real_connect cfg gf sys \<lparr>c_con = Some s_con, c_vpn = Some v\<rparr> s in
    r = Failed (Some e) \<and> priv_tun_name s' = Some name \<and> name \<in> set (persistent_tuns s') \<and> watches s' = watches s"
proof -
  obtain w where c: "create_persistent_tundev sys (cs_interface s_con) s = (Inr (Some name), w)"
    using assms(3) by (cases "create_persistent_tundev sys (cs_interface s_con) s") auto
  have ver: "nm_gpclient_check_version (sys_spawn_sync sys) (cfg_gpclient_binary cfg) ''gpclient'' = Inr ()"
    and gw: "(\<not> nonempty (props_vpn_gw v) \<and> \<not> nonempty (props_portal v)) = False"
    and cookie: "nonempty (get_secret v ''cookie'')"
    using assms(2) unfolding start_guards_def configured_mode_Some by blast+
  have "nm_openconnect_start_openconnect_binary cfg sys s_con v s = (Inl (Some e), w\<lparr>priv_tun_name := Some name\<rparr>)"
    by (simp add: nm_openconnect_start_openconnect_binary_def ver gw cookie c prepare_lock_cases assms(4,5)
        launch_gpclient_def Let_def)
  moreover have "name \<in> set (persistent_tuns w)" "watches w = watches s"
    using create_tun_persistent(2) [of sys "cs_interface s_con" s name] world_op_frame(6) [of sys "cs_interface s_con" s] c
    by simp_all
  ultimately show ?thesis
    using assms(1) by (simp add: real_connect_cases)
qed

section \<open>Runs of the service\<close>

text \<open>
  One step is one callback of the main loop, on fresh answers of the system. A spawned pid is
  positive and not that of a child still watched, and timer identifiers are positive, as the kernel
  and GLib promise. With \<open>calm\<close> true, libnm only connects when the plugin has no child.
\<close>

definition sys_ok :: "sys \<Rightarrow> service \<Rightarrow> bool" where
  "sys_ok sys s \<longleftrightarrow> sys_timeout_id sys \<noteq> 0 \<and>
     (\<forall>argv envp pid. sys_spawn_async sys argv envp = Inr pid \<longrightarrow> pid > 0 \<and> pid \<notin> set (watches s))"

inductive svc_step :: "bool \<Rightarrow> config \<Rightarrow> get_flags \<Rightarrow> service \<Rightarrow> service \<Rightarrow> bool" for calm cfg gf where
  step_connect: "\<not> loop_quit s \<Longrightarrow> sys_ok sys s \<Longrightarrow> (calm \<Longrightarrow> priv_pid s = 0) \<Longrightarrow>
     svc_step calm cfg gf s (snd (real_connect cfg gf sys \<lparr>c_con = Some s_con, c_vpn = Some v\<rparr> s))"
| step_need_secrets: "\<not> loop_quit s \<Longrightarrow>
     svc_step calm cfg gf s (snd (real_need_secrets gf sys c s))"
| step_disconnect: "\<not> loop_quit s \<Longrightarrow> sys_ok sys s \<Longrightarrow> svc_step calm cfg gf s (real_disconnect sys s)"
| step_quit: "\<not> loop_quit s \<Longrightarrow> sys_ok sys s \<Longrightarrow> svc_step calm cfg gf s (quit_mainloop sys s)"
| step_child_exit: "\<not> loop_quit s \<Longrightarrow> pid \<in> set (watches s) \<Longrightarrow>
     svc_step calm cfg gf s (openconnect_watch_cb sys pid status s)"
| step_kill_timer: "\<not> loop_quit s \<Longrightarrow> kill_timeout s \<noteq> 0 \<Longrightarrow> svc_step calm cfg gf s (ensure_killed sys s)"
| step_signal: "\<not> loop_quit s \<Longrightarrow> svc_step calm cfg gf s (signal_handler signo s)"

inductive_cases svc_stepE: "svc_step calm cfg gf s s'"

text \<open>The state \<open>main\<close> starts the loop in.\<close>

definition svc_init :: "service \<Rightarrow> bool" where
  "svc_init s \<longleftrightarrow> priv_pid s = 0 \<and> priv_tun_name s = None \<and> \<not> disconnect_requested s \<and> \<not> quit_pending s \<and>
     kill_timeout s = 0 \<and> watches s = [] \<and> gl_loop s \<and> \<not> loop_quit s \<and> filter is_ctl (trace s) = []"

definition last_spawn :: "action list \<Rightarrow> int" where
  "last_spawn t = (case dropWhile (\<lambda>a. \<not> is_spawn a) t of Spawn argv envp pid # _ \<Rightarrow> pid | _ \<Rightarrow> 0)"

text \<open>Every \<open>SIGKILL\<close> comes after a \<open>SIGINT\<close> to the same process group since the last spawn, and every
  signal goes to the process spawned last; \<open>t\<close> is newest first.\<close>

fun polite :: "action list \<Rightarrow> bool" where
  "polite [] = True"
| "polite (Kill p sig # t) =
     ((sig = SIGKILL \<longrightarrow> Kill (- \<bar>p\<bar>) SIGINT \<in> set (takeWhile (\<lambda>a. \<not> is_spawn a) t)) \<and>
      p \<noteq> 0 \<and> last_spawn t = \<bar>p\<bar> \<and> polite t)"
| "polite (a # t) = polite t"

definition ctl :: "service \<Rightarrow> action list" where
  "ctl s = rev (filter is_ctl (trace s))"

definition svc_inv :: "service \<Rightarrow> bool" where
  "svc_inv s \<longleftrightarrow>
     (kill_timeout s \<noteq> 0 \<longrightarrow> disconnect_requested s) \<and>
     (disconnect_requested s \<longrightarrow> priv_pid s \<noteq> 0 \<and>
        Kill (- priv_pid s) SIGINT \<in> set (takeWhile (\<lambda>a. \<not> is_spawn a) (ctl s))) \<and>
     (quit_pending s \<longrightarrow> loop_quit s \<or> disconnect_requested s) \<and>
     watches s = (if priv_pid s = 0 then [] else [priv_pid s]) \<and> priv_pid s \<ge> 0 \<and>
     (priv_pid s \<noteq> 0 \<longrightarrow> last_spawn (ctl s) = priv_pid s) \<and>
     gl_loop s \<and>
     (\<forall>n. priv_tun_name s = Some n \<longrightarrow> n \<in> set (persistent_tuns s)) \<and>
     polite (ctl s)"

lemma last_spawn_simps [simp]:
  "last_spawn (Kill p sig # t) = last_spawn t"
  "last_spawn (Spawn argv envp pid # t) = pid"
  by (simp_all add: last_spawn_def)

lemma ctl_same: "filter is_ctl (trace s') = filter is_ctl (trace s) \<Longrightarrow> ctl s' = ctl s"
  by (simp add: ctl_def)

lemma ctl_append: "filter is_ctl (trace s') = filter is_ctl (trace s) @ as \<Longrightarrow> ctl s' = rev as @ ctl s"
  by (simp add: ctl_def)

lemma inv_same_child:
  assumes "svc_inv s" "same_child s s'"
    and "\<And>n. priv_tun_name s' = Some n \<Longrightarrow> n \<in> set (persistent_tuns s')"
  shows "svc_inv s'"
  using assms by (auto simp: svc_inv_def same_child_def ctl_def)

lemma inv_disconnect:
  assumes "svc_inv s" "sys_timeout_id sys \<noteq> 0"
  shows "svc_inv (real_disconnect sys s)"
  using assms
  by (auto simp: svc_inv_def ctl_append [OF real_disconnect_kills(2)] sigint_kills_def SIGINT_def SIGKILL_def)

lemma inv_connect:
  assumes inv: "svc_inv s" and idle: "priv_pid s = 0" and run: "\<not> loop_quit s"
    and ok: "sys_ok sys s"
  shows "svc_inv (snd (real_connect cfg gf sys \<lparr>c_con = Some s_con, c_vpn = Some v\<rparr> s))"
proof (cases "acceptable gf v")
  case True
  obtain r s' where st: "nm_openconnect_start_openconnect_binary cfg sys s_con v s = (r, s')"
    by (cases "nm_openconnect_start_openconnect_binary cfg sys s_con v s")
  from st have "svc_inv s'"
  proof (cases rule: start_cases)
    case (refused e)
    with inv inv_same_child [OF inv refused(2)] show ?thesis by auto
  next
    case (launched tun s1 cookie)
    have tuns: "n \<in> set (persistent_tuns s1)" if "priv_tun_name s1 = Some n" for n
      using launched(5-7) create_tun_persistent(2) [of sys "cs_interface s_con" s n] that by simp
    from launched(9,3) show ?thesis
    proof (cases rule: launch_cases)
      case (spawn e)
      with inv_same_child [OF inv launched(4)] tuns show ?thesis by simp
    next
      case (pipe pid)
      with inv idle launched(4) tuns show ?thesis
        by (auto simp: svc_inv_def same_child_def ctl_def)
    next
      case started: (ok pid)
      then have "pid > 0" using assms(4) by (auto simp: sys_ok_def)
      with started inv idle run launched(4) tuns show ?thesis
        by (auto simp: svc_inv_def same_child_def ctl_def sys_ok_def)
    qed
  qed
  with st True show ?thesis by (simp add: real_connect_cases)
next
  case False
  with inv show ?thesis by (simp add: real_connect_cases)
qed

lemma inv_step: "svc_inv s \<Longrightarrow> svc_step True cfg gf s s' \<Longrightarrow> svc_inv s'"
proof (erule svc_stepE, goal_cases)
  case (1 sys s_con v)
  then show ?case using inv_connect by simp
next
  case (2 sys c)
  then show ?case
    using inv_same_child [OF 2(1) need_secrets_same_child [of s gf sys c]] by (simp add: svc_inv_def)
next
  case (3 sys)
  then show ?case using inv_disconnect by (simp add: sys_ok_def)
next
  case (4 sys)
  then have "svc_inv (real_disconnect sys (s\<lparr>quit_pending := True\<rparr>))" if "priv_pid s \<noteq> 0" "\<not> disconnect_requested s"
    using that by (auto simp: svc_inv_def real_disconnect_kills(2) ctl_def sigint_kills_def
        SIGINT_def SIGKILL_def sys_ok_def)
  moreover have "svc_inv (s\<lparr>quit_pending := True\<rparr>)" if "disconnect_requested s"
    using 4(1) that by (auto simp: svc_inv_def ctl_def)
  moreover have "svc_inv ((act MainLoopQuit s)\<lparr>loop_quit := True\<rparr>)"
    using 4(1) by (auto simp: svc_inv_def ctl_def)
  ultimately show ?case
    using 4 by (simp add: quit_mainloop_cases)
next
  case (5 pid sys status)
  then show ?case
    by (auto simp: svc_inv_def ctl_same [OF watch_cb_other_filters(2)] split: if_splits)
next
  case (6 sys)
  then show ?case
    by (auto simp: svc_inv_def ensure_killed_def Let_def ctl_def)
next
  case (7 signo)
  then show ?case by (simp add: signal_handler_def svc_inv_def ctl_def)
qed

interpretation svc: invariant_system svc_init "svc_step True cfg gf" svc_inv for cfg gf
proof
  show "svc_inv s" if "svc_init s" for s
    using that by (simp add: svc_init_def svc_inv_def ctl_def)
qed (rule inv_step)

section \<open>Properties of runs\<close>

lemma polite_append: "polite (xs @ ys) \<Longrightarrow> polite ys"
  by (induction xs rule: polite.induct) auto

lemma last_spawn_split:
  assumes "last_spawn t = p" "p \<noteq> 0"
  obtains argv envp u where "t = takeWhile (\<lambda>a. \<not> is_spawn a) t @ Spawn argv envp p # u"
proof (cases "dropWhile (\<lambda>a. \<not> is_spawn a) t")
  case Nil
  have "last_spawn t = 0" unfolding last_spawn_def Nil by simp
  with assms show ?thesis by simp
next
  case (Cons a u)
  then have "is_spawn a" by (metis dropWhile_eq_Cons_conv)
  then obtain argv envp q where q: "a = Spawn argv envp q" by (cases a) auto
  then have "q = p" using Cons assms(1) by (simp add: last_spawn_def)
  moreover have "t = takeWhile (\<lambda>a. \<not> is_spawn a) t @ a # u"
    using takeWhile_dropWhile_id [of "\<lambda>a. \<not> is_spawn a" t] Cons by simp
  ultimately show ?thesis using q that by blast
qed

lemma polite_sigkill:
  assumes "polite (rev (filter is_ctl (us @ Kill p SIGKILL # vs)))"
  shows "\<exists>us1 argv envp us2. us = us1 @ Spawn argv envp \<bar>p\<bar> # us2 \<and> Kill (- \<bar>p\<bar>) SIGINT \<in> set us2"
proof -
  let ?t = "rev (filter is_ctl us)"
  have "polite (rev (filter is_ctl vs) @ Kill p SIGKILL # ?t)"
    using assms by simp
  then have "polite (Kill p SIGKILL # ?t)"
    by (rule polite_append)
  then have k: "Kill (- \<bar>p\<bar>) SIGINT \<in> set (takeWhile (\<lambda>a. \<not> is_spawn a) ?t)" "last_spawn ?t = \<bar>p\<bar>" "p \<noteq> 0"
    by simp_all
  then obtain argv envp u where t: "?t = takeWhile (\<lambda>a. \<not> is_spawn a) ?t @ Spawn argv envp \<bar>p\<bar> # u"
    by (auto elim: last_spawn_split)
  have "filter is_ctl us = rev u @ Spawn argv envp \<bar>p\<bar> # rev (takeWhile (\<lambda>a. \<not> is_spawn a) ?t)"
    using arg_cong [OF t, of rev] by simp
  from filter_split [OF this] obtain us1 us2 where "us = us1 @ Spawn argv envp \<bar>p\<bar> # us2"
    "filter is_ctl us2 = rev (takeWhile (\<lambda>a. \<not> is_spawn a) ?t)"
    by blast
  moreover from this(2) k(1) have "Kill (- \<bar>p\<bar>) SIGINT \<in> set us2"
    by (metis filter_is_subset set_rev subsetD)
  ultimately show ?thesis by blast
qed

text \<open>C2: In every run in which libnm connects only when no child is left, the plugin watches exactly
  the child it records, a pending kill timer means a disconnect was requested from that child, a
  pending quit will be completed by its exit, and a TUN device the plugin names is one it made
  persistent.\<close>

theorem calm_run_invariants:
  assumes "reach svc_init (svc_step True cfg gf) s"
  shows "watches s = (if priv_pid s = 0 then [] else [priv_pid s]) \<and>
    (kill_timeout s \<noteq> 0 \<longrightarrow> disconnect_requested s) \<and>
    (disconnect_requested s \<longrightarrow> priv_pid s \<noteq> 0) \<and>
    (quit_pending s \<longrightarrow> loop_quit s \<or> priv_pid s \<noteq> 0 \<and> disconnect_requested s) \<and>
    (\<forall>n. priv_tun_name s = Some n \<longrightarrow> n \<in> set (persistent_tuns s))"
  using svc.reach_inv [OF assms] by (auto simp: svc_inv_def)

text \<open>C1: In such a run no process is killed without notice: before every \<open>SIGKILL\<close> its target, the
  process or its group, was spawned by the service and then interrupted with \<open>SIGINT\<close>.\<close>

theorem calm_sigkill_after_sigint:
  assumes "reach svc_init (svc_step True cfg gf) s"
    and "trace s = us @ Kill p SIGKILL # vs"
  shows "\<exists>us1 argv envp us2. us = us1 @ Spawn argv envp \<bar>p\<bar> # us2 \<and> Kill (- \<bar>p\<bar>) SIGINT \<in> set us2"
proof (rule polite_sigkill)
  show "polite (rev (filter is_ctl (us @ Kill p SIGKILL # vs)))"
    using svc.reach_inv [OF assms(1)] assms(2) by (simp add: svc_inv_def ctl_def)
qed

section \<open>Example runs\<close>

definition sample_service :: service where
  "sample_service = \<lparr>gl_tun_owner = 0, gl_tun_group = 0, tun_fds = 0, persistent_tuns = [], trace = [],
     gl_debug = False, log_level = 5, gl_loop = True, loop_quit = False, priv_pid = 0, priv_tun_name = None,
     disconnect_requested = False, quit_pending = False, kill_timeout = 0, watches = [], stdin_fds = 0\<rparr>"

definition sample_gf :: get_flags where "sample_gf = (\<lambda>v k. Some 2)"

definition sample_con :: con_setting where
  "sample_con = \<lparr>cs_id = Some ''work'', cs_interface = Some ''gp0'', cs_permissions = []\<rparr>"

definition spawns :: "int \<Rightarrow> sys" where
  "spawns pid = sample_sys\<lparr>sys_spawn_async := (\<lambda>argv envp. Inr pid)\<rparr>"

definition connected :: "int \<Rightarrow> service \<Rightarrow> service" where
  "connected pid s = snd (real_connect sample_config sample_gf (spawns pid) \<lparr>c_con = Some sample_con, c_vpn = Some sample_vpn\<rparr> s)"

definition stopping :: "int \<Rightarrow> service \<Rightarrow> service" where
  "stopping pid s = real_disconnect (spawns 5000) (connected pid s)"

lemma spawns_ok: "pid > 0 \<Longrightarrow> pid \<notin> set (watches s) \<Longrightarrow> sys_ok (spawns pid) s"
  by (simp add: sys_ok_def spawns_def sample_sys_def)

lemma sample_reach: "reach svc_init (svc_step calm sample_config sample_gf) sample_service"
  by (rule reach_init) (simp add: svc_init_def sample_service_def)

lemma connected_fields:
  "priv_pid (connected 4242 sample_service) = 4242 \<and> loop_quit (connected 4242 sample_service) = False \<and>
   watches (connected 4242 sample_service) = [4242]"
  by code_simp

lemma stopping_fields:
  "priv_pid (stopping 4242 sample_service) = 4242 \<and> loop_quit (stopping 4242 sample_service) = False \<and>
   watches (stopping 4242 sample_service) = [4242] \<and> kill_timeout (stopping 4242 sample_service) = 1"
  by code_simp

lemma connected_step:
  assumes "reach svc_init (svc_step calm sample_config sample_gf) s" "\<not> loop_quit s" "calm \<Longrightarrow> priv_pid s = 0"
    "pid > 0" "pid \<notin> set (watches s)"
  shows "reach svc_init (svc_step calm sample_config sample_gf) (connected pid s)"
  using assms spawns_ok by (auto simp: connected_def intro!: reach_step [OF assms(1)] step_connect)

lemma stopping_reach: "reach svc_init (svc_step calm sample_config sample_gf) (stopping 4242 sample_service)"
proof (rule reach_step)
  show "reach svc_init (svc_step calm sample_config sample_gf) (connected 4242 sample_service)"
    by (rule connected_step [OF sample_reach]) (simp_all add: sample_service_def)
  show "svc_step calm sample_config sample_gf (connected 4242 sample_service) (stopping 4242 sample_service)"
    unfolding stopping_def
    by (rule step_disconnect) (simp_all add: connected_fields spawns_ok)
qed

theorem calm_run_invariants_witness:
  "watches (stopping 4242 sample_service) = [4242]"
  using calm_run_invariants [OF stopping_reach] stopping_fields by simp

theorem calm_sigkill_after_sigint_witness:
  "\<exists>us1 argv envp us2. trace (stopping 4242 sample_service) = us1 @ Spawn argv envp 4242 # us2 \<and>
     Kill (- 4242) SIGINT \<in> set us2"
proof -
  let ?s = "ensure_killed sample_sys (stopping 4242 sample_service)"
  have "reach svc_init (svc_step True sample_config sample_gf) ?s"
    by (rule reach_step [OF stopping_reach], rule step_kill_timer) (simp_all add: stopping_fields)
  moreover have "trace ?s = trace (stopping 4242 sample_service) @ Kill (- 4242) SIGKILL # []"
    by (simp add: ensure_killed_def Let_def stopping_fields) (simp add: sample_sys_def)
  ultimately show ?thesis
    using calm_sigkill_after_sigint [of sample_config sample_gf ?s "trace (stopping 4242 sample_service)" "- 4242" "[]"]
    by simp
qed

section \<open>Reconnecting during a shutdown\<close>

text \<open>
  libnm considers the plugin stopped as soon as \<open>real_disconnect\<close> returns, so it may connect again
  before the old child has exited.
\<close>

lemma connect_keeps_timer:
  assumes "real_connect cfg gf sys \<lparr>c_con = Some s_con, c_vpn = Some v\<rparr> s = (Connected, s')"
  shows "kill_timeout s' = kill_timeout s" "loop_quit s' = loop_quit s" "\<not> disconnect_requested s'"
    "watches s' = watches s @ [priv_pid s']"
    "\<exists>argv envp. sys_spawn_async sys argv envp = Inr (priv_pid s') \<and>
       filter is_ctl (trace s') = filter is_ctl (trace s) @ [Spawn argv envp (priv_pid s')]"
proof -
  have st: "nm_openconnect_start_openconnect_binary cfg sys s_con v s = (Inr (), s')"
    using assms by (auto simp: real_connect_cases split: if_splits sum.splits prod.splits)
  have "kill_timeout s' = kill_timeout s \<and> loop_quit s' = loop_quit s \<and> \<not> disconnect_requested s' \<and>
      watches s' = watches s @ [priv_pid s'] \<and>
      (\<exists>argv envp. sys_spawn_async sys argv envp = Inr (priv_pid s') \<and>
         filter is_ctl (trace s') = filter is_ctl (trace s) @ [Spawn argv envp (priv_pid s')])"
    using st
  proof (cases rule: start_cases)
    case (launched tun s1 cookie)
    from launched(9,3) show ?thesis
    proof (cases rule: launch_cases)
      case (ok pid)
      with launched(4) show ?thesis by (auto simp: same_child_def)
    qed simp_all
  qed simp
  then show "kill_timeout s' = kill_timeout s" "loop_quit s' = loop_quit s" "\<not> disconnect_requested s'"
    "watches s' = watches s @ [priv_pid s']"
    "\<exists>argv envp. sys_spawn_async sys argv envp = Inr (priv_pid s') \<and>
       filter is_ctl (trace s') = filter is_ctl (trace s) @ [Spawn argv envp (priv_pid s')]" by blast+
qed

text \<open>C34: A connection started while the kill timer of an earlier shutdown is still armed is killed by it: from
  any reachable state with the timer pending, whatever the profile and the answers of the system, a
  successful connect leaves the timer as it is, and when it fires, before anything else happens, the new
  child, which runs and which nobody asked to stop, gets a \<open>SIGKILL\<close> to its group and no \<open>SIGINT\<close> before
  it; no child of before, though still watched, gets anything. (The lock file must no longer name a live
  process by then, or the connect itself is refused.)\<close>

theorem reconnect_kills_new_child:
  assumes "reach svc_init (svc_step False cfg gf) s" "\<not> loop_quit s" "kill_timeout s \<noteq> 0"
    and "sys_ok sys s" "real_connect cfg gf sys \<lparr>c_con = Some s_con, c_vpn = Some v\<rparr> s = (Connected, s1)"
    and "sys_kill sys' (- priv_pid s1) 0 = KillOk" "s2 = ensure_killed sys' s1"
  shows "reach svc_init (svc_step False cfg gf) s2 \<and> priv_pid s2 = priv_pid s1 \<and> \<not> disconnect_requested s2 \<and>
    watches s2 = watches s @ [priv_pid s1] \<and> priv_pid s1 \<notin> set (watches s) \<and>
    (\<exists>argv envp. filter is_ctl (trace s2) =
       filter is_ctl (trace s) @ [Spawn argv envp (priv_pid s1), Kill (- priv_pid s1) SIGKILL])"
proof -
  note c = connect_keeps_timer [OF assms(5)]
  from c(5) obtain argv envp where sp: "sys_spawn_async sys argv envp = Inr (priv_pid s1)"
    "filter is_ctl (trace s1) = filter is_ctl (trace s) @ [Spawn argv envp (priv_pid s1)]" by blast
  have new: "priv_pid s1 > 0" "priv_pid s1 \<notin> set (watches s)" using assms(4) sp(1) by (auto simp: sys_ok_def)
  have "svc_step False cfg gf s s1" using step_connect [of s sys False cfg gf s_con v] assms(2,4,5) by simp
  with assms(1) have "reach svc_init (svc_step False cfg gf) s1" by (rule reach_step)
  moreover have "svc_step False cfg gf s1 s2"
    using c(1,2) assms(2,3) unfolding assms(7) by (intro step_kill_timer) simp_all
  ultimately have "reach svc_init (svc_step False cfg gf) s2" by (rule reach_step)
  moreover have "s2 = act (Kill (- priv_pid s1) SIGKILL) (s1\<lparr>kill_timeout := 0\<rparr>)"
    using new(1) assms(6) by (simp add: assms(7) ensure_killed_def Let_def)
  ultimately show ?thesis using c new sp(2) by simp
qed

text \<open>C35: And when the old child exits after the restart, the plugin forgets the new one: it gives up
  the new TUN device, reports a failure of the new connection or its end, and a later disconnect
  or quit no longer reaches the child that is still running.\<close>

theorem late_exit_orphans_new_child:
  assumes "watches s = [old, new]" "old \<noteq> new" "priv_pid s = new" "\<not> disconnect_requested s"
  shows "let s' = openconnect_watch_cb sys old st s in
    new \<in> set (watches s') \<and> priv_tun_name s' = None \<and>
    filter is_report (trace s') = filter is_report (trace s) @ [exit_report st] \<and>
    real_disconnect sys' s' = s' \<and> loop_quit (quit_mainloop sys' s')"
  using assms by (simp add: Let_def watch_cb_reports real_disconnect_def quit_mainloop_def)

lemma restarted:
  "real_connect sample_config sample_gf (spawns 4243) \<lparr>c_con = Some sample_con, c_vpn = Some sample_vpn\<rparr>
     (stopping 4242 sample_service) = (Connected, connected 4243 (stopping 4242 sample_service))"
proof -
  have "fst (real_connect sample_config sample_gf (spawns 4243) \<lparr>c_con = Some sample_con, c_vpn = Some sample_vpn\<rparr>
     (stopping 4242 sample_service)) = Connected" by code_simp
  then show ?thesis by (simp add: connected_def prod_eq_iff)
qed

lemma restarted_fields:
  "priv_pid (connected 4243 (stopping 4242 sample_service)) = 4243"
  "watches (connected 4243 (stopping 4242 sample_service)) = [4242, 4243]"
  by code_simp+

theorem reconnect_kills_new_child_witness:
  "\<exists>s. reach svc_init (svc_step False sample_config sample_gf) s \<and> watches s = [4242, 4243] \<and> \<not> disconnect_requested s \<and>
     Kill (- 4243) SIGKILL \<in> set (trace s)"
proof -
  have "sys_ok (spawns 4243) (stopping 4242 sample_service)" by (rule spawns_ok) (simp_all add: stopping_fields)
  moreover have "sys_kill sample_sys (- priv_pid (connected 4243 (stopping 4242 sample_service))) 0 = KillOk"
    by (simp add: sample_sys_def)
  ultimately obtain s argv envp where s: "reach svc_init (svc_step False sample_config sample_gf) s"
    "watches s = [4242] @ [4243]" "\<not> disconnect_requested s"
    "filter is_ctl (trace s) = filter is_ctl (trace (stopping 4242 sample_service)) @ [Spawn argv envp 4243, Kill (- 4243) SIGKILL]"
    using reconnect_kills_new_child [OF stopping_reach _ _ _ restarted _ refl, of sample_sys]
    by (auto simp: stopping_fields restarted_fields)
  have "Kill (- 4243) SIGKILL \<in> set (filter is_ctl (trace s))" unfolding s(4) by simp
  then have "Kill (- 4243) SIGKILL \<in> set (trace s)" by (simp only: set_filter mem_Collect_eq)
  moreover have "watches s = [4242, 4243]" using s(2) by simp
  ultimately show ?thesis using s(1,3) by blast
qed

theorem late_exit_orphans_new_child_witness:
  "real_disconnect sample_sys (openconnect_watch_cb sample_sys 4242 0 (connected 4243 (stopping 4242 sample_service))) =
     openconnect_watch_cb sample_sys 4242 0 (connected 4243 (stopping 4242 sample_service))"
proof -
  have "\<not> disconnect_requested (connected 4243 (stopping 4242 sample_service))" by code_simp
  then show ?thesis
    using late_exit_orphans_new_child [of "connected 4243 (stopping 4242 sample_service)" 4242 4243 sample_sys 0 sample_sys]
    by (simp add: restarted_fields Let_def)
qed

section \<open>Further examples\<close>

lemma connected_result:
  "fst (real_connect sample_config sample_gf (spawns 4242) \<lparr>c_con = Some sample_con, c_vpn = Some sample_vpn\<rparr> sample_service) = Connected"
  by code_simp

theorem connect_starts_one_child_witness:
  "acceptable sample_gf sample_vpn \<and> watches (connected 4242 sample_service) = [4242]"
  using connect_starts_one_child [of sample_config sample_gf "spawns 4242" sample_con sample_vpn sample_service "connected 4242 sample_service"]
    connected_result connected_fields
  by (simp add: connected_def prod_eq_iff Let_def)


theorem quit_completes_on_exit_witness:
  "loop_quit (openconnect_watch_cb sample_sys 4242 0 (quit_mainloop sample_sys (connected 4242 sample_service)))"
proof -
  have "gl_loop (connected 4242 sample_service)" by code_simp
  then show ?thesis
    using quit_completes_on_exit [of "connected 4242 sample_service" sample_sys 0 sample_sys]
    by (simp add: connected_fields Let_def)
qed

theorem need_secrets_then_connect_witness:
  "validate_auth_secret_flags sample_gf sample_vpn = Inr ()"
proof -
  have "fst (real_need_secrets sample_gf sample_sys \<lparr>c_con = Some sample_con, c_vpn = Some sample_vpn\<rparr> sample_service) = Inr None"
    by code_simp
  then show ?thesis
    using need_secrets_then_connect by fastforce
qed

theorem spawn_failure_leaves_tun_witness:
  "priv_tun_name (snd (real_connect sample_config sample_gf (sample_sys\<lparr>sys_spawn_async := (\<lambda>argv envp. Inl NoSecrets)\<rparr>)
     \<lparr>c_con = Some sample_con, c_vpn = Some sample_vpn\<rparr> sample_service)) = Some ''gp0''"
proof -
  let ?sys = "sample_sys\<lparr>sys_spawn_async := (\<lambda>argv envp. Inl NoSecrets)\<rparr>"
  have "acceptable sample_gf sample_vpn" "start_guards sample_config ?sys sample_vpn"
    "fst (create_persistent_tundev ?sys (cs_interface sample_con) sample_service) = Inr (Some ''gp0'')"
    "\<not> sys_file_exists ?sys (cfg_lock_file sample_config)"
    by code_simp+
  then show ?thesis
    using spawn_failure_leaves_tun [of sample_gf sample_vpn sample_config ?sys sample_con sample_service "''gp0''" NoSecrets]
    by (simp add: split_beta Let_def)
qed

end
