(* ===== verification/Tests.thy ===== *)
theory Tests
  imports Service_Loop "HOL-Library.Sublist"
begin

text \<open>
  The test programs \<open>tools/test-secret-flags.c\<close> and \<open>tools/test-disconnect.c\<close>, which call the service's
  functions in-process, as executions of the model: each test is the value of all its assertions, and
  the theorems say that they hold whatever the rest of the system answers.

  The main loop of \<open>test-disconnect.c\<close> is the order of its callbacks: the request, the kill timer if the
  child ignored the interrupt, the child watch. libnm's base class, which keeps the state of the plugin and
  emits \<open>quit\<close>, is a parameter.
\<close>

section \<open>\<open>test-secret-flags.c\<close>\<close>

definition new_profile :: vpn_setting where
  "new_profile =
     add_data_item ''gateway-flags'' ''2'' (add_data_item ''cookie-flags'' ''2'' (add_data_item ''as_gateway'' ''yes''
       (add_data_item ''gateway'' ''gateway.example.edu''
         (nm_setting_vpn_new\<lparr>vs_service := NM_VPN_SERVICE_TYPE_OPENCONNECT\<rparr>))))"

definition test_connection :: "vpn_setting \<Rightarrow> connection" where
  "test_connection vpn =
     \<lparr>c_con = Some \<lparr>cs_id = Some ''secret-flags-test'', cs_interface = None, cs_permissions = []\<rparr>, c_vpn = Some vpn\<rparr>"

definition unsafe_values :: "cstr list" where
  "unsafe_values = [None, Some [], Some ''0'', Some ''1'', Some ''4'', Some ''5'', Some ''6'', Some ''7'', Some ''8'',
     Some ''-1'', Some ''invalid'', Some ''2junk'']"

text \<open>The second check, with a setting no validator accepts: the plugin must not start anything.\<close>

definition connect_refused :: "config \<Rightarrow> get_flags \<Rightarrow> sys \<Rightarrow> err_code \<Rightarrow> vpn_setting \<Rightarrow> service \<Rightarrow> bool" where
  "connect_refused cfg gf sys code vpn plugin =
     (case real_connect cfg gf sys (test_connection (add_data_item ''no_dtls'' ''invalid-test-value'' vpn)) plugin of
        (Failed (Some e), plugin) \<Rightarrow> error_code e = code \<and> priv_pid plugin = 0
      | _ \<Rightarrow> False)"

text \<open>The message of the error, untranslated: it names the key and the remedy.\<close>

definition unsafe_flags_message :: "string \<Rightarrow> string" where
  "unsafe_flags_message key =
     ''Unsafe VPN secret flags for '' @ [CHR 0x27] @ key @ [CHR 0x27] @
     ''. Set cookie-flags=2 and gateway-flags=2 in vpn.data, remove saved cookie/gateway secrets from the profile and keyring, then reconnect.''"

definition message_helps :: "string \<Rightarrow> string \<Rightarrow> bool" where
  "message_helps message key \<longleftrightarrow> sublist key message \<and> sublist ''cookie-flags=2'' message \<and>
     sublist ''gateway-flags=2'' message \<and> \<not> sublist ''expired-test-token'' message"

definition unsafe_case :: "config \<Rightarrow> get_flags \<Rightarrow> sys \<Rightarrow> service \<Rightarrow> string \<Rightarrow> cstr \<Rightarrow> bool \<Rightarrow> bool" where
  "unsafe_case cfg gf sys s key flag with_cookie =
     (let vpn = (case flag of Some v \<Rightarrow> add_data_item (key @ ''-flags'') v new_profile
                 | None \<Rightarrow> remove_data_item (key @ ''-flags'') new_profile);
          vpn = (if with_cookie
                 then add_secret ''gateway'' ''gateway.example.edu'' (add_secret ''cookie'' ''expired-test-token'' vpn) else vpn);
          (r, plugin) = real_need_secrets gf sys (test_connection vpn) (s\<lparr>priv_pid := 1\<rparr>)
      in (case r of
            Inl (UnsafeSecretFlags k) \<Rightarrow> error_code (UnsafeSecretFlags k) = VPN_ERROR_INVALID_CONNECTION \<and>
              message_helps (unsafe_flags_message k) key
          | _ \<Rightarrow> False) \<and>
         connect_refused cfg gf sys VPN_ERROR_INVALID_CONNECTION vpn (plugin\<lparr>priv_pid := 0\<rparr>))"

definition test_unsafe_flags :: "config \<Rightarrow> get_flags \<Rightarrow> sys \<Rightarrow> service \<Rightarrow> bool" where
  "test_unsafe_flags cfg gf sys s \<longleftrightarrow>
     list_all (\<lambda>key. list_all (\<lambda>flag. list_all (unsafe_case cfg gf sys s key flag) [False, True]) unsafe_values)
       [''cookie'', ''gateway'']"

definition safe_case :: "config \<Rightarrow> get_flags \<Rightarrow> sys \<Rightarrow> service \<Rightarrow> string \<Rightarrow> string \<Rightarrow> cstr \<Rightarrow> bool" where
  "safe_case cfg gf sys s cookie_flags gateway_flags cookie =
     (let vpn = add_data_item ''gateway-flags'' gateway_flags (add_data_item ''cookie-flags'' cookie_flags new_profile);
          vpn = (case cookie of Some c \<Rightarrow> add_secret ''cookie'' c vpn | None \<Rightarrow> vpn);
          expected = (\<not> nonempty cookie);
          (r, plugin) = real_need_secrets gf sys (test_connection vpn) (s\<lparr>priv_pid := 1\<rparr>)
      in r = Inr (if expected then Some NM_SETTING_VPN_SETTING_NAME else None) \<and> get_secret vpn ''cookie'' = cookie \<and>
         connect_refused cfg gf sys VPN_ERROR_BAD_ARGUMENTS vpn (plugin\<lparr>priv_pid := 0\<rparr>))"

definition test_safe_flags :: "config \<Rightarrow> get_flags \<Rightarrow> sys \<Rightarrow> service \<Rightarrow> bool" where
  "test_safe_flags cfg gf sys s \<longleftrightarrow>
     list_all (\<lambda>cf. list_all (\<lambda>gwf. list_all (safe_case cfg gf sys s cf gwf) [None, Some [], Some ''fresh-test-token''])
       [''2'', ''3'']) [''2'', ''3'']"

text \<open>What libnm makes of the texts the tests store as flags.\<close>

definition flag_text_law :: "get_flags \<Rightarrow> bool" where
  "flag_text_law gf \<longleftrightarrow>
     (\<forall>s k. if get_data_item s (k @ ''-flags'') = Some ''2'' then gf s k = Some 2
        else if get_data_item s (k @ ''-flags'') = Some ''3'' then gf s k = Some 3
        else if get_data_item s (k @ ''-flags'') \<in> set unsafe_values then \<not> safe_flags (gf s k) else True)"

lemma flag_text_safe:
  assumes "flag_text_law gf"
  shows "get_data_item s (k @ ''-flags'') \<in> set unsafe_values \<Longrightarrow> \<not> safe_flags (gf s k)"
    "get_data_item s (k @ ''-flags'') = Some ''2'' \<or> get_data_item s (k @ ''-flags'') = Some ''3'' \<Longrightarrow> safe_flags (gf s k)"
proof -
  have n: "Some ''2'' \<notin> set unsafe_values" "Some ''3'' \<notin> set unsafe_values" by (simp_all add: unsafe_values_def)
  note law = assms [unfolded flag_text_law_def, rule_format, of s k]
  show "get_data_item s (k @ ''-flags'') \<in> set unsafe_values \<Longrightarrow> \<not> safe_flags (gf s k)"
    using law n by (auto split: if_splits)
  show "get_data_item s (k @ ''-flags'') = Some ''2'' \<or> get_data_item s (k @ ''-flags'') = Some ''3'' \<Longrightarrow> safe_flags (gf s k)"
    using law by (auto simp: safe_flags_def split: if_splits)
qed

lemma get_new_profile:
  "get_data_item new_profile k = map_of [(''gateway'', ''gateway.example.edu''), (''as_gateway'', ''yes''), (''cookie-flags'', ''2''),
     (''gateway-flags'', ''2'')] k"
  by (simp add: new_profile_def data_items.get_put) (simp add: get_data_item_def nm_setting_vpn_new_def)

lemma connect_refused_iff:
  "connect_refused cfg gf sys code vpn plugin \<longleftrightarrow> priv_pid plugin = 0 \<and>
     (let v = add_data_item ''no_dtls'' ''invalid-test-value'' vpn in
      error_code (case validate_auth_secret_flags gf v of Inl e \<Rightarrow> e | Inr _ \<Rightarrow>
        case nm_openconnect_properties_validate v of Inl e \<Rightarrow> e | Inr _ \<Rightarrow> NoSecrets) = code)"
proof -
  let ?v = "add_data_item ''no_dtls'' ''invalid-test-value'' vpn"
  have "get_data_item ?v ''no_dtls'' = Some ''invalid-test-value''" by (simp add: data_items.get_put)
  then have "(''no_dtls'', ''invalid-test-value'') \<in> set (vs_data ?v)"
    by (simp add: get_data_item_def map_of_SomeD)
  moreover have "bad_item valid_properties (''no_dtls'', ''invalid-test-value'')"
    by (simp add: bad_item_properties boolean_settings_def)
  ultimately have "\<not> acceptable gf ?v" unfolding acceptable_def filter_empty_conv by blast
  then show ?thesis by (auto simp: connect_refused_def test_connection_def real_connect_cases Let_def)
qed

lemma bad_properties_error:
  assumes "get_data_item v ''no_dtls'' = Some ''invalid-test-value''"
  obtains k where "nm_openconnect_properties_validate v = Inl (BadBooleanProperty k)"
proof -
  have m: "(''no_dtls'', ''invalid-test-value'') \<in> set (vs_data v)" using assms by (simp add: get_data_item_def map_of_SomeD)
  then have "nm_openconnect_properties_validate v \<noteq> Inr ()"
    by (force simp: properties_validate_ok bad_item_properties boolean_settings_def)
  then obtain e where "nm_openconnect_properties_validate v = Inl e"
    by (cases "nm_openconnect_properties_validate v") auto
  with m that show thesis by (auto simp: properties_validate_cases first_bad_def split: if_splits option.splits prod.splits)
qed

lemma messages_help: "key = ''cookie'' \<or> key = ''gateway'' \<Longrightarrow> message_helps (unsafe_flags_message key) key"
proof -
  have "list_all (\<lambda>key. message_helps (unsafe_flags_message key) key) [''cookie'', ''gateway'']" by code_simp
  then show "key = ''cookie'' \<or> key = ''gateway'' \<Longrightarrow> ?thesis" by auto
qed

lemma unsafe_case_passes:
  assumes "flag_text_law gf" "key = ''cookie'' \<or> key = ''gateway''" "flag \<in> set unsafe_values"
  shows "unsafe_case cfg gf sys s key flag with_cookie"
proof -
  define vpn0 where "vpn0 = (case flag of Some v \<Rightarrow> add_data_item (key @ ''-flags'') v new_profile
      | None \<Rightarrow> remove_data_item (key @ ''-flags'') new_profile)"
  define vpn where "vpn = (if with_cookie
      then add_secret ''gateway'' ''gateway.example.edu'' (add_secret ''cookie'' ''expired-test-token'' vpn0) else vpn0)"
  define v2 where "v2 = add_data_item ''no_dtls'' ''invalid-test-value'' vpn"
  have d: "get_data_item vpn k = (if k = key @ ''-flags'' then flag else get_data_item new_profile k)" for k
    by (cases flag) (simp_all add: vpn_def vpn0_def data_items.get_put data_items.get_del)
  have d2: "k \<noteq> ''no_dtls'' \<Longrightarrow> get_data_item v2 k = get_data_item vpn k" for k by (simp add: v2_def data_items.get_put)
  have bad: "\<not> safe_flags (gf vpn key)" "\<not> safe_flags (gf v2 key)"
    using assms(2,3) d d2 [of "key @ ''-flags''"] by (auto intro!: flag_text_safe(1) [OF assms(1)])
  have good: "safe_flags (gf vpn ''cookie'') \<and> safe_flags (gf v2 ''cookie'')" if "key = ''gateway''"
    using that d d2 [of "''cookie-flags''"] by (auto intro!: flag_text_safe(2) [OF assms(1)] simp: get_new_profile)
  have v: "validate_auth_secret_flags gf vpn = Inl (UnsafeSecretFlags key)"
    "validate_auth_secret_flags gf v2 = Inl (UnsafeSecretFlags key)"
    using bad good assms(2) by (auto simp: validate_auth_secret_flags_def check_secret_flags_cases)
  obtain r p where n: "real_need_secrets gf sys (test_connection vpn) (s\<lparr>priv_pid := 1\<rparr>) = (r, p)"
    by (cases "real_need_secrets gf sys (test_connection vpn) (s\<lparr>priv_pid := 1\<rparr>)")
  have "r = Inl (UnsafeSecretFlags key)"
    using need_secrets_result [of gf sys "test_connection vpn" "s\<lparr>priv_pid := 1\<rparr>"] v(1) n by (simp add: test_connection_def)
  then show ?thesis
    using v(2) n messages_help [OF assms(2)] by (simp add: unsafe_case_def vpn0_def [symmetric] vpn_def [symmetric] connect_refused_iff v2_def Let_def)
qed

lemma safe_case_passes:
  assumes "flag_text_law gf" "cf = ''2'' \<or> cf = ''3''" "gwf = ''2'' \<or> gwf = ''3''"
  shows "safe_case cfg gf sys s cf gwf cookie"
proof -
  define vpn0 where "vpn0 = add_data_item ''gateway-flags'' gwf (add_data_item ''cookie-flags'' cf new_profile)"
  define vpn where "vpn = (case cookie of Some c \<Rightarrow> add_secret ''cookie'' c vpn0 | None \<Rightarrow> vpn0)"
  define v2 where "v2 = add_data_item ''no_dtls'' ''invalid-test-value'' vpn"
  have d: "get_data_item vpn = get_data_item vpn0" by (cases cookie) (simp_all add: vpn_def)
  have "get_secret new_profile k = None" for k by (simp add: new_profile_def) (simp add: get_secret_def nm_setting_vpn_new_def)
  then have c: "get_secret vpn ''cookie'' = cookie"
    by (cases cookie) (simp_all add: vpn_def vpn0_def secrets.get_put)
  have safe: "safe_flags (gf vpn ''cookie'')" "safe_flags (gf vpn ''gateway'')"
    "safe_flags (gf v2 ''cookie'')" "safe_flags (gf v2 ''gateway'')"
    using assms(2,3)
    by (auto intro!: flag_text_safe(2) [OF assms(1)] simp: d v2_def vpn0_def data_items.get_put)
  then have v: "validate_auth_secret_flags gf vpn = Inr ()" "validate_auth_secret_flags gf v2 = Inr ()"
    by (simp_all add: validate_flags_ok)
  obtain k where k: "nm_openconnect_properties_validate v2 = Inl (BadBooleanProperty k)"
    by (rule bad_properties_error [of v2]) (simp add: v2_def data_items.get_put)
  have srv: "server_configured vpn" by (simp add: server_configured_def d vpn0_def data_items.get_put get_new_profile)
  obtain r p where n: "real_need_secrets gf sys (test_connection vpn) (s\<lparr>priv_pid := 1\<rparr>) = (r, p)"
    by (cases "real_need_secrets gf sys (test_connection vpn) (s\<lparr>priv_pid := 1\<rparr>)")
  have "r = Inr (if \<not> nonempty cookie then Some NM_SETTING_VPN_SETTING_NAME else None)"
    using need_secrets_result [of gf sys "test_connection vpn" "s\<lparr>priv_pid := 1\<rparr>"] v(1) n srv c
    by (simp add: test_connection_def NM_SETTING_VPN_SETTING_NAME_def)
  then show ?thesis
    using v(2) n c k by (simp add: safe_case_def vpn0_def [symmetric] vpn_def [symmetric] connect_refused_iff v2_def Let_def)
qed

text \<open>Every assertion of \<open>test-secret-flags.c\<close> holds in the model, whatever the system answers and in
  every state of the plugin: all twelve unsafe texts are refused for either secret, with and without a
  retained cookie, naming the secret and before anything is started; every safe combination gets past
  the guard into ordinary validation.\<close>

theorem secret_flag_tests_pass:
  assumes "flag_text_law gf"
  shows "test_unsafe_flags cfg gf sys s \<and> test_safe_flags cfg gf sys s"
  using unsafe_case_passes [OF assms] safe_case_passes [OF assms]
  by (simp add: test_unsafe_flags_def test_safe_flags_def list_all_iff)

text \<open>A libnm that reads the flags as the decimal number stored, and fails on any other text.\<close>

definition digit_flags :: get_flags where
  "digit_flags s k = map_option of_nat
     (List.find (\<lambda>n. get_data_item s (k @ ''-flags'') = Some (show_nat n)) [0, 1, 2, 3, 4, 5, 6, 7])"

lemma digit_flags_law: "flag_text_law digit_flags"
proof -
  have n: "map show_nat [0, 1, 2, 3, 4, 5, 6, 7] = [''0'', ''1'', ''2'', ''3'', ''4'', ''5'', ''6'', ''7'']" by code_simp
  show ?thesis
    using n by (auto simp: flag_text_law_def digit_flags_def unsafe_values_def safe_flags_def)
qed

theorem secret_flag_tests_pass_witness:
  "test_unsafe_flags sample_config digit_flags sample_sys sample_service \<and>
     test_safe_flags sample_config digit_flags sample_sys sample_service"
  by (rule secret_flag_tests_pass [OF digit_flags_law])

section \<open>\<open>test-disconnect.c\<close>\<close>

text \<open>The children of \<open>start_child\<close> leave with code 2 when interrupted, unless they ignore it; \<open>SIGKILL\<close>
  ends both. The wait status of a child to which, alone or through its group, the listed signals were sent.\<close>

definition child_status :: "sys \<Rightarrow> int \<Rightarrow> bool \<Rightarrow> action list \<Rightarrow> u32 option" where
  "child_status sys pid ignore_interrupt as =
     (let reached = (\<lambda>sig. list_ex (\<lambda>t. Kill t sig \<in> set as \<and> sys_kill sys t sig = KillOk) [pid, - pid])
      in if \<not> ignore_interrupt \<and> reached SIGINT then Some (push_bit 8 2)
         else if reached SIGKILL then Some 9 else None)"

definition failure_cb :: "service \<Rightarrow> failure list" where
  "failure_cb s = concat (map (\<lambda>a. case a of ReportFailure reason \<Rightarrow> [reason] | _ \<Rightarrow> []) (trace s))"

text \<open>A fresh plugin object in a running loop, with a child in its own process group and the watch attached.\<close>

definition started_plugin :: "int \<Rightarrow> service \<Rightarrow> service" where
  "started_plugin pid s = s\<lparr>trace := [], priv_pid := pid, watches := [pid], gl_loop := True, loop_quit := False,
     disconnect_requested := False, quit_pending := False, kill_timeout := 0, priv_tun_name := None\<rparr>"

text \<open>libnm's base class, with the state it keeps of a plugin: what \<open>nm_vpn_service_plugin_disconnect\<close> and
  \<open>nm_vpn_service_plugin_failure\<close> do, given the class's own disconnect method and the handler of the
  \<open>quit\<close> signal. The method's answer is its return value and the error it set, if any.\<close>

datatype vpn_state =
  StateUnknown | StateInit | StateShutdown | StateStarting | StateStarted | StateStopping | StateStopped

record vpn_base =
  base_disconnect :: "(service \<Rightarrow> bool \<times> gerror option \<times> service) \<Rightarrow> (service \<Rightarrow> service) \<Rightarrow>
    vpn_state \<Rightarrow> service \<Rightarrow> bool \<times> gerror option \<times> vpn_state \<times> service"
  base_failure :: "(service \<Rightarrow> service) \<Rightarrow> vpn_state \<Rightarrow> service \<Rightarrow> vpn_state \<times> service"

text \<open>As documented: disconnecting a started plugin calls its method, gives that answer back and leaves the
  plugin stopped; a plugin that watches its peer, as the tests' does, emits \<open>quit\<close> when it stops. After a
  failure of a started plugin it emits \<open>quit\<close> too, which is what ends the loop of the last test.\<close>

definition base_law :: "vpn_base \<Rightarrow> bool" where
  "base_law base \<longleftrightarrow>
     (\<forall>stop quit s. base_disconnect base stop quit StateStarted s =
        (let (ret, err, s) = stop s in (ret, err, StateStopped, quit s))) \<and>
     (\<forall>quit s. snd (base_failure base quit StateStarted s) = quit s)"

text \<open>The class's method: \<open>real_disconnect\<close> returns \<open>TRUE\<close> and sets no error.\<close>

definition disconnect_method :: "sys \<Rightarrow> service \<Rightarrow> bool \<times> gerror option \<times> service" where
  "disconnect_method sys s = (True, None, real_disconnect sys s)"

text \<open>The idle callback of the test: its two assertions, and what disconnecting leaves.\<close>

definition request_disconnect :: "vpn_base \<Rightarrow> sys \<Rightarrow> vpn_state \<times> service \<Rightarrow> bool \<times> vpn_state \<times> service" where
  "request_disconnect base sys p =
     (let (ret, err, p) = base_disconnect base (disconnect_method sys) (quit_mainloop sys) (fst p) (snd p)
      in (ret \<and> err = None, p))"

text \<open>A callback of the service in the main loop: libnm hears of each failure or disconnect it reports.\<close>

definition hear :: "vpn_base \<Rightarrow> sys \<Rightarrow> action \<Rightarrow> vpn_state \<times> service \<Rightarrow> vpn_state \<times> service" where
  "hear base sys a p =
     (case a of
        ReportFailure reason \<Rightarrow> base_failure base (quit_mainloop sys) (fst p) (snd p)
      | ReportDisconnect \<Rightarrow>
          snd (snd (base_disconnect base (disconnect_method sys) (quit_mainloop sys) (fst p) (snd p)))
      | _ \<Rightarrow> p)"

definition callback :: "vpn_base \<Rightarrow> sys \<Rightarrow> (service \<Rightarrow> service) \<Rightarrow> vpn_state \<times> service \<Rightarrow> vpn_state \<times> service" where
  "callback base sys f p =
     (let s = f (snd p) in fold (hear base sys) (drop (length (trace (snd p))) (trace s)) (fst p, s))"

text \<open>The callbacks in their order: the request; then the watch, as soon as the child has ended, and
  before that the timer if it has not.\<close>

definition run_disconnect ::
  "vpn_base \<Rightarrow> sys \<Rightarrow> int \<Rightarrow> bool \<Rightarrow> vpn_state \<times> service \<Rightarrow> bool \<times> vpn_state \<times> service" where
  "run_disconnect base sys pid ignore_interrupt p =
     (let (asserted, p) = request_disconnect base sys p;
          p = (if child_status sys pid ignore_interrupt (trace (snd p)) = None \<and> kill_timeout (snd p) \<noteq> 0
               then callback base sys (ensure_killed sys) p else p)
      in (asserted,
          case child_status sys pid ignore_interrupt (trace (snd p)) of
            Some status \<Rightarrow> callback base sys (openconnect_watch_cb sys pid status) p
          | None \<Rightarrow> p))"

text \<open>A loop that nothing ends would be the timeout. The last assertion, that an unrelated child still
  lives: no signal went to it, to its group, to the own group or to everything.\<close>

definition exercise_disconnect :: "vpn_base \<Rightarrow> sys \<Rightarrow> int \<Rightarrow> int \<Rightarrow> service \<Rightarrow> bool \<Rightarrow> bool" where
  "exercise_disconnect base sys pid unrelated s ignore_interrupt =
     (let (asserted, state, s) = run_disconnect base sys pid ignore_interrupt (StateStarted, started_plugin pid s)
      in asserted \<and> loop_quit s \<and> failure_cb s = [] \<and> priv_pid s = 0 \<and> kill_timeout s = 0 \<and> quit_pending s \<and>
         \<not> disconnect_requested s \<and> state = StateStopped \<and>
         list_all (\<lambda>a. case a of Kill target sig \<Rightarrow> target \<notin> {unrelated, - unrelated, 0, - 1} | _ \<Rightarrow> True) (trace s))"

text \<open>The child is interrupted from outside, and nobody asked for that.\<close>

definition test_unexpected_exit :: "vpn_base \<Rightarrow> sys \<Rightarrow> int \<Rightarrow> service \<Rightarrow> bool" where
  "test_unexpected_exit base sys pid s =
     (let s = snd (callback base sys (openconnect_watch_cb sys pid (push_bit 8 2)) (StateStarted, started_plugin pid s))
      in loop_quit s \<and> failure_cb s = [LOGIN_FAILED] \<and> priv_pid s = 0)"

text \<open>What the kernel and GLib promise: the group of an own child can be signalled, timers have identifiers.\<close>

definition own_child :: "sys \<Rightarrow> int \<Rightarrow> bool" where
  "own_child sys pid \<longleftrightarrow> pid > 1 \<and> sys_timeout_id sys \<noteq> 0 \<and>
     (\<forall>sig. sig \<in> {0, SIGINT, SIGKILL} \<longrightarrow> sys_kill sys (- pid) sig = KillOk)"

lemma started_fields [simp]:
  "priv_pid (started_plugin pid s) = pid" "trace (started_plugin pid s) = []" "gl_loop (started_plugin pid s)"
  "kill_timeout (started_plugin pid s) = 0" "\<not> disconnect_requested (started_plugin pid s)"
  "priv_tun_name (started_plugin pid s) = None" "\<not> loop_quit (started_plugin pid s)"
  by (simp_all add: started_plugin_def)

text \<open>A requested disconnect of the plugin with its child: one interrupt, a timer, the quit pending.\<close>

lemma asked_to_stop:
  assumes "own_child sys pid" "w = quit_mainloop sys (real_disconnect sys (started_plugin pid s))"
  shows "trace w = [Kill (- pid) SIGINT, AddTimeout 2000]" "priv_pid w = pid" "disconnect_requested w"
    "quit_pending w" "kill_timeout w = sys_timeout_id sys" "gl_loop w" "priv_tun_name w = None"
  using assms
  by (simp_all add: own_child_def quit_mainloop_cases real_disconnect_def started_plugin_def act_def)

lemma watch_cb_trace:
  assumes "disconnect_requested s" "quit_pending s" "gl_loop s" "priv_tun_name s = None" "kill_timeout s = 0"
  shows "trace (openconnect_watch_cb sys pid st s) = trace s @ [Waitpid pid, MainLoopQuit]"
  using assms by (simp add: openconnect_watch_cb_def Let_def)

lemma ensure_killed_fields [simp]:
  "priv_pid (ensure_killed sys s) = priv_pid s" "priv_tun_name (ensure_killed sys s) = priv_tun_name s"
  "disconnect_requested (ensure_killed sys s) = disconnect_requested s" "quit_pending (ensure_killed sys s) = quit_pending s"
  "gl_loop (ensure_killed sys s) = gl_loop s" "kill_timeout (ensure_killed sys s) = 0"
  by (simp_all add: ensure_killed_def Let_def)

text \<open>The kill timer of that child, if it ignores the interrupt; either way it then ends.\<close>

lemma child_ends:
  assumes "own_child sys pid" "w = quit_mainloop sys (real_disconnect sys (started_plugin pid s))"
  shows "child_status sys pid False (trace w) = Some (push_bit 8 2)" "child_status sys pid True (trace w) = None"
    "trace (ensure_killed sys w) = [Kill (- pid) SIGINT, AddTimeout 2000, Kill (- pid) SIGKILL]"
    "child_status sys pid True (trace (ensure_killed sys w)) = Some 9"
  using assms(1) asked_to_stop [OF assms]
  by (simp_all add: own_child_def child_status_def SIGINT_def SIGKILL_def ensure_killed_def Let_def)

lemma requested:
  "base_law base \<Longrightarrow> request_disconnect base sys (StateStarted, s) =
     (True, StateStopped, quit_mainloop sys (real_disconnect sys s))"
  by (simp add: base_law_def request_disconnect_def disconnect_method_def)

text \<open>A callback that reports nothing leaves libnm's state alone.\<close>

lemma hear_silent: "list_all (\<lambda>a. \<not> is_report a) as \<Longrightarrow> fold (hear base sys) as p = p"
  by (induction as) (auto simp: hear_def split: action.splits)

lemma callback_silent:
  "trace (f s) = trace s @ as \<Longrightarrow> list_all (\<lambda>a. \<not> is_report a) as \<Longrightarrow> callback base sys f (state, s) = (state, f s)"
  by (simp add: callback_def Let_def hear_silent)

text \<open>So the run is that of the service's own callbacks, with the plugin stopped from the request on.\<close>

definition callbacks_run :: "sys \<Rightarrow> int \<Rightarrow> bool \<Rightarrow> service \<Rightarrow> service" where
  "callbacks_run sys pid ign s =
     (let w = quit_mainloop sys (real_disconnect sys s)
      in if ign then openconnect_watch_cb sys pid 9 (ensure_killed sys w) else openconnect_watch_cb sys pid (push_bit 8 2) w)"

lemma run_disconnect_run:
  assumes "base_law base" "own_child sys pid"
  shows "run_disconnect base sys pid ign (StateStarted, started_plugin pid s) =
    (True, StateStopped, callbacks_run sys pid ign (started_plugin pid s))"
proof -
  define w where "w = quit_mainloop sys (real_disconnect sys (started_plugin pid s))"
  note asked = asked_to_stop [OF assms(2) w_def] and ends = child_ends [OF assms(2) w_def]
  have t: "callback base sys (ensure_killed sys) (StateStopped, w) = (StateStopped, ensure_killed sys w)"
    using ends(3) asked(1) by (intro callback_silent [of _ _ "[Kill (- pid) SIGKILL]"]) simp_all
  have k: "callback base sys (openconnect_watch_cb sys pid st) (StateStopped, ensure_killed sys w) =
      (StateStopped, openconnect_watch_cb sys pid st (ensure_killed sys w))" for st
    using asked by (intro callback_silent [of _ _ "[Waitpid pid, MainLoopQuit]"]) (simp_all add: watch_cb_trace)
  have g: "callback base sys (openconnect_watch_cb sys pid st) (StateStopped, w) =
      (StateStopped, openconnect_watch_cb sys pid st w)" for st
    using asked assms(2)
    by (intro callback_silent [of _ _ "[Waitpid pid, RemoveSource (sys_timeout_id sys), MainLoopQuit]"])
      (simp_all add: openconnect_watch_cb_def Let_def own_child_def)
  show ?thesis
    using assms(2) asked(5) ends
    by (cases ign) (simp_all add: run_disconnect_def requested [OF assms(1)] w_def [symmetric] t k g
        callbacks_run_def own_child_def)
qed

lemma disconnect_trace:
  assumes "own_child sys pid"
  shows "trace (callbacks_run sys pid ign (started_plugin pid s)) =
    [Kill (- pid) SIGINT, AddTimeout 2000] @
    (if ign then [Kill (- pid) SIGKILL, Waitpid pid, MainLoopQuit]
     else [Waitpid pid, RemoveSource (sys_timeout_id sys), MainLoopQuit])"
  using assms asked_to_stop [OF assms refl] child_ends [OF assms refl]
  by (simp add: callbacks_run_def Let_def openconnect_watch_cb_def own_child_def ensure_killed_spec)

lemma disconnect_state:
  assumes "own_child sys pid" "s' = callbacks_run sys pid ign (started_plugin pid s)"
  shows "loop_quit s'" "priv_pid s' = 0" "kill_timeout s' = 0" "quit_pending s'" "\<not> disconnect_requested s'"
  using assms(1) asked_to_stop [OF assms(1) refl] child_ends [OF assms(1) refl]
  by (cases ign; simp add: assms(2) callbacks_run_def Let_def own_child_def)+

lemma unexpected_exit_trace:
  "exit_error False st = 2 \<Longrightarrow>
     trace (openconnect_watch_cb sys pid st (started_plugin pid s)) = [Waitpid pid, ReportFailure LOGIN_FAILED]"
  by (simp add: openconnect_watch_cb_def Let_def)

lemma exit_code_2: "exit_error False (512 :: u32) = 2"
  by (simp add: exit_error_def WIFEXITED_def WEXITSTATUS_def WTERMSIG_def)

text \<open>C36: Every assertion of \<open>test-disconnect.c\<close> on the service holds in the model, for every libnm base class
  that keeps its documentation and every child the kernel lets the service signal: a requested disconnect
  succeeds without an error and ends the loop without a failure, with the plugin stopped and idle, for a
  child that obeys the interrupt and for one that has to be killed, and signals nothing but that child's
  group; an exit nobody asked for is reported as exactly one login failure. The assertions on the test's
  own pipes and fork are not part of it.\<close>

theorem disconnect_tests_pass:
  assumes "base_law base" "own_child sys pid" "unrelated > 1" "unrelated \<noteq> pid"
  shows "exercise_disconnect base sys pid unrelated s False \<and> exercise_disconnect base sys pid unrelated s True \<and>
    test_unexpected_exit base sys pid s"
proof -
  have "exercise_disconnect base sys pid unrelated s ign" for ign
    using assms by (simp add: exercise_disconnect_def run_disconnect_run disconnect_state [OF assms(2) refl]
        disconnect_trace [OF assms(2)] failure_cb_def own_child_def)
  moreover have "snd (base_failure base (quit_mainloop sys) StateStarted w) = quit_mainloop sys w" for w
    using assms(1) by (simp add: base_law_def)
  then have "test_unexpected_exit base sys pid s"
    by (simp add: test_unexpected_exit_def callback_def hear_def Let_def quit_mainloop_cases failure_cb_def
        unexpected_exit_trace exit_code_2)
  ultimately show ?thesis by blast
qed

text \<open>A base class that keeps the law: other states answer that there is nothing to disconnect.\<close>

definition sample_base :: vpn_base where
  "sample_base = \<lparr>base_disconnect = (\<lambda>stop quit state s.
       if state = StateStarted then (let (ret, err, s) = stop s in (ret, err, StateStopped, quit s))
       else (state = StateInit, None, state, s)),
     base_failure = (\<lambda>quit state s. (StateStopped, quit s))\<rparr>"

theorem disconnect_tests_pass_witness:
  "exercise_disconnect sample_base sample_sys 42 43 sample_service True"
proof -
  have "base_law sample_base" by (simp add: base_law_def sample_base_def)
  moreover have "own_child sample_sys 42" by (simp add: own_child_def sample_sys_def SIGINT_def SIGKILL_def)
  ultimately show ?thesis using disconnect_tests_pass [of sample_base sample_sys 42 43 sample_service] by simp
qed

end
