(* ===== verification/Service_Main.thy ===== *)
theory Service_Main
  imports Service_Loop
begin

text \<open>
  Start-up of \<open>nm-gpclient-service\<close>: options, log level, the environment handed to the helper
  script, the TUN module, the plugin object. Option parsing is GLib's, so the parsed options are an
  argument; so is \<open>g_initable_new\<close>, which gets the bus name and whether to watch the peer.
\<close>

record service_options =
  opt_persist :: bool
  opt_debug :: bool
  opt_bus_name :: cstr

definition default_options :: service_options where
  "default_options = \<lparr>opt_persist = False, opt_debug = False, opt_bus_name = Some NM_DBUS_SERVICE_OPENCONNECT\<rparr>"

type_synonym initable_new = "cstr \<Rightarrow> bool \<Rightarrow> gerror + unit"

definition nm_openconnect_plugin_new :: "initable_new \<Rightarrow> bool \<Rightarrow> cstr \<Rightarrow> bool" where
  "nm_openconnect_plugin_new initable_new debug bus_name =
     (case initable_new bus_name (\<not> debug) of Inl e \<Rightarrow> False | Inr _ \<Rightarrow> True)"

text \<open>Both ways in which loading the module can fail only produce a warning, the first result.\<close>

definition load_tun_module :: "config \<Rightarrow> sys \<Rightarrow> service \<Rightarrow> bool \<times> service" where
  "load_tun_module cfg sys s =
     (if cfg_modprobe cfg = [] then (False, s)
      else
        let argv = [cfg_modprobe cfg, ''tun''];
            s = act (RunModuleLoader argv) s
        in case sys_spawn_sync sys argv of
             Inl e \<Rightarrow> (True, s)
           | Inr (status, _) \<Rightarrow> (\<not> WIFEXITED status \<or> WEXITSTATUS status \<noteq> 0, s))"

definition service_log_level :: "strtoll \<Rightarrow> bool \<Rightarrow> strmap \<Rightarrow> int" where
  "service_log_level strtoll debug envp =
     fst (nm_utils_ascii_str_to_int64 strtoll (map_of envp ''NM_VPN_LOG_LEVEL'') 10 0 LOG_DEBUG
            (if debug then LOG_INFO else LOG_NOTICE))"

definition initial_service :: "bool \<Rightarrow> int \<Rightarrow> service" where
  "initial_service debug level =
     \<lparr>gl_tun_owner = 0, gl_tun_group = 0, tun_fds = 0, persistent_tuns = [], trace = [],
      gl_debug = debug, log_level = level, gl_loop = False, loop_quit = False, priv_pid = 0,
      priv_tun_name = None, disconnect_requested = False, quit_pending = False, kill_timeout = 0,
      watches = [], stdin_fds = 0\<rparr>"

text \<open>\<open>Run\<close> is the state in which \<open>g_main_loop_run\<close> starts, with the environment the children inherit
  and whether the \<open>quit\<close> signal is connected.\<close>

datatype start_result = ExitFailure | Run service strmap bool

text \<open>The \<open>setenv\<close> calls of \<open>main\<close>; the last one does not overwrite.\<close>

definition inherited_env :: "int \<Rightarrow> int \<Rightarrow> cstr \<Rightarrow> strmap \<Rightarrow> strmap" where
  "inherited_env level getpid bus_name envp =
     (let envp = sput ''NM_VPN_LOG_LEVEL'' (show_int level) envp;
          envp = sput ''NM_VPN_LOG_PREFIX_TOKEN'' (show_int getpid) envp
      in case bus_name of
           Some name \<Rightarrow>
             if map_of envp ''NM_DBUS_SERVICE_OPENCONNECT'' = None
             then sput ''NM_DBUS_SERVICE_OPENCONNECT'' name envp else envp
         | None \<Rightarrow> envp)"

definition debug_enabled :: "service_options \<Rightarrow> strmap \<Rightarrow> bool" where
  "debug_enabled opts envp = (if map_of envp ''OPENCONNECT_DEBUG'' \<noteq> None then True else opt_debug opts)"

definition service_main ::
  "strtoll \<Rightarrow> initable_new \<Rightarrow> config \<Rightarrow> sys \<Rightarrow> int \<Rightarrow> service_options \<Rightarrow> start_result" where
  "service_main strtoll initable_new cfg sys getpid opts =
     (let debug = debug_enabled opts (sys_environ sys);
          level = service_log_level strtoll debug (sys_environ sys);
          s = snd (load_tun_module cfg sys (initial_service debug level));
          envp = inherited_env level getpid (opt_bus_name opts) (sys_environ sys)
      in if \<not> nm_openconnect_plugin_new initable_new debug (opt_bus_name opts) then ExitFailure
         else Run (s\<lparr>gl_loop := True\<rparr>) envp (\<not> opt_persist opts))"

lemma service_log_level_range: "0 \<le> service_log_level strtoll debug envp \<and> service_log_level strtoll debug envp \<le> 7"
proof -
  let ?r = "nm_utils_ascii_str_to_int64 strtoll (map_of envp ''NM_VPN_LOG_LEVEL'') 10 0 LOG_DEBUG
            (if debug then LOG_INFO else LOG_NOTICE)"
  show ?thesis
  proof (cases "snd ?r = EOK")
    case True
    then show ?thesis using str_to_int64_cases(1) [of strtoll "map_of envp ''NM_VPN_LOG_LEVEL''"]
      by (auto simp: service_log_level_def)
  next
    case False
    then show ?thesis using str_to_int64_cases(2) [of strtoll "map_of envp ''NM_VPN_LOG_LEVEL''"]
      by (auto simp: service_log_level_def)
  qed
qed

lemma load_tun_module_init: "filter is_ctl (trace (snd (load_tun_module cfg sys s))) = filter is_ctl (trace s)"
  by (auto simp: load_tun_module_def Let_def split: sum.splits)

lemma load_tun_module_fields [simp]:
  "priv_pid (snd (load_tun_module cfg sys s)) = priv_pid s"
  "priv_tun_name (snd (load_tun_module cfg sys s)) = priv_tun_name s"
  "disconnect_requested (snd (load_tun_module cfg sys s)) = disconnect_requested s"
  "quit_pending (snd (load_tun_module cfg sys s)) = quit_pending s"
  "kill_timeout (snd (load_tun_module cfg sys s)) = kill_timeout s"
  "watches (snd (load_tun_module cfg sys s)) = watches s"
  "loop_quit (snd (load_tun_module cfg sys s)) = loop_quit s"
  "log_level (snd (load_tun_module cfg sys s)) = log_level s"
  by (auto simp: load_tun_module_def Let_def split: sum.splits)

lemma inherited_env_lookup:
  "map_of (inherited_env level getpid name envp) k =
     (if k = ''NM_VPN_LOG_LEVEL'' then Some (show_int level)
      else if k = ''NM_VPN_LOG_PREFIX_TOKEN'' then Some (show_int getpid)
      else if k = ''NM_DBUS_SERVICE_OPENCONNECT'' then (case map_of envp k of Some n \<Rightarrow> Some n | None \<Rightarrow> name)
      else map_of envp k)"
  by (auto simp: inherited_env_def Let_def map_of_sput split: option.splits)

lemma service_main_Run:
  assumes "service_main strtoll initable cfg sys getpid opts = Run s envp quit"
  shows "svc_init s" "envp = inherited_env (log_level s) getpid (opt_bus_name opts) (sys_environ sys)"
    "log_level s = service_log_level strtoll (debug_enabled opts (sys_environ sys)) (sys_environ sys)"
    "quit = (\<not> opt_persist opts)"
  using assms
  by (auto simp: service_main_def svc_init_def initial_service_def Let_def load_tun_module_init split: if_splits)

text \<open>When \<open>main\<close> enters the loop, the plugin is idle, the log level is between 0 and 7, and the
  children inherit that level, the service's pid and the bus name, which a name already set in the
  environment overrides; no other variable changes. \<open>quit\<close> is followed unless \<open>--persist\<close> was given.\<close>

theorem service_main_starts_idle:
  assumes "service_main strtoll initable cfg sys getpid opts = Run s envp quit"
  shows "svc_init s \<and> 0 \<le> log_level s \<and> log_level s \<le> 7 \<and> quit = (\<not> opt_persist opts) \<and>
    map_of envp = (\<lambda>k.
      if k = ''NM_VPN_LOG_LEVEL'' then Some (show_int (log_level s))
      else if k = ''NM_VPN_LOG_PREFIX_TOKEN'' then Some (show_int getpid)
      else if k = ''NM_DBUS_SERVICE_OPENCONNECT''
      then (case map_of (sys_environ sys) k of Some n \<Rightarrow> Some n | None \<Rightarrow> opt_bus_name opts)
      else map_of (sys_environ sys) k)"
  using service_main_Run [OF assms] service_log_level_range [of strtoll _ "sys_environ sys"]
  by (auto simp: inherited_env_lookup fun_eq_iff)

theorem service_main_starts_idle_witness:
  "svc_init (initial_service False 5\<lparr>gl_loop := True\<rparr>)"
proof -
  let ?cfg = "sample_config\<lparr>cfg_modprobe := []\<rparr>"
  have "service_main (\<lambda>s b. c_strtoll s) (\<lambda>n w. Inr ()) ?cfg sample_sys 1 default_options =
      Run (initial_service False 5\<lparr>gl_loop := True\<rparr>) (inherited_env 5 1 (Some NM_DBUS_SERVICE_OPENCONNECT) (sys_environ sample_sys)) True"
    by (simp add: service_main_def debug_enabled_def service_log_level_def nm_utils_ascii_str_to_int64_def
        load_tun_module_def nm_openconnect_plugin_new_def default_options_def sample_sys_def Let_def)
  then show ?thesis
    using service_main_starts_idle by blast
qed

end
