(* ===== verification/Auth_Dialog.thy ===== *)
theory Auth_Dialog
  imports Platform Transition Defines
begin

text \<open>
  \<open>auth-dialog/nm-gpclient-auth-dialog.c\<close>: the program NetworkManager runs in the user's session to
  get the secrets of a connection. It runs \<open>gpauth\<close>, collects its output while listening for
  NetworkManager's cancellation, and prints the gateway and the authentication JSON.

  The polling loop of \<open>collect_auth\<close> is a function of the list of what the system answers in each
  round (\<open>obs\<close>); a list that ends too early leaves the loop running, which is the result \<open>None\<close>.
  Signals sent to the child are recorded with the time of the round.
\<close>

section \<open>The collection loop\<close>

datatype read_byte = Byte char | ByteEof | ByteErr bool
datatype read_chunk = Chunk string | ChunkEof | ChunkErr bool
datatype wait_result = WaitNothing | Reaped u32 | WaitErr bool

text \<open>A round: the result of \<open>poll\<close> and whether \<open>errno\<close> was \<open>EINTR\<close>, the \<open>interrupted\<close> flag, which
  descriptors are ready, what reading them gives, the time, and what \<open>waitpid\<close> says. The boolean of
  a read or wait error is whether it is \<open>EINTR\<close>.\<close>

record obs =
  o_ready :: int
  o_eintr :: bool
  o_interrupted :: bool
  o_revents0 :: bool
  o_revents1 :: bool
  o_revents2 :: bool
  o_stdin :: read_byte
  o_out :: read_chunk
  o_err :: read_chunk
  o_now :: int
  o_wait :: wait_result

record collecting =
  stdin_polled :: bool
  out_open :: bool
  err_open :: bool
  out_buf :: string
  err_buf :: string
  line :: string
  cancelled :: bool
  exited :: bool
  ok :: bool
  kill_at :: int
  status :: u32
  signals :: "(int \<times> int) list"

definition LINE_SIZE :: nat where "LINE_SIZE = 16"
definition G_USEC_PER_SEC :: int where "G_USEC_PER_SEC = 1000000"
definition TERM_SIGNAL :: int where "TERM_SIGNAL = 15"
definition KILL_SIGNAL :: int where "KILL_SIGNAL = 9"

text \<open>One byte of NetworkManager's line protocol: the line so far and whether it was \<open>QUIT\<close>. What
  does not fit into \<open>char line[16]\<close> is dropped.\<close>

definition line_byte :: "char \<Rightarrow> string \<Rightarrow> string \<times> bool" where
  "line_byte c l =
     (if c = CHR 0x00 \<or> c = CHR 0x0A then ([], l = ''QUIT'')
      else if length l + 1 < LINE_SIZE then (l @ [c], False)
      else (l, False))"

definition poll_failed :: "obs \<Rightarrow> collecting \<Rightarrow> collecting" where
  "poll_failed ob c =
     (let c = (if o_ready ob < 0 \<and> \<not> o_eintr ob then c\<lparr>ok := False, cancelled := True\<rparr> else c)
      in if o_interrupted ob then c\<lparr>cancelled := True\<rparr> else c)"

definition read_stdin :: "obs \<Rightarrow> collecting \<Rightarrow> collecting" where
  "read_stdin ob c =
     (if o_ready ob > 0 \<and> stdin_polled c \<and> o_revents0 ob then
        (case o_stdin ob of
           ByteEof \<Rightarrow> c\<lparr>cancelled := True\<rparr>
         | ByteErr eintr \<Rightarrow> if \<not> eintr then c\<lparr>cancelled := True\<rparr> else c
         | Byte b \<Rightarrow>
             (let (l, quit) = line_byte b (line c) in c\<lparr>line := l, cancelled := (cancelled c \<or> quit)\<rparr>))
      else c)"

definition read_out :: "obs \<Rightarrow> collecting \<Rightarrow> collecting" where
  "read_out ob c =
     (if o_ready ob > 0 \<and> out_open c \<and> o_revents1 ob then
        (case o_out ob of
           Chunk s \<Rightarrow> c\<lparr>out_buf := out_buf c @ s\<rparr>
         | ChunkEof \<Rightarrow> c\<lparr>out_open := False\<rparr>
         | ChunkErr eintr \<Rightarrow> if eintr then c else c\<lparr>ok := False, out_open := False\<rparr>)
      else c)"

definition read_err :: "obs \<Rightarrow> collecting \<Rightarrow> collecting" where
  "read_err ob c =
     (if o_ready ob > 0 \<and> err_open c \<and> o_revents2 ob then
        (case o_err ob of
           Chunk s \<Rightarrow> c\<lparr>err_buf := err_buf c @ s\<rparr>
         | ChunkEof \<Rightarrow> c\<lparr>err_open := False\<rparr>
         | ChunkErr eintr \<Rightarrow> if eintr then c else c\<lparr>ok := False, err_open := False\<rparr>)
      else c)"

definition signal_child :: "obs \<Rightarrow> collecting \<Rightarrow> collecting" where
  "signal_child ob c =
     (if cancelled c then
        let c = c\<lparr>stdin_polled := False\<rparr> in
        if \<not> exited c \<and> kill_at c = 0 then
          c\<lparr>signals := signals c @ [(TERM_SIGNAL, o_now ob)], kill_at := o_now ob + 2 * G_USEC_PER_SEC\<rparr>
        else if \<not> exited c \<and> o_now ob \<ge> kill_at c then
          c\<lparr>signals := signals c @ [(KILL_SIGNAL, o_now ob)]\<rparr>
        else c
      else c)"

definition reap_child :: "obs \<Rightarrow> collecting \<Rightarrow> collecting" where
  "reap_child ob c =
     (if \<not> exited c then
        (case o_wait ob of
           Reaped st \<Rightarrow> c\<lparr>exited := True, status := st\<rparr>
         | WaitErr eintr \<Rightarrow> if eintr then c else c\<lparr>exited := True, ok := False\<rparr>
         | WaitNothing \<Rightarrow> c)
      else c)"

definition collect_round :: "obs \<Rightarrow> collecting \<Rightarrow> collecting" where
  "collect_round ob c = reap_child ob (signal_child ob (read_err ob (read_out ob (read_stdin ob (poll_failed ob c)))))"

definition loop_condition :: "collecting \<Rightarrow> bool" where
  "loop_condition c \<longleftrightarrow> \<not> exited c \<or> out_open c \<or> err_open c"

fun collect_loop :: "obs list \<Rightarrow> collecting \<Rightarrow> collecting option" where
  "collect_loop obss c =
     (if \<not> loop_condition c then Some c
      else case obss of
             [] \<Rightarrow> None
           | ob # rest \<Rightarrow>
               let c = collect_round ob c
               in if cancelled c \<and> exited c then Some c else collect_loop rest c)"

declare collect_loop.simps [simp del]

definition collect_start :: collecting where
  "collect_start = \<lparr>stdin_polled = True, out_open = True, err_open = True, out_buf = [], err_buf = [], line = [],
     cancelled = False, exited = False, ok = True, kill_at = 0, status = 0, signals = []\<rparr>"

text \<open>\<open>Collected success output errors status\<close>; \<open>NotStarted\<close> carries the spawn error, if any.\<close>

datatype collect_result = NotStarted "gerror option" | Collected bool string string u32

definition collect_auth ::
  "bool \<Rightarrow> (string list \<Rightarrow> gerror + int) \<Rightarrow> string list \<Rightarrow> obs list \<Rightarrow> collect_result option" where
  "collect_auth interrupted spawn argv obss =
     (if interrupted then Some (NotStarted None)
      else case spawn argv of
             Inl e \<Rightarrow> Some (NotStarted (Some e))
           | Inr pid \<Rightarrow>
               map_option (\<lambda>c. Collected (ok c \<and> \<not> cancelled c) (out_buf c) (err_buf c) (status c))
                 (collect_loop obss collect_start))"

section \<open>Looking up options and secrets\<close>

definition lookup_nonempty :: "strmap option \<Rightarrow> string \<Rightarrow> cstr" where
  "lookup_nonempty hash key =
     (case hash of
        None \<Rightarrow> None
      | Some h \<Rightarrow> let value = map_of h key in if nonempty value then value else None)"

definition is_yes :: "cstr \<Rightarrow> bool" where
  "is_yes value = streq value ''yes''"

definition lookup_secret_or_option :: "strmap option \<Rightarrow> strmap option \<Rightarrow> string \<Rightarrow> cstr" where
  "lookup_secret_or_option options secrets key =
     (let value = lookup_nonempty secrets key in
      case value of Some v \<Rightarrow> Some v | None \<Rightarrow> lookup_nonempty options key)"

definition add_optional_arg :: "string \<Rightarrow> cstr \<Rightarrow> string list \<Rightarrow> string list" where
  "add_optional_arg arg value argv = (case value of None \<Rightarrow> argv | Some v \<Rightarrow> argv @ [arg, v])"

definition add_optional_gpauth_setting_arg :: "strmap option \<Rightarrow> string \<Rightarrow> string \<Rightarrow> string list \<Rightarrow> string list" where
  "add_optional_gpauth_setting_arg options key arg argv = add_optional_arg arg (lookup_nonempty options key) argv"

definition add_optional_gpauth_secret_arg ::
  "strmap option \<Rightarrow> strmap option \<Rightarrow> string \<Rightarrow> string \<Rightarrow> string list \<Rightarrow> string list" where
  "add_optional_gpauth_secret_arg options secrets key arg argv =
     add_optional_arg arg (lookup_secret_or_option options secrets key) argv"

definition add_gpauth_boolean_arg :: "strmap option \<Rightarrow> string \<Rightarrow> string \<Rightarrow> string list \<Rightarrow> string list" where
  "add_gpauth_boolean_arg options key arg argv =
     (if \<not> is_yes (lookup_nonempty options key) then argv else argv @ [arg])"

text \<open>The loop shortens the text while it ends in a line feed or carriage return.\<close>

definition strip_one_trailing_newline :: "string \<Rightarrow> string" where
  "strip_one_trailing_newline value = rev (dropWhile (\<lambda>c. c = CHR 0x0A \<or> c = CHR 0x0D) (rev value))"

section \<open>Waiting for NetworkManager to take the answer\<close>

text \<open>A round: \<open>interrupted\<close> is set, \<open>poll\<close> found input within 30 seconds, what the read gives.\<close>

record quit_obs =
  q_interrupted :: bool
  q_ready :: bool
  q_read :: read_byte

text \<open>The number of bytes consumed when the function returns.\<close>

fun wait_for_quit_or_eof :: "quit_obs list \<Rightarrow> string \<Rightarrow> nat \<Rightarrow> nat option" where
  "wait_for_quit_or_eof [] l n = None"
| "wait_for_quit_or_eof (q # qs) l n =
     (if q_interrupted q \<or> \<not> q_ready q then Some n
      else case q_read q of
             ByteEof \<Rightarrow> Some n
           | ByteErr _ \<Rightarrow> Some n
           | Byte c \<Rightarrow>
               (let (l', quit) = line_byte c l
                in if quit then Some (n + 1) else wait_for_quit_or_eof qs l' (n + 1)))"

section \<open>Running gpauth\<close>

record dialog_sys =
  d_gpauth_binary :: string
  d_spawn_sync :: "string list \<Rightarrow> gerror + u32 \<times> cstr"
  d_spawn :: "string list \<Rightarrow> gerror + int"
  d_interrupted_before :: bool
  d_obs :: "obs list"
  d_interrupted_after :: bool
  d_quit_obs :: "quit_obs list"

text \<open>A buffer as a C string ends at its first NUL.\<close>

definition c_str :: "string \<Rightarrow> string" where
  "c_str s = takeWhile (\<lambda>c. c \<noteq> CHR 0x00) s"

definition gpauth_argv :: "dialog_sys \<Rightarrow> string \<Rightarrow> bool \<Rightarrow> string \<Rightarrow> strmap option \<Rightarrow> strmap option \<Rightarrow> string list" where
  "gpauth_argv sys server as_gateway browser options secrets =
     (let argv = [d_gpauth_binary sys] @ (if as_gateway then [''--gateway''] else []) @ [server, ''--browser'', browser];
          argv = add_optional_gpauth_setting_arg options NM_OPENCONNECT_KEY_USERCERT ''--certificate'' argv;
          argv = add_optional_gpauth_setting_arg options NM_OPENCONNECT_KEY_PRIVKEY ''--sslkey'' argv;
          argv = add_optional_gpauth_secret_arg options secrets NM_OPENCONNECT_KEY_KEY_PASS ''--key-password'' argv;
          argv = add_optional_gpauth_setting_arg options NM_OPENCONNECT_KEY_CLIENT_VERSION ''--client-version'' argv;
          argv = add_optional_gpauth_setting_arg options NM_OPENCONNECT_KEY_HOST_ID ''--host-id'' argv;
          argv = add_optional_gpauth_setting_arg options NM_OPENCONNECT_KEY_REPORTED_OS ''--os'' argv;
          argv = add_gpauth_boolean_arg options NM_OPENCONNECT_KEY_FIX_OPENSSL ''--fix-openssl'' argv
      in add_gpauth_boolean_arg options NM_OPENCONNECT_KEY_IGNORE_TLS_ERRORS ''--ignore-tls-errors'' argv)"

text \<open>\<open>Some (Some json)\<close> is success, \<open>Some None\<close> failure, \<open>None\<close> a collection that has not ended.\<close>

definition run_gpauth ::
  "dialog_sys \<Rightarrow> string \<Rightarrow> bool \<Rightarrow> string \<Rightarrow> strmap option \<Rightarrow> strmap option \<Rightarrow> cstr option" where
  "run_gpauth sys server as_gateway browser options secrets =
     (case nm_gpclient_check_version (d_spawn_sync sys) (d_gpauth_binary sys) ''gpauth'' of
        Inl e \<Rightarrow> Some None
      | Inr _ \<Rightarrow>
          map_option
            (\<lambda>r. case r of
                   NotStarted e \<Rightarrow> None
                 | Collected success out err st \<Rightarrow>
                     if \<not> success then None
                     else if \<not> WIFEXITED st \<or> WEXITSTATUS st \<noteq> 0 then None
                     else let json = strip_one_trailing_newline (c_str out) in if json = [] then None else Some json)
            (collect_auth (d_interrupted_before sys) (d_spawn sys)
               (gpauth_argv sys server as_gateway browser options secrets) (d_obs sys)))"

section \<open>The program\<close>

datatype opt_char = OptReprompt | OptInteraction | OptUuid string | OptName string | OptService string | OptUnknown

record dialog_opts =
  allow_interaction :: bool
  vpn_uuid :: cstr
  vpn_name :: cstr
  vpn_service :: cstr

text \<open>The \<open>getopt_long\<close> loop; \<open>None\<close> is the return on an unknown option.\<close>

fun parse_opts :: "opt_char list \<Rightarrow> dialog_opts \<Rightarrow> dialog_opts option" where
  "parse_opts [] d = Some d"
| "parse_opts (OptReprompt # os) d = parse_opts os d"
| "parse_opts (OptInteraction # os) d = parse_opts os (d\<lparr>allow_interaction := True\<rparr>)"
| "parse_opts (OptUuid u # os) d = parse_opts os (d\<lparr>vpn_uuid := Some u\<rparr>)"
| "parse_opts (OptName n # os) d = parse_opts os (d\<lparr>vpn_name := Some n\<rparr>)"
| "parse_opts (OptService s # os) d = parse_opts os (d\<lparr>vpn_service := Some s\<rparr>)"
| "parse_opts (OptUnknown # os) d = None"

definition no_opts :: dialog_opts where
  "no_opts = \<lparr>allow_interaction = False, vpn_uuid = None, vpn_name = None, vpn_service = None\<rparr>"

definition dialog_portal :: "strmap option \<Rightarrow> cstr" where
  "dialog_portal options = lookup_nonempty options NM_OPENCONNECT_KEY_PORTAL"

definition dialog_gateway :: "strmap option \<Rightarrow> strmap option \<Rightarrow> cstr" where
  "dialog_gateway options secrets =
     (case lookup_nonempty options NM_OPENCONNECT_KEY_GATEWAY of
        Some g \<Rightarrow> Some g | None \<Rightarrow> lookup_nonempty secrets NM_OPENCONNECT_KEY_GATEWAY)"

definition dialog_as_gateway :: "strmap option \<Rightarrow> bool" where
  "dialog_as_gateway options \<longleftrightarrow>
     is_yes (lookup_nonempty options NM_OPENCONNECT_KEY_AS_GATEWAY) \<or> dialog_portal options = None"

definition dialog_auth_server :: "strmap option \<Rightarrow> strmap option \<Rightarrow> cstr" where
  "dialog_auth_server options secrets =
     (if dialog_as_gateway options then dialog_gateway options secrets else dialog_portal options)"

text \<open>The key/value lines on the original standard output.\<close>

definition secret_lines :: "string \<Rightarrow> string \<Rightarrow> string" where
  "secret_lines key value = key @ [CHR 0x0A] @ value @ [CHR 0x0A]"

definition answer :: "strmap option \<Rightarrow> strmap option \<Rightarrow> string \<Rightarrow> string" where
  "answer options secrets auth_json =
     (case dialog_gateway options secrets of
        Some gateway \<Rightarrow> secret_lines NM_OPENCONNECT_KEY_GATEWAY gateway
      | None \<Rightarrow>
          (case dialog_portal options of
             Some portal \<Rightarrow> secret_lines NM_OPENCONNECT_KEY_GATEWAY portal
           | None \<Rightarrow> [])) @
     secret_lines NM_OPENCONNECT_KEY_COOKIE auth_json @ [CHR 0x0A, CHR 0x0A]"

text \<open>Everything up to the answer: \<open>Some None\<close> is exit status 1 with nothing printed, \<open>Some (Some json)\<close>
  the authentication to print.\<close>

definition dialog_auth ::
  "dialog_sys \<Rightarrow> bool \<Rightarrow> strmap option \<Rightarrow> strmap option \<Rightarrow> cstr option" where
  "dialog_auth sys interaction options secrets =
     (let browser = (case lookup_nonempty options NM_OPENCONNECT_KEY_BROWSER of Some b \<Rightarrow> b | None \<Rightarrow> ''default'')
      in case dialog_auth_server options secrets of
           None \<Rightarrow> Some None
         | Some auth_server \<Rightarrow>
             if \<not> interaction then Some (lookup_nonempty secrets NM_OPENCONNECT_KEY_COOKIE)
             else run_gpauth sys auth_server (dialog_as_gateway options) browser options secrets)"

text \<open>\<open>DAnswered\<close> carries what was printed and how many bytes of input the final wait took, if it has
  ended; the exit status is 0 then.\<close>

datatype dialog_end = DExit int | DAnswered string "nat option" | DRunning

definition dialog_main ::
  "dialog_sys \<Rightarrow> opt_char list \<Rightarrow> bool \<Rightarrow> (strmap \<times> strmap) option \<Rightarrow> dialog_end" where
  "dialog_main sys opts superfluous details =
     (case parse_opts opts no_opts of
        None \<Rightarrow> DExit 1
      | Some d \<Rightarrow>
          if superfluous then DExit 1
          else if vpn_uuid d = None \<or> vpn_name d = None \<or> vpn_service d = None then DExit 1
          else if vpn_service d \<noteq> Some NM_VPN_SERVICE_TYPE_OPENCONNECT then DExit 1
          else case details of
                 None \<Rightarrow> DExit 1
               | Some (options, secrets) \<Rightarrow>
                   (case dialog_auth sys (allow_interaction d) (Some options) (Some secrets) of
                      None \<Rightarrow> DRunning
                    | Some None \<Rightarrow> DExit 1
                    | Some (Some auth_json) \<Rightarrow>
                        if d_interrupted_after sys then DExit 1
                        else DAnswered (answer (Some options) (Some secrets) auth_json)
                               (wait_for_quit_or_eof (d_quit_obs sys) [] 0)))"

end
