(* ===== verification/Inet.thy ===== *)
theory Inet
  imports CLib
begin

text \<open>
  The text handling of \<open>nm-gpclient-service-helper\<close>: splitting lists (\<open>g_strsplit\<close>,
  \<open>g_strsplit_set\<close>) and dotted IPv4 addresses (\<open>inet_pton (AF_INET)\<close>, as glibc parses them, with
  \<open>s_addr\<close> as a little-endian host reads the four bytes).
\<close>

section \<open>Splitting\<close>

fun split_pieces :: "(char \<Rightarrow> bool) \<Rightarrow> string \<Rightarrow> string list" where
  "split_pieces P [] = [[]]"
| "split_pieces P (c # cs) =
     (if P c then [] # split_pieces P cs
      else case split_pieces P cs of [] \<Rightarrow> [[c]] | w # ws \<Rightarrow> (c # w) # ws)"

text \<open>GLib's functions give no piece at all for the empty string.\<close>

definition g_strsplit_set :: "string \<Rightarrow> string \<Rightarrow> string list" where
  "g_strsplit_set s delims = (if s = [] then [] else split_pieces (\<lambda>c. c \<in> set delims) s)"

definition g_strsplit_char :: "string \<Rightarrow> char \<Rightarrow> string list" where
  "g_strsplit_char s d = (if s = [] then [] else split_pieces (\<lambda>c. c = d) s)"

lemma split_pieces_not_Nil [simp]: "split_pieces P s \<noteq> []"
  by (induction P s rule: split_pieces.induct) (auto split: list.splits)

lemma split_pieces_no_delim: "w \<in> set (split_pieces P s) \<Longrightarrow> c \<in> set w \<Longrightarrow> \<not> P c"
  by (induction P s arbitrary: w rule: split_pieces.induct) (force split: list.splits if_splits)+

text \<open>The pieces, put together with the delimiters left out, are the text without its delimiters.\<close>

lemma concat_split_pieces: "concat (split_pieces P s) = filter (\<lambda>c. \<not> P c) s"
  by (induction P s rule: split_pieces.induct) (auto split: list.splits)

lemma split_pieces_plain: "\<forall>c \<in> set w. \<not> P c \<Longrightarrow> split_pieces P w = [w]"
  by (induction P w rule: split_pieces.induct) auto

lemma split_pieces_append:
  "\<forall>c \<in> set w. \<not> P c \<Longrightarrow> P d \<Longrightarrow> split_pieces P (w @ d # s) = w # split_pieces P s"
  by (induction w) auto

section \<open>IPv4 addresses\<close>

definition ipv4_octet :: "string \<Rightarrow> nat option" where
  "ipv4_octet s =
     (if s \<noteq> [] \<and> list_all is_digit s \<and> (hd s = CHR ''0'' \<longrightarrow> tl s = []) \<and> digits_value s \<le> 255
      then Some (digits_value s) else None)"

definition inet_pton4 :: "string \<Rightarrow> u32 option" where
  "inet_pton4 s =
     (case map ipv4_octet (split_pieces (\<lambda>c. c = CHR ''.'') s) of
        [Some a, Some b, Some c, Some d] \<Rightarrow> Some (of_nat a + 0x100 * of_nat b + 0x10000 * of_nat c + 0x1000000 * of_nat d)
      | _ \<Rightarrow> None)"

lemma inet_pton4_chars:
  assumes "inet_pton4 s = Some a"
  shows "s \<noteq> [] \<and> (\<forall>c \<in> set s. is_digit c \<or> c = CHR ''.'')"
proof -
  from assms obtain p q r t where
    ps: "split_pieces (\<lambda>c. c = CHR ''.'') s = [p, q, r, t]"
    and oct: "ipv4_octet p \<noteq> None" "ipv4_octet q \<noteq> None" "ipv4_octet r \<noteq> None" "ipv4_octet t \<noteq> None"
    by (auto simp: inet_pton4_def split: list.splits option.splits)
  have "concat (split_pieces (\<lambda>c. c = CHR ''.'') s) = p @ q @ r @ t" by (simp add: ps)
  then have "filter (\<lambda>c. c \<noteq> CHR ''.'') s = p @ q @ r @ t" by (simp add: concat_split_pieces)
  moreover have "\<forall>c \<in> set (p @ q @ r @ t). is_digit c" "p \<noteq> []"
    using oct by (auto simp: ipv4_octet_def list_all_iff split: if_splits)
  ultimately have "filter (\<lambda>c. c \<noteq> CHR ''.'') s \<noteq> []" "\<forall>c \<in> set (filter (\<lambda>c. c \<noteq> CHR ''.'') s). is_digit c"
    by simp_all
  then show ?thesis by auto
qed

lemma show_nat_hd_nonzero: "n > 0 \<Longrightarrow> hd (show_nat n) \<noteq> CHR ''0''"
proof (induction n rule: show_nat.induct)
  case (1 n)
  show ?case
  proof (cases "n < 10")
    case True
    with 1 have "n \<in> {1, 2, 3, 4, 5, 6, 7, 8, 9}" by auto
    then show ?thesis by (auto simp: show_nat_digit simp flip: One_nat_def)
  next
    case False
    with 1 show ?thesis by (simp add: show_nat.simps [of n] hd_append show_nat_nonempty)
  qed
qed

lemma ipv4_octet_show: "n \<le> 255 \<Longrightarrow> ipv4_octet (show_nat n) = Some n"
proof (cases "n = 0")
  case True
  have "ipv4_octet (show_nat 0) = Some 0" by code_simp
  with True show ?thesis by simp
next
  case False
  moreover assume "n \<le> 255"
  ultimately show ?thesis
    using show_nat_hd_nonzero [of n] show_nat_digits [of n] show_nat_nonempty [of n]
    by (auto simp: ipv4_octet_def list_all_iff)
qed

lemma show_nat_no_dot: "\<forall>c \<in> set (show_nat n). c \<noteq> CHR ''.''"
  using show_nat_digits [of n] by (auto simp: is_digit_def)

lemma inet_pton4_show:
  assumes "a \<le> 255" "b \<le> 255" "c \<le> 255" "d \<le> 255"
  shows "inet_pton4 (show_nat a @ ''.'' @ show_nat b @ ''.'' @ show_nat c @ ''.'' @ show_nat d) =
    Some (of_nat a + 0x100 * of_nat b + 0x10000 * of_nat c + 0x1000000 * of_nat d)"
proof -
  have "split_pieces (\<lambda>c. c = CHR ''.'') (show_nat a @ ''.'' @ show_nat b @ ''.'' @ show_nat c @ ''.'' @ show_nat d) =
      [show_nat a, show_nat b, show_nat c, show_nat d]"
    using show_nat_no_dot by (simp add: split_pieces_append split_pieces_plain)
  with assms show ?thesis by (simp add: inet_pton4_def ipv4_octet_show)
qed

end
