(* ===== verification/Auth_Facts.thy ===== *)
theory Auth_Facts
  imports Auth_Dialog Inet
begin

text \<open>
  What the auth dialog guarantees: the collection loop returns all the output of a \<open>gpauth\<close> that
  exited on its own, asks it to terminate before it kills it when cancelled, and ends once the child is
  reaped; the line protocol recognises exactly the line \<open>QUIT\<close>.
\<close>

section \<open>The line protocol\<close>

fun quit_seen :: "string \<Rightarrow> string \<Rightarrow> bool" where
  "quit_seen [] l = False"
| "quit_seen (c # cs) l = (let (l', quit) = line_byte c l in quit \<or> quit_seen cs l')"

definition line_end :: "char \<Rightarrow> bool" where
  "line_end c \<longleftrightarrow> c = CHR 0x00 \<or> c = CHR 0x0A"

lemma take_15_quit: "take 15 l = ''QUIT'' \<longleftrightarrow> l = ''QUIT''"
proof (cases "length l < 15")
  case False
  then have "length (take 15 l) \<noteq> length ''QUIT''" "length l \<noteq> length ''QUIT''" by simp_all
  then show ?thesis by metis
qed simp

lemma quit_seen_lines:
  assumes "\<forall>c \<in> set l. \<not> line_end c"
  shows "quit_seen cs (take 15 l) \<longleftrightarrow> ''QUIT'' \<in> set (butlast (split_pieces line_end (l @ cs)))"
  using assms
proof (induction cs arbitrary: l)
  case Nil
  then show ?case by (simp add: split_pieces_plain)
next
  case (Cons c cs)
  show ?case
  proof (cases "line_end c")
    case True
    have "line_byte c (take 15 l) = ([], l = ''QUIT'')"
      using True take_15_quit [of l] by (simp add: line_byte_def line_end_def)
    moreover have "split_pieces line_end (l @ c # cs) = l # split_pieces line_end cs"
      using Cons.prems True by (rule split_pieces_append)
    ultimately show ?thesis using Cons.IH [of "[]"] by auto
  next
    case False
    then have "line_byte c (take 15 l) = (take 15 (l @ [c]), False)"
      by (auto simp: line_byte_def line_end_def LINE_SIZE_def)
    with Cons.IH [of "l @ [c]"] Cons.prems False show ?thesis by simp
  qed
qed

text \<open>NetworkManager's cancellation is recognised exactly: whatever bytes arrive, the dialog sees a
  quit if and only if one of the complete lines, ended by a line feed or NUL, is \<open>QUIT\<close>, although it
  keeps only fifteen bytes of a line.\<close>

theorem quit_line_recognised:
  "quit_seen bytes [] \<longleftrightarrow> ''QUIT'' \<in> set (butlast (split_pieces line_end bytes))"
  using quit_seen_lines [of "[]" bytes] by simp

lemma wait_for_quit_quit_seen:
  "list_all (\<lambda>q. \<not> q_interrupted q \<and> q_ready q) qs \<Longrightarrow> map q_read qs = map Byte bytes \<Longrightarrow>
     (wait_for_quit_or_eof qs l n \<noteq> None) = quit_seen bytes l"
proof (induction qs arbitrary: bytes l n)
  case (Cons q qs)
  then obtain c cs where "bytes = c # cs" "q_read q = Byte c" "map q_read qs = map Byte cs" by (cases bytes) auto
  with Cons show ?case by (auto split: prod.splits)
qed simp

section \<open>One round\<close>

lemma poll_failed_frame [simp]:
  "stdin_polled (poll_failed ob c) = stdin_polled c" "out_open (poll_failed ob c) = out_open c"
  "err_open (poll_failed ob c) = err_open c" "out_buf (poll_failed ob c) = out_buf c"
  "err_buf (poll_failed ob c) = err_buf c" "line (poll_failed ob c) = line c"
  "exited (poll_failed ob c) = exited c" "kill_at (poll_failed ob c) = kill_at c"
  "status (poll_failed ob c) = status c" "signals (poll_failed ob c) = signals c"
  by (simp_all add: poll_failed_def Let_def)

lemma read_stdin_frame [simp]:
  "stdin_polled (read_stdin ob c) = stdin_polled c" "out_open (read_stdin ob c) = out_open c"
  "err_open (read_stdin ob c) = err_open c" "out_buf (read_stdin ob c) = out_buf c"
  "err_buf (read_stdin ob c) = err_buf c" "ok (read_stdin ob c) = ok c"
  "exited (read_stdin ob c) = exited c" "kill_at (read_stdin ob c) = kill_at c"
  "status (read_stdin ob c) = status c" "signals (read_stdin ob c) = signals c"
  by (simp_all add: read_stdin_def Let_def split: read_byte.split prod.split)

lemma read_out_frame [simp]:
  "stdin_polled (read_out ob c) = stdin_polled c" "err_open (read_out ob c) = err_open c"
  "err_buf (read_out ob c) = err_buf c" "line (read_out ob c) = line c"
  "cancelled (read_out ob c) = cancelled c" "exited (read_out ob c) = exited c"
  "kill_at (read_out ob c) = kill_at c" "status (read_out ob c) = status c"
  "signals (read_out ob c) = signals c"
  by (simp_all add: read_out_def split: read_chunk.split)

lemma read_err_frame [simp]:
  "stdin_polled (read_err ob c) = stdin_polled c" "out_open (read_err ob c) = out_open c"
  "out_buf (read_err ob c) = out_buf c" "line (read_err ob c) = line c"
  "cancelled (read_err ob c) = cancelled c" "exited (read_err ob c) = exited c"
  "kill_at (read_err ob c) = kill_at c" "status (read_err ob c) = status c"
  "signals (read_err ob c) = signals c"
  by (simp_all add: read_err_def split: read_chunk.split)

lemma signal_child_frame [simp]:
  "out_open (signal_child ob c) = out_open c" "err_open (signal_child ob c) = err_open c"
  "out_buf (signal_child ob c) = out_buf c" "err_buf (signal_child ob c) = err_buf c"
  "line (signal_child ob c) = line c" "cancelled (signal_child ob c) = cancelled c"
  "exited (signal_child ob c) = exited c" "ok (signal_child ob c) = ok c" "status (signal_child ob c) = status c"
  by (simp_all add: signal_child_def Let_def)

lemma reap_child_frame [simp]:
  "stdin_polled (reap_child ob c) = stdin_polled c" "out_open (reap_child ob c) = out_open c"
  "err_open (reap_child ob c) = err_open c" "out_buf (reap_child ob c) = out_buf c"
  "err_buf (reap_child ob c) = err_buf c" "line (reap_child ob c) = line c"
  "cancelled (reap_child ob c) = cancelled c" "kill_at (reap_child ob c) = kill_at c"
  "signals (reap_child ob c) = signals c"
  by (simp_all add: reap_child_def split: wait_result.split)

text \<open>What a round does to each field, through the one stage that writes it.\<close>

lemma cancelled_mono:
  "cancelled c \<Longrightarrow> cancelled (collect_round ob c)"
  by (auto simp: collect_round_def poll_failed_def read_stdin_def Let_def split: read_byte.split prod.split)

lemma interrupted_cancels: "o_interrupted ob \<Longrightarrow> cancelled (collect_round ob c)"
  by (auto simp: collect_round_def poll_failed_def read_stdin_def Let_def split: read_byte.split prod.split)

lemma exited_mono: "exited c \<Longrightarrow> exited (collect_round ob c)"
  by (simp add: collect_round_def reap_child_def)

lemma ok_mono: "ok (collect_round ob c) \<Longrightarrow> ok c"
  by (auto simp: collect_round_def reap_child_def read_err_def read_out_def poll_failed_def Let_def
      split: wait_result.splits read_chunk.splits if_splits)

lemma signal_child_uncancelled: "\<not> cancelled c \<Longrightarrow> signal_child ob c = c"
  by (simp add: signal_child_def)

lemma uncancelled_signals: "\<not> cancelled (collect_round ob c) \<Longrightarrow> signals (collect_round ob c) = signals c"
  by (simp add: collect_round_def signal_child_uncancelled)

lemma exited_reaped:
  "exited (collect_round ob c) \<Longrightarrow> ok (collect_round ob c) \<Longrightarrow> \<not> exited c \<Longrightarrow>
     o_wait ob = Reaped (status (collect_round ob c))"
  by (auto simp: collect_round_def reap_child_def split: wait_result.splits if_splits)

lemma exited_status: "exited c \<Longrightarrow> status (collect_round ob c) = status c"
  by (simp add: collect_round_def reap_child_def)

definition wait_ends :: "obs \<Rightarrow> bool" where
  "wait_ends ob \<longleftrightarrow> (case o_wait ob of WaitNothing \<Rightarrow> False | Reaped st \<Rightarrow> True | WaitErr eintr \<Rightarrow> \<not> eintr)"

lemma wait_exits: "wait_ends ob \<Longrightarrow> exited (collect_round ob c)"
  by (auto simp: collect_round_def reap_child_def wait_ends_def split: wait_result.splits)

text \<open>One pipe over a round and over a run: \<open>chunk\<close> is what reading it gives when it is ready.\<close>

datatype pipe_end = StillOpen | AtEof | Broken

fun drained :: "(obs \<Rightarrow> bool) \<Rightarrow> (obs \<Rightarrow> read_chunk) \<Rightarrow> obs list \<Rightarrow> string \<times> pipe_end" where
  "drained revents chunk [] = ([], StillOpen)"
| "drained revents chunk (ob # obss) =
     (if o_ready ob > 0 \<and> revents ob then
        (case chunk ob of
           Chunk s \<Rightarrow> (let (t, e) = drained revents chunk obss in (s @ t, e))
         | ChunkEof \<Rightarrow> ([], AtEof)
         | ChunkErr eintr \<Rightarrow> if eintr then drained revents chunk obss else ([], Broken))
      else drained revents chunk obss)"

lemma round_out:
  "out_buf (collect_round ob c) = out_buf (read_out ob c)" "out_open (collect_round ob c) = out_open (read_out ob c)"
  "ok (collect_round ob c) \<Longrightarrow> ok (read_out ob (read_stdin ob (poll_failed ob c)))"
  by (auto simp: collect_round_def read_out_def read_err_def reap_child_def split: read_chunk.splits wait_result.splits if_splits)

lemma round_err:
  "err_buf (collect_round ob c) = err_buf (read_err ob c)" "err_open (collect_round ob c) = err_open (read_err ob c)"
  "ok (collect_round ob c) \<Longrightarrow> ok (read_err ob (read_out ob (read_stdin ob (poll_failed ob c))))"
  by (auto simp: collect_round_def read_err_def reap_child_def split: read_chunk.splits wait_result.splits if_splits)

section \<open>Runs of rounds\<close>

text \<open>The fields a run ends with, from the list of what the system answered.\<close>

lemma fold_cancelled: "cancelled c \<Longrightarrow> cancelled (fold collect_round obss c)"
  by (induction obss arbitrary: c) (simp_all add: cancelled_mono)

lemma fold_exited: "exited c \<Longrightarrow> exited (fold collect_round obss c)"
  by (induction obss arbitrary: c) (simp_all add: exited_mono)

lemma fold_status: "exited c \<Longrightarrow> status (fold collect_round obss c) = status c"
  by (induction obss arbitrary: c) (simp_all add: exited_mono exited_status)

lemma fold_ok: "ok (fold collect_round obss c) \<Longrightarrow> ok c"
  by (induction obss arbitrary: c) (simp, metis fold_simps(2) ok_mono)

lemma fold_interrupted: "ob \<in> set obss \<Longrightarrow> o_interrupted ob \<Longrightarrow> cancelled (fold collect_round obss c)"
  by (induction obss arbitrary: c) (auto intro: fold_cancelled interrupted_cancels)

lemma fold_wait: "ob \<in> set obss \<Longrightarrow> wait_ends ob \<Longrightarrow> exited (fold collect_round obss c)"
  by (induction obss arbitrary: c) (auto intro: fold_exited wait_exits)

lemma fold_signals: "\<not> cancelled (fold collect_round obss c) \<Longrightarrow> signals (fold collect_round obss c) = signals c"
  by (induction obss arbitrary: c) (simp, metis fold_cancelled fold_simps(2) uncancelled_signals)

lemma fold_reaped:
  "exited (fold collect_round obss c) \<Longrightarrow> ok (fold collect_round obss c) \<Longrightarrow> \<not> exited c \<Longrightarrow>
     \<exists>ob \<in> set obss. o_wait ob = Reaped (status (fold collect_round obss c))"
proof (induction obss arbitrary: c)
  case (Cons ob obss)
  show ?case
  proof (cases "exited (collect_round ob c)")
    case True
    have "ok (collect_round ob c)" using Cons.prems fold_ok by simp
    then have "o_wait ob = Reaped (status (collect_round ob c))" using True Cons.prems exited_reaped by simp
    with True show ?thesis by (simp add: fold_status)
  next
    case False
    with Cons show ?thesis by auto
  qed
qed simp

text \<open>The interface of an output pipe: what one round does to the text read so far and to the pipe.\<close>

locale child_pipe =
  fixes revents :: "obs \<Rightarrow> bool"
    and chunk :: "obs \<Rightarrow> read_chunk"
    and buf :: "collecting \<Rightarrow> string"
    and opened :: "collecting \<Rightarrow> bool"
  assumes idle: "\<not> (o_ready ob > 0 \<and> revents ob) \<Longrightarrow>
      buf (collect_round ob c) = buf c \<and> opened (collect_round ob c) = opened c"
    and closed: "\<not> opened c \<Longrightarrow> buf (collect_round ob c) = buf c \<and> \<not> opened (collect_round ob c)"
    and data: "o_ready ob > 0 \<Longrightarrow> revents ob \<Longrightarrow> opened c \<Longrightarrow> chunk ob = Chunk s \<Longrightarrow>
      buf (collect_round ob c) = buf c @ s \<and> opened (collect_round ob c)"
    and at_end: "o_ready ob > 0 \<Longrightarrow> revents ob \<Longrightarrow> opened c \<Longrightarrow> chunk ob = ChunkEof \<Longrightarrow>
      buf (collect_round ob c) = buf c \<and> \<not> opened (collect_round ob c)"
    and failed: "o_ready ob > 0 \<Longrightarrow> revents ob \<Longrightarrow> opened c \<Longrightarrow> chunk ob = ChunkErr eintr \<Longrightarrow>
      buf (collect_round ob c) = buf c \<and> opened (collect_round ob c) = eintr \<and> (ok (collect_round ob c) \<longrightarrow> eintr)"
begin

lemma fold_closed: "\<not> opened c \<Longrightarrow>
    buf (fold collect_round obss c) = buf c \<and> \<not> opened (fold collect_round obss c)"
  by (induction obss arbitrary: c) (simp_all add: closed)

lemma fold_drained:
  "opened c \<Longrightarrow> drained revents chunk obss = (t, e) \<Longrightarrow>
     buf (fold collect_round obss c) = buf c @ t \<and> opened (fold collect_round obss c) = (e = StillOpen) \<and>
     (ok (fold collect_round obss c) \<longrightarrow> e \<noteq> Broken)"
proof (induction obss arbitrary: c t)
  case (Cons ob obss)
  show ?case
  proof (cases "o_ready ob > 0 \<and> revents ob")
    case False
    then have "drained revents chunk obss = (t, e)"
      using Cons.prems(2) by (simp only: drained.simps if_False)
    then show ?thesis using Cons.IH [of "collect_round ob c" t] Cons.prems(1) idle [OF False, of c] by simp
  next
    case ready: True
    show ?thesis
    proof (cases "chunk ob")
      case (Chunk s)
      with Cons.prems ready obtain t' where t: "drained revents chunk obss = (t', e)" "t = s @ t'"
        by (auto split: prod.splits)
      show ?thesis using data [OF _ _ Cons.prems(1) Chunk] ready Cons.IH [of "collect_round ob c", OF _ t(1)] t(2)
        by simp
    next
      case ChunkEof
      with Cons.prems ready show ?thesis using at_end [of ob c] fold_closed [of "collect_round ob c" obss] by auto
    next
      case (ChunkErr eintr)
      show ?thesis
      proof (cases eintr)
        case True
        with ChunkErr Cons.prems ready have "drained revents chunk obss = (t, e)" by simp
        then show ?thesis
          using Cons.IH [of "collect_round ob c" t] failed [OF _ _ Cons.prems(1) ChunkErr] ready True by simp
      next
        case False
        with ChunkErr Cons.prems ready failed [of ob c eintr] fold_closed [of "collect_round ob c" obss]
          fold_ok [of obss "collect_round ob c"]
        show ?thesis by auto
      qed
    qed
  qed
qed simp

end

interpretation child_out: child_pipe o_revents1 o_out out_buf out_open
  by unfold_locales
    (auto simp: round_out(1,2) read_out_def dest!: round_out(3))

interpretation child_err: child_pipe o_revents2 o_err err_buf err_open
  by unfold_locales
    (auto simp: round_err(1,2) read_err_def dest!: round_err(3))

lemma collect_loop_run:
  "collect_loop obss c = Some c' \<Longrightarrow>
     \<exists>used rest. obss = used @ rest \<and> c' = fold collect_round used c \<and>
       (\<not> loop_condition c' \<or> cancelled c' \<and> exited c')"
proof (induction obss arbitrary: c)
  case Nil
  then have "c' = c" "\<not> loop_condition c" by (simp_all add: collect_loop.simps [of "[]"] split: if_splits)
  then show ?case by auto
next
  case (Cons ob obss)
  note step = collect_loop.simps [of "ob # obss" c]
  show ?case
  proof (cases "\<not> loop_condition c")
    case True
    with Cons.prems have "ob # obss = [] @ ob # obss" "c' = fold collect_round [] c" by (simp_all add: step)
    with True show ?thesis by (metis fold_simps(1) id_apply)
  next
    case False
    show ?thesis
    proof (cases "cancelled (collect_round ob c) \<and> exited (collect_round ob c)")
      case True
      with Cons.prems False have "ob # obss = [ob] @ obss" "c' = fold collect_round [ob] c" by (simp_all add: step Let_def)
      with True show ?thesis by (metis fold_simps)
    next
      case stop: False
      with Cons.prems False have "collect_loop obss (collect_round ob c) = Some c'" by (simp add: step Let_def)
      from Cons.IH [OF this] obtain used rest where "obss = used @ rest"
        "c' = fold collect_round used (collect_round ob c)" "\<not> loop_condition c' \<or> cancelled c' \<and> exited c'" by blast
      then have "ob # obss = (ob # used) @ rest" "c' = fold collect_round (ob # used) c" by simp_all
      with \<open>\<not> loop_condition c' \<or> cancelled c' \<and> exited c'\<close> show ?thesis by blast
    qed
  qed
qed

lemma collect_loop_running:
  "collect_loop obss c = None \<Longrightarrow> loop_condition (fold collect_round obss c) \<and>
     (obss = [] \<or> \<not> (cancelled (fold collect_round obss c) \<and> exited (fold collect_round obss c)))"
proof (induction obss arbitrary: c)
  case Nil
  then show ?case by (simp add: collect_loop.simps [of "[]"] split: if_splits)
next
  case (Cons ob obss)
  then have "\<not> (cancelled (collect_round ob c) \<and> exited (collect_round ob c))"
    "collect_loop obss (collect_round ob c) = None"
    by (simp_all add: collect_loop.simps [of "ob # obss"] Let_def split: if_splits)
  with Cons.IH show ?case by (cases obss) auto
qed

section \<open>What collecting guarantees\<close>

lemma collect_auth_Collected:
  assumes "collect_auth interrupted spawn argv obss = Some (Collected success out err st)"
  obtains c where "\<not> interrupted" "collect_loop obss collect_start = Some c" "success = (ok c \<and> \<not> cancelled c)"
    "out = out_buf c" "err = err_buf c" "st = status c"
  using assms by (auto simp: collect_auth_def split: if_splits sum.splits)

text \<open>A collection that succeeds has read standard output and standard error up to their ends, has the
  status the child was reaped with, was never interrupted, and sent the child no signal.\<close>

lemma collected_is_complete:
  assumes "collect_auth interrupted spawn argv obss = Some (Collected True out err st)"
  shows "\<exists>used rest. obss = used @ rest \<and> drained o_revents1 o_out used = (out, AtEof) \<and>
      drained o_revents2 o_err used = (err, AtEof) \<and> list_ex (\<lambda>ob. o_wait ob = Reaped st) used \<and>
      list_all (\<lambda>ob. \<not> o_interrupted ob) used \<and> signals (fold collect_round used collect_start) = []"
proof -
  from assms obtain c where c: "collect_loop obss collect_start = Some c" "ok c" "\<not> cancelled c"
    "out = out_buf c" "err = err_buf c" "st = status c" by (auto elim: collect_auth_Collected)
  from collect_loop_run [OF c(1)] c(3) obtain used rest where u: "obss = used @ rest"
    "c = fold collect_round used collect_start" "\<not> loop_condition c" by blast
  obtain t e where o: "drained o_revents1 o_out used = (t, e)" by fastforce
  obtain t' e' where r: "drained o_revents2 o_err used = (t', e')" by fastforce
  have "t = out" "e = AtEof"
    using child_out.fold_drained [of collect_start, OF _ o] u(2,3) c(2,4)
    by (cases e; simp add: collect_start_def loop_condition_def)+
  moreover have "t' = err" "e' = AtEof"
    using child_err.fold_drained [of collect_start, OF _ r] u(2,3) c(2,5)
    by (cases e'; simp add: collect_start_def loop_condition_def)+
  moreover have "list_ex (\<lambda>ob. o_wait ob = Reaped st) used"
    using fold_reaped [of used collect_start] u(2,3) c(2,6)
    by (simp add: collect_start_def loop_condition_def list_ex_iff)
  moreover have "list_all (\<lambda>ob. \<not> o_interrupted ob) used"
    using fold_interrupted [of _ used collect_start] u(2) c(3) by (auto simp: list_all_iff)
  moreover have "signals (fold collect_round used collect_start) = []"
    using fold_signals [of used collect_start] u(2) c(3) by (simp add: collect_start_def)
  ultimately show ?thesis using u(1) o r by blast
qed

section \<open>Being told to stop\<close>

text \<open>What the system told the dialog over some rounds: it was interrupted by a signal, \<open>poll\<close> failed,
  standard input ended or failed, or the bytes read from it make the complete line \<open>QUIT\<close>.\<close>

definition stdin_read :: "obs \<Rightarrow> read_byte option" where
  "stdin_read ob = (if o_ready ob > 0 \<and> o_revents0 ob then Some (o_stdin ob) else None)"

fun typed :: "obs list \<Rightarrow> string" where
  "typed [] = []"
| "typed (ob # obss) = (case stdin_read ob of Some (Byte b) \<Rightarrow> b # typed obss | _ \<Rightarrow> typed obss)"

definition stop_round :: "obs \<Rightarrow> bool" where
  "stop_round ob \<longleftrightarrow> o_interrupted ob \<or> o_ready ob < 0 \<and> \<not> o_eintr ob \<or>
     stdin_read ob = Some ByteEof \<or> stdin_read ob = Some (ByteErr False)"

definition told_to_stop :: "obs list \<Rightarrow> bool" where
  "told_to_stop obss \<longleftrightarrow> list_ex stop_round obss \<or> ''QUIT'' \<in> set (butlast (split_pieces line_end (typed obss)))"

lemma stop_round_cancels: "stdin_polled c \<Longrightarrow> stop_round ob \<Longrightarrow> cancelled (collect_round ob c)"
  by (auto simp: stop_round_def stdin_read_def collect_round_def poll_failed_def read_stdin_def Let_def
      split: read_byte.split prod.split if_splits)

lemma quiet_round_keeps:
  assumes "\<not> stop_round ob" "stdin_polled c" "\<not> cancelled c"
  shows "(case stdin_read ob of
      Some (Byte b) \<Rightarrow> line (collect_round ob c) = fst (line_byte b (line c)) \<and>
        cancelled (collect_round ob c) = snd (line_byte b (line c))
    | _ \<Rightarrow> line (collect_round ob c) = line c \<and> \<not> cancelled (collect_round ob c)) \<and>
    stdin_polled (collect_round ob c) = (\<not> cancelled (collect_round ob c))"
  using assms
  by (auto simp: stop_round_def stdin_read_def collect_round_def poll_failed_def read_stdin_def signal_child_def Let_def
      split: read_byte.split prod.split if_splits option.split)

lemma fold_told:
  "stdin_polled c \<Longrightarrow> \<not> cancelled c \<Longrightarrow>
     cancelled (fold collect_round obss c) \<longleftrightarrow> list_ex stop_round obss \<or> quit_seen (typed obss) (line c)"
proof (induction obss arbitrary: c)
  case (Cons ob obss)
  show ?case
  proof (cases "stop_round ob")
    case True
    with Cons.prems show ?thesis by (simp add: stop_round_cancels fold_cancelled)
  next
    case False
    note k = quiet_round_keeps [OF False Cons.prems]
    show ?thesis
    proof (cases "cancelled (collect_round ob c)")
      case True
      with k obtain b where "stdin_read ob = Some (Byte b)" "snd (line_byte b (line c))"
        by (auto split: option.splits read_byte.splits)
      with True show ?thesis by (simp add: fold_cancelled split_beta)
    next
      case c: False
      with k have "stdin_polled (collect_round ob c)" by simp
      from Cons.IH [OF this c] k c False show ?thesis
        by (auto simp: split_beta split: option.splits read_byte.splits)
    qed
  qed
qed simp

text \<open>The dialog counts itself cancelled exactly when it was told to stop.\<close>

lemma cancelled_iff_told: "cancelled (fold collect_round obss collect_start) \<longleftrightarrow> told_to_stop obss"
  by (simp add: fold_told told_to_stop_def quit_line_recognised [symmetric] collect_start_def)

lemma round_exited: "exited (collect_round ob c) \<longleftrightarrow> exited c \<or> wait_ends ob"
  by (auto simp: collect_round_def reap_child_def wait_ends_def split: wait_result.splits)

lemma exited_iff_waited: "exited (fold collect_round obss c) \<longleftrightarrow> exited c \<or> list_ex wait_ends obss"
  by (induction obss arbitrary: c) (auto simp: round_exited)

text \<open>A loop still running after some rounds goes on from the state they leave.\<close>

lemma collect_loop_resumes:
  "collect_loop used c = None \<Longrightarrow>
     collect_loop (used @ obss) c = collect_loop obss (fold collect_round used c)"
proof (induction used arbitrary: c)
  case (Cons ob used)
  note step = collect_loop.simps [of "ob # xs" c for xs]
  from Cons.prems have "loop_condition c" "\<not> (cancelled (collect_round ob c) \<and> exited (collect_round ob c))"
    "collect_loop used (collect_round ob c) = None"
    by (simp_all add: step Let_def split: if_splits)
  with Cons.IH show ?case by (auto simp: step Let_def)
qed simp

lemma term_sent:
  assumes "kill_at c = 0" "signals c = []" "\<not> exited c"
  shows "(if signals (collect_round ob c) = [] then kill_at (collect_round ob c) = 0 \<and> \<not> cancelled (collect_round ob c)
     else fst (hd (signals (collect_round ob c))) = TERM_SIGNAL)"
  using assms by (simp add: collect_round_def signal_child_def Let_def)

lemma first_signal_stays:
  "signals c \<noteq> [] \<Longrightarrow> signals (collect_round ob c) \<noteq> [] \<and> hd (signals (collect_round ob c)) = hd (signals c)"
  by (simp add: collect_round_def signal_child_def Let_def)

lemma fold_first_signal:
  "signals c \<noteq> [] \<Longrightarrow>
     signals (fold collect_round obss c) \<noteq> [] \<and> hd (signals (fold collect_round obss c)) = hd (signals c)"
  by (induction obss arbitrary: c) (simp_all add: first_signal_stays)

lemma fold_term_sent:
  "kill_at c = 0 \<Longrightarrow> signals c = [] \<Longrightarrow> \<not> exited c \<Longrightarrow> \<not> cancelled c \<Longrightarrow> \<not> list_ex wait_ends obss \<Longrightarrow>
     cancelled (fold collect_round (obss @ [ob]) c) \<Longrightarrow>
     signals (fold collect_round (obss @ [ob]) c) \<noteq> [] \<and> fst (hd (signals (fold collect_round (obss @ [ob]) c))) = TERM_SIGNAL"
proof (induction obss arbitrary: c)
  case Nil
  then show ?case using term_sent [of c ob] by (simp split: if_splits)
next
  case (Cons ob' obss)
  show ?case
  proof (cases "signals (collect_round ob' c) = []")
    case True
    with term_sent [of c ob'] Cons.prems have "kill_at (collect_round ob' c) = 0" "\<not> cancelled (collect_round ob' c)"
      by simp_all
    then show ?thesis using Cons.IH [of "collect_round ob' c"] Cons.prems True by (simp add: round_exited)
  next
    case False
    then show ?thesis
      using fold_first_signal [OF False, of "obss @ [ob]"] term_sent [of c ob'] Cons.prems by simp
  qed
qed

text \<open>C17: A cancelled collection ends with its child and fails: as long as the loop runs, the first round by
  which the dialog has been told to stop, be it by a signal, a failed \<open>poll\<close>, the end or a failure of
  standard input, or the line \<open>QUIT\<close>, and by which the child has been reaped or cannot be waited for, is
  the last. Whatever the pipes still hold open or would bring later, \<open>collect_auth\<close> then returns failure,
  and a child that had not ended before that round has been sent \<open>SIGTERM\<close>.\<close>

theorem cancelled_collection_ends:
  assumes "collect_loop used collect_start = None" "told_to_stop (used @ [ob])" "list_ex wait_ends (used @ [ob])"
    and "spawn argv = Inr pid" "c = fold collect_round (used @ [ob]) collect_start"
  shows "collect_loop (used @ ob # later) collect_start = Some c \<and> cancelled c \<and> exited c \<and>
    collect_auth False spawn argv (used @ ob # later) = Some (Collected False (out_buf c) (err_buf c) (status c)) \<and>
    (if list_ex wait_ends used then True else signals c \<noteq> [] \<and> fst (hd (signals c)) = TERM_SIGNAL)"
proof -
  have c: "cancelled c" "exited c"
    using assms(2,3) by (simp_all only: assms(5) cancelled_iff_told exited_iff_waited simp_thms)
  have "loop_condition (fold collect_round used collect_start)"
    using collect_loop_running [OF assms(1)] by blast
  then have l: "collect_loop (used @ ob # later) collect_start = Some c"
    using c by (simp add: collect_loop_resumes [OF assms(1)] collect_loop.simps [of "ob # later"] assms(5))
  have "signals c \<noteq> [] \<and> fst (hd (signals c)) = TERM_SIGNAL" if "\<not> list_ex wait_ends used"
    using fold_term_sent [of collect_start used ob] that c(1) unfolding assms(5) by (simp add: collect_start_def)
  with c l show ?thesis by (simp add: collect_auth_def assms(4))
qed

section \<open>The signals the child gets\<close>

text \<open>What may be sent: nothing, or one \<open>SIGTERM\<close> and then, two seconds later at the earliest, only
  \<open>SIGKILL\<close>s.\<close>

fun signal_protocol :: "(int \<times> int) list \<Rightarrow> bool" where
  "signal_protocol [] = True"
| "signal_protocol ((sig, t) # later) =
     (sig = TERM_SIGNAL \<and> list_all (\<lambda>(sig', t'). sig' = KILL_SIGNAL \<and> t + 2 * G_USEC_PER_SEC \<le> t') later)"

lemma signal_protocol_snoc:
  "sigs \<noteq> [] \<Longrightarrow> signal_protocol sigs \<Longrightarrow> snd (hd sigs) + 2 * G_USEC_PER_SEC \<le> t \<Longrightarrow>
     signal_protocol (sigs @ [(KILL_SIGNAL, t)])"
  by (cases sigs rule: signal_protocol.cases) auto

definition collect_inv :: "collecting \<Rightarrow> bool" where
  "collect_inv c \<longleftrightarrow> length (line c) < LINE_SIZE \<and> (stdin_polled c \<or> cancelled c) \<and>
     (if signals c = [] then kill_at c = 0
      else cancelled c \<and> 0 < kill_at c \<and> kill_at c = snd (hd (signals c)) + 2 * G_USEC_PER_SEC \<and>
        signal_protocol (signals c))"

text \<open>A step of the loop: a round entered with its condition true and not after its \<open>break\<close>.\<close>

inductive collect_step :: "collecting \<Rightarrow> collecting \<Rightarrow> bool" where
  "loop_condition c \<Longrightarrow> \<not> (cancelled c \<and> exited c) \<Longrightarrow> 0 \<le> o_now ob \<Longrightarrow> collect_step c (collect_round ob c)"

inductive_cases collect_stepE: "collect_step c c'"

definition collect_inits :: "collecting \<Rightarrow> bool" where
  "collect_inits c \<longleftrightarrow> c = collect_start"

lemma line_byte_length: "length l < LINE_SIZE \<Longrightarrow> length (fst (line_byte b l)) < LINE_SIZE"
  by (auto simp: line_byte_def LINE_SIZE_def)

lemma round_line: "length (line c) < LINE_SIZE \<Longrightarrow> length (line (collect_round ob c)) < LINE_SIZE"
  using line_byte_length [of "line c"]
  by (auto simp: collect_round_def read_stdin_def split: read_byte.split prod.split dest: arg_cong [of _ _ fst])
    (metis fst_conv)

lemma round_signals:
  assumes "c1 = read_stdin ob (poll_failed ob c)"
  shows "signals (collect_round ob c) = signals (signal_child ob c1)"
    "kill_at (collect_round ob c) = kill_at (signal_child ob c1)"
    "stdin_polled (collect_round ob c) = stdin_polled (signal_child ob c1)"
    "cancelled (collect_round ob c) = cancelled c1"
  by (simp_all add: assms collect_round_def signal_child_def Let_def)

lemma collect_round_inv:
  assumes "collect_inv c" "0 \<le> o_now ob"
  shows "collect_inv (collect_round ob c)"
proof -
  define c1 where "c1 = read_stdin ob (poll_failed ob c)"
  have c1: "signals c1 = signals c" "kill_at c1 = kill_at c" "stdin_polled c1 = stdin_polled c"
    by (simp_all add: c1_def)
  have "cancelled c \<Longrightarrow> cancelled c1"
    using cancelled_mono [of c ob] round_signals(4) [OF c1_def] by simp
  note this [dest]
  note round_signals [OF c1_def, simp] c1 [simp] signal_child_def [simp] Let_def [simp]
  have line: "length (line (collect_round ob c)) < LINE_SIZE"
    using assms(1) round_line by (simp add: collect_inv_def)
  show ?thesis
  proof (cases "signals c = []")
    case True
    with assms line show ?thesis by (auto simp: collect_inv_def G_USEC_PER_SEC_def)
  next
    case False
    with assms(1) have k: "signal_protocol (signals c)" "0 < kill_at c" "cancelled c"
      "kill_at c = snd (hd (signals c)) + 2 * G_USEC_PER_SEC" by (simp_all add: collect_inv_def)
    then have "kill_at c \<le> o_now ob \<Longrightarrow> signal_protocol (signals c @ [(KILL_SIGNAL, o_now ob)])"
      using False by (simp add: signal_protocol_snoc)
    with False line k show ?thesis by (auto simp: collect_inv_def)
  qed
qed

interpretation collection: invariant_system collect_inits collect_step collect_inv
proof unfold_locales
  show "collect_inits c \<Longrightarrow> collect_inv c" for c
    by (simp add: collect_inits_def collect_start_def collect_inv_def LINE_SIZE_def)
  show "collect_inv c \<Longrightarrow> collect_step c c' \<Longrightarrow> collect_inv c'" for c c'
    by (auto elim!: collect_stepE intro: collect_round_inv)
qed

lemma collect_loop_reach:
  "reach collect_inits collect_step c \<Longrightarrow> \<not> (cancelled c \<and> exited c) \<Longrightarrow> list_all (\<lambda>ob. 0 \<le> o_now ob) obss \<Longrightarrow>
     collect_loop obss c = Some c' \<Longrightarrow> reach collect_inits collect_step c'"
proof (induction obss arbitrary: c)
  case Nil
  then show ?case by (simp add: collect_loop.simps [of "[]"] split: if_splits)
next
  case (Cons ob obss)
  note step = collect_loop.simps [of "ob # obss" c]
  show ?case
  proof (cases "loop_condition c")
    case False
    with Cons.prems show ?thesis by (simp add: step)
  next
    case True
    then have r: "reach collect_inits collect_step (collect_round ob c)"
      using Cons.prems by (auto intro: reach_step collect_step.intros)
    show ?thesis
    proof (cases "cancelled (collect_round ob c) \<and> exited (collect_round ob c)")
      case stop: True
      with True Cons.prems r show ?thesis by (simp add: step Let_def)
    next
      case False
      with True Cons.prems have "collect_loop obss (collect_round ob c) = Some c'" by (simp add: step Let_def)
      then show ?thesis using Cons.IH [OF r False] Cons.prems(3) by simp
    qed
  qed
qed

text \<open>C16: \<open>gpauth\<close> is stopped politely: over a whole collection the child gets no signal unless it is
  cancelled, its first signal is one \<open>SIGTERM\<close>, and every later one is a \<open>SIGKILL\<close> at least two
  seconds after it, whatever the order in which input, output and cancellation arrive.\<close>

theorem child_signals:
  assumes "collect_loop obss collect_start = Some c" "list_all (\<lambda>ob. 0 \<le> o_now ob) obss"
  shows "signal_protocol (signals c) \<and> (if signals c = [] then True else cancelled c)"
proof -
  have "reach collect_inits collect_step collect_start" by (simp add: reach_init collect_inits_def)
  moreover have "\<not> (cancelled collect_start \<and> exited collect_start)" by (simp add: collect_start_def)
  ultimately have "reach collect_inits collect_step c" using collect_loop_reach assms by blast
  then have "collect_inv c" by (rule collection.reach_inv)
  then show ?thesis by (simp add: collect_inv_def split: if_splits)
qed

section \<open>The authentication the dialog hands over\<close>

lemma strip_no_newline_end:
  "strip_one_trailing_newline v = [] \<or>
     last (strip_one_trailing_newline v) \<noteq> CHR 0x0A \<and> last (strip_one_trailing_newline v) \<noteq> CHR 0x0D"
proof -
  have "dropWhile P w = [] \<or> \<not> P (hd (dropWhile P w))" for P :: "char \<Rightarrow> bool" and w
    using hd_dropWhile [of P w] by blast
  from this [of "\<lambda>c. c = CHR 0x0A \<or> c = CHR 0x0D" "rev v"] show ?thesis
    by (auto simp: strip_one_trailing_newline_def last_rev)
qed

lemma run_gpauth_Some:
  assumes "run_gpauth sys server as_gateway browser options secrets = Some (Some json)"
  obtains out err st where
    "collect_auth (d_interrupted_before sys) (d_spawn sys) (gpauth_argv sys server as_gateway browser options secrets)
       (d_obs sys) = Some (Collected True out err st)"
    "WIFEXITED st" "WEXITSTATUS st = 0" "json = strip_one_trailing_newline (c_str out)" "json \<noteq> []"
    "nm_gpclient_check_version (d_spawn_sync sys) (d_gpauth_binary sys) ''gpauth'' = Inr ()"
proof -
  let ?r = "collect_auth (d_interrupted_before sys) (d_spawn sys)
    (gpauth_argv sys server as_gateway browser options secrets) (d_obs sys)"
  have v: "nm_gpclient_check_version (d_spawn_sync sys) (d_gpauth_binary sys) ''gpauth'' = Inr ()"
    using assms by (auto simp: run_gpauth_def split: sum.splits)
  with assms obtain r where r: "?r = Some r" by (auto simp: run_gpauth_def)
  show ?thesis
  proof (cases r)
    case (Collected success out err st)
    with assms v r show ?thesis by (intro that [of out err st]) (auto simp: run_gpauth_def Let_def split: if_splits)
  qed (use assms v r in \<open>simp add: run_gpauth_def\<close>)
qed

text \<open>C15: The authentication is \<open>gpauth\<close>'s own answer: when the dialog accepts it, the version check
  passed, the child was read to the end of both pipes without an interruption or a signal, it exited
  with status 0, and the text is its whole standard output up to a NUL, without the line ends.\<close>

theorem gpauth_answer_is_complete:
  assumes "run_gpauth sys server as_gateway browser options secrets = Some (Some json)"
  shows "nm_gpclient_check_version (d_spawn_sync sys) (d_gpauth_binary sys) ''gpauth'' = Inr () \<and> json \<noteq> [] \<and>
    last json \<noteq> CHR 0x0A \<and> last json \<noteq> CHR 0x0D \<and>
    (\<exists>used rest out err st. d_obs sys = used @ rest \<and> drained o_revents1 o_out used = (out, AtEof) \<and>
       drained o_revents2 o_err used = (err, AtEof) \<and> json = strip_one_trailing_newline (c_str out) \<and>
       list_ex (\<lambda>ob. o_wait ob = Reaped st) used \<and> WIFEXITED st \<and> WEXITSTATUS st = 0 \<and>
       list_all (\<lambda>ob. \<not> o_interrupted ob) used \<and> signals (fold collect_round used collect_start) = [])"
proof -
  obtain out err st where c: "collect_auth (d_interrupted_before sys) (d_spawn sys)
       (gpauth_argv sys server as_gateway browser options secrets) (d_obs sys) = Some (Collected True out err st)"
    "WIFEXITED st" "WEXITSTATUS st = 0" "json = strip_one_trailing_newline (c_str out)" "json \<noteq> []"
    "nm_gpclient_check_version (d_spawn_sync sys) (d_gpauth_binary sys) ''gpauth'' = Inr ()"
    using assms by (rule run_gpauth_Some)
  moreover have "last json \<noteq> CHR 0x0A \<and> last json \<noteq> CHR 0x0D"
    using strip_no_newline_end c(4,5) by blast
  ultimately show ?thesis using collected_is_complete [OF c(1)] by blast
qed

section \<open>The lines NetworkManager reads back\<close>

text \<open>The answer read line by line, as alternating keys and values up to an empty line.\<close>

fun read_pairs :: "string list \<Rightarrow> (string \<times> string) list" where
  "read_pairs (k # v # rest) = (if k = [] then [] else (k, v) # read_pairs rest)"
| "read_pairs _ = []"

definition parse_answer :: "string \<Rightarrow> (string \<times> string) list" where
  "parse_answer text = read_pairs (split_pieces (\<lambda>c. c = CHR 0x0A) text)"

definition answered_gateway :: "strmap option \<Rightarrow> strmap option \<Rightarrow> cstr" where
  "answered_gateway options secrets =
     (case dialog_gateway options secrets of Some g \<Rightarrow> Some g | None \<Rightarrow> dialog_portal options)"

definition answered :: "strmap option \<Rightarrow> strmap option \<Rightarrow> string \<Rightarrow> (string \<times> string) list" where
  "answered options secrets auth_json =
     (case answered_gateway options secrets of None \<Rightarrow> [] | Some g \<Rightarrow> [(''gateway'', g)]) @ [(''cookie'', auth_json)]"

definition one_line :: "string \<Rightarrow> bool" where
  "one_line s \<longleftrightarrow> list_all (\<lambda>c. c \<noteq> CHR 0x0A) s"

lemma one_line_key [simp]: "one_line ''gateway''" "one_line ''cookie''" "one_line []"
  by (simp_all add: one_line_def)

lemma pairs_step:
  "one_line k \<Longrightarrow> one_line v \<Longrightarrow> k \<noteq> [] \<Longrightarrow> parse_answer (secret_lines k v @ rest) = (k, v) # parse_answer rest"
  using split_pieces_append [of k "\<lambda>c. c = CHR 0x0A" "CHR 0x0A" "v @ [CHR 0x0A] @ rest"]
    split_pieces_append [of v "\<lambda>c. c = CHR 0x0A" "CHR 0x0A" rest]
  by (simp add: parse_answer_def secret_lines_def one_line_def list_all_iff)

lemma parse_end: "parse_answer [CHR 0x0A, CHR 0x0A] = []"
  by (simp add: parse_answer_def)

lemma lookup_nonempty_not_Nil: "lookup_nonempty h k = Some v \<Longrightarrow> v \<noteq> []"
  by (auto simp: lookup_nonempty_def Let_def split: option.splits if_splits)

lemma parse_answer_answer:
  assumes "one_line auth_json" "(case answered_gateway options secrets of None \<Rightarrow> True | Some g \<Rightarrow> one_line g)"
  shows "parse_answer (answer options secrets auth_json) = answered options secrets auth_json"
  using assms
  by (auto simp: answer_def answered_def answered_gateway_def pairs_step parse_end split: option.splits)

section \<open>The whole program\<close>

lemma dialog_auth_Some:
  assumes "dialog_auth sys interaction options secrets = Some (Some json)"
  obtains server where "dialog_auth_server options secrets = Some server" "json \<noteq> []"
    "if interaction then \<exists>browser. run_gpauth sys server (dialog_as_gateway options) browser options secrets = Some (Some json)
     else lookup_nonempty secrets NM_OPENCONNECT_KEY_COOKIE = Some json"
proof -
  from assms obtain server where s: "dialog_auth_server options secrets = Some server"
    by (auto simp: dialog_auth_def split: option.splits)
  show ?thesis
  proof (cases interaction)
    case True
    with assms s obtain browser where b: "run_gpauth sys server (dialog_as_gateway options) browser options secrets = Some (Some json)"
      by (auto simp: dialog_auth_def Let_def)
    then have "json \<noteq> []" by (rule run_gpauth_Some)
    with s True b show ?thesis by (intro that [of server]) auto
  next
    case False
    with assms s have c: "lookup_nonempty secrets NM_OPENCONNECT_KEY_COOKIE = Some json"
      by (simp add: dialog_auth_def Let_def)
    then have "json \<noteq> []" by (rule lookup_nonempty_not_Nil)
    with s False c show ?thesis by (intro that [of server]) auto
  qed
qed

lemma dialog_main_answered:
  assumes "dialog_main sys opts superfluous details = DAnswered text n"
  obtains d options secrets json where
    "parse_opts opts no_opts = Some d" "\<not> superfluous" "vpn_service d = Some NM_VPN_SERVICE_TYPE_OPENCONNECT"
    "details = Some (options, secrets)"
    "dialog_auth sys (allow_interaction d) (Some options) (Some secrets) = Some (Some json)"
    "\<not> d_interrupted_after sys" "text = answer (Some options) (Some secrets) json"
proof -
  from assms obtain d where d: "parse_opts opts no_opts = Some d"
    by (cases "parse_opts opts no_opts") (simp_all add: dialog_main_def)
  from assms d have g: "\<not> superfluous" "vpn_service d = Some NM_VPN_SERVICE_TYPE_OPENCONNECT" "details \<noteq> None"
    by (auto simp: dialog_main_def split: if_splits option.splits)
  then obtain options secrets where o: "details = Some (options, secrets)" by auto
  show ?thesis
  proof (cases "dialog_auth sys (allow_interaction d) (Some options) (Some secrets)")
    case None
    with assms d g o show ?thesis by (simp add: dialog_main_def split: if_splits)
  next
    case (Some r)
    show ?thesis
    proof (cases r)
      case None
      with Some assms d g o show ?thesis by (simp add: dialog_main_def split: if_splits)
    next
      case (Some json)
      with \<open>dialog_auth sys (allow_interaction d) (Some options) (Some secrets) = Some r\<close> assms d g o
      show ?thesis by (intro that [of d options secrets json]) (auto simp: dialog_main_def split: if_splits)
    qed
  qed
qed

text \<open>What the dialog prints is read back as it was meant: when it answers at all it was called for
  this service, was not interrupted, and the answer, read as lines of alternating keys and values up
  to an empty line, is the gateway (or the portal in its place) and the authentication, provided
  neither contains a line feed.\<close>

theorem dialog_answer_reads_back:
  assumes "dialog_main sys opts superfluous (Some (options, secrets)) = DAnswered text n"
  shows "\<exists>json server. dialog_auth_server (Some options) (Some secrets) = Some server \<and> json \<noteq> [] \<and>
    \<not> d_interrupted_after sys \<and> text = answer (Some options) (Some secrets) json \<and>
    (if one_line json \<and> (case answered_gateway (Some options) (Some secrets) of None \<Rightarrow> True | Some g \<Rightarrow> one_line g)
     then parse_answer text = answered (Some options) (Some secrets) json else True)"
  using assms by (elim dialog_main_answered dialog_auth_Some) (auto intro: parse_answer_answer)

section \<open>Examples\<close>

definition quiet_round :: obs where
  "quiet_round = \<lparr>o_ready = 0, o_eintr = False, o_interrupted = False, o_revents0 = False, o_revents1 = False,
     o_revents2 = False, o_stdin = ByteErr True, o_out = ChunkErr True, o_err = ChunkErr True, o_now = 5,
     o_wait = WaitNothing\<rparr>"

text \<open>\<open>gpauth\<close> prints a line in two pieces and exits.\<close>

definition gpauth_rounds :: "obs list" where
  "gpauth_rounds = [quiet_round\<lparr>o_ready := 1, o_revents1 := True, o_out := Chunk ''{}''\<rparr>,
     quiet_round\<lparr>o_ready := 2, o_revents1 := True, o_out := Chunk [CHR 0x0A], o_revents2 := True, o_err := ChunkEof\<rparr>,
     quiet_round\<lparr>o_ready := 1, o_revents1 := True, o_out := ChunkEof, o_wait := Reaped 0\<rparr>]"

definition sample_dialog :: dialog_sys where
  "sample_dialog = \<lparr>d_gpauth_binary = ''/usr/bin/gpauth'', d_spawn_sync = (\<lambda>argv. Inr (0, Some ''gpauth 3.1'')),
     d_spawn = (\<lambda>argv. Inr 42), d_interrupted_before = False, d_obs = gpauth_rounds, d_interrupted_after = False,
     d_quit_obs = []\<rparr>"

lemmas sample_rounds = gpauth_rounds_def quiet_round_def collect_start_def

theorem child_signals_witness:
  "signals (fold collect_round [quiet_round\<lparr>o_interrupted := True\<rparr>, quiet_round\<lparr>o_now := 3000000\<rparr>,
      quiet_round\<lparr>o_wait := Reaped 9\<rparr>] collect_start) = [(15, 5), (9, 3000000)] \<and>
   signal_protocol [(15, 5), (9, 3000000)]"
proof -
  let ?obss = "[quiet_round\<lparr>o_interrupted := True\<rparr>, quiet_round\<lparr>o_now := 3000000\<rparr>, quiet_round\<lparr>o_wait := Reaped 9\<rparr>]"
  have s: "signals (fold collect_round ?obss collect_start) = [(15, 5), (9, 3000000)]" by code_simp
  have "collect_loop ?obss collect_start = Some (fold collect_round ?obss collect_start)" by code_simp
  from child_signals [OF this] s show ?thesis by (simp add: quiet_round_def)
qed

text \<open>NetworkManager types \<open>QUIT\<close> while the pipes stay open; the child dies of the \<open>SIGTERM\<close>.\<close>

definition quit_rounds :: "obs list" where
  "quit_rounds = map (\<lambda>b. quiet_round\<lparr>o_ready := 1, o_revents0 := True, o_stdin := Byte b\<rparr>) (''QUIT'' @ [CHR 0x0A])"

theorem cancelled_collection_ends_witness:
  "collect_auth False (\<lambda>argv. Inr 42) [] (quit_rounds @ [quiet_round\<lparr>o_wait := Reaped 15\<rparr>]) = Some (Collected False [] [] 15) \<and>
   signals (fold collect_round (quit_rounds @ [quiet_round\<lparr>o_wait := Reaped 15\<rparr>]) collect_start) \<noteq> []"
proof -
  let ?ob = "quiet_round\<lparr>o_wait := Reaped 15\<rparr>"
  have "collect_loop quit_rounds collect_start = None" by code_simp
  moreover have "told_to_stop (quit_rounds @ [?ob])" by code_simp
  moreover have "list_ex wait_ends (quit_rounds @ [?ob])" "\<not> list_ex wait_ends quit_rounds" by code_simp+
  moreover have "out_buf (fold collect_round (quit_rounds @ [?ob]) collect_start) = []"
    "err_buf (fold collect_round (quit_rounds @ [?ob]) collect_start) = []"
    "status (fold collect_round (quit_rounds @ [?ob]) collect_start) = 15" by code_simp+
  ultimately show ?thesis
    using cancelled_collection_ends [of quit_rounds ?ob "\<lambda>argv. Inr 42" "[]" 42 _ "[]", OF _ _ _ refl refl] by simp
qed

lemma sample_run:
  "run_gpauth sample_dialog ''vpn.example'' False ''default'' None None = Some (Some ''{}'')"
  by code_simp

theorem gpauth_answer_is_complete_witness:
  "\<exists>used rest out err. gpauth_rounds = used @ rest \<and> drained o_revents1 o_out used = (out, AtEof) \<and>
     ''{}'' = strip_one_trailing_newline (c_str out)"
  using gpauth_answer_is_complete [OF sample_run] by (auto simp: sample_dialog_def)

lemma sample_dialog_main:
  "dialog_main sample_dialog [OptUuid ''u'', OptName ''n'', OptService NM_VPN_SERVICE_TYPE_OPENCONNECT, OptInteraction]
     False (Some ([(''portal'', ''vpn.example'')], [])) =
   DAnswered (''gateway'' @ [CHR 0x0A] @ ''vpn.example'' @ [CHR 0x0A] @ ''cookie'' @ [CHR 0x0A] @ ''{}'' @
     [CHR 0x0A, CHR 0x0A, CHR 0x0A]) None"
  by code_simp

theorem dialog_answer_reads_back_witness:
  "\<exists>server. dialog_auth_server (Some [(''portal'', ''vpn.example'')]) (Some []) = Some server"
  using dialog_answer_reads_back [OF sample_dialog_main] by blast

end
