(* ===== verification/Dialog_Service.thy ===== *)
theory Dialog_Service
  imports Command Auth_Facts
begin

text \<open>
  The auth dialog and the service together: NetworkManager gives both the same profile, stores what
  the dialog prints as secrets of the profile, and hands those to the service. The dialog and the
  service decide independently which server the profile means; here they are shown to agree.
\<close>

definition store_secrets :: "(string \<times> string) list \<Rightarrow> vpn_setting \<Rightarrow> vpn_setting" where
  "store_secrets kvs s = put_opts add_secret (map (\<lambda>(k, v). (k, Some v)) kvs) s"

lemma store_secrets_simps [simp]:
  "store_secrets [] s = s"
  "store_secrets ((k, v) # kvs) s = store_secrets kvs (add_secret k v s)"
  by (simp_all add: store_secrets_def)

lemma lookup_data: "lookup_nonempty (Some (vs_data s)) k = val (get_data_item s k)"
  by (simp add: lookup_nonempty_def get_data_item_def val_def Let_def)

lemma lookup_secret: "lookup_nonempty (Some (vs_secrets s)) k = val (get_secret s k)"
  by (simp add: lookup_nonempty_def get_secret_def val_def Let_def)

lemma dialog_servers:
  "dialog_portal (Some (vs_data s)) = val (get_data_item s ''portal'')"
  "dialog_gateway (Some (vs_data s)) (Some (vs_secrets s)) =
     (if val (get_data_item s ''gateway'') = None then val (get_secret s ''gateway'') else val (get_data_item s ''gateway''))"
  "answered_gateway options secrets =
     (if dialog_gateway options secrets = None then dialog_portal options else dialog_gateway options secrets)"
  by (simp_all add: dialog_portal_def dialog_gateway_def answered_gateway_def lookup_data lookup_secret option_or_cases
      cong: option.case_cong)

lemmas dialog_lookups = lookup_data lookup_secret dialog_servers dialog_as_gateway_def dialog_auth_server_def answered_def

lemma val_streq: "streq (val s) lit = streq s lit" if "lit \<noteq> []"
  using that by (cases s) auto

lemma dialog_as_gateway_service:
  "dialog_as_gateway (Some (vs_data s)) \<longleftrightarrow> direct_gateway_mode s"
  by (cases "get_data_item s ''portal''")
    (auto simp: dialog_lookups is_yes_def val_streq direct_gateway_mode_def props_portal_def Let_def)

lemma add_secret_not_Nil [simp]: "vs_secrets (add_secret k v s) \<noteq> []"
  by (simp add: add_secret_def)

lemma vs_data_add_secret [simp]: "vs_data (add_secret k v s) = vs_data s"
  by (simp add: add_secret_def)

lemma service_frame [simp]:
  "props_portal (add_secret k v s) = props_portal s"
  "direct_gateway_mode (add_secret k v s) = direct_gateway_mode s"
  by (simp_all add: props_portal_def direct_gateway_mode_def Let_def)

lemma answered_gateway_Some:
  fixes s :: vpn_setting
  assumes "dialog_auth_server (Some (vs_data s)) (Some (vs_secrets s)) = Some server"
  shows "\<exists>g. answered_gateway (Some (vs_data s)) (Some (vs_secrets s)) = Some g \<and> g \<noteq> []"
  using assms
  by (cases "get_data_item s ''portal''"; cases "get_data_item s ''gateway''"; cases "get_secret s ''gateway''")
    (auto simp: dialog_lookups split: if_splits)

lemma configured_mode_PortalOnly:
  "configured_mode s = Some (PortalOnly p) \<longleftrightarrow>
     val (get_data_item s ''portal'') = Some p \<and> val (get_data_item s ''gateway'') = None \<and>
     val (get_secret s ''gateway'') = None \<and> get_data_item s ''as_gateway'' \<noteq> Some ''yes'' \<and>
     get_data_item s ''auto_gateway'' \<noteq> Some ''yes''"
  by (cases "get_data_item s ''portal''"; cases "get_data_item s ''gateway''"; cases "get_secret s ''gateway''")
    (auto simp: configured_mode_def Let_def split: if_splits)

lemma props_vpn_gw_answered:
  "g \<noteq> [] \<Longrightarrow> props_vpn_gw (add_secret ''cookie'' c (add_secret ''gateway'' g s)) = Some g"
  by (simp add: props_vpn_gw_def secrets.get_put Let_def)

lemma val_Some [simp]: "val v = Some x \<longleftrightarrow> v = Some x \<and> x \<noteq> []"
  by (cases v) auto

text \<open>C14: The dialog authenticates against the server the service then connects to: if the dialog found
  a server for a profile, then with the dialog's answer stored as secrets of the profile the service
  passes its secrets check with the authentication as its cookie, connects to that very server, and
  logs into it as a gateway exactly when the dialog asked \<open>gpauth\<close> to.\<close>

theorem dialog_and_service_agree:
  assumes "dialog_auth_server (Some (vs_data s)) (Some (vs_secrets s)) = Some server"
    and "s' = store_secrets (answered (Some (vs_data s)) (Some (vs_secrets s)) auth_json) s"
  shows "connect_server s' = Some server \<and>
    direct_gateway_mode s' = dialog_as_gateway (Some (vs_data s)) \<and>
    get_secret s' ''cookie'' = Some auth_json \<and> nm_openconnect_secrets_validate s' = Inr () \<and>
    vs_data s' = vs_data s"
proof -
  let ?d = "Some (vs_data s)" and ?c = "Some (vs_secrets s)"
  obtain g where g: "answered_gateway ?d ?c = Some g" "g \<noteq> []"
    using answered_gateway_Some [OF assms(1)] by blast
  then have s': "s' = add_secret ''cookie'' auth_json (add_secret ''gateway'' g s)"
    using assms(2) by (simp add: answered_def)
  have gw: "props_vpn_gw s' = Some g" unfolding s' using g(2) by (rule props_vpn_gw_answered)
  have dir: "direct_gateway_mode s' = dialog_as_gateway ?d" by (simp add: s' dialog_as_gateway_service)
  have "connect_server s' = Some server"
  proof (cases "dialog_as_gateway ?d")
    case True
    then have "dialog_gateway ?d ?c = Some server" using assms(1) by (simp add: dialog_auth_server_def)
    then have "g = server" using g(1) by (simp add: dialog_servers(3))
    then show ?thesis using True dir gw g(2) by (simp add: connect_server_def)
  next
    case False
    then have "get_data_item s ''portal'' = Some server" "server \<noteq> []"
      using assms(1) by (simp_all add: dialog_auth_server_def dialog_portal_def lookup_data)
    then show ?thesis using False dir by (simp add: connect_server_def s' props_portal_def)
  qed
  then show ?thesis using dir by (simp add: s' secrets.get_put secrets_validate_cases)
qed


text \<open>The placeholder is not harmless: whatever the profile, once the dialog has answered, the
  service never runs \<open>gpclient\<close> on a portal with no gateway chosen; a profile that names only a portal,
  without automatic choice, is started with the portal itself as its \<open>--gateway\<close>.\<close>

theorem portal_placeholder_becomes_gateway:
  assumes "dialog_auth_server (Some (vs_data s)) (Some (vs_secrets s)) = Some server"
    and "configured_mode s = Some (PortalOnly p)"
    and "s' = store_secrets (answered (Some (vs_data s)) (Some (vs_secrets s)) auth_json) s"
  shows "configured_mode s' = Some (PortalGateway p p) \<and> gateway_args s' = [''--gateway'', p] \<and> gateway_args s = []"
proof -
  let ?d = "Some (vs_data s)" and ?c = "Some (vs_secrets s)"
  note m = assms(2) [unfolded configured_mode_PortalOnly]
  then have "answered_gateway ?d ?c = Some p" by (simp add: dialog_lookups)
  then have s': "s' = add_secret ''cookie'' auth_json (add_secret ''gateway'' p s)"
    using assms(3) by (simp add: answered_def)
  have "configured_mode s' = Some (PortalGateway p p)"
    using m by (simp add: s' configured_mode_def secrets.get_put Let_def)
  then show ?thesis using mode_refinement [of s'] mode_refinement [OF assms(2)] by simp
qed

definition sample_portal :: vpn_setting where
  "sample_portal = \<lparr>vs_data = [(''portal'', ''vpn.example'')], vs_secrets = [],
     vs_service = NM_VPN_SERVICE_TYPE_OPENCONNECT, vs_timeout = 0\<rparr>"

lemma sample_auth_server:
  "dialog_auth_server (Some (vs_data sample_portal)) (Some (vs_secrets sample_portal)) = Some ''vpn.example''"
  by code_simp

lemma sample_portal_only: "configured_mode sample_portal = Some (PortalOnly ''vpn.example'')"
  by code_simp

theorem dialog_and_service_agree_witness:
  "connect_server (store_secrets (answered (Some (vs_data sample_portal)) (Some (vs_secrets sample_portal)) ''JSON'') sample_portal) =
     Some ''vpn.example''"
  using dialog_and_service_agree [OF sample_auth_server refl] by blast

theorem portal_placeholder_becomes_gateway_witness:
  "gateway_args (store_secrets (answered (Some (vs_data sample_portal)) (Some (vs_secrets sample_portal)) ''JSON'') sample_portal) =
     [''--gateway'', ''vpn.example'']"
  using portal_placeholder_becomes_gateway [OF sample_auth_server sample_portal_only refl] by blast

end
