(* ===== verification/Gp_Editor.thy ===== *)
theory Gp_Editor
  imports Errors Settings CLib
begin

text \<open>
  \<open>properties/nm-gpclient-editor.c\<close>: the editor of a gpclient profile. The record \<open>gp_editor\<close> holds
  what the widgets hold, the handlers are the signal callbacks, and \<open>editor_update_connection\<close> writes
  the profile.

  Of GTK the code relies on text fields and check buttons giving back what they were set to, which the
  record's fields are, and on \<open>gtk_combo_box_set_active_id\<close>, which is the parameter \<open>set_active_id\<close>:
  the active id of a new combo box with the given ids. libnm's \<open>nm_setting_set_secret_flags\<close> is the
  parameter \<open>set_flags\<close>, running gpclient the parameter \<open>spawn_sync\<close>.
\<close>

section \<open>Widgets\<close>

record gp_editor =
  portal_mode_supported :: bool
  portal_entry :: string
  portal_sensitive :: bool
  portal_visible :: bool
  gateway_entry :: string
  gateway_sensitive :: bool
  direct_gateway_check :: bool
  direct_sensitive :: bool
  browser_combo :: cstr
  browser_custom_entry :: string
  custom_sensitive :: bool
  client_version_entry :: string
  reported_os_combo :: cstr
  no_dtls_check :: bool
  ignore_tls_check :: bool
  changed_emitted :: nat

type_synonym set_active_id = "string list \<Rightarrow> string \<Rightarrow> cstr"

definition GPCLIENT_DEFAULT_VPN_TIMEOUT :: nat where [simp]: "GPCLIENT_DEFAULT_VPN_TIMEOUT = 300"

definition vpn_data :: "connection option \<Rightarrow> string \<Rightarrow> cstr" where
  "vpn_data connection key =
     (case connection of
        None \<Rightarrow> None
      | Some c \<Rightarrow> (case c_vpn c of None \<Rightarrow> None | Some s_vpn \<Rightarrow> get_data_item s_vpn key))"

definition gp_is_yes :: "cstr \<Rightarrow> bool" where
  "gp_is_yes value = streq value ''yes''"

text \<open>\<open>strstr\<close>.\<close>

fun text_contains :: "string \<Rightarrow> string \<Rightarrow> bool" where
  "text_contains [] needle = (needle = [])"
| "text_contains (c # cs) needle = (has_prefix (c # cs) needle \<or> text_contains cs needle)"

definition gpclient_supports_connect_arg ::
  "(string list \<Rightarrow> gerror + u32 \<times> cstr) \<Rightarrow> string \<Rightarrow> string \<Rightarrow> bool" where
  "gpclient_supports_connect_arg spawn_sync gpclient_binary arg =
     (case spawn_sync [gpclient_binary, ''connect'', ''--help''] of
        Inl e \<Rightarrow> False
      | Inr (exit_status, help_text) \<Rightarrow>
          if \<not> WIFEXITED exit_status \<or> WEXITSTATUS exit_status \<noteq> 0 then False
          else (case help_text of None \<Rightarrow> False | Some text \<Rightarrow> text_contains text arg))"

definition browser_is_known :: "cstr \<Rightarrow> bool" where
  "browser_is_known browser \<longleftrightarrow> streq browser ''default'' \<or> streq browser ''firefox'' \<or> streq browser ''chrome'' \<or>
     streq browser ''chromium'' \<or> streq browser ''remote''"

definition browser_ids :: "string list" where
  "browser_ids = [''default'', ''firefox'', ''chrome'', ''chromium'', ''remote'', ''custom'']"

definition os_ids :: "string list" where
  "os_ids = [''default'', ''Linux'', ''Windows'', ''Mac'']"

definition new_browser_combo :: "set_active_id \<Rightarrow> cstr \<Rightarrow> cstr" where
  "new_browser_combo set_active_id browser =
     set_active_id browser_ids
       (case browser of Some b \<Rightarrow> if browser_is_known browser then b else ''custom'' | None \<Rightarrow> ''custom'')"

definition browser_update_sensitivity :: "gp_editor \<Rightarrow> gp_editor" where
  "browser_update_sensitivity ed = ed\<lparr>custom_sensitive := streq (browser_combo ed) ''custom''\<rparr>"

definition browser_get_value :: "gp_editor \<Rightarrow> string" where
  "browser_get_value ed =
     (if streq (browser_combo ed) ''custom'' then browser_custom_entry ed
      else (case browser_combo ed of Some active_id \<Rightarrow> active_id | None \<Rightarrow> []))"

definition new_entry :: "cstr \<Rightarrow> string" where
  "new_entry text = (case text of Some t \<Rightarrow> t | None \<Rightarrow> [])"

section \<open>Construction\<close>

definition gpclient_editor_new :: "set_active_id \<Rightarrow> bool \<Rightarrow> connection option \<Rightarrow> gp_editor" where
  "gpclient_editor_new set_active_id supported connection =
     (let data = vpn_data connection;
          direct_gateway = gp_is_yes (data NM_OPENCONNECT_KEY_AS_GATEWAY);
          direct_gateway = (if \<not> supported then True else direct_gateway);
          browser = data NM_OPENCONNECT_KEY_BROWSER;
          os = data NM_OPENCONNECT_KEY_REPORTED_OS;
          dtls = (case data NM_OPENCONNECT_KEY_NO_DTLS of
                    None \<Rightarrow> data NM_OPENCONNECT_KEY_DISABLE_UDP | Some v \<Rightarrow> Some v)
      in browser_update_sensitivity
           \<lparr>portal_mode_supported = supported,
            portal_entry = new_entry (data NM_OPENCONNECT_KEY_PORTAL),
            portal_sensitive = (supported \<and> \<not> direct_gateway),
            portal_visible = supported,
            gateway_entry = new_entry (data NM_OPENCONNECT_KEY_GATEWAY),
            gateway_sensitive = True,
            direct_gateway_check = direct_gateway,
            direct_sensitive = supported,
            browser_combo = new_browser_combo set_active_id (if nonempty browser then browser else Some ''default''),
            browser_custom_entry = new_entry (if nonempty browser \<and> \<not> browser_is_known browser then browser else Some []),
            custom_sensitive = True,
            client_version_entry = new_entry (data NM_OPENCONNECT_KEY_CLIENT_VERSION),
            reported_os_combo = set_active_id os_ids (case os of Some v \<Rightarrow> if v \<noteq> [] then v else ''default'' | None \<Rightarrow> ''default''),
            no_dtls_check = (case dtls of None \<Rightarrow> True | Some v \<Rightarrow> v \<noteq> ''no''),
            ignore_tls_check = gp_is_yes (data NM_OPENCONNECT_KEY_IGNORE_TLS_ERRORS),
            changed_emitted = 0\<rparr>)"

section \<open>What the user does\<close>

definition emit_changed :: "gp_editor \<Rightarrow> gp_editor" where
  "emit_changed ed = ed\<lparr>changed_emitted := changed_emitted ed + 1\<rparr>"

definition browser_changed :: "gp_editor \<Rightarrow> gp_editor" where
  "browser_changed ed = emit_changed (browser_update_sensitivity ed)"

definition direct_gateway_toggled :: "gp_editor \<Rightarrow> gp_editor" where
  "direct_gateway_toggled ed =
     emit_changed (ed\<lparr>portal_sensitive := (portal_mode_supported ed \<and> \<not> direct_gateway_check ed),
       gateway_sensitive := True\<rparr>)"

text \<open>An action of the user on a widget and the callback connected to its signal. A widget that is
  insensitive takes no input, and a combo box only offers its own ids.\<close>

datatype gp_event =
    EditPortal string | EditGateway string | ToggleDirect | ChooseBrowser string | EditCustom string
  | EditVersion string | ChooseOs string | ToggleDtls | ToggleTls

fun gp_react :: "gp_event \<Rightarrow> gp_editor \<Rightarrow> gp_editor" where
  "gp_react (EditPortal t) ed = (if portal_sensitive ed then emit_changed (ed\<lparr>portal_entry := t\<rparr>) else ed)"
| "gp_react (EditGateway t) ed = (if gateway_sensitive ed then emit_changed (ed\<lparr>gateway_entry := t\<rparr>) else ed)"
| "gp_react ToggleDirect ed =
     (if direct_sensitive ed then direct_gateway_toggled (ed\<lparr>direct_gateway_check := \<not> direct_gateway_check ed\<rparr>) else ed)"
| "gp_react (ChooseBrowser b) ed =
     (if b \<in> set browser_ids \<and> browser_combo ed \<noteq> Some b then browser_changed (ed\<lparr>browser_combo := Some b\<rparr>) else ed)"
| "gp_react (EditCustom t) ed = (if custom_sensitive ed then emit_changed (ed\<lparr>browser_custom_entry := t\<rparr>) else ed)"
| "gp_react (EditVersion t) ed = emit_changed (ed\<lparr>client_version_entry := t\<rparr>)"
| "gp_react (ChooseOs v) ed = (if v \<in> set os_ids \<and> reported_os_combo ed \<noteq> Some v then emit_changed (ed\<lparr>reported_os_combo := Some v\<rparr>) else ed)"
| "gp_react ToggleDtls ed = emit_changed (ed\<lparr>no_dtls_check := \<not> no_dtls_check ed\<rparr>)"
| "gp_react ToggleTls ed = emit_changed (ed\<lparr>ignore_tls_check := \<not> ignore_tls_check ed\<rparr>)"

section \<open>Saving\<close>

text \<open>The check before anything is written.\<close>

definition editor_check :: "gp_editor \<Rightarrow> gerror + unit" where
  "editor_check ed =
     (if direct_gateway_check ed then
        (if gateway_entry ed = [] \<and> portal_entry ed = [] then Inl (MissingProperty NM_OPENCONNECT_KEY_GATEWAY) else Inr ())
      else if portal_entry ed = [] then Inl (MissingProperty NM_OPENCONNECT_KEY_PORTAL)
      else Inr ())"

definition some_if :: "bool \<Rightarrow> 'a \<Rightarrow> 'a option" where
  "some_if b v = (if b then Some v else None)"

lemma some_if_simps [simp]: "some_if True v = Some v" "some_if False v = None"
  "some_if b v = None \<longleftrightarrow> \<not> b" "some_if b v = Some w \<longleftrightarrow> b \<and> v = w"
  "Some w = some_if b v \<longleftrightarrow> b \<and> v = w"
  by (auto simp: some_if_def)

text \<open>The calls of \<open>nm_setting_vpn_add_data_item\<close> in their order, each with its guard.\<close>

definition server_items :: "gp_editor \<Rightarrow> (string \<times> cstr) list" where
  "server_items ed =
     (let portal = portal_entry ed; gateway = gateway_entry ed in
      if direct_gateway_check ed then
        [(NM_OPENCONNECT_KEY_GATEWAY, Some (if gateway \<noteq> [] then gateway else portal)),
         (NM_OPENCONNECT_KEY_AS_GATEWAY, Some ''yes''),
         (NM_OPENCONNECT_KEY_PORTAL, some_if (portal \<noteq> []) portal)]
      else
        (NM_OPENCONNECT_KEY_PORTAL, Some portal) #
        (if gateway \<noteq> [] then [(NM_OPENCONNECT_KEY_GATEWAY, Some gateway)]
         else [(NM_OPENCONNECT_KEY_AUTO_GATEWAY, Some ''yes'')]))"

definition other_items :: "gp_editor \<Rightarrow> (string \<times> cstr) list" where
  "other_items ed =
     (let browser = browser_get_value ed; client_version = client_version_entry ed in
      [(NM_OPENCONNECT_KEY_BROWSER, some_if (browser \<noteq> []) browser),
       (NM_OPENCONNECT_KEY_CLIENT_VERSION, some_if (client_version \<noteq> []) client_version),
       (NM_OPENCONNECT_KEY_REPORTED_OS,
         (case reported_os_combo ed of
            None \<Rightarrow> None | Some reported_os \<Rightarrow> some_if (reported_os \<noteq> [] \<and> reported_os \<noteq> ''default'') reported_os)),
       (NM_OPENCONNECT_KEY_NO_DTLS, Some (if no_dtls_check ed then ''yes'' else ''no'')),
       (NM_OPENCONNECT_KEY_IGNORE_TLS_ERRORS, some_if (ignore_tls_check ed) ''yes'')])"

definition saved_setting :: "set_flags \<Rightarrow> gp_editor \<Rightarrow> vpn_setting" where
  "saved_setting set_flags ed =
     (let s_vpn = nm_setting_vpn_new\<lparr>vs_service := NM_VPN_SERVICE_TYPE_OPENCONNECT,
            vs_timeout := GPCLIENT_DEFAULT_VPN_TIMEOUT\<rparr>;
          s_vpn = put_opts add_data_item (server_items ed) s_vpn;
          s_vpn = put_opts add_data_item (other_items ed) s_vpn;
          s_vpn = set_flags NM_OPENCONNECT_KEY_COOKIE NM_SETTING_SECRET_FLAG_NOT_SAVED s_vpn
      in set_flags NM_OPENCONNECT_KEY_GATEWAY NM_SETTING_SECRET_FLAG_NOT_SAVED s_vpn)"

definition editor_update_connection :: "set_flags \<Rightarrow> gp_editor \<Rightarrow> connection \<Rightarrow> gerror + connection" where
  "editor_update_connection set_flags ed connection =
     (case editor_check ed of
        Inl e \<Rightarrow> Inl e
      | Inr _ \<Rightarrow> Inr (connection\<lparr>c_vpn := Some (saved_setting set_flags ed)\<rparr>))"

end
