(* ===== verification/Gp_Editor_Facts.thy ===== *)
theory Gp_Editor_Facts
  imports Gp_Editor Command Transition
begin

text \<open>
  What the gpclient editor guarantees: a profile it saves passes the service's validators and means to
  the service what the widgets show, opening and saving again changes nothing, and without portal
  support the profile stays in direct mode. And what it loses: every setting it has no widget for.
\<close>

section \<open>libnm and GTK, as documented\<close>

text \<open>libnm keeps the flags of a VPN secret in the data item \<open><name>-flags\<close>.\<close>

definition flags_law :: "get_flags \<Rightarrow> set_flags \<Rightarrow> (u32 \<Rightarrow> string) \<Rightarrow> bool" where
  "flags_law gf sf flag_text \<longleftrightarrow>
     (\<forall>k f s. sf k f s = add_data_item (k @ ''-flags'') (flag_text f) s) \<and>
     (\<forall>k f s. gf (sf k f s) k = Some f) \<and>
     (\<forall>k k' f s. k = k' \<or> gf (sf k f s) k' = gf s k')"

text \<open>libnm reads the flags of a secret from that data item; without it the flags are none if the setting
  has the secret, and cannot be read if it does not. So two settings that agree on the item and, where the
  item is missing, on whether they have the secret, have the same flags for it.\<close>

definition flags_read_law :: "get_flags \<Rightarrow> bool" where
  "flags_read_law gf \<longleftrightarrow>
     (\<forall>s s' k. if get_data_item s (k @ ''-flags'') = get_data_item s' (k @ ''-flags'') \<and>
         (get_data_item s (k @ ''-flags'') \<noteq> None \<or> (get_secret s k = None) = (get_secret s' k = None))
       then gf s k = gf s' k else True)"

text \<open>So storing a secret leaves the flags of every secret that has the item or was there before.\<close>

lemma flags_read_stored:
  assumes "flags_read_law gf" "get_data_item s (k @ ''-flags'') \<noteq> None"
  shows "gf (add_secret k' v s) k = gf s k"
  using assms(1) [unfolded flags_read_law_def, rule_format, of "add_secret k' v s" k s] assms(2) by simp

lemma flags_read_replaced:
  assumes "flags_read_law gf" "get_secret s k' \<noteq> None"
  shows "gf (add_secret k' v s) k = gf s k"
  using assms(1) [unfolded flags_read_law_def, rule_format, of "add_secret k' v s" k s] assms(2)
  by (auto simp: secrets.get_put split: if_splits)

text \<open>A combo box has the active id it was set to, if it has that id, and none otherwise.\<close>

definition combo_law :: "set_active_id \<Rightarrow> bool" where
  "combo_law sai \<longleftrightarrow> (\<forall>ids i. sai ids i = (if i \<in> set ids then Some i else None))"

section \<open>The saved setting\<close>

lemma put_opts_append: "put_opts put (xs @ ys) s = put_opts put ys (put_opts put xs s)"
  by (simp add: put_opts_def)

lemma put_opts_frame:
  "vs_service (put_opts add_data_item kvs s) = vs_service s" "vs_timeout (put_opts add_data_item kvs s) = vs_timeout s"
  "vs_secrets (put_opts add_data_item kvs s) = vs_secrets s"
  by (induction kvs arbitrary: s)
    (auto simp: put_opts_def put_opt_def add_data_item_def split: option.splits)

lemma put_opts_items: "set (vs_data (put_opts add_data_item kvs s)) \<subseteq> set (vs_data s) \<union> {(k, v). (k, Some v) \<in> set kvs}"
proof (induction kvs arbitrary: s)
  case (Cons kv kvs)
  obtain k v where kv: "kv = (k, v)" by (cases kv)
  show ?case
  proof (cases v)
    case None
    with kv Cons show ?thesis by fastforce
  next
    case (Some w)
    have "set (vs_data (put_opts add_data_item kvs (add_data_item k w s)))
        \<subseteq> set (vs_data (add_data_item k w s)) \<union> {(k, v). (k, Some v) \<in> set kvs}" by (rule Cons)
    also have "set (vs_data (add_data_item k w s)) \<subseteq> insert (k, w) (set (vs_data s))"
      using set_sput_subset by (simp add: add_data_item_def)
    finally show ?thesis using kv Some by auto
  qed
qed (simp add: put_opts_def)

definition saved_items :: "(u32 \<Rightarrow> string) \<Rightarrow> gp_editor \<Rightarrow> (string \<times> cstr) list" where
  "saved_items flag_text ed = server_items ed @ other_items ed @
     [(''cookie-flags'', Some (flag_text 2)), (''gateway-flags'', Some (flag_text 2))]"

definition blank_setting :: vpn_setting where
  "blank_setting = \<lparr>vs_data = [], vs_secrets = [], vs_service = NM_VPN_SERVICE_TYPE_OPENCONNECT, vs_timeout = 300\<rparr>"

lemma saved_setting_items:
  "flags_law gf sf flag_text \<Longrightarrow> saved_setting sf ed = put_opts add_data_item (saved_items flag_text ed) blank_setting"
  by (simp add: saved_setting_def flags_law_def saved_items_def put_opts_append nm_setting_vpn_new_def blank_setting_def)

lemma last_put_append:
  "last_put (xs @ ys) k = (case last_put ys k of Some v \<Rightarrow> Some v | None \<Rightarrow> last_put xs k)"
  by (induction xs k rule: last_put.induct) (auto split: option.splits)

lemma get_blank [simp]: "get_data_item blank_setting k = None" "get_secret blank_setting k = None"
  by (simp_all add: blank_setting_def get_data_item_def get_secret_def)

lemma get_saved:
  "flags_law gf sf flag_text \<Longrightarrow> get_data_item (saved_setting sf ed) k = last_put (saved_items flag_text ed) k"
  by (simp add: saved_setting_items data_items.get_put_opts split: option.splits)

lemmas saved_lookup = get_saved saved_items_def server_items_def other_items_def last_put_append

lemma saved_data:
  assumes "flags_law gf sf flag_text"
  shows "get_data_item (saved_setting sf ed) ''as_gateway'' = some_if (direct_gateway_check ed) ''yes''"
    "get_data_item (saved_setting sf ed) ''auto_gateway'' =
       some_if (\<not> direct_gateway_check ed \<and> gateway_entry ed = []) ''yes''"
    "get_data_item (saved_setting sf ed) ''portal'' =
       some_if (\<not> direct_gateway_check ed \<or> portal_entry ed \<noteq> []) (portal_entry ed)"
    "get_data_item (saved_setting sf ed) ''gateway'' =
       some_if (direct_gateway_check ed \<or> gateway_entry ed \<noteq> [])
         (if gateway_entry ed \<noteq> [] then gateway_entry ed else portal_entry ed)"
    "get_data_item (saved_setting sf ed) ''browser'' = some_if (browser_get_value ed \<noteq> []) (browser_get_value ed)"
    "get_data_item (saved_setting sf ed) ''client_version'' = some_if (client_version_entry ed \<noteq> []) (client_version_entry ed)"
    "get_data_item (saved_setting sf ed) ''reported_os'' =
       (case reported_os_combo ed of None \<Rightarrow> None | Some v \<Rightarrow> some_if (v \<noteq> [] \<and> v \<noteq> ''default'') v)"
    "get_data_item (saved_setting sf ed) ''no_dtls'' = Some (if no_dtls_check ed then ''yes'' else ''no'')"
    "get_data_item (saved_setting sf ed) ''ignore_tls_errors'' = some_if (ignore_tls_check ed) ''yes''"
  using assms by (auto simp: saved_lookup Let_def some_if_def split: option.splits)

definition editor_keys :: "string list" where
  "editor_keys = [''gateway'', ''as_gateway'', ''portal'', ''auto_gateway'', ''browser'', ''client_version'', ''reported_os'',
     ''no_dtls'', ''ignore_tls_errors'', ''cookie-flags'', ''gateway-flags'']"

lemma saved_keys: "fst ` set (saved_items flag_text ed) \<subseteq> set editor_keys"
  by (auto simp: saved_items_def server_items_def other_items_def editor_keys_def Let_def)

lemma saved_other: "flags_law gf sf flag_text \<Longrightarrow> k \<notin> set editor_keys \<Longrightarrow> get_data_item (saved_setting sf ed) k = None"
  using saved_keys [of flag_text ed] by (auto simp: get_saved intro: last_put_None)

lemma update_Inr:
  "editor_update_connection sf ed conn = Inr conn' \<longleftrightarrow>
     editor_check ed = Inr () \<and> conn' = conn\<lparr>c_vpn := Some (saved_setting sf ed)\<rparr>"
  by (cases "editor_check ed") (auto simp: editor_update_connection_def)

section \<open>A saved profile and the service\<close>

lemma saved_set: "flags_law gf sf flag_text \<Longrightarrow>
    set (vs_data (saved_setting sf ed)) \<subseteq> {(k, v). (k, Some v) \<in> set (saved_items flag_text ed)}"
  using put_opts_items [of "saved_items flag_text ed" blank_setting]
  by (simp add: saved_setting_items blank_setting_def)

lemma saved_properties_ok:
  assumes "flags_law gf sf flag_text"
  shows "nm_openconnect_properties_validate (saved_setting sf ed) = Inr ()"
proof -
  have "vs_data (saved_setting sf ed) \<noteq> []"
    using saved_data(8) [OF assms, of ed] by (auto simp: get_data_item_def)
  moreover have "\<not> bad_item valid_properties (k, v)" if "(k, Some v) \<in> set (saved_items flag_text ed)" for k v
    using that by (auto simp: saved_items_def server_items_def other_items_def Let_def bad_item_properties
        boolean_settings_def split: if_splits)
  ultimately show ?thesis using saved_set [OF assms, of ed] by (auto simp: properties_validate_ok)
qed

lemma saved_flags_ok:
  assumes "flags_law gf sf flag_text"
  shows "validate_auth_secret_flags gf (saved_setting sf ed) = Inr ()"
proof -
  have g: "gf (sf k f s) k = Some f" "k \<noteq> k' \<Longrightarrow> gf (sf k f s) k' = gf s k'" for k k' f s
    using assms unfolding flags_law_def by metis+
  have "check_secret_flags gf (saved_setting sf ed) [''cookie'', ''gateway''] = Inr ()"
    by (simp add: check_secret_flags_cases saved_setting_def safe_flags_def g)
  then show ?thesis by (simp add: validate_auth_secret_flags_def)
qed

lemma saved_flag_items:
  assumes "flags_law gf sf flag_text"
  shows "get_data_item (saved_setting sf ed) ''cookie-flags'' \<noteq> None"
    "get_data_item (saved_setting sf ed) ''gateway-flags'' \<noteq> None"
  by (simp_all add: get_saved [OF assms] saved_items_def last_put_append)

lemma saved_frame:
  assumes "flags_law gf sf flag_text"
  shows "vs_service (saved_setting sf ed) = NM_VPN_SERVICE_TYPE_OPENCONNECT" "vs_timeout (saved_setting sf ed) = 300"
    "get_secret (saved_setting sf ed) k = None"
  using assms by (simp_all add: saved_setting_items put_opts_frame get_secret_def) (simp_all add: blank_setting_def)

text \<open>The connection mode the widgets show.\<close>

definition shown_mode :: "gp_editor \<Rightarrow> conn_mode" where
  "shown_mode ed =
     (if direct_gateway_check ed then Direct (if gateway_entry ed \<noteq> [] then gateway_entry ed else portal_entry ed)
      else if gateway_entry ed \<noteq> [] then PortalGateway (portal_entry ed) (gateway_entry ed)
      else PortalAuto (portal_entry ed))"

lemma val_some_if: "val (some_if b v) = some_if (b \<and> v \<noteq> []) v"
  by (cases b) auto

lemma saved_mode:
  assumes "flags_law gf sf flag_text" "editor_check ed = Inr ()"
  shows "configured_mode (saved_setting sf ed) = Some (shown_mode ed)"
proof -
  note d = saved_data [OF assms(1)] and f = saved_frame(3) [OF assms(1)]
  from assms(2) have "portal_entry ed \<noteq> [] \<or> direct_gateway_check ed \<and> gateway_entry ed \<noteq> []"
    by (auto simp: editor_check_def split: if_splits)
  then show ?thesis
    by (auto simp: configured_mode_def shown_mode_def d f val_some_if some_if_def)
qed

text \<open>C19: What the editor saves the service accepts, and reads as the widgets show it: a profile saved from
  any state of the editor passes the service's validation of settings and of secret flags, has the
  service's type and timeout and no secrets, connects in the mode shown and with the HTTPS-only choice
  shown, and the rest of the connection is untouched.\<close>

theorem saved_profile_is_accepted:
  assumes "flags_law gf sf flag_text" "editor_update_connection sf ed conn = Inr conn'"
  shows "\<exists>s. c_vpn conn' = Some s \<and> c_con conn' = c_con conn \<and>
    vs_service s = NM_VPN_SERVICE_TYPE_OPENCONNECT \<and> vs_timeout s = 300 \<and>
    nm_openconnect_properties_validate s = Inr () \<and> validate_auth_secret_flags gf s = Inr () \<and>
    configured_mode s = Some (shown_mode ed) \<and> no_dtls s = no_dtls_check ed \<and>
    get_secret s ''cookie'' = None \<and> get_secret s ''gateway'' = None"
proof -
  from assms(2) have u: "editor_check ed = Inr ()" "c_vpn conn' = Some (saved_setting sf ed)" "c_con conn' = c_con conn"
    by (auto simp: update_Inr)
  have "no_dtls (saved_setting sf ed) = no_dtls_check ed"
    by (simp add: no_dtls_def saved_data [OF assms(1)])
  then show ?thesis
    using u saved_frame [OF assms(1)] saved_properties_ok [OF assms(1)] saved_flags_ok [OF assms(1)]
      saved_mode [OF assms(1)] by blast
qed

text \<open>C22: Saving keeps only what the editor has a widget for: whatever the profile held before, every data
  item outside the editor's own keys and every secret is gone from the saved one, among them the MTU,
  the client certificate and its key, and the HIP script the service would use.\<close>

theorem saving_forgets_other_settings:
  assumes "flags_law gf sf flag_text" "editor_update_connection sf ed conn = Inr conn'"
  shows "\<exists>s. c_vpn conn' = Some s \<and> (\<forall>k. if k \<in> set editor_keys then True else get_data_item s k = None) \<and>
    (\<forall>k. get_secret s k = None) \<and> option_args s = opt_arg ''--client-version'' (get_data_item s ''client_version'') @
      opt_arg ''--os'' (get_data_item s ''reported_os'') \<and> hip_args s = []"
proof -
  from assms(2) have u: "c_vpn conn' = Some (saved_setting sf ed)" by (auto simp: update_Inr)
  have n: "get_data_item (saved_setting sf ed) k = None" if "k \<notin> set editor_keys" for k
    using saved_other [OF assms(1) that] .
  have "option_args (saved_setting sf ed) = opt_arg ''--client-version'' (get_data_item (saved_setting sf ed) ''client_version'') @
      opt_arg ''--os'' (get_data_item (saved_setting sf ed) ''reported_os'')"
    by (simp add: option_args_def key_pass_def opt_arg_def n editor_keys_def saved_frame(3) [OF assms(1)])
  moreover have "hip_args (saved_setting sf ed) = []" by (simp add: hip_args_def n editor_keys_def)
  ultimately show ?thesis using u n saved_frame(3) [OF assms(1)] by auto
qed

section \<open>Sessions of the editor\<close>

inductive gp_step :: "gp_editor \<Rightarrow> gp_editor \<Rightarrow> bool" where
  "gp_step ed (gp_react ev ed)"

definition gp_init :: "set_active_id \<Rightarrow> bool \<Rightarrow> connection option \<Rightarrow> gp_editor \<Rightarrow> bool" where
  "gp_init sai supported conn ed \<longleftrightarrow> combo_law sai \<and> ed = gpclient_editor_new sai supported conn"

definition gp_inv :: "bool \<Rightarrow> connection option \<Rightarrow> gp_editor \<Rightarrow> bool" where
  "gp_inv supported conn ed \<longleftrightarrow>
     portal_mode_supported ed = supported \<and> portal_visible ed = supported \<and> direct_sensitive ed = supported \<and>
     gateway_sensitive ed \<and> portal_sensitive ed = (supported \<and> \<not> direct_gateway_check ed) \<and>
     custom_sensitive ed = (browser_combo ed = Some ''custom'') \<and> browser_combo ed \<in> Some ` set browser_ids \<and>
     reported_os_combo ed \<in> insert None (Some ` set os_ids) \<and>
     (supported \<or> direct_gateway_check ed \<and> portal_entry ed = new_entry (vpn_data conn ''portal''))"

lemma new_browser_combo_ids: "combo_law sai \<Longrightarrow> new_browser_combo sai b \<in> Some ` set browser_ids"
  by (auto simp: new_browser_combo_def combo_law_def browser_ids_def browser_is_known_def streq_iff split: option.splits)

interpretation gp: invariant_system "gp_init sai supported conn" gp_step "gp_inv supported conn" for sai supported conn
proof unfold_locales
  show "gp_init sai supported conn ed \<Longrightarrow> gp_inv supported conn ed" for ed
    by (auto simp: gp_init_def gp_inv_def gpclient_editor_new_def browser_update_sensitivity_def Let_def streq_iff
        new_browser_combo_ids) (auto simp: combo_law_def)
  show "gp_inv supported conn ed \<Longrightarrow> gp_step ed ed' \<Longrightarrow> gp_inv supported conn ed'" for ed ed'
  proof (elim gp_step.cases)
    fix ed0 ev
    assume "gp_inv supported conn ed" "ed = ed0" "ed' = gp_react ev ed0"
    then show "gp_inv supported conn ed'"
      by (cases ev) (auto simp: gp_inv_def emit_changed_def browser_changed_def browser_update_sensitivity_def
          direct_gateway_toggled_def streq_iff)
  qed
qed

text \<open>C21: A \<open>gpclient\<close> without portal support gets direct profiles only: whatever the user does in the
  editor, the direct mode stays on and cannot be switched, the portal text stays that of the profile and
  hidden, and what is saved connects to a gateway directly.\<close>

theorem no_portal_support_means_direct:
  assumes "reach (gp_init sai False conn0) gp_step ed" "flags_law gf sf flag_text"
    and "editor_update_connection sf ed conn = Inr conn'"
  shows "direct_gateway_check ed \<and> \<not> portal_sensitive ed \<and> \<not> portal_visible ed \<and>
    portal_entry ed = new_entry (vpn_data conn0 ''portal'') \<and>
    (\<exists>s g. c_vpn conn' = Some s \<and> configured_mode s = Some (Direct g) \<and> gateway_args s = [''--as-gateway''] \<and> g \<noteq> [])"
proof -
  have i: "gp_inv False conn0 ed" using gp.reach_inv [OF assms(1)] .
  from assms(3) have u: "editor_check ed = Inr ()" "c_vpn conn' = Some (saved_setting sf ed)" by (auto simp: update_Inr)
  from i have d: "direct_gateway_check ed" by (simp add: gp_inv_def)
  then obtain g where g: "shown_mode ed = Direct g" "g \<noteq> []"
    using u(1) by (auto simp: shown_mode_def editor_check_def split: if_splits)
  with saved_mode [OF assms(2) u(1)] mode_refinement [of "saved_setting sf ed"]
  have "configured_mode (saved_setting sf ed) = Some (Direct g) \<and> gateway_args (saved_setting sf ed) = [''--as-gateway'']"
    by simp
  with i u g show ?thesis by (auto simp: gp_inv_def)
qed

lemma known_in_ids: "browser_is_known (Some b) \<Longrightarrow> b \<in> set browser_ids"
  by (auto simp: browser_is_known_def browser_ids_def)

lemma known_not_custom: "\<not> browser_is_known (Some ''custom'')"
  by (simp add: browser_is_known_def)

text \<open>The browser a saved text gives when the profile is opened again.\<close>

lemma reopened_browser:
  assumes "combo_law sai" "b \<noteq> []"
    and "browser_combo ed = new_browser_combo sai (Some b)"
    and "browser_custom_entry ed = new_entry (if \<not> browser_is_known (Some b) then Some b else Some [])"
  shows "browser_get_value ed = b"
  using assms known_in_ids [of b] known_not_custom
  by (cases "browser_is_known (Some b)")
    (auto simp: browser_get_value_def new_browser_combo_def combo_law_def browser_ids_def new_entry_def streq_iff)

text \<open>C20: Opening a saved profile and saving it again changes nothing: for every state the user can bring
  the editor to with a browser given, the editor opened on the saved connection, on a system with the
  same portal support, saves exactly the same connection.\<close>

theorem reopen_and_save_is_identity:
  assumes "reach (gp_init sai supported conn0) gp_step ed" "combo_law sai" "flags_law gf sf flag_text"
    and "editor_update_connection sf ed conn = Inr conn'" "browser_get_value ed \<noteq> []"
  shows "editor_update_connection sf (gpclient_editor_new sai supported (Some conn')) conn' = Inr conn'"
proof -
  define s where "s = saved_setting sf ed"
  define ed' where "ed' = gpclient_editor_new sai supported (Some conn')"
  note d = saved_data [OF assms(3), of ed, folded s_def]
  have i: "gp_inv supported conn0 ed" using gp.reach_inv [OF assms(1)] .
  from assms(4) have u: "editor_check ed = Inr ()" "c_vpn conn' = Some s" "conn' = conn\<lparr>c_vpn := Some s\<rparr>"
    by (auto simp: update_Inr s_def)
  have data: "vpn_data (Some conn') k = get_data_item s k" for k by (simp add: vpn_data_def u(2))
  have b: "browser_get_value ed' = browser_get_value ed"
    using assms(5) by (intro reopened_browser [OF assms(2)])
      (simp_all add: ed'_def gpclient_editor_new_def browser_update_sensitivity_def data d Let_def)
  have dir: "direct_gateway_check ed' = direct_gateway_check ed"
    using i by (auto simp: ed'_def gpclient_editor_new_def browser_update_sensitivity_def data d Let_def gp_is_yes_def
        streq_iff gp_inv_def)
  have entries: "portal_entry ed' = portal_entry ed"
    "gateway_entry ed' = (if direct_gateway_check ed \<and> gateway_entry ed = [] then portal_entry ed else gateway_entry ed)"
    "client_version_entry ed' = client_version_entry ed" "no_dtls_check ed' = no_dtls_check ed"
    "ignore_tls_check ed' = ignore_tls_check ed"
    by (auto simp: ed'_def gpclient_editor_new_def browser_update_sensitivity_def data d Let_def new_entry_def gp_is_yes_def
        some_if_def)
  have os: "(case reported_os_combo ed' of None \<Rightarrow> None | Some v \<Rightarrow> some_if (v \<noteq> [] \<and> v \<noteq> ''default'') v) =
      (case reported_os_combo ed of None \<Rightarrow> None | Some v \<Rightarrow> some_if (v \<noteq> [] \<and> v \<noteq> ''default'') v)"
    using i assms(2)
    by (cases "reported_os_combo ed")
      (auto simp: ed'_def gpclient_editor_new_def browser_update_sensitivity_def data d Let_def gp_inv_def combo_law_def
        os_ids_def some_if_def)
  have "server_items ed' = server_items ed" using dir entries(1,2) by (simp add: server_items_def Let_def)
  moreover have "other_items ed' = other_items ed" using b os entries(3-5) by (simp add: other_items_def Let_def)
  ultimately have "saved_setting sf ed' = s" using saved_setting_def s_def by simp
  moreover have "editor_check ed' = Inr ()"
    using u(1) dir entries(1,2) by (auto simp: editor_check_def split: if_splits)
  ultimately have "editor_update_connection sf ed' conn' = Inr (conn'\<lparr>c_vpn := Some s\<rparr>)" by (simp add: update_Inr)
  then show ?thesis using u(3) by (simp add: ed'_def)
qed

text \<open>Opening a profile whose reported OS is not one of the four offered, and saving it, drops the
  reported OS, although the service passes any value on.\<close>

theorem unknown_reported_os_is_dropped:
  assumes "combo_law sai" "flags_law gf sf flag_text" "vpn_data (Some conn) ''reported_os'' = Some v"
    and "v \<noteq> []" "v \<notin> set os_ids"
    and "editor_update_connection sf (gpclient_editor_new sai supported (Some conn)) conn = Inr conn'"
  shows "vpn_data (Some conn') ''reported_os'' = None"
proof -
  have "reported_os_combo (gpclient_editor_new sai supported (Some conn)) = None"
    using assms(1,3-5) by (simp add: gpclient_editor_new_def browser_update_sensitivity_def Let_def combo_law_def)
  then show ?thesis
    using assms(6) saved_data(7) [OF assms(2)] by (auto simp: update_Inr vpn_data_def)
qed

section \<open>Examples\<close>

definition sample_flag_text :: "u32 \<Rightarrow> string" where
  "sample_flag_text f = show_nat (unat f)"

definition sample_set_flags :: set_flags where
  "sample_set_flags k f s = add_data_item (k @ ''-flags'') (sample_flag_text f) s"

definition sample_get_flags :: get_flags where
  "sample_get_flags s k =
     (case get_data_item s (k @ ''-flags'') of
        None \<Rightarrow> if get_secret s k = None then None else Some 0
      | Some t \<Rightarrow> Some (of_nat (digits_value t)))"

definition sample_combo :: set_active_id where
  "sample_combo ids i = (if i \<in> set ids then Some i else None)"

lemma sample_flags_law: "flags_law sample_get_flags sample_set_flags sample_flag_text"
  by (auto simp: flags_law_def sample_set_flags_def sample_get_flags_def sample_flag_text_def data_items.get_put
      digits_value_show split: option.splits)

lemma sample_flags_read: "flags_read_law sample_get_flags"
  by (auto simp: flags_read_law_def sample_get_flags_def split: option.splits)

lemma sample_combo_law: "combo_law sample_combo"
  by (simp add: combo_law_def sample_combo_def)

text \<open>An editor opened without a profile, in which a portal was typed.\<close>

definition sample_editor :: gp_editor where
  "sample_editor = gp_react (EditPortal ''vpn.example'') (gpclient_editor_new sample_combo True None)"

definition empty_connection :: connection where
  "empty_connection = \<lparr>c_con = None, c_vpn = None\<rparr>"

definition saved_connection :: connection where
  "saved_connection = empty_connection\<lparr>c_vpn := Some (saved_setting sample_set_flags sample_editor)\<rparr>"

lemma react_reach: "reach init gp_step ed \<Longrightarrow> reach init gp_step (gp_react ev ed)"
  by (erule reach_step) (rule gp_step.intros)

lemma gp_sample_reach: "reach (gp_init sample_combo True None) gp_step sample_editor"
  unfolding sample_editor_def
  by (rule react_reach, rule reach_init) (simp add: gp_init_def sample_combo_law)

lemma sample_save: "editor_update_connection sample_set_flags sample_editor empty_connection = Inr saved_connection"
proof -
  have "editor_check sample_editor = Inr ()" by code_simp
  then show ?thesis by (simp add: update_Inr saved_connection_def)
qed

theorem saved_profile_is_accepted_witness:
  "\<exists>s. c_vpn saved_connection = Some s \<and> validate_auth_secret_flags sample_get_flags s = Inr () \<and>
     configured_mode s = Some (PortalAuto ''vpn.example'') \<and> no_dtls s"
proof -
  have "shown_mode sample_editor = PortalAuto ''vpn.example''" "no_dtls_check sample_editor" by code_simp+
  with saved_profile_is_accepted [OF sample_flags_law sample_save] show ?thesis by auto
qed

theorem saving_forgets_other_settings_witness:
  "\<exists>s. c_vpn saved_connection = Some s \<and> get_data_item s ''mtu'' = None \<and> hip_args s = []"
proof -
  obtain s where s: "c_vpn saved_connection = Some s" "hip_args s = []"
    "\<forall>k. if k \<in> set editor_keys then True else get_data_item s k = None"
    using saving_forgets_other_settings [OF sample_flags_law sample_save] by blast
  from s(3) [rule_format, of "''mtu''"] have "get_data_item s ''mtu'' = None" by (simp add: editor_keys_def)
  with s show ?thesis by blast
qed

theorem reopen_and_save_is_identity_witness:
  "editor_update_connection sample_set_flags (gpclient_editor_new sample_combo True (Some saved_connection)) saved_connection =
     Inr saved_connection"
proof -
  have "browser_get_value sample_editor \<noteq> []" by code_simp
  then show ?thesis
    by (rule reopen_and_save_is_identity [OF gp_sample_reach sample_combo_law sample_flags_law sample_save])
qed

lemma sample_reach_unsupported:
  "reach (gp_init sample_combo False None) gp_step
     (gp_react (EditGateway ''gw.example'') (gp_react ToggleDirect (gpclient_editor_new sample_combo False None)))"
  by (rule react_reach, rule react_reach, rule reach_init)
    (simp add: gp_init_def sample_combo_law)

theorem no_portal_support_means_direct_witness:
  "direct_gateway_check
     (gp_react (EditGateway ''gw.example'') (gp_react ToggleDirect (gpclient_editor_new sample_combo False None)))"
proof -
  let ?ed = "gp_react (EditGateway ''gw.example'') (gp_react ToggleDirect (gpclient_editor_new sample_combo False None))"
  have "editor_check ?ed = Inr ()" by code_simp
  then have "editor_update_connection sample_set_flags ?ed empty_connection =
      Inr (empty_connection\<lparr>c_vpn := Some (saved_setting sample_set_flags ?ed)\<rparr>)" by (simp add: update_Inr)
  from no_portal_support_means_direct [OF sample_reach_unsupported sample_flags_law this] show ?thesis by blast
qed

definition os_connection :: connection where
  "os_connection = \<lparr>c_con = None, c_vpn = Some \<lparr>vs_data = [(''gateway'', ''gw.example''), (''as_gateway'', ''yes''),
     (''reported_os'', ''android'')], vs_secrets = [], vs_service = [], vs_timeout = 0\<rparr>\<rparr>"

theorem unknown_reported_os_is_dropped_witness:
  "\<exists>conn'. editor_update_connection sample_set_flags (gpclient_editor_new sample_combo True (Some os_connection)) os_connection =
     Inr conn' \<and> vpn_data (Some conn') ''reported_os'' = None"
proof -
  let ?ed = "gpclient_editor_new sample_combo True (Some os_connection)"
  have "editor_check ?ed = Inr ()" by code_simp
  then have u: "editor_update_connection sample_set_flags ?ed os_connection =
      Inr (os_connection\<lparr>c_vpn := Some (saved_setting sample_set_flags ?ed)\<rparr>)" by (simp add: update_Inr)
  have "vpn_data (Some os_connection) ''reported_os'' = Some ''android''" "''android'' \<notin> set os_ids" by code_simp+
  from unknown_reported_os_is_dropped [OF sample_combo_law sample_flags_law this(1) _ this(2) u] u show ?thesis by auto
qed

end
