(* ===== verification/Session.thy ===== *)
theory Session
  imports Service_Main Dialog_Service Gp_Editor_Facts
begin

text \<open>
  The parts together, in the order NetworkManager calls them for a new profile: the editor saves it, the
  service asks for secrets, the dialog authenticates, its answer is stored as secrets, the service has
  enough and connects. What the user saw in the editor is what \<open>gpclient\<close> is told.
\<close>

text \<open>What the dialog finds in a profile the editor saved.\<close>

lemma dialog_reads_saved:
  assumes "flags_law gf sf flag_text" "editor_check ed = Inr ()"
  shows "dialog_auth_server (Some (vs_data (saved_setting sf ed))) (Some (vs_secrets (saved_setting sf ed))) =
      Some (mode_server (shown_mode ed))"
    "answered_gateway (Some (vs_data (saved_setting sf ed))) (Some (vs_secrets (saved_setting sf ed))) =
      Some (if gateway_entry ed \<noteq> [] then gateway_entry ed else portal_entry ed)"
proof -
  note d = saved_data [OF assms(1), of ed] and f = saved_frame(3) [OF assms(1), of ed]
  from assms(2) have "portal_entry ed \<noteq> [] \<or> direct_gateway_check ed \<and> gateway_entry ed \<noteq> []"
    by (auto simp: editor_check_def split: if_splits)
  then show "dialog_auth_server (Some (vs_data (saved_setting sf ed))) (Some (vs_secrets (saved_setting sf ed))) =
      Some (mode_server (shown_mode ed))"
    "answered_gateway (Some (vs_data (saved_setting sf ed))) (Some (vs_secrets (saved_setting sf ed))) =
      Some (if gateway_entry ed \<noteq> [] then gateway_entry ed else portal_entry ed)"
    by (auto simp: dialog_lookups d f is_yes_def val_some_if some_if_def shown_mode_def)
qed

lemma saved_mode_answered:
  assumes "flags_law gf sf flag_text" "editor_check ed = Inr ()"
    and "g = (if gateway_entry ed \<noteq> [] then gateway_entry ed else portal_entry ed)"
  shows "configured_mode (add_secret ''cookie'' c (add_secret ''gateway'' g (saved_setting sf ed))) = Some (shown_mode ed)"
proof -
  note d = saved_data [OF assms(1), of ed]
  from assms(2) have "portal_entry ed \<noteq> [] \<or> direct_gateway_check ed \<and> gateway_entry ed \<noteq> []"
    by (auto simp: editor_check_def split: if_splits)
  then show ?thesis
    by (auto simp: configured_mode_def shown_mode_def d assms(3) secrets.get_put val_some_if some_if_def)
qed

text \<open>C7: What the user sees in the editor is what \<open>gpclient\<close> is told: for a profile saved from any state of
  the editor, the service asks for secrets, the dialog authenticates against the server shown, and with
  its answer stored the service asks for nothing more, accepts the profile, and connects to the server
  shown, with the options of the mode shown, the HTTPS-only choice shown and the authentication as
  cookie. Nothing the dialog stores changes the mode.\<close>

theorem edited_profile_connects:
  assumes "flags_law gf sf flag_text" "flags_read_law gf" "editor_update_connection sf ed conn = Inr conn'"
    and "c_vpn conn' = Some v" "auth_json \<noteq> []"
    and "v' = store_secrets (answered (Some (vs_data v)) (Some (vs_secrets v)) auth_json) v"
  shows "fst (real_need_secrets gf sys conn' s) = Inr (Some ''vpn'') \<and>
    dialog_auth_server (Some (vs_data v)) (Some (vs_secrets v)) = Some (mode_server (shown_mode ed)) \<and>
    fst (real_need_secrets gf sys (conn'\<lparr>c_vpn := Some v'\<rparr>) s) = Inr None \<and> acceptable gf v' \<and>
    connect_server v' = Some (mode_server (shown_mode ed)) \<and> gateway_args v' = mode_args (shown_mode ed) \<and>
    no_dtls v' = no_dtls_check ed \<and> get_secret v' ''cookie'' = Some auth_json"
proof -
  have u: "editor_check ed = Inr ()" "v = saved_setting sf ed" using assms(3,4) by (auto simp: update_Inr)
  define g where "g = (if gateway_entry ed \<noteq> [] then gateway_entry ed else portal_entry ed)"
  have v': "v' = add_secret ''cookie'' auth_json (add_secret ''gateway'' g v)"
    using assms(6) dialog_reads_saved(2) [OF assms(1) u(1)] by (simp add: answered_def u(2) g_def)
  have ok: "validate_auth_secret_flags gf v = Inr ()" "nm_openconnect_properties_validate v = Inr ()"
    using saved_flags_ok [OF assms(1)] saved_properties_ok [OF assms(1)] by (simp_all add: u(2))
  have kept: "gf v' ''cookie'' = gf v ''cookie''" "gf v' ''gateway'' = gf v ''gateway''"
    using saved_flag_items [OF assms(1), of ed] by (simp_all add: v' u(2) flags_read_stored [OF assms(2)])
  have flags: "validate_auth_secret_flags gf v' = Inr ()"
    using ok(1) by (simp add: validate_flags_ok kept)
  have "acceptable gf v'"
    using ok by (auto simp: acceptable_def validate_flags_ok kept properties_validate_ok filter_empty_conv)
      (auto simp: v')
  moreover have "fst (real_need_secrets gf sys conn' s) = Inr (Some ''vpn'')"
    using ok(1) saved_frame(3) [OF assms(1), of ed]
    by (simp add: need_secrets_result assms(4) u(2))
  moreover have "fst (real_need_secrets gf sys (conn'\<lparr>c_vpn := Some v'\<rparr>) s) = Inr None"
    using flags assms(5) by (simp add: need_secrets_result v' secrets.get_put server_configured_def)
  moreover have "configured_mode v' = Some (shown_mode ed)"
    using saved_mode_answered [OF assms(1) u(1) g_def] by (simp add: v' u(2))
  moreover have "no_dtls v' = no_dtls_check ed" by (simp add: v' u(2) no_dtls_def saved_data [OF assms(1)])
  ultimately show ?thesis
    using mode_refinement dialog_reads_saved(1) [OF assms(1) u(1)] by (simp add: u(2) v' secrets.get_put)
qed

section \<open>Example\<close>

definition answered_connection :: vpn_setting where
  "answered_connection = store_secrets (answered (Some (vs_data (saved_setting sample_set_flags sample_editor)))
     (Some (vs_secrets (saved_setting sample_set_flags sample_editor))) ''JSON'') (saved_setting sample_set_flags sample_editor)"

theorem edited_profile_connects_witness:
  "acceptable sample_get_flags answered_connection \<and> connect_server answered_connection = Some ''vpn.example'' \<and>
     gateway_args answered_connection = [''--auto-gateway'']"
proof -
  have "c_vpn saved_connection = Some (saved_setting sample_set_flags sample_editor)" by (simp add: saved_connection_def)
  moreover have "shown_mode sample_editor = PortalAuto ''vpn.example''" by code_simp
  ultimately show ?thesis
    using edited_profile_connects [OF sample_flags_law sample_flags_read sample_save _ _ answered_connection_def]
    by simp
qed

end
