(* ===== verification/Getopt.thy ===== *)
theory Getopt
  imports Auth_Dialog
begin

text \<open>
  The command line of the auth dialog: \<open>getopt_long\<close> on the option string \<open>ru:n:s:i\<close> and the table
  \<open>long_options\<close>, as glibc parses them, so that the options of \<open>dialog_main\<close> come from an argument
  vector. Every way of writing the options is read back as them.
\<close>

section \<open>The two option tables\<close>

text \<open>An option without and with an argument.\<close>

datatype opt_kind = Plain opt_char | WithArg "string \<Rightarrow> opt_char"

definition short_opt :: "char \<Rightarrow> opt_kind option" where
  "short_opt c =
     (if c = CHR ''r'' then Some (Plain OptReprompt)
      else if c = CHR ''u'' then Some (WithArg OptUuid)
      else if c = CHR ''n'' then Some (WithArg OptName)
      else if c = CHR ''s'' then Some (WithArg OptService)
      else if c = CHR ''i'' then Some (Plain OptInteraction)
      else None)"

definition long_options :: "(string \<times> opt_kind) list" where
  "long_options = [(''reprompt'', Plain OptReprompt), (''uuid'', WithArg OptUuid), (''name'', WithArg OptName),
     (''service'', WithArg OptService), (''allow-interaction'', Plain OptInteraction)]"

section \<open>\<open>getopt_long\<close>\<close>

text \<open>Both parsers return what is left of the argument vector; a required argument is the next one,
  whatever it looks like.\<close>

definition next_arg :: "(string \<Rightarrow> opt_char) \<Rightarrow> string list \<Rightarrow> opt_char \<times> string list" where
  "next_arg mk rest = (case rest of [] \<Rightarrow> (OptUnknown, []) | a # rest \<Rightarrow> (mk a, rest))"

fun short_cluster :: "string \<Rightarrow> string list \<Rightarrow> opt_char list \<times> string list" where
  "short_cluster [] rest = ([], rest)"
| "short_cluster (c # cs) rest =
     (case short_opt c of
        None \<Rightarrow> (let (os, rest) = short_cluster cs rest in (OptUnknown # os, rest))
      | Some (Plain opt) \<Rightarrow> (let (os, rest) = short_cluster cs rest in (opt # os, rest))
      | Some (WithArg mk) \<Rightarrow>
          if cs \<noteq> [] then ([mk cs], rest)
          else let (opt, rest) = next_arg mk rest in ([opt], rest))"

text \<open>A name is the option it equals, or the only one it is a prefix of.\<close>

definition long_option :: "string \<Rightarrow> string list \<Rightarrow> opt_char \<times> string list" where
  "long_option s rest =
     (let name = takeWhile (\<lambda>c. c \<noteq> CHR ''='') s;
          arg = (case dropWhile (\<lambda>c. c \<noteq> CHR ''='') s of [] \<Rightarrow> None | _ # v \<Rightarrow> Some v);
          found = (case map_of long_options name of
                     Some k \<Rightarrow> [k]
                   | None \<Rightarrow> map snd (filter (\<lambda>(n, k). has_prefix n name) long_options))
      in case found of
           [Plain opt] \<Rightarrow> (if arg = None then opt else OptUnknown, rest)
         | [WithArg mk] \<Rightarrow> (case arg of Some v \<Rightarrow> (mk v, rest) | None \<Rightarrow> next_arg mk rest)
         | _ \<Rightarrow> (OptUnknown, rest))"

lemma next_arg_length: "length (snd (next_arg mk rest)) \<le> length rest"
  by (cases rest) (simp_all add: next_arg_def)

lemma long_option_length: "length (snd (long_option s rest)) \<le> length rest"
  by (simp add: long_option_def Let_def next_arg_length split: option.split list.split opt_kind.split)

lemma short_cluster_length: "length (snd (short_cluster cs rest)) \<le> length rest"
  by (induction cs rest rule: short_cluster.induct)
    (auto simp: case_prod_beta next_arg_length split: option.split opt_kind.split)

text \<open>The options in order and the arguments that are none, which glibc moves to the end unless
  \<open>POSIXLY_CORRECT\<close> is set; then the first of them ends the options.\<close>

function (sequential) getopt_long :: "bool \<Rightarrow> string list \<Rightarrow> opt_char list \<times> string list" where
  "getopt_long posix [] = ([], [])"
| "getopt_long posix (a # rest) =
     (if a = ''--'' then ([], rest)
      else if has_prefix a ''--'' then
        let (opt, rest) = long_option (drop 2 a) rest;
            (os, others) = getopt_long posix rest
        in (opt # os, others)
      else if has_prefix a ''-'' \<and> length a > 1 then
        let (os1, rest) = short_cluster (drop 1 a) rest;
            (os, others) = getopt_long posix rest
        in (os1 @ os, others)
      else if posix then ([], a # rest)
      else let (os, others) = getopt_long posix rest in (os, a # others))"
  by pat_completeness auto
termination
proof (relation "measure (\<lambda>(posix, argv). length argv)", goal_cases)
  case (2 posix a rest x opt rest')
  then show ?case using long_option_length [of "drop 2 a" rest] by (metis case_prod_conv in_measure le_imp_less_Suc length_Cons snd_conv)
next
  case (3 posix a rest x os1 rest')
  then show ?case using short_cluster_length [of "drop 1 a" rest] by (metis case_prod_conv in_measure le_imp_less_Suc length_Cons snd_conv)
qed auto

declare getopt_long.simps [simp del]

text \<open>The program from its argument vector, without \<open>argv[0]\<close>.\<close>

definition dialog_program :: "dialog_sys \<Rightarrow> bool \<Rightarrow> string list \<Rightarrow> (strmap \<times> strmap) option \<Rightarrow> dialog_end" where
  "dialog_program sys posix argv details =
     (let (opts, others) = getopt_long posix argv in dialog_main sys opts (others \<noteq> []) details)"

section \<open>Every spelling is read back\<close>

text \<open>The ways to write an option: short, with the argument attached or next, long, with the argument after
  an equals sign or next.\<close>

definition arg_spellings :: "char \<Rightarrow> string \<Rightarrow> string \<Rightarrow> string list list" where
  "arg_spellings c name v =
     [[[CHR ''-'', c], v], [''--'' @ name, v], [''--'' @ name @ ''='' @ v]] @ (if v \<noteq> [] then [[[CHR ''-'', c] @ v]] else [])"

fun spellings :: "opt_char \<Rightarrow> string list list" where
  "spellings OptReprompt = [[''-r''], [''--reprompt'']]"
| "spellings OptInteraction = [[''-i''], [''--allow-interaction'']]"
| "spellings (OptUuid v) = arg_spellings CHR ''u'' ''uuid'' v"
| "spellings (OptName v) = arg_spellings CHR ''n'' ''name'' v"
| "spellings (OptService v) = arg_spellings CHR ''s'' ''service'' v"
| "spellings OptUnknown = []"

lemma long_equals:
  assumes "CHR ''='' \<notin> set name" "map_of long_options name = Some (WithArg mk)"
  shows "long_option (name @ CHR ''='' # v) rest = (mk v, rest)" "long_option name rest = next_arg mk rest"
proof -
  have tw: "takeWhile (\<lambda>c. c \<noteq> CHR ''='') (name @ CHR ''='' # v) = name" "dropWhile (\<lambda>c. c \<noteq> CHR ''='') (name @ CHR ''='' # v) = CHR ''='' # v"
    "takeWhile (\<lambda>c. c \<noteq> CHR ''='') name = name" "dropWhile (\<lambda>c. c \<noteq> CHR ''='') name = []"
    using assms(1) by (auto simp: takeWhile_append dropWhile_append takeWhile_eq_all_conv)
  show "long_option (name @ CHR ''='' # v) rest = (mk v, rest)" "long_option name rest = next_arg mk rest"
    unfolding long_option_def Let_def tw assms(2) by simp_all
qed

lemma getopt_cases:
  "getopt_long posix ((CHR ''-'' # CHR ''-'' # c # cs) # rest) =
     (let (opt, rest) = long_option (c # cs) rest; (os, others) = getopt_long posix rest in (opt # os, others))"
  "c \<noteq> CHR ''-'' \<Longrightarrow> getopt_long posix ((CHR ''-'' # c # cs) # rest) =
     (let (os1, rest) = short_cluster (c # cs) rest; (os, others) = getopt_long posix rest in (os1 @ os, others))"
  by (subst getopt_long.simps; simp)+

lemma getopt_arg:
  assumes "w \<in> set (arg_spellings c name v)" "short_opt c = Some (WithArg mk)" "c \<noteq> CHR ''-''" "name \<noteq> []"
    and "CHR ''='' \<notin> set name" "map_of long_options name = Some (WithArg mk)"
  shows "getopt_long posix (w @ rest) = (mk v # fst (getopt_long posix rest), snd (getopt_long posix rest))"
proof -
  obtain d ds where name: "name = d # ds" using assms(4) by (cases name) auto
  note l = long_equals [OF assms(5,6)]
  from assms(1) consider "w = [[CHR ''-'', c], v]" | "w = [''--'' @ name, v]" | "w = [''--'' @ name @ ''='' @ v]"
    | "v \<noteq> []" "w = [[CHR ''-'', c] @ v]"
    by (auto simp: arg_spellings_def split: if_splits)
  then show ?thesis
    using assms(2,3) l by cases (simp_all add: name getopt_cases next_arg_def split_beta)
qed

lemma option_tables:
  "short_opt CHR ''r'' = Some (Plain OptReprompt)" "short_opt CHR ''i'' = Some (Plain OptInteraction)"
  "short_opt CHR ''u'' = Some (WithArg OptUuid)" "short_opt CHR ''n'' = Some (WithArg OptName)"
  "short_opt CHR ''s'' = Some (WithArg OptService)" "short_opt CHR ''t'' = None"
  "map_of long_options ''uuid'' = Some (WithArg OptUuid)" "map_of long_options ''name'' = Some (WithArg OptName)"
  "map_of long_options ''service'' = Some (WithArg OptService)"
  "long_option ''reprompt'' rest = (OptReprompt, rest)" "long_option ''allow-interaction'' rest = (OptInteraction, rest)"
  by (simp_all add: short_opt_def long_options_def long_option_def)

lemma getopt_spelled:
  assumes "w \<in> set (spellings opt)"
  shows "getopt_long posix (w @ rest) = (opt # fst (getopt_long posix rest), snd (getopt_long posix rest))"
proof (cases opt)
  case (OptUuid v)
  then show ?thesis using getopt_arg [of w "CHR ''u''" "''uuid''" v OptUuid posix rest] assms by (simp add: option_tables)
next
  case (OptName v)
  then show ?thesis using getopt_arg [of w "CHR ''n''" "''name''" v OptName posix rest] assms by (simp add: option_tables)
next
  case (OptService v)
  then show ?thesis using getopt_arg [of w "CHR ''s''" "''service''" v OptService posix rest] assms by (simp add: option_tables)
next
  case OptReprompt
  then have "w = [''-r''] \<or> w = [''--reprompt'']" using assms by simp
  then show ?thesis by (elim disjE) (simp_all add: OptReprompt getopt_cases option_tables split_beta)
next
  case OptInteraction
  then have "w = [''-i''] \<or> w = [''--allow-interaction'']" using assms by simp
  then show ?thesis by (elim disjE) (simp_all add: OptInteraction getopt_cases option_tables split_beta)
qed (use assms in simp)

text \<open>C37: Every way to write the dialog's options is read back as them, in their order and with nothing left
  over: short or long, the argument attached, after an equals sign or next, and whatever the argument is,
  even one that looks like an option. So what NetworkManager passes as UUID, name and service is what the
  dialog gets.\<close>

theorem dialog_options_roundtrip:
  assumes "list_all2 (\<lambda>opt w. w \<in> set (spellings opt)) opts ws"
  shows "getopt_long posix (concat ws) = (opts, [])"
  using assms by (induction rule: list_all2_induct) (simp_all add: getopt_long.simps(1) getopt_spelled)

theorem dialog_options_roundtrip_witness:
  "getopt_long True [''-u'', ''u1'', ''--name=-x'', ''-sgp'', ''-i''] = ([OptUuid ''u1'', OptName ''-x'', OptService ''gp'', OptInteraction], [])"
  using dialog_options_roundtrip [of "[OptUuid ''u1'', OptName ''-x'', OptService ''gp'', OptInteraction]"
      "[[''-u'', ''u1''], [''--name=-x''], [''-sgp''], [''-i'']]" True]
  by (simp add: arg_spellings_def)

text \<open>A hint, which NetworkManager only passes to dialogs that ask for hints, and an argument that is no option are refused.\<close>

lemma hint_is_refused:
  "dialog_program sys posix (concat ws @ [''-t'', hint]) details = DExit 1"
  if "list_all2 (\<lambda>opt w. w \<in> set (spellings opt)) opts ws"
proof -
  have "getopt_long posix (concat ws @ rest) = (opts @ fst (getopt_long posix rest), snd (getopt_long posix rest))" for rest
    using that by (induction rule: list_all2_induct) (simp_all add: getopt_spelled)
  moreover have "OptUnknown \<in> set (fst (getopt_long posix [''-t'', hint]))"
    by (simp add: getopt_cases option_tables split_beta)
  moreover have "OptUnknown \<in> set os \<Longrightarrow> parse_opts os d = None" for os d
    by (induction os d rule: parse_opts.induct) auto
  ultimately show ?thesis by (simp add: dialog_program_def dialog_main_def)
qed

end
