(* ===== verification/Reconnect.thy ===== *)
theory Reconnect
  imports Tests Session Getopt "HOL-Library.Monad_Syntax" "HOL-Library.Sublist"
begin

text \<open>
  The test program \<open>tools/test-reconnect.c\<close>: a profile is activated, persisted without its secrets and
  activated again, with the auth dialog as a process of its own. A failed assertion is \<open>None\<close>. libnm's
  serialisation and its reader of the dialog's input are parameters; the \<open>gpauth\<close> the dialog runs is the
  script \<open>tools/test-reconnect.sh\<close> writes.
\<close>

section \<open>The test program\<close>

text \<open>\<open>round_trip\<close>: True is \<open>SERIALIZE_ALL\<close>, False the system-owned part.\<close>

type_synonym round_trip = "bool \<Rightarrow> connection \<Rightarrow> connection"
type_synonym read_details = "string \<Rightarrow> (strmap \<times> strmap) option"

definition check :: "bool \<Rightarrow> unit option" where
  "check b = (if b then Some () else None)"

definition assert_need_secrets :: "get_flags \<Rightarrow> sys \<Rightarrow> connection \<Rightarrow> bool \<Rightarrow> service \<Rightarrow> service option" where
  "assert_need_secrets gf sys connection expected plugin =
     (case real_need_secrets gf sys connection (plugin\<lparr>priv_pid := 1\<rparr>) of
        (Inr setting, plugin) \<Rightarrow> do {
          check ((setting \<noteq> None) = expected);
          check (expected \<longrightarrow> setting = Some NM_SETTING_VPN_SETTING_NAME);
          Some (plugin\<lparr>priv_pid := 0\<rparr>)
        }
      | (Inl e, plugin) \<Rightarrow> None)"

definition dialog_items :: "vpn_setting \<Rightarrow> strmap" where
  "dialog_items vpn = List.map_filter (\<lambda>k. map_option (Pair k) (get_data_item vpn k)) [''portal'', ''gateway'', ''as_gateway'', ''browser'']"

definition details_text :: "strmap \<Rightarrow> string" where
  "details_text items =
     concat (map (\<lambda>(k, v). ''DATA_KEY='' @ k @ [CHR 0x0A] @ ''DATA_VAL='' @ v @ [CHR 0x0A]) items) @ ''DONE'' @ [CHR 0x0A]"

text \<open>The loop over the dialog's output; what \<open>fgets\<close> took is gone from the stream.\<close>

lemma fgets_takes: "1 < n \<Longrightarrow> fgets n s = Some l \<Longrightarrow> s \<noteq> [] \<and> l \<noteq> []"
  by (cases s; cases "n - 1") (auto simp: fgets_def split: if_split_asm)

function read_secrets :: "string \<Rightarrow> strmap option" where
  "read_secrets text =
     (case fgets 64 text of
        None \<Rightarrow> Some []
      | Some key \<Rightarrow>
          if key = [CHR 0x0A] then Some []
          else let text = drop (length key) text in
            case fgets 512 text of
              None \<Rightarrow> None
            | Some value \<Rightarrow>
                map_option ((#) (g_strchomp key, g_strchomp value)) (read_secrets (drop (length value) text)))"
  by pat_completeness auto
termination
  by (relation "measure length") (auto dest!: fgets_takes [rotated])

declare read_secrets.simps [simp del]

text \<open>\<open>gpauth\<close> of \<open>test-reconnect.sh\<close>: one line of JSON, then the ends of both pipes and exit status 0.
  The dialog then reads the \<open>QUIT\<close> line.\<close>

definition gpauth_json :: "string \<Rightarrow> string" where
  "gpauth_json cookie = ''{\"success\":{\"preloginCookie\":\"'' @ cookie @ ''\",\"username\":\"test-user\"}}''"

definition test_gpauth :: "string \<Rightarrow> dialog_sys" where
  "test_gpauth cookie =
     (let round = \<lparr>o_ready = 2, o_eintr = False, o_interrupted = False, o_revents0 = False, o_revents1 = True,
            o_revents2 = True, o_stdin = ByteErr True, o_out = ChunkEof, o_err = ChunkEof, o_now = 1, o_wait = Reaped 0\<rparr>
      in \<lparr>d_gpauth_binary = ''gpauth'', d_spawn_sync = (\<lambda>argv. Inr (0, Some (''gpauth 3.2.0'' @ [CHR 0x0A]))),
          d_spawn = (\<lambda>argv. Inr 42), d_interrupted_before = False,
          d_obs = [round\<lparr>o_out := Chunk (gpauth_json cookie @ [CHR 0x0A]), o_wait := WaitNothing\<rparr>, round],
          d_interrupted_after = False,
          d_quit_obs = map (\<lambda>c. \<lparr>q_interrupted = False, q_ready = True, q_read = Byte c\<rparr>) (''QUIT'' @ [CHR 0x0A])\<rparr>)"

definition dialog_argv :: "string list" where
  "dialog_argv = [''--uuid'', ''test-uuid'', ''--name'', ''reconnect-test'', ''--service'', NM_VPN_SERVICE_TYPE_OPENCONNECT,
     ''--allow-interaction'']"

definition authenticate :: "read_details \<Rightarrow> vpn_setting \<Rightarrow> string \<Rightarrow> vpn_setting option" where
  "authenticate rd vpn cookie =
     (case dialog_program (test_gpauth cookie) False dialog_argv (rd (details_text (dialog_items vpn))) of
        DAnswered text (Some n) \<Rightarrow> do {
          kvs \<leftarrow> read_secrets text;
          check (length kvs = 2);
          Some (store_secrets kvs vpn)
        }
      | _ \<Rightarrow> None)"

text \<open>One round of the flag loop: the flag is what the profile says, and without it the secret survives
  the persistence, which the service refuses.\<close>

definition unflagged_refused :: "get_flags \<Rightarrow> sys \<Rightarrow> round_trip \<Rightarrow> connection \<Rightarrow> vpn_setting \<Rightarrow> service \<Rightarrow> string \<Rightarrow> bool" where
  "unflagged_refused gf sys rt profile vpn plugin key \<longleftrightarrow>
     gf vpn key = Some NM_SETTING_SECRET_FLAG_NOT_SAVED \<and>
     (let unsafe = rt False (profile\<lparr>c_vpn := Some (remove_data_item (key @ ''-flags'') vpn)\<rparr>)
      in (case c_vpn unsafe of Some v \<Rightarrow> get_secret v key \<noteq> None | None \<Rightarrow> False) \<and>
         (case real_need_secrets gf sys unsafe (plugin\<lparr>priv_pid := 1\<rparr>) of
            (Inl e, plugin) \<Rightarrow> error_code e = VPN_ERROR_INVALID_CONNECTION
          | _ \<Rightarrow> False))"

definition split_pair :: "string \<Rightarrow> (string \<times> string) option" where
  "split_pair s = (case dropWhile (\<lambda>c. c \<noteq> CHR ''='') s of [] \<Rightarrow> None | _ # v \<Rightarrow> Some (takeWhile (\<lambda>c. c \<noteq> CHR ''='') s, v))"

definition reconnect_profile :: "string \<Rightarrow> bool \<Rightarrow> vpn_setting option" where
  "reconnect_profile data direct = do {
     items \<leftarrow> those (map split_pair (g_strsplit_char data CHR '',''));
     let vpn = fold (\<lambda>(k, v). add_data_item k v) items (nm_setting_vpn_new\<lparr>vs_service := NM_VPN_SERVICE_TYPE_OPENCONNECT\<rparr>);
     Some (if direct
       then add_data_item ''as_gateway'' ''yes'' (add_data_item ''gateway'' ''gateway.example.edu''
              (remove_data_item ''auto_gateway'' (remove_data_item ''portal'' vpn)))
       else vpn)
   }"

definition test_reconnect ::
  "get_flags \<Rightarrow> sys \<Rightarrow> round_trip \<Rightarrow> read_details \<Rightarrow> service \<Rightarrow> string \<Rightarrow> bool \<Rightarrow> unit option" where
  "test_reconnect gf sys rt rd plugin data direct = do {
     let gateway = (if direct then ''gateway.example.edu'' else ''vpn.example.edu'');
     vpn \<leftarrow> reconnect_profile data direct;
     let profile = \<lparr>c_con = Some \<lparr>cs_id = Some ''reconnect-test'', cs_interface = None, cs_permissions = []\<rparr>, c_vpn = Some vpn\<rparr>;
     plugin \<leftarrow> assert_need_secrets gf sys profile True plugin;
     vpn \<leftarrow> authenticate rd vpn ''first-token'';
     let profile = profile\<lparr>c_vpn := Some vpn\<rparr>;
     plugin \<leftarrow> assert_need_secrets gf sys profile False plugin;
     expired_cookie \<leftarrow> get_secret vpn ''cookie'';
     check (sublist ''first-token'' expired_cookie);
     check (get_secret vpn ''gateway'' = Some gateway);
     check (list_all (unflagged_refused gf sys rt profile vpn plugin) [''cookie'', ''gateway'']);
     let reconnect = rt False profile;
     let plugin = real_disconnect sys plugin;
     vpn \<leftarrow> c_vpn reconnect;
     check (get_secret vpn ''cookie'' = None);
     check (get_secret vpn ''gateway'' = None);
     plugin \<leftarrow> assert_need_secrets gf sys reconnect True plugin;
     vpn \<leftarrow> authenticate rd vpn ''fresh-token'';
     let reconnect = reconnect\<lparr>c_vpn := Some vpn\<rparr>;
     plugin \<leftarrow> assert_need_secrets gf sys reconnect False plugin;
     vpn \<leftarrow> c_vpn (rt True reconnect);
     cookie \<leftarrow> get_secret vpn ''cookie'';
     check (cookie \<noteq> expired_cookie);
     check (sublist ''fresh-token'' cookie);
     check (get_secret vpn ''gateway'' = Some gateway);
     check (direct \<longrightarrow> get_data_item vpn ''gateway'' = Some gateway)
   }"

section \<open>Its assertions hold\<close>

text \<open>What the test relies on in libnm: the reader undoes the line protocol; serialisation keeps the data
  items, and of the secrets all, or those whose flags say neither agent-owned nor not saved; a stored
  secret without a flags item has flags 0.\<close>

definition read_details_law :: "read_details \<Rightarrow> bool" where
  "read_details_law rd \<longleftrightarrow>
     (\<forall>items. list_all (\<lambda>(k, v). one_line k \<and> one_line v) items \<and> distinct (map fst items) \<longrightarrow>
        rd (details_text items) = Some (items, []))"

definition serialised :: "get_flags \<Rightarrow> bool \<Rightarrow> vpn_setting \<Rightarrow> string \<Rightarrow> cstr" where
  "serialised gf all v k =
     (if all \<or> (case gf v k of Some f \<Rightarrow> and f 3 = 0 | None \<Rightarrow> True) then get_secret v k else None)"

definition round_trip_law :: "get_flags \<Rightarrow> round_trip \<Rightarrow> bool" where
  "round_trip_law gf rt \<longleftrightarrow>
     (\<forall>all c v. c_vpn c = Some v \<longrightarrow>
        (\<exists>w. rt all c = c\<lparr>c_vpn := Some w\<rparr> \<and> get_data_item w = get_data_item v \<and> get_secret w = serialised gf all v))"

definition stored_flags_law :: "get_flags \<Rightarrow> bool" where
  "stored_flags_law gf \<longleftrightarrow>
     (\<forall>v k. get_data_item v (k @ ''-flags'') = None \<and> get_secret v k \<noteq> None \<longrightarrow> gf v k = Some 0)"

definition script_data :: string where
  "script_data = ''portal=vpn.example.edu,auto_gateway=yes,browser=default,cookie-flags=2,gateway-flags=2''"

definition test_server :: "bool \<Rightarrow> string" where
  "test_server direct = (if direct then ''gateway.example.edu'' else ''vpn.example.edu'')"

definition test_items :: "bool \<Rightarrow> strmap" where
  "test_items direct = (if direct then [(''gateway'', ''gateway.example.edu''), (''as_gateway'', ''yes''), (''browser'', ''default'')]
     else [(''portal'', ''vpn.example.edu''), (''browser'', ''default'')])"

lemma dialog_run:
  assumes "cookie = ''first-token'' \<or> cookie = ''fresh-token''"
  shows "\<exists>text n. dialog_program (test_gpauth cookie) False dialog_argv (Some (test_items direct, [])) = DAnswered text (Some n) \<and>
      read_secrets text = Some [(''gateway'', test_server direct), (''cookie'', gpauth_json cookie)]"
proof -
  have "list_all (\<lambda>(direct, cookie). case dialog_program (test_gpauth cookie) False dialog_argv (Some (test_items direct, [])) of
      DAnswered text (Some n) \<Rightarrow> read_secrets text = Some [(''gateway'', test_server direct), (''cookie'', gpauth_json cookie)]
    | _ \<Rightarrow> False) [(False, ''first-token''), (False, ''fresh-token''), (True, ''first-token''), (True, ''fresh-token'')]"
    by code_simp
  then show ?thesis
    using assms by (cases direct) (auto split: dialog_end.splits option.splits)
qed

lemma authenticate_ok:
  assumes "read_details_law rd" "cookie = ''first-token'' \<or> cookie = ''fresh-token''" "dialog_items vpn = test_items direct"
  shows "authenticate rd vpn cookie =
    Some (add_secret ''cookie'' (gpauth_json cookie) (add_secret ''gateway'' (test_server direct) vpn))"
proof -
  have "list_all (\<lambda>(k, v). one_line k \<and> one_line v) (test_items direct) \<and> distinct (map fst (test_items direct))"
    by (cases direct) (simp_all add: test_items_def one_line_def)
  then have "rd (details_text (test_items direct)) = Some (test_items direct, [])"
    using assms(1) by (simp add: read_details_law_def)
  then show ?thesis
    using dialog_run [OF assms(2), of direct] by (auto simp: authenticate_def assms(3) check_def)
qed

lemma reconnect_profile_data:
  obtains vpn where "reconnect_profile script_data direct = Some vpn" "get_secret vpn = Map.empty"
    "get_data_item vpn ''cookie-flags'' = Some ''2''" "get_data_item vpn ''gateway-flags'' = Some ''2''"
    "dialog_items vpn = test_items direct" "server_configured vpn"
    "direct \<longrightarrow> get_data_item vpn ''gateway'' = Some (test_server direct)"
proof -
  have "list_all (\<lambda>direct. case reconnect_profile script_data direct of
      Some vpn \<Rightarrow> vs_secrets vpn = [] \<and> get_data_item vpn ''cookie-flags'' = Some ''2'' \<and>
        get_data_item vpn ''gateway-flags'' = Some ''2'' \<and> dialog_items vpn = test_items direct \<and> server_configured vpn \<and>
        (if direct then get_data_item vpn ''gateway'' = Some (test_server direct) else True)
    | None \<Rightarrow> False) [False, True]"
    by code_simp
  then show thesis
    using that by (cases direct) (auto simp: get_secret_def fun_eq_iff split: option.splits)
qed

lemma assert_need_secrets_ok:
  assumes "c_vpn c = Some v" "validate_auth_secret_flags gf v = Inr ()" "server_configured v"
    and "expected = (\<not> nonempty (get_secret v ''cookie''))"
  shows "assert_need_secrets gf sys c expected s = Some (s\<lparr>priv_pid := 0\<rparr>)"
proof -
  have "snd (real_need_secrets gf sys c (s\<lparr>priv_pid := 1\<rparr>)) = s\<lparr>priv_pid := 1\<rparr>"
    using assms(1,2) by (simp add: real_need_secrets_def Let_def)
  then have "real_need_secrets gf sys c (s\<lparr>priv_pid := 1\<rparr>) =
      (Inr (if nonempty (get_secret v ''cookie'') then None else Some ''vpn''), s\<lparr>priv_pid := 1\<rparr>)"
    using need_secrets_result [of gf sys c "s\<lparr>priv_pid := 1\<rparr>"] assms(1-3) by (simp add: prod_eq_iff)
  then show ?thesis
    by (simp add: assert_need_secrets_def assms(4) check_def NM_SETTING_VPN_SETTING_NAME_def)
qed

text \<open>The secrets of a profile with both flags set do not survive the persistence; without one of the flags that secret does.\<close>

lemma not_saved_flags:
  assumes "flag_text_law gf" "get_data_item v (k @ ''-flags'') = Some ''2''"
  shows "gf v k = Some 2"
  using assms(1) [unfolded flag_text_law_def, rule_format, of v k] assms(2) by simp

lemma flags_validate:
  assumes "flag_text_law gf" "get_data_item v ''cookie-flags'' = Some ''2''" "get_data_item v ''gateway-flags'' = Some ''2''"
  shows "validate_auth_secret_flags gf v = Inr ()"
  using not_saved_flags [OF assms(1), of v "''cookie''"] not_saved_flags [OF assms(1), of v "''gateway''"] assms(2,3)
  by (simp add: validate_flags_ok safe_flags_def)

lemma unflagged_is_refused:
  assumes "flag_text_law gf" "stored_flags_law gf" "round_trip_law gf rt"
    and "get_data_item v ''cookie-flags'' = Some ''2''" "get_data_item v ''gateway-flags'' = Some ''2''"
    and "get_secret v key \<noteq> None" "key = ''cookie'' \<or> key = ''gateway''"
  shows "unflagged_refused gf sys rt profile v s key"
proof -
  define u where "u = remove_data_item (key @ ''-flags'') v"
  have d: "get_data_item u k = (if k = key @ ''-flags'' then None else get_data_item v k)" for k
    by (simp add: u_def data_items.get_del)
  obtain w where w: "rt False (profile\<lparr>c_vpn := Some u\<rparr>) = profile\<lparr>c_vpn := Some w\<rparr>" "get_data_item w = get_data_item u"
    "get_secret w = serialised gf False u"
    using assms(3) [unfolded round_trip_law_def, rule_format, of "profile\<lparr>c_vpn := Some u\<rparr>" u False] by auto
  have "gf u key = Some 0"
    using assms(2) [unfolded stored_flags_law_def, rule_format, of u key] assms(6) d [of "key @ ''-flags''"]
    by (simp add: u_def)
  then have "get_secret w key \<noteq> None"
    using assms(6) by (simp add: w(3) serialised_def u_def)
  then have "gf w key = Some 0"
    using assms(2) [unfolded stored_flags_law_def, rule_format, of w key] by (simp add: w(2) d)
  moreover have "gf w ''cookie'' = Some 2" if "key = ''gateway''"
    using that assms(4) by (intro not_saved_flags [OF assms(1)]) (simp add: w(2) d)
  ultimately have "\<exists>e. validate_auth_secret_flags gf w = Inl e \<and> error_code e = VPN_ERROR_INVALID_CONNECTION"
    using assms(7) by (auto simp: validate_auth_secret_flags_def check_secret_flags_cases safe_flags_def)
  then have "case fst (real_need_secrets gf sys (profile\<lparr>c_vpn := Some w\<rparr>) (s\<lparr>priv_pid := 1\<rparr>)) of
      Inl e \<Rightarrow> error_code e = VPN_ERROR_INVALID_CONNECTION | Inr _ \<Rightarrow> False"
    by (auto simp: need_secrets_result)
  moreover have "gf v key = Some 2"
    using assms(4,5,7) by (intro not_saved_flags [OF assms(1)]) auto
  ultimately show ?thesis
    using \<open>get_secret w key \<noteq> None\<close>
    by (simp add: unflagged_refused_def u_def [symmetric] w(1) Let_def case_prod_beta split: sum.splits)
qed

lemma tokens_differ:
  "gpauth_json ''first-token'' \<noteq> gpauth_json ''fresh-token''"
  "sublist cookie (gpauth_json cookie)" "gpauth_json cookie \<noteq> []"
  unfolding gpauth_json_def sublist_def by (simp, blast, simp)

text \<open>C9: Every assertion of \<open>test-reconnect.c\<close> holds in the model, for the profile of the script, through a
  portal and directly: the first activation needs secrets, the dialog gives them, and with either flags
  item missing the persisted profile is refused; persisted as it is, the profile has lost both secrets,
  the service asks again, the dialog authenticates anew, and the connection gets the fresh cookie.\<close>

theorem reconnect_test_passes:
  assumes "flag_text_law gf" "stored_flags_law gf" "round_trip_law gf rt" "read_details_law rd"
  shows "test_reconnect gf sys rt rd plugin script_data direct = Some ()"
proof -
  obtain vpn where vpn: "reconnect_profile script_data direct = Some vpn" "get_secret vpn = Map.empty"
    "get_data_item vpn ''cookie-flags'' = Some ''2''" "get_data_item vpn ''gateway-flags'' = Some ''2''"
    "dialog_items vpn = test_items direct" "server_configured vpn"
    "direct \<longrightarrow> get_data_item vpn ''gateway'' = Some (test_server direct)"
    by (rule reconnect_profile_data [of direct])
  let ?auth = "\<lambda>c v. add_secret ''cookie'' (gpauth_json c) (add_secret ''gateway'' (test_server direct) v)"
  let ?con = "Some \<lparr>cs_id = Some ''reconnect-test'', cs_interface = None, cs_permissions = []\<rparr>"
  define v1 where "v1 = ?auth ''first-token'' vpn"
  have v1: "get_data_item v1 = get_data_item vpn" "get_secret v1 ''cookie'' = Some (gpauth_json ''first-token'')"
    "get_secret v1 ''gateway'' = Some (test_server direct)"
    by (simp_all add: v1_def secrets.get_put)
  obtain v2 where v2: "rt False \<lparr>c_con = ?con, c_vpn = Some v1\<rparr> = \<lparr>c_con = ?con, c_vpn = Some v2\<rparr>"
    "get_data_item v2 = get_data_item v1" "get_secret v2 = serialised gf False v1"
    using assms(3) [unfolded round_trip_law_def, rule_format, of "\<lparr>c_con = ?con, c_vpn = Some v1\<rparr>" v1 False] by auto
  have "gf v1 ''cookie'' = Some 2" "gf v1 ''gateway'' = Some 2"
    using vpn(3,4) by (auto intro!: not_saved_flags [OF assms(1)] simp: v1)
  then have gone: "get_secret v2 ''cookie'' = None" "get_secret v2 ''gateway'' = None"
    by (simp_all add: v2(3) serialised_def)
  define v3 where "v3 = ?auth ''fresh-token'' v2"
  obtain v4 where v4: "rt True \<lparr>c_con = ?con, c_vpn = Some v3\<rparr> = \<lparr>c_con = ?con, c_vpn = Some v4\<rparr>"
    "get_data_item v4 = get_data_item v3" "get_secret v4 = get_secret v3"
    using assms(3) [unfolded round_trip_law_def, rule_format, of "\<lparr>c_con = ?con, c_vpn = Some v3\<rparr>" v3 True]
    by (auto simp: serialised_def fun_eq_iff)
  have items: "dialog_items v2 = test_items direct" using vpn(5) by (simp add: dialog_items_def v1 v2(2))
  have d3: "get_data_item v3 = get_data_item vpn" by (simp add: v3_def v1 v2(2))
  have s3: "get_secret v3 ''cookie'' = Some (gpauth_json ''fresh-token'')" "get_secret v3 ''gateway'' = Some (test_server direct)"
    by (simp_all add: v3_def secrets.get_put)
  have safe: "validate_auth_secret_flags gf v = Inr ()" if "get_data_item v = get_data_item vpn" for v
    using vpn(3,4) by (intro flags_validate [OF assms(1)]) (simp_all add: that)
  have srv: "server_configured v" if "get_data_item v = get_data_item vpn" for v
    using vpn(2,6) by (simp add: server_configured_def that)
  have auth: "authenticate rd vpn ''first-token'' = Some v1" "authenticate rd v2 ''fresh-token'' = Some v3"
    using authenticate_ok [OF assms(4), of "''first-token''" vpn direct]
      authenticate_ok [OF assms(4), of "''fresh-token''" v2 direct] vpn(5) items by (simp_all add: v1_def v3_def)
  have asked: "assert_need_secrets gf sys \<lparr>c_con = ?con, c_vpn = Some v\<rparr> e s = Some (s\<lparr>priv_pid := 0\<rparr>)"
    if "get_data_item v = get_data_item vpn" "e = (\<not> nonempty (get_secret v ''cookie''))" for v e s
    using that by (intro assert_need_secrets_ok) (simp_all add: safe srv)
  have refused: "unflagged_refused gf sys rt profile v1 s key" if "key = ''cookie'' \<or> key = ''gateway''" for profile s key
    using that vpn(3,4) by (intro unflagged_is_refused [OF assms(1-3)]) (auto simp: v1)
  show ?thesis
    using vpn(7)
    by (simp add: test_reconnect_def vpn(1,2) auth asked refused v1 v2(1,2) v4 d3 s3 gone tokens_differ tokens_differ(1) [symmetric]
        check_def Let_def test_server_def)
qed

section \<open>Example\<close>

definition stored_flags :: get_flags where
  "stored_flags v k =
     (if get_data_item v (k @ ''-flags'') = None then (if get_secret v k = None then None else Some 0)
      else digit_flags v k)"

lemma digit_flags_absent: "get_data_item v (k @ ''-flags'') = None \<Longrightarrow> digit_flags v k = None"
  by (simp add: digit_flags_def)

lemma stored_flags_laws: "flag_text_law stored_flags" "stored_flags_law stored_flags"
proof -
  have "flag_text_law stored_flags"
    unfolding flag_text_law_def
  proof (intro allI)
    fix s k
    show "if get_data_item s (k @ ''-flags'') = Some ''2'' then stored_flags s k = Some 2
        else if get_data_item s (k @ ''-flags'') = Some ''3'' then stored_flags s k = Some 3
        else if get_data_item s (k @ ''-flags'') \<in> set unsafe_values then \<not> safe_flags (stored_flags s k) else True"
      using digit_flags_law [unfolded flag_text_law_def, rule_format, of s k]
      by (auto simp: stored_flags_def safe_flags_def split: if_splits)
  qed
  then show "flag_text_law stored_flags" .
  show "stored_flags_law stored_flags"
    by (simp add: stored_flags_law_def stored_flags_def digit_flags_absent)
qed

lemma stored_flags_read: "flags_read_law stored_flags"
  by (auto simp: flags_read_law_def stored_flags_def digit_flags_def)

definition filter_secrets :: "get_flags \<Rightarrow> round_trip" where
  "filter_secrets gf all c = c\<lparr>c_vpn := map_option
     (\<lambda>v. v\<lparr>vs_secrets := filter (\<lambda>(k, x). serialised gf all v k \<noteq> None) (vs_secrets v)\<rparr>) (c_vpn c)\<rparr>"

lemma map_of_filter_key: "map_of (filter (\<lambda>(k, x). P k) xs) k = (if P k then map_of xs k else None)"
  by (induction xs) auto

lemma filter_secrets_law: "round_trip_law gf (filter_secrets gf)"
  by (auto simp: round_trip_law_def filter_secrets_def get_data_item_def get_secret_def fun_eq_iff map_of_filter_key
      serialised_def)

fun details_pairs :: "string list \<Rightarrow> strmap option" where
  "details_pairs (k # v # rest) =
     (if k = ''DONE'' then Some [] else map_option ((#) (drop 9 k, drop 9 v)) (details_pairs rest))"
| "details_pairs _ = None"

definition read_lines :: read_details where
  "read_lines text = map_option (\<lambda>items. (items, [])) (details_pairs (split_pieces (\<lambda>c. c = CHR 0x0A) text))"

lemma read_lines_law: "read_details_law read_lines"
proof -
  let ?nl = "\<lambda>c. c = CHR 0x0A"
  have "list_all (\<lambda>(k, v). one_line k \<and> one_line v) items \<Longrightarrow>
      details_pairs (split_pieces ?nl (details_text items)) = Some items" for items
  proof (induction items)
    case Nil
    show ?case by code_simp
  next
    case (Cons kv items)
    obtain k v where kv: "kv = (k, v)" by (cases kv)
    have "details_text (kv # items) = (''DATA_KEY='' @ k) @ CHR 0x0A # (''DATA_VAL='' @ v) @ CHR 0x0A # details_text items"
      by (simp add: details_text_def kv)
    moreover have "split_pieces ?nl ((''DATA_KEY='' @ k) @ CHR 0x0A # rest) = (''DATA_KEY='' @ k) # split_pieces ?nl rest"
      "split_pieces ?nl ((''DATA_VAL='' @ v) @ CHR 0x0A # rest) = (''DATA_VAL='' @ v) # split_pieces ?nl rest" for rest
      using Cons.prems by (intro split_pieces_append; simp add: kv one_line_def list_all_iff)+
    ultimately show ?case using Cons by (simp only:) (simp add: kv)
  qed
  then show ?thesis by (simp add: read_details_law_def read_lines_def)
qed

theorem reconnect_test_passes_witness:
  "test_reconnect stored_flags sample_sys (filter_secrets stored_flags) read_lines sample_service script_data True = Some ()"
  by (rule reconnect_test_passes [OF stored_flags_laws filter_secrets_law read_lines_law])

end
