(* ===== verification/Child_Group.thy ===== *)
theory Child_Group
  imports Tests
begin

text \<open>
  The process group \<open>gpclient\<close> runs in and the two ways the service signals it: whatever became of the
  \<open>setpgid\<close> in the child, the interrupt and later the kill arrive exactly once.
\<close>

text \<open>The process group of the child when it is executed; a failed \<open>setpgid\<close> is only warned about.\<close>

definition gpclient_drop_child_privs :: "bool \<Rightarrow> int \<Rightarrow> int \<Rightarrow> int" where
  "gpclient_drop_child_privs setpgid_ok pid parent_group = (if \<not> setpgid_ok then parent_group else pid)"

text \<open>What \<open>kill\<close> says while the child lives and leads or does not lead a group: its process can be
  signalled, and the group named after it exists if the child is in it.\<close>

definition kernel_child :: "sys \<Rightarrow> int \<Rightarrow> int \<Rightarrow> bool" where
  "kernel_child sys pid pgid \<longleftrightarrow> pid > 1 \<and>
     list_all (\<lambda>sig. sys_kill sys pid sig = KillOk \<and> (sys_kill sys (- pid) sig = KillOk) = (pgid = pid)) [0, SIGINT, SIGKILL]"

text \<open>The targets of the calls of \<open>kill\<close> in a stretch of the trace that delivered the signal.\<close>

definition delivered :: "sys \<Rightarrow> int \<Rightarrow> action list \<Rightarrow> int list" where
  "delivered sys sig as =
     concat (map (\<lambda>a. case a of Kill t s \<Rightarrow> if s = sig \<and> sys_kill sys t sig = KillOk then [t] else [] | _ \<Rightarrow> []) as)"

lemma own_group: "kernel_child sys pid pid \<Longrightarrow> sys_timeout_id sys \<noteq> 0 \<Longrightarrow> own_child sys pid"
  by (auto simp: kernel_child_def own_child_def)

text \<open>C25: The requests to stop reach the child: whether or not it could make its own process group, a
  disconnect delivers one interrupt and the kill timer one kill, both to the child's group if it has one
  and to the child alone otherwise, and to nothing else; so a \<open>setpgid\<close> that failed does not leave
  a \<open>gpclient\<close> that nothing stops, nor signal the service's own group.\<close>

theorem stop_requests_are_delivered:
  assumes "kernel_child sys pid (gpclient_drop_child_privs ok pid parent_group)" "parent_group \<noteq> pid" "priv_pid s = pid"
    and "s1 = real_disconnect sys s" "s2 = ensure_killed sys s"
  shows "delivered sys SIGINT (drop (length (trace s)) (trace s1)) = [if ok then - pid else pid] \<and>
    delivered sys SIGKILL (drop (length (trace s)) (trace s2)) = [if ok then - pid else pid] \<and>
    disconnect_requested s1 \<and> kill_timeout s2 = 0"
  using assms
  by (cases ok) (simp_all add: kernel_child_def gpclient_drop_child_privs_def delivered_def real_disconnect_def ensure_killed_def
      Let_def SIGINT_def SIGKILL_def)

text \<open>A child whose \<open>setpgid\<close> failed.\<close>

definition groupless_sys :: sys where
  "groupless_sys = sample_sys\<lparr>sys_kill := (\<lambda>t sig. if t > 0 then KillOk else KillError)\<rparr>"

theorem stop_requests_are_delivered_witness:
  "delivered groupless_sys SIGINT (drop (length (trace (started_plugin 42 sample_service)))
     (trace (real_disconnect groupless_sys (started_plugin 42 sample_service)))) = [42]"
proof -
  have "kernel_child groupless_sys 42 (gpclient_drop_child_privs False 42 7)"
    by (simp add: kernel_child_def gpclient_drop_child_privs_def groupless_sys_def SIGINT_def SIGKILL_def)
  from stop_requests_are_delivered [OF this _ _ refl refl, of "started_plugin 42 sample_service"] show ?thesis by simp
qed

end
