(* ===== verification/Secrecy.thy ===== *)
theory Secrecy
  imports Session
begin

text \<open>
  The cookie is only ever written to the child: two connection attempts with profiles that differ in
  the cookie alone are the same in everything that can be seen of them, the commands, the environment, the
  signals, the errors, the state that is kept, except for what is written to the child's standard input.
\<close>

text \<open>What is left of a state when the texts written to standard input are hidden.\<close>

fun hide_stdin :: "action \<Rightarrow> action" where
  "hide_stdin (WriteStdin t) = WriteStdin []"
| "hide_stdin a = a"

definition observed :: "service \<Rightarrow> service" where
  "observed s = s\<lparr>trace := map hide_stdin (trace s)\<rparr>"

lemma observed_act: "observed (act a s) = act (hide_stdin a) (observed s)"
  by (simp add: observed_def act_def)

lemma observed_updates:
  "observed (s\<lparr>stdin_fds := n\<rparr>) = observed s\<lparr>stdin_fds := n\<rparr>" "observed (s\<lparr>priv_pid := p\<rparr>) = observed s\<lparr>priv_pid := p\<rparr>"
  "observed (s\<lparr>disconnect_requested := b\<rparr>) = observed s\<lparr>disconnect_requested := b\<rparr>"
  "observed (s\<lparr>watches := w\<rparr>) = observed s\<lparr>watches := w\<rparr>" "stdin_fds s = stdin_fds (observed s)" "watches s = watches (observed s)"
  by (simp_all add: observed_def)

lemma launch_hides_cookie:
  assumes "c \<noteq> []" "c' \<noteq> []" "(sys_write sys c = int (length c)) = (sys_write sys c' = int (length c'))"
  shows "fst (launch_gpclient sys argv envp (Some c) s) = fst (launch_gpclient sys argv envp (Some c') s) \<and>
    observed (snd (launch_gpclient sys argv envp (Some c) s)) = observed (snd (launch_gpclient sys argv envp (Some c') s))"
  using assms
  by (cases "sys_spawn_async sys argv envp")
    (simp_all add: launch_gpclient_def feed_cookie_def Let_def observed_def act_def)

lemma props_gw_cookie: "props_vpn_gw (add_secret ''cookie'' c v) = props_vpn_gw v"
  by (simp add: props_vpn_gw_def secrets.get_put Let_def)

lemma start_hides_cookie:
  assumes "get_secret v ''cookie'' = Some c'" "c \<noteq> []" "c' \<noteq> []"
    and "(sys_write sys c = int (length c)) = (sys_write sys c' = int (length c'))"
  shows "fst (nm_openconnect_start_openconnect_binary cfg sys s_con (add_secret ''cookie'' c v) s) =
      fst (nm_openconnect_start_openconnect_binary cfg sys s_con v s) \<and>
    observed (snd (nm_openconnect_start_openconnect_binary cfg sys s_con (add_secret ''cookie'' c v) s)) =
      observed (snd (nm_openconnect_start_openconnect_binary cfg sys s_con v s))"
proof -
  have "gpclient_argv cfg level (add_secret ''cookie'' c v) tun = gpclient_argv cfg level v tun" for level tun
    using assms(1-3) by (simp add: argv_cookie_only_presence)
  then show ?thesis
    using launch_hides_cookie [OF assms(2-4)] assms(1-3)
    by (simp add: nm_openconnect_start_openconnect_binary_def props_gw_cookie env_no_secret secrets.get_put Let_def
        split: sum.split prod.split)
qed

text \<open>The cookie goes nowhere but to the child's standard input: replacing the cookie of a profile by another
  changes neither the answer of need-secrets nor its effects, nor whether connecting succeeds, which error
  it reports, the command line, the environment, any other action or anything the plugin remembers. Only
  the texts written to the pipe differ, as long as both are written completely or neither is.\<close>

theorem cookie_goes_to_stdin_only:
  assumes "flags_read_law gf" "get_secret v ''cookie'' = Some c'" "c' \<noteq> []" "c \<noteq> []"
    and "(sys_write sys c = int (length c)) = (sys_write sys c' = int (length c'))"
    and "conn = \<lparr>c_con = Some s_con, c_vpn = Some v\<rparr>" "conn' = conn\<lparr>c_vpn := Some (add_secret ''cookie'' c v)\<rparr>"
  shows "fst (real_connect cfg gf sys conn' s) = fst (real_connect cfg gf sys conn s) \<and>
    observed (snd (real_connect cfg gf sys conn' s)) = observed (snd (real_connect cfg gf sys conn s)) \<and>
    real_need_secrets gf sys conn' s = real_need_secrets gf sys conn s"
proof -
  let ?v = "add_secret ''cookie'' c v"
  have flags: "validate_auth_secret_flags gf ?v = validate_auth_secret_flags gf v"
    by (simp add: validate_auth_secret_flags_def check_secret_flags_cases flags_read_replaced [OF assms(1)] assms(2))
  have props: "nm_openconnect_properties_validate ?v = nm_openconnect_properties_validate v"
    by (simp add: properties_validate_cases)
  have secs: "nm_openconnect_secrets_validate ?v = Inr ()" "nm_openconnect_secrets_validate v = Inr ()"
    using assms(2) by (auto simp: secrets_validate_cases get_secret_def)
  have "real_need_secrets gf sys conn' s = real_need_secrets gf sys conn s"
    using assms(2-4) by (simp add: assms(6,7) real_need_secrets_def flags secrets.get_put Let_def split: sum.split)
  moreover obtain r w r' w' where st: "nm_openconnect_start_openconnect_binary cfg sys s_con ?v s = (r, w)"
    "nm_openconnect_start_openconnect_binary cfg sys s_con v s = (r', w')"
    by (meson surj_pair)
  then have "r = r' \<and> observed w = observed w'"
    using start_hides_cookie [OF assms(2,4,3,5), of cfg s_con s] by simp
  ultimately show ?thesis
    by (auto simp: assms(6,7) real_connect_def flags props secs st split: sum.split)
qed

theorem cookie_goes_to_stdin_only_witness:
  "fst (real_connect sample_config sample_get_flags sample_sys
        \<lparr>c_con = Some sample_con, c_vpn = Some (add_secret ''cookie'' ''other'' sample_vpn)\<rparr> sample_service) = Connected"
proof -
  have "get_secret sample_vpn ''cookie'' = Some ''JSON''" by code_simp
  moreover have "fst (real_connect sample_config sample_get_flags sample_sys
      \<lparr>c_con = Some sample_con, c_vpn = Some sample_vpn\<rparr> sample_service) = Connected"
    by code_simp
  ultimately show ?thesis
    using cookie_goes_to_stdin_only [OF sample_flags_read, of sample_vpn "''JSON''" "''other''" sample_sys _ sample_con _
        sample_config sample_service, OF _ _ _ _ refl refl]
    by (simp add: sample_sys_def)
qed

end
