(* ===== verification/Noninterference.thy ===== *)
theory Noninterference
  imports Secrecy
begin

text \<open>
  Whole runs of the service as a function of the events it receives, and what two runs that differ only in
  the cookies of the profiles have in common: everything but the texts written to standard input.
  The proof is the usual unwinding: every callback depends on the fields of the state and only appends to
  its trace, so it keeps two states that look the same looking the same; and a connection attempt does not
  let the cookie into anything else.
\<close>

section \<open>Events\<close>

text \<open>One event for each callback, with the answers of the system while it runs; nothing is received any more
  once the main loop was told to quit.\<close>

datatype event =
    Connect sys con_setting vpn_setting
  | NeedSecrets sys connection
  | Disconnect sys
  | Quit sys
  | ChildExit sys int u32
  | KillTimer sys
  | Signal int

datatype event_answer = ConnectAnswer connect_result | SecretsAnswer "gerror + cstr" | NoAnswer

fun svc_event :: "config \<Rightarrow> get_flags \<Rightarrow> event \<Rightarrow> service \<Rightarrow> event_answer \<times> service" where
  "svc_event cfg gf (Connect sys s_con v) s =
     (let (r, s) = real_connect cfg gf sys \<lparr>c_con = Some s_con, c_vpn = Some v\<rparr> s in (ConnectAnswer r, s))"
| "svc_event cfg gf (NeedSecrets sys c) s = (let (r, s) = real_need_secrets gf sys c s in (SecretsAnswer r, s))"
| "svc_event cfg gf (Disconnect sys) s = (NoAnswer, real_disconnect sys s)"
| "svc_event cfg gf (Quit sys) s = (NoAnswer, quit_mainloop sys s)"
| "svc_event cfg gf (ChildExit sys pid st) s = (NoAnswer, openconnect_watch_cb sys pid st s)"
| "svc_event cfg gf (KillTimer sys) s = (NoAnswer, ensure_killed sys s)"
| "svc_event cfg gf (Signal signo) s = (NoAnswer, signal_handler signo s)"

fun svc_run :: "config \<Rightarrow> get_flags \<Rightarrow> event list \<Rightarrow> service \<Rightarrow> event_answer list \<times> service" where
  "svc_run cfg gf [] s = ([], s)"
| "svc_run cfg gf (ev # evs) s =
     (if loop_quit s then ([], s)
      else
        let (a, s) = svc_event cfg gf ev s; (as, s) = svc_run cfg gf evs s in (a # as, s))"

text \<open>When the step relation lets an event happen.\<close>

fun enabled :: "bool \<Rightarrow> event \<Rightarrow> service \<Rightarrow> bool" where
  "enabled calm (Connect sys s_con v) s \<longleftrightarrow> \<not> loop_quit s \<and> sys_ok sys s \<and> (calm \<longrightarrow> priv_pid s = 0)"
| "enabled calm (NeedSecrets sys c) s \<longleftrightarrow> \<not> loop_quit s"
| "enabled calm (Disconnect sys) s \<longleftrightarrow> \<not> loop_quit s \<and> sys_ok sys s"
| "enabled calm (Quit sys) s \<longleftrightarrow> \<not> loop_quit s \<and> sys_ok sys s"
| "enabled calm (ChildExit sys pid st) s \<longleftrightarrow> \<not> loop_quit s \<and> pid \<in> set (watches s)"
| "enabled calm (KillTimer sys) s \<longleftrightarrow> \<not> loop_quit s \<and> kill_timeout s \<noteq> 0"
| "enabled calm (Signal signo) s \<longleftrightarrow> \<not> loop_quit s"

lemma step_is_event:
  "svc_step calm cfg gf s s' \<longleftrightarrow> (\<exists>ev. enabled calm ev s \<and> s' = snd (svc_event cfg gf ev s))"
proof
  assume "svc_step calm cfg gf s s'"
  then show "\<exists>ev. enabled calm ev s \<and> s' = snd (svc_event cfg gf ev s)"
  proof cases
    case (step_connect sys s_con v)
    then show ?thesis by (intro exI [of _ "Connect sys s_con v"]) (simp add: split_beta)
  next
    case (step_need_secrets sys c)
    then show ?thesis by (intro exI [of _ "NeedSecrets sys c"]) (simp add: split_beta)
  next
    case (step_disconnect sys)
    then show ?thesis by (intro exI [of _ "Disconnect sys"]) simp
  next
    case (step_quit sys)
    then show ?thesis by (intro exI [of _ "Quit sys"]) simp
  next
    case (step_child_exit pid sys st)
    then show ?thesis by (intro exI [of _ "ChildExit sys pid st"]) simp
  next
    case (step_kill_timer sys)
    then show ?thesis by (intro exI [of _ "KillTimer sys"]) simp
  next
    case (step_signal signo)
    then show ?thesis by (intro exI [of _ "Signal signo"]) simp
  qed
next
  assume "\<exists>ev. enabled calm ev s \<and> s' = snd (svc_event cfg gf ev s)"
  then obtain ev where "enabled calm ev s" "s' = snd (svc_event cfg gf ev s)" by blast
  then show "svc_step calm cfg gf s s'"
    by (cases ev) (auto simp: split_beta intro: svc_step.intros)
qed

section \<open>Callbacks only append to the trace\<close>

text \<open>A function of the state that reads no trace, and appends to it what does not depend on it.\<close>

definition trace_blind :: "('w world_scheme \<Rightarrow> 'w world_scheme) \<Rightarrow> bool" where
  "trace_blind h \<longleftrightarrow> (\<forall>s. \<exists>as. \<forall>u. h (s\<lparr>trace := u\<rparr>) = (h s)\<lparr>trace := u @ as\<rparr>)"

lemma blindI: "(\<And>s u. h (s\<lparr>trace := u\<rparr>) = (h s)\<lparr>trace := u @ f s\<rparr>) \<Longrightarrow> trace_blind h"
  unfolding trace_blind_def by blast

lemma blind_trace: "trace_blind h \<Longrightarrow> \<exists>as. trace (h s) = trace s @ as \<and> (\<forall>u. h (s\<lparr>trace := u\<rparr>) = (h s)\<lparr>trace := u @ as\<rparr>)"
  unfolding trace_blind_def
proof -
  assume "\<forall>s. \<exists>as. \<forall>u. h (s\<lparr>trace := u\<rparr>) = (h s)\<lparr>trace := u @ as\<rparr>"
  then obtain as where a: "\<forall>u. h (s\<lparr>trace := u\<rparr>) = (h s)\<lparr>trace := u @ as\<rparr>" by blast
  from a [rule_format, of "trace s"] have "h s = (h s)\<lparr>trace := trace s @ as\<rparr>" by simp
  then have "trace (h s) = trace s @ as" by (metis world.select_convs(5) world.surjective world.update_convs(5))
  with a show ?thesis by blast
qed

lemma blind_comp:
  assumes "trace_blind h1" "trace_blind h2"
  shows "trace_blind (\<lambda>s. h2 (h1 s))"
  unfolding trace_blind_def
proof
  fix s
  from assms(1) obtain as where 1: "\<forall>u. h1 (s\<lparr>trace := u\<rparr>) = (h1 s)\<lparr>trace := u @ as\<rparr>" unfolding trace_blind_def by blast
  from assms(2) obtain bs where "\<forall>u. h2 ((h1 s)\<lparr>trace := u\<rparr>) = (h2 (h1 s))\<lparr>trace := u @ bs\<rparr>" unfolding trace_blind_def by blast
  with 1 have "\<forall>u. h2 (h1 (s\<lparr>trace := u\<rparr>)) = (h2 (h1 s))\<lparr>trace := u @ (as @ bs)\<rparr>" by simp
  then show "\<exists>as. \<forall>u. h2 (h1 (s\<lparr>trace := u\<rparr>)) = (h2 (h1 s))\<lparr>trace := u @ as\<rparr>" by blast
qed

lemma blind_deactivate: "trace_blind (deactivate_assumed_tun_connection sys n)"
  by (rule blindI [where f = "\<lambda>s. drop (length (trace s)) (trace (deactivate_assumed_tun_connection sys n s))"])
    (simp add: deactivate_assumed_tun_connection_def deactivate_loop_trace split: option.split)

lemma blind_destroy: "trace_blind (destroy_persistent_tundev sys n)"
  by (rule blindI [where f = "\<lambda>s. []"]) (simp add: destroy_tun_cases)

lemma create_blind:
  "create_persistent_tundev sys n (w\<lparr>trace := u\<rparr>) =
     (fst (create_persistent_tundev sys n w), (snd (create_persistent_tundev sys n w))\<lparr>trace := u\<rparr>)"
  by (simp add: create_persistent_tundev_def Let_def split: option.split sum.split)

lemma lock_blind: "fst (prepare_gpclient_lock cfg sys (w\<lparr>trace := u\<rparr>)) = fst (prepare_gpclient_lock cfg sys w)"
  "trace_blind (\<lambda>w. snd (prepare_gpclient_lock cfg sys w))"
  by (simp add: prepare_lock_cases split: option.split)
    (rule blindI [where f = "\<lambda>s. drop (length (trace s)) (trace (snd (prepare_gpclient_lock cfg sys s)))"],
      simp add: prepare_lock_cases act_def split: option.split)

lemma blind_disconnect: "trace_blind (real_disconnect sys)"
  by (rule blindI [where f = "\<lambda>s. drop (length (trace s)) (trace (real_disconnect sys s))"])
    (simp add: real_disconnect_def act_def Let_def)

lemma blind_quit: "trace_blind (quit_mainloop sys)"
  by (rule blindI [where f = "\<lambda>s. drop (length (trace s)) (trace (quit_mainloop sys s))"])
    (simp add: quit_mainloop_def real_disconnect_def act_def Let_def)

lemma blind_kill: "trace_blind (ensure_killed sys)"
  by (rule blindI [where f = "\<lambda>s. drop (length (trace s)) (trace (ensure_killed sys s))"])
    (simp add: ensure_killed_def act_def Let_def)

lemma blind_signal: "trace_blind (signal_handler signo)"
  by (rule blindI [where f = "\<lambda>s. drop (length (trace s)) (trace (signal_handler signo s))"])
    (simp add: signal_handler_def act_def)

lemma blind_watch: "trace_blind (openconnect_watch_cb sys pid st)"
proof -
  define reap where "reap = (\<lambda>s. (let s = (act (Waitpid pid) s)\<lparr>watches := remove1 pid (watches s)\<rparr>;
      s = (if kill_timeout s \<noteq> 0 then (act (RemoveSource (kill_timeout s)) s)\<lparr>kill_timeout := 0\<rparr> else s)
    in s\<lparr>priv_pid := 0, disconnect_requested := False\<rparr>) :: service)"
  define free where "free = (\<lambda>s :: service. case priv_tun_name s of
      Some name \<Rightarrow> (destroy_persistent_tundev sys name (deactivate_assumed_tun_connection sys (Some name) s))\<lparr>priv_tun_name := None\<rparr>
    | None \<Rightarrow> s)"
  define report where "report = (\<lambda>requested (s :: service).
      if requested then (if quit_pending s \<and> gl_loop s then (act MainLoopQuit s)\<lparr>loop_quit := True\<rparr> else s)
      else if exit_error requested st = 2 then act (ReportFailure LOGIN_FAILED) s
      else if exit_error requested st = 1 then act (ReportFailure CONNECT_FAILED) s
      else act ReportDisconnect s)"
  have w: "openconnect_watch_cb sys pid st s = report (disconnect_requested s) (free (reap s))" for s
    by (simp only: openconnect_watch_cb_def reap_def free_def report_def Let_def)
  have "trace_blind reap"
    by (rule blindI [where f = "\<lambda>s. drop (length (trace s)) (trace (reap s))"]) (simp add: reap_def act_def Let_def)
  moreover have "trace_blind free"
  proof (rule blindI [where f = "\<lambda>s. drop (length (trace s)) (trace (free s))"])
    fix s :: service and u
    show "free (s\<lparr>trace := u\<rparr>) = (free s)\<lparr>trace := u @ drop (length (trace s)) (trace (free s))\<rparr>"
      by (cases "priv_tun_name s")
        (simp_all add: free_def deactivate_assumed_tun_connection_def deactivate_loop_trace destroy_tun_cases split: option.split)
  qed
  moreover have "trace_blind (report req)" for req
    by (rule blindI [where f = "\<lambda>s. drop (length (trace s)) (trace (report req s))"]) (simp add: report_def act_def)
  ultimately have b: "trace_blind (\<lambda>s. report req (free (reap s)))" for req
    by (intro blind_comp [of "\<lambda>s. free (reap s)" "report req"] blind_comp [of reap free])
  have "\<exists>as. \<forall>u. openconnect_watch_cb sys pid st (s\<lparr>trace := u\<rparr>) = (openconnect_watch_cb sys pid st s)\<lparr>trace := u @ as\<rparr>" for s
    using b [of "disconnect_requested s"] by (simp add: w trace_blind_def)
  then show ?thesis by (simp add: trace_blind_def)
qed

lemma blind_need_secrets: "trace_blind (\<lambda>s. snd (real_need_secrets gf sys c s))"
proof -
  let ?d = "\<lambda>n s. if priv_pid s = 0 then deactivate_assumed_tun_connection sys n s else s"
  have d: "trace_blind (?d n)" for n
    by (rule blindI [where f = "\<lambda>s. drop (length (trace s)) (trace (?d n s))"])
      (simp add: deactivate_assumed_tun_connection_def deactivate_loop_trace split: option.split)
  have i: "trace_blind (\<lambda>s. s)"
    by (rule blindI [where f = "\<lambda>s. []"]) simp
  have "(\<lambda>s. snd (real_need_secrets gf sys c s)) = (\<lambda>s. s) \<or> (\<exists>n. (\<lambda>s. snd (real_need_secrets gf sys c s)) = ?d n)"
    by (cases "c_vpn c") (auto simp: real_need_secrets_def Let_def fun_eq_iff split: sum.split)
  then show ?thesis
  proof (elim disjE exE)
    assume e: "(\<lambda>s. snd (real_need_secrets gf sys c s)) = (\<lambda>s. s)"
    show ?thesis unfolding e by (rule i)
  next
    fix n assume e: "(\<lambda>s. snd (real_need_secrets gf sys c s)) = ?d n"
    show ?thesis unfolding e by (rule d)
  qed
qed

text \<open>Functions that also answer.\<close>

definition answer_blind :: "('w world_scheme \<Rightarrow> 'r \<times> 'w world_scheme) \<Rightarrow> bool" where
  "answer_blind h \<longleftrightarrow> (\<forall>s. \<exists>as. \<forall>u. h (s\<lparr>trace := u\<rparr>) = (fst (h s), (snd (h s))\<lparr>trace := u @ as\<rparr>))"

lemma answer_blindI: "(\<And>s u. h (s\<lparr>trace := u\<rparr>) = (fst (h s), (snd (h s))\<lparr>trace := u @ f s\<rparr>)) \<Longrightarrow> answer_blind h"
  unfolding answer_blind_def by blast

lemma blind_launch: "answer_blind (launch_gpclient sys argv envp cookie)"
  by (rule answer_blindI [where f = "\<lambda>s. drop (length (trace s)) (trace (snd (launch_gpclient sys argv envp cookie s)))"])
    (simp add: launch_gpclient_def feed_cookie_def act_def Let_def split: sum.split option.split)

lemma blind_start: "answer_blind (nm_openconnect_start_openconnect_binary cfg sys s_con v)"
  unfolding answer_blind_def
proof
  fix s :: service
  let ?start = "nm_openconnect_start_openconnect_binary cfg sys s_con v"
  let ?env = "gpclient_env cfg sys s_con v"
  note start = nm_openconnect_start_openconnect_binary_def [of cfg sys s_con v]
  obtain r1 w1 where c: "create_persistent_tundev sys (cs_interface s_con) s = (r1, w1)"
    by (cases "create_persistent_tundev sys (cs_interface s_con) s")
  have cu: "create_persistent_tundev sys (cs_interface s_con) (s\<lparr>trace := u\<rparr>) = (r1, w1\<lparr>trace := u\<rparr>)" for u
    by (simp add: create_blind c)
  show "\<exists>as. \<forall>u. ?start (s\<lparr>trace := u\<rparr>) = (fst (?start s), (snd (?start s))\<lparr>trace := u @ as\<rparr>)"
  proof (cases "nm_gpclient_check_version (sys_spawn_sync sys) (cfg_gpclient_binary cfg) ''gpclient'' = Inr () \<and>
      (nonempty (props_vpn_gw v) \<or> nonempty (props_portal v)) \<and> nonempty (get_secret v ''cookie'') \<and> (\<exists>tun. r1 = Inr tun)")
    case False
    then show ?thesis
      by (intro exI [of _ "[]"]) (auto simp: start cu c Let_def split: sum.split)
  next
    case True
    then obtain tun where r1: "r1 = Inr tun" by blast
    have g: "nm_gpclient_check_version (sys_spawn_sync sys) (cfg_gpclient_binary cfg) ''gpclient'' = Inr ()"
      "(\<not> nonempty (props_vpn_gw v) \<and> \<not> nonempty (props_portal v)) = False" "nonempty (get_secret v ''cookie'')"
      using True unfolding start_guards_def configured_mode_Some by blast+
    let ?w = "w1\<lparr>priv_tun_name := tun\<rparr>"
    obtain r2 w2 where l: "prepare_gpclient_lock cfg sys ?w = (r2, w2)" by (cases "prepare_gpclient_lock cfg sys ?w")
    obtain as where "snd (prepare_gpclient_lock cfg sys (?w\<lparr>trace := u\<rparr>)) = w2\<lparr>trace := u @ as\<rparr>" for u
      using lock_blind(2) [of cfg sys] l unfolding trace_blind_def by (metis snd_conv)
    then have lu: "prepare_gpclient_lock cfg sys (?w\<lparr>trace := u\<rparr>) = (r2, w2\<lparr>trace := u @ as\<rparr>)" for u
      using lock_blind(1) [where cfg = cfg and sys = sys and w = ?w and u = u] l by (metis fst_conv prod.collapse)
    have swap: "(w1\<lparr>trace := u\<rparr>)\<lparr>priv_tun_name := tun\<rparr> = ?w\<lparr>trace := u\<rparr>" for u by simp
    show ?thesis
    proof (cases r2)
      case (Inl e)
      then show ?thesis
        by (intro exI [of _ as]) (simp add: start g cu c r1 swap lu l Let_def destroy_tun_cases split: option.split)
    next
      case (Inr x)
      obtain bs where "launch_gpclient sys (gpclient_argv cfg (log_level s) v tun) ?env (get_secret v ''cookie'') (w2\<lparr>trace := u\<rparr>) =
          (fst (launch_gpclient sys (gpclient_argv cfg (log_level s) v tun) ?env (get_secret v ''cookie'') w2),
           (snd (launch_gpclient sys (gpclient_argv cfg (log_level s) v tun) ?env (get_secret v ''cookie'') w2))\<lparr>trace := u @ bs\<rparr>)" for u
        using blind_launch unfolding answer_blind_def by blast
      moreover have "log_level w1 = log_level s" using world_op_frame c by (metis snd_conv)
      ultimately show ?thesis
        by (intro exI [of _ "as @ bs"]) (simp add: start g cu c r1 swap lu l Inr Let_def)
    qed
  qed
qed

lemma blind_connect: "answer_blind (real_connect cfg gf sys \<lparr>c_con = Some s_con, c_vpn = Some v\<rparr>)"
  unfolding answer_blind_def
proof
  fix s :: service
  let ?start = "nm_openconnect_start_openconnect_binary cfg sys s_con v"
  obtain as where "?start (s\<lparr>trace := u\<rparr>) = (fst (?start s), (snd (?start s))\<lparr>trace := u @ as\<rparr>)" for u
    using blind_start unfolding answer_blind_def by blast
  then have "\<forall>u. real_connect cfg gf sys \<lparr>c_con = Some s_con, c_vpn = Some v\<rparr> (s\<lparr>trace := u\<rparr>) =
      (fst (real_connect cfg gf sys \<lparr>c_con = Some s_con, c_vpn = Some v\<rparr> s),
       (snd (real_connect cfg gf sys \<lparr>c_con = Some s_con, c_vpn = Some v\<rparr> s))
         \<lparr>trace := u @ (if acceptable gf v then as else [])\<rparr>)"
    by (simp add: real_connect_cases split_beta)
  then show "\<exists>as. \<forall>u. real_connect cfg gf sys \<lparr>c_con = Some s_con, c_vpn = Some v\<rparr> (s\<lparr>trace := u\<rparr>) =
      (fst (real_connect cfg gf sys \<lparr>c_con = Some s_con, c_vpn = Some v\<rparr> s),
       (snd (real_connect cfg gf sys \<lparr>c_con = Some s_con, c_vpn = Some v\<rparr> s))\<lparr>trace := u @ as\<rparr>)" by blast
qed

section \<open>States that look the same\<close>

lemma looks_same_trace: "observed s = observed t \<Longrightarrow> t = s\<lparr>trace := trace t\<rparr> \<and> map hide_stdin (trace t) = map hide_stdin (trace s)"
  by (cases s; cases t) (simp add: observed_def)

lemma loop_quit_trace: "loop_quit (s\<lparr>trace := u\<rparr>) = loop_quit s" by simp

lemma event_blind: "answer_blind (svc_event cfg gf ev)"
proof -
  have plain: "answer_blind (\<lambda>s. (NoAnswer, h s))" if "trace_blind h" for h :: "service \<Rightarrow> service"
    using that by (simp add: answer_blind_def trace_blind_def)
  have with_answer: "answer_blind (\<lambda>s. let (r, s) = h s in (f r, s))" if hb: "answer_blind h" for h :: "service \<Rightarrow> 'r \<times> service" and f :: "'r \<Rightarrow> event_answer"
    unfolding answer_blind_def
  proof
    fix s :: service
    obtain as where "\<forall>u. h (s\<lparr>trace := u\<rparr>) = (fst (h s), (snd (h s))\<lparr>trace := u @ as\<rparr>)"
      using hb unfolding answer_blind_def by blast
    then show "\<exists>as. \<forall>u. (let (r, s) = h (s\<lparr>trace := u\<rparr>) in (f r, s)) =
        (fst (let (r, s) = h s in (f r, s)), (snd (let (r, s) = h s in (f r, s)))\<lparr>trace := u @ as\<rparr>)"
      by (intro exI [of _ as]) (simp add: split_beta)
  qed
  show ?thesis
  proof (cases ev)
    case (Connect sys s_con v)
    have e: "svc_event cfg gf ev = (\<lambda>s. let (r, s) = real_connect cfg gf sys \<lparr>c_con = Some s_con, c_vpn = Some v\<rparr> s in (ConnectAnswer r, s))"
      by (simp add: Connect fun_eq_iff)
    show ?thesis unfolding e by (rule with_answer [OF blind_connect])
  next
    case (NeedSecrets sys c)
    have e: "svc_event cfg gf ev = (\<lambda>s. let (r, s) = real_need_secrets gf sys c s in (SecretsAnswer r, s))"
      by (simp add: NeedSecrets fun_eq_iff)
    have "fst (real_need_secrets gf sys c (s\<lparr>trace := u\<rparr>)) = fst (real_need_secrets gf sys c s)" for s u
      by (simp add: need_secrets_result)
    then have "answer_blind (real_need_secrets gf sys c)"
      using blind_need_secrets [of gf sys c] by (simp add: answer_blind_def trace_blind_def prod_eq_iff)
    then show ?thesis unfolding e by (rule with_answer)
  next
    case (Disconnect sys)
    have e: "svc_event cfg gf ev = (\<lambda>s. (NoAnswer, real_disconnect sys s))" by (simp add: Disconnect fun_eq_iff)
    show ?thesis unfolding e by (rule plain [OF blind_disconnect])
  next
    case (Quit sys)
    have e: "svc_event cfg gf ev = (\<lambda>s. (NoAnswer, quit_mainloop sys s))" by (simp add: Quit fun_eq_iff)
    show ?thesis unfolding e by (rule plain [OF blind_quit])
  next
    case (ChildExit sys pid st)
    have e: "svc_event cfg gf ev = (\<lambda>s. (NoAnswer, openconnect_watch_cb sys pid st s))" by (simp add: ChildExit fun_eq_iff)
    show ?thesis unfolding e by (rule plain [OF blind_watch])
  next
    case (KillTimer sys)
    have e: "svc_event cfg gf ev = (\<lambda>s. (NoAnswer, ensure_killed sys s))" by (simp add: KillTimer fun_eq_iff)
    show ?thesis unfolding e by (rule plain [OF blind_kill])
  next
    case (Signal signo)
    have e: "svc_event cfg gf ev = (\<lambda>s. (NoAnswer, signal_handler signo s))" by (simp add: Signal fun_eq_iff)
    show ?thesis unfolding e by (rule plain [OF blind_signal])
  qed
qed

text \<open>Unwinding: an event takes states that look the same to states that look the same, with the same answer.\<close>

lemma event_keeps_look:
  assumes "observed s = observed t"
  shows "fst (svc_event cfg gf ev s) = fst (svc_event cfg gf ev t) \<and>
    observed (snd (svc_event cfg gf ev s)) = observed (snd (svc_event cfg gf ev t))"
proof -
  obtain as where a: "\<forall>u. svc_event cfg gf ev (s\<lparr>trace := u\<rparr>) =
      (fst (svc_event cfg gf ev s), (snd (svc_event cfg gf ev s))\<lparr>trace := u @ as\<rparr>)"
    using event_blind [of cfg gf ev] unfolding answer_blind_def by blast
  have t: "svc_event cfg gf ev t = (fst (svc_event cfg gf ev s), (snd (svc_event cfg gf ev s))\<lparr>trace := trace t @ as\<rparr>)"
    using a looks_same_trace [OF assms] by metis
  have "svc_event cfg gf ev s = (fst (svc_event cfg gf ev s), (snd (svc_event cfg gf ev s))\<lparr>trace := trace s @ as\<rparr>)"
    using a [rule_format, of "trace s"] by simp
  then have s: "snd (svc_event cfg gf ev s) = (snd (svc_event cfg gf ev s))\<lparr>trace := trace s @ as\<rparr>" by (metis snd_conv)
  have "observed (x\<lparr>trace := trace s @ as\<rparr>) = observed (x\<lparr>trace := trace t @ as\<rparr>)" for x :: service
    using looks_same_trace [OF assms] by (simp add: observed_def)
  then show ?thesis using s t by (metis fst_conv snd_conv)
qed

section \<open>Runs\<close>

text \<open>An event with the cookie of its profile replaced, if it has one, and whether both cookies are written alike.\<close>

definition replace_cookie :: "string \<Rightarrow> vpn_setting \<Rightarrow> vpn_setting" where
  "replace_cookie c v = (if nonempty (get_secret v ''cookie'') then add_secret ''cookie'' c v else v)"

fun give_cookie :: "string \<Rightarrow> event \<Rightarrow> event" where
  "give_cookie c (Connect sys s_con v) = Connect sys s_con (replace_cookie c v)"
| "give_cookie c (NeedSecrets sys conn) = NeedSecrets sys (conn\<lparr>c_vpn := map_option (replace_cookie c) (c_vpn conn)\<rparr>)"
| "give_cookie c ev = ev"

fun written_alike :: "string \<Rightarrow> event \<Rightarrow> bool" where
  "written_alike c (Connect sys s_con v) \<longleftrightarrow>
     (case get_secret v ''cookie'' of
        Some c' \<Rightarrow> (sys_write sys c = int (length c)) = (sys_write sys c' = int (length c'))
      | None \<Rightarrow> True)"
| "written_alike c ev \<longleftrightarrow> True"

lemma need_secrets_hides_cookie:
  assumes "flags_read_law gf" "c \<noteq> []"
  shows "real_need_secrets gf sys (conn\<lparr>c_vpn := map_option (replace_cookie c) (c_vpn conn)\<rparr>) s = real_need_secrets gf sys conn s"
proof (cases "\<exists>v. c_vpn conn = Some v \<and> nonempty (get_secret v ''cookie'')")
  case True
  then obtain v c' where v: "c_vpn conn = Some v" "get_secret v ''cookie'' = Some c'" "c' \<noteq> []" by auto
  have flags: "validate_auth_secret_flags gf (add_secret ''cookie'' c v) = validate_auth_secret_flags gf v"
    by (simp add: validate_auth_secret_flags_def check_secret_flags_cases flags_read_replaced [OF assms(1)] v(2))
  show ?thesis
    using assms(2) v by (simp add: real_need_secrets_def replace_cookie_def flags secrets.get_put Let_def split: sum.split)
next
  case False
  then have "map_option (replace_cookie c) (c_vpn conn) = c_vpn conn"
    by (cases "c_vpn conn") (auto simp: replace_cookie_def)
  then show ?thesis by simp
qed

lemma event_hides_cookie:
  assumes "flags_read_law gf" "c \<noteq> []" "written_alike c ev"
  shows "fst (svc_event cfg gf (give_cookie c ev) s) = fst (svc_event cfg gf ev s) \<and>
    observed (snd (svc_event cfg gf (give_cookie c ev) s)) = observed (snd (svc_event cfg gf ev s))"
proof (cases ev)
  case (Connect sys s_con v)
  show ?thesis
  proof (cases "nonempty (get_secret v ''cookie'')")
    case True
    then obtain c' where v: "get_secret v ''cookie'' = Some c'" "c' \<noteq> []" by auto
    with assms(3) Connect have w: "(sys_write sys c = int (length c)) = (sys_write sys c' = int (length c'))" by simp
    show ?thesis
      using cookie_goes_to_stdin_only [OF assms(1) v assms(2) w refl refl, of cfg s_con s] True
      by (simp add: Connect replace_cookie_def split_beta)
  qed (simp add: Connect replace_cookie_def)
qed (simp_all add: need_secrets_hides_cookie [OF assms(1,2)])

text \<open>C5: Whole sessions keep the cookies secret: whatever the service is asked and whatever happens to its children,
  two runs that differ only in the cookies of the profiles give NetworkManager the same answers, and do the same
  to the system and to their own state, but for the texts written to standard input. So nobody who
  sees the commands, environments, signals and reports of a run learns anything of a cookie that is
  written completely or, like the other, is not. The log is not among them: the debug levels dump the profile.\<close>

theorem sessions_hide_cookies:
  assumes "flags_read_law gf" "list_all2 (\<lambda>c ev. c \<noteq> [] \<and> written_alike c ev) cookies evs"
  shows "fst (svc_run cfg gf (map2 give_cookie cookies evs) s) = fst (svc_run cfg gf evs s) \<and>
    observed (snd (svc_run cfg gf (map2 give_cookie cookies evs) s)) = observed (snd (svc_run cfg gf evs s))"
proof -
  have "fst (svc_run cfg gf (map2 give_cookie cookies evs) s) = fst (svc_run cfg gf evs t) \<and>
      observed (snd (svc_run cfg gf (map2 give_cookie cookies evs) s)) = observed (snd (svc_run cfg gf evs t))"
    if "observed s = observed t" for s t
    using assms(2) that
  proof (induction arbitrary: s t rule: list_all2_induct)
    case (Cons c cs ev evs)
    have q: "loop_quit s = loop_quit t" using looks_same_trace [OF Cons.prems] by (metis loop_quit_trace)
    obtain a s1 where s1: "svc_event cfg gf (give_cookie c ev) s = (a, s1)" by (cases "svc_event cfg gf (give_cookie c ev) s")
    obtain b t1 where t1: "svc_event cfg gf ev t = (b, t1)" by (cases "svc_event cfg gf ev t")
    have "a = b \<and> observed s1 = observed t1"
      using event_hides_cookie [OF assms(1), of c ev cfg s] event_keeps_look [OF Cons.prems, of cfg gf ev] Cons.hyps(1) s1 t1
      by simp
    with Cons.IH [of s1 t1] Cons.prems q s1 t1 show ?case by (simp add: split_beta)
  qed simp
  then show ?thesis by blast
qed

section \<open>Example\<close>

definition sample_events :: "event list" where
  "sample_events = [Connect (spawns 4242) sample_con sample_vpn, Disconnect (spawns 5000), ChildExit sample_sys 4242 0]"

theorem sessions_hide_cookies_witness:
  "observed (snd (svc_run sample_config sample_get_flags (map2 give_cookie [''other'', ''x'', ''x''] sample_events) sample_service)) =
     observed (snd (svc_run sample_config sample_get_flags sample_events sample_service)) \<and>
   (case hd sample_events of Connect sys s_con v \<Rightarrow> replace_cookie ''other'' v \<noteq> v | _ \<Rightarrow> False)"
proof -
  have "get_secret sample_vpn ''cookie'' = Some ''JSON''" by code_simp
  then have alike: "list_all2 (\<lambda>c ev. c \<noteq> [] \<and> written_alike c ev) [''other'', ''x'', ''x''] sample_events"
    by (simp add: sample_events_def spawns_def sample_sys_def)
  have "replace_cookie ''other'' sample_vpn \<noteq> sample_vpn" by code_simp
  then have "case hd sample_events of Connect sys s_con v \<Rightarrow> replace_cookie ''other'' v \<noteq> v | _ \<Rightarrow> False"
    by (simp add: sample_events_def)
  with alike show ?thesis
    using sessions_hide_cookies [OF sample_flags_read alike, of sample_config sample_service] by blast
qed

end
