(* ===== verification/Service_Spec.thy ===== *)
theory Service_Spec
  imports Service_Loop
begin

text \<open>
  What the service promises to the outside, as an automaton over the actions of its trace: which action may
  follow which, per child. The callbacks of the main loop implement it (a simulation), so that every
  statement about the sequence of actions of a run becomes one about the automaton. The
  run in which libnm reconnects during a shutdown is not among its words.
\<close>

section \<open>Monitors and simulations\<close>

fun run_mon :: "('p \<Rightarrow> 'a \<Rightarrow> 'p option) \<Rightarrow> 'p \<Rightarrow> 'a list \<Rightarrow> 'p option" where
  "run_mon m p [] = Some p"
| "run_mon m p (a # as) = (case m p a of None \<Rightarrow> None | Some q \<Rightarrow> run_mon m q as)"

lemma run_mon_append:
  "run_mon m p (xs @ ys) = (case run_mon m p xs of None \<Rightarrow> None | Some q \<Rightarrow> run_mon m q ys)"
  by (induction xs arbitrary: p) (auto split: option.split)

lemma run_mon_stays: "(\<And>a. a \<in> set as \<Longrightarrow> m p a = Some p) \<Longrightarrow> run_mon m p as = Some p"
  by (induction as) auto

text \<open>
  A system with an observable log implements a monitor: from related states every step adds to the log
  a word the monitor accepts, and ends in related states.
\<close>

locale monitored_system = invariant_system +
  fixes log :: "'s \<Rightarrow> 'a list"
    and mon :: "'p \<Rightarrow> 'a \<Rightarrow> 'p option"
    and rel :: "'s \<Rightarrow> 'p \<Rightarrow> bool"
    and start :: "'p"
  assumes rel_init: "init s \<Longrightarrow> rel s start"
    and sim_step: "inv s \<Longrightarrow> rel s p \<Longrightarrow> step s s' \<Longrightarrow>
      \<exists>as q. log s' = log s @ as \<and> run_mon mon p as = Some q \<and> rel s' q"
begin

lemma sim_run:
  assumes "step\<^sup>*\<^sup>* s s'" "init s"
  shows "\<exists>as q. log s' = log s @ as \<and> run_mon mon start as = Some q \<and> rel s' q"
  using assms(1)
proof (induction rule: rtranclp_induct)
  case base
  show ?case using rel_init [OF assms(2)] by (intro exI [of _ "[]"] exI [of _ start]) simp
next
  case (step s1 s2)
  then obtain as q where 1: "log s1 = log s @ as" "run_mon mon start as = Some q" "rel s1 q" by blast
  moreover have "inv s1" using steps_inv [OF step.hyps(1) inv_init [OF assms(2)]] .
  ultimately obtain bs r where "log s2 = log s1 @ bs" "run_mon mon q bs = Some r" "rel s2 r"
    using sim_step step.hyps(2) by blast
  with 1 show ?case by (intro exI [of _ "as @ bs"] exI [of _ r]) (simp add: run_mon_append)
qed

end

section \<open>The protocol\<close>

text \<open>
  \<open>Spawned\<close>: a child was started and is being given its cookie. \<open>Reaped\<close>: an exit nobody asked for, which
  has to be reported. Nothing may follow \<open>Ended\<close>.
\<close>

datatype phase = Idle | Spawned int | Running int | Interrupted int | Reaped | Ended

fun protocol :: "phase \<Rightarrow> action \<Rightarrow> phase option" where
  "protocol Ended a = None"
| "protocol Reaped a =
     (case a of ReportFailure f \<Rightarrow> Some Idle | ReportDisconnect \<Rightarrow> Some Idle
      | Deactivate p \<Rightarrow> Some Reaped | _ \<Rightarrow> None)"
| "protocol (Running pid) a =
     (case a of Kill t sig \<Rightarrow> if t = - pid \<and> sig = SIGINT then Some (Interrupted pid) else None
      | Waitpid p \<Rightarrow> if p = pid then Some Reaped else None
      | MainLoopQuit \<Rightarrow> Some Ended | _ \<Rightarrow> None)"
| "protocol (Interrupted pid) a =
     (case a of Kill t sig \<Rightarrow> if \<bar>t\<bar> = pid \<and> (sig = SIGINT \<or> sig = SIGKILL) then Some (Interrupted pid) else None
      | AddTimeout n \<Rightarrow> if n = 2000 then Some (Interrupted pid) else None
      | Waitpid p \<Rightarrow> if p = pid then Some Idle else None
      | MainLoopQuit \<Rightarrow> Some Ended | _ \<Rightarrow> None)"
| "protocol (Spawned pid) a =
     (case a of WriteStdin t \<Rightarrow> Some (Spawned pid) | CloseStdin \<Rightarrow> Some (Spawned pid)
      | AddChildWatch p \<Rightarrow> if p = pid then Some (Running pid) else None
      | Spawn argv envp p \<Rightarrow> Some (Spawned p)
      | Deactivate p \<Rightarrow> Some Idle | UnlinkLock \<Rightarrow> Some Idle | MainLoopQuit \<Rightarrow> Some Ended | _ \<Rightarrow> None)"
| "protocol Idle a =
     (case a of Spawn argv envp p \<Rightarrow> Some (Spawned p)
      | Deactivate p \<Rightarrow> Some Idle | UnlinkLock \<Rightarrow> Some Idle | RemoveSource n \<Rightarrow> Some Idle
      | MainLoopQuit \<Rightarrow> Some Ended | _ \<Rightarrow> None)"

text \<open>No child is recorded; a child may have been spawned and lost.\<close>

fun at_rest :: "phase \<Rightarrow> bool" where
  "at_rest Idle = True" | "at_rest (Spawned pid) = True" | "at_rest p = False"

definition phase_of :: "service \<Rightarrow> phase \<Rightarrow> bool" where
  "phase_of s p \<longleftrightarrow>
     (if loop_quit s then p = Ended
      else if priv_pid s = 0 then at_rest p
      else if disconnect_requested s then p = Interrupted (priv_pid s)
      else p = Running (priv_pid s))"

section \<open>The callbacks implement the protocol\<close>

definition emits :: "phase \<Rightarrow> service \<Rightarrow> service \<Rightarrow> phase \<Rightarrow> bool" where
  "emits p s s' q \<longleftrightarrow> (\<exists>as. trace s' = trace s @ as \<and> run_mon protocol p as = Some q)"

lemma emits_refl: "trace s' = trace s \<Longrightarrow> emits p s s' p"
  by (simp add: emits_def)

lemma emits_trans: "emits p s s' q \<Longrightarrow> emits q s' s'' r \<Longrightarrow> emits p s s'' r"
  unfolding emits_def by (metis append.assoc run_mon_append option.simps(5))

lemma rest_setup:
  assumes "at_rest p" "\<forall>a \<in> set as. a = UnlinkLock \<or> (\<exists>c. a = Deactivate c)"
  shows "\<exists>q. at_rest q \<and> run_mon protocol p as = Some q"
  using assms
proof (induction as arbitrary: p)
  case (Cons a as)
  then have "at_rest Idle" "protocol p a = Some Idle" by (cases p; auto)+
  with Cons show ?case by simp
qed auto

lemma setup_emits:
  assumes "at_rest p" "trace s' = trace s @ as" "\<forall>a \<in> set as. a = UnlinkLock \<or> (\<exists>c. a = Deactivate c)"
  shows "\<exists>q. at_rest q \<and> emits p s s' q"
  using rest_setup [OF assms(1,3)] assms(2) by (auto simp: emits_def)

lemma deactivate_emits:
  "at_rest p \<Longrightarrow> \<exists>q. at_rest q \<and> emits p s (deactivate_assumed_tun_connection sys n s) q"
  using deactivate_trace [of sys n s] by (auto intro: setup_emits)

lemma lock_emits:
  "at_rest p \<Longrightarrow> \<exists>q. at_rest q \<and> emits p s (snd (prepare_gpclient_lock cfg sys s)) q"
  using prepare_lock_trace [of cfg sys s] by (elim disjE) (auto intro: setup_emits)

text \<open>The actions of a launch.\<close>

lemma feed_trace:
  "trace (snd (feed_cookie sys c s)) = trace s @
     (if sys_write sys c \<noteq> int (length c) then [WriteStdin c]
      else if sys_write sys [CHR 0x0A] \<noteq> 1 then [WriteStdin c, WriteStdin [CHR 0x0A]]
      else [WriteStdin c, WriteStdin [CHR 0x0A], CloseStdin])"
  by (simp add: feed_cookie_def Let_def act_def)

lemma launch_emits:
  assumes "at_rest p" "launch_gpclient sys argv envp (Some c) s = (r, s')" "c \<noteq> []"
  shows "\<exists>q. emits p s s' q \<and> (case r of Inl e \<Rightarrow> at_rest q | Inr u \<Rightarrow> q = Running (priv_pid s'))"
proof (cases "sys_spawn_async sys argv envp")
  case (Inl e)
  with assms show ?thesis by (auto simp: launch_gpclient_def intro!: exI [of _ p] emits_refl)
next
  case (Inr pid)
  have sp: "protocol p (Spawn argv envp pid) = Some (Spawned pid)" using assms(1) by (cases p) auto
  let ?s1 = "(act (Spawn argv envp pid) s)\<lparr>stdin_fds := stdin_fds s + 1\<rparr>"
  obtain fed s2 where f: "feed_cookie sys c ?s1 = (fed, s2)" by (cases "feed_cookie sys c ?s1")
  have rs: "(r, s') = (if \<not> fed then (Inl None, s2) else (Inr (), (act (AddChildWatch pid) s2)
      \<lparr>priv_pid := pid, disconnect_requested := False, watches := watches s2 @ [pid]\<rparr>))"
    using assms(2,3) f Inr by (simp add: launch_gpclient_def Let_def)
  have "emits p s s2 (Spawned pid)"
    using feed_trace [of sys c ?s1, unfolded f snd_conv] sp
    by (auto simp: emits_def act_def split: if_splits)
  moreover have "emits (Spawned pid) s2 (act (AddChildWatch pid) s2) (Running pid)"
    by (simp add: emits_def act_def)
  ultimately show ?thesis
    using rs by (cases fed) (auto simp: emits_def act_def run_mon_append)
qed

lemma start_trace_cases:
  assumes "nm_openconnect_start_openconnect_binary cfg sys s_con v s = (r, s')"
  obtains (refused) e as where "r = Inl (Some e)" "trace s' = trace s @ as" "\<forall>a \<in> set as. a = UnlinkLock \<or> (\<exists>c. a = Deactivate c)"
  | (launched) argv envp cookie s1 as where "trace s1 = trace s @ as" "\<forall>a \<in> set as. a = UnlinkLock \<or> (\<exists>c. a = Deactivate c)"
      "cookie \<noteq> []" "launch_gpclient sys argv envp (Some cookie) s1 = (r, s')"
proof (cases "s' = s \<and> r \<in> range (Inl \<circ> Some)")
  case True
  then show thesis by (auto intro: refused [of _ "[]"])
next
  case moved: False
  have guards: "start_guards cfg sys v" using assms moved by (cases rule: start_cases) auto
  then obtain cookie where c: "get_secret v ''cookie'' = Some cookie" "cookie \<noteq> []"
    by (auto simp: start_guards_def)
  have ver: "nm_gpclient_check_version (sys_spawn_sync sys) (cfg_gpclient_binary cfg) ''gpclient'' = Inr ()"
    and gw: "(\<not> nonempty (props_vpn_gw v) \<and> \<not> nonempty (props_portal v)) = False"
    using guards unfolding start_guards_def configured_mode_Some by blast+
  note start = assms [unfolded nm_openconnect_start_openconnect_binary_def]
  let ?c1 = "create_persistent_tundev sys (cs_interface s_con) s"
  show thesis
  proof (cases "fst ?c1")
    case (Inl e)
    with start show thesis by (intro refused [of e "[]"]) (auto simp: gw ver c Let_def split_beta)
  next
    case (Inr tun)
    let ?l = "prepare_gpclient_lock cfg sys ((snd ?c1)\<lparr>priv_tun_name := tun\<rparr>)"
    obtain as where as: "trace (snd ?l) = trace s @ as" "\<forall>a \<in> set as. a = UnlinkLock \<or> (\<exists>c. a = Deactivate c)"
      using prepare_lock_trace [of cfg sys "(snd ?c1)\<lparr>priv_tun_name := tun\<rparr>"] by auto
    show thesis
    proof (cases "fst ?l")
      case (Inl e)
      with start as Inr show thesis
        by (intro refused [of e as]) (auto simp: gw ver c Let_def split_beta split: option.splits)
    next
      case (Inr u)
      with start as \<open>fst ?c1 = Inr tun\<close> c show thesis
        by (intro launched [of "snd ?l" as cookie]) (auto simp: gw ver c Let_def split_beta)
    qed
  qed
qed

lemma start_emits:
  assumes "at_rest p" "nm_openconnect_start_openconnect_binary cfg sys s_con v s = (r, s')"
  shows "\<exists>q. emits p s s' q \<and> (case r of Inl e \<Rightarrow> at_rest q | Inr u \<Rightarrow> q = Running (priv_pid s'))"
  using assms(2)
proof (cases rule: start_trace_cases)
  case (refused e as)
  with setup_emits [OF assms(1) refused(2,3)] show ?thesis by auto
next
  case (launched argv envp cookie s1 as)
  obtain q where q: "at_rest q" "emits p s s1 q" using setup_emits [OF assms(1) launched(1,2)] by auto
  from launch_emits [OF q(1) launched(4,3)] q(2) show ?thesis by (auto intro: emits_trans)
qed

lemma connect_emits:
  assumes "at_rest p" "priv_pid s = 0" "\<not> loop_quit s" "sys_ok sys s"
  shows "\<exists>q. emits p s (snd (real_connect cfg gf sys \<lparr>c_con = Some s_con, c_vpn = Some v\<rparr> s)) q \<and>
    phase_of (snd (real_connect cfg gf sys \<lparr>c_con = Some s_con, c_vpn = Some v\<rparr> s)) q"
proof (cases "acceptable gf v")
  case False
  then show ?thesis
    using assms by (auto simp: real_connect_cases phase_of_def emits_refl intro!: exI [of _ p])
next
  case True
  obtain r s' where st: "nm_openconnect_start_openconnect_binary cfg sys s_con v s = (r, s')"
    by (cases "nm_openconnect_start_openconnect_binary cfg sys s_con v s")
  have "loop_quit s' = loop_quit s \<and> (case r of Inl e \<Rightarrow> priv_pid s' = priv_pid s
      | Inr u \<Rightarrow> priv_pid s' > 0 \<and> \<not> disconnect_requested s')"
    using st
  proof (cases rule: start_cases)
    case (launched tun s1 cookie)
    from launched(9,3) show ?thesis
      by (cases rule: launch_cases) (use launched(4) assms(4) in \<open>auto simp: same_child_def sys_ok_def\<close>)
  qed (auto simp: same_child_def)
  with start_emits [OF assms(1) st] st True assms(2,3) show ?thesis
    by (cases r) (auto simp: real_connect_cases phase_of_def)
qed

lemma watch_cb_actions:
  assumes "gl_loop s"
  shows "\<exists>ds. (\<forall>a \<in> set ds. \<exists>c. a = Deactivate c) \<and>
    trace (openconnect_watch_cb sys pid status s) = trace s @ Waitpid pid #
      (if kill_timeout s \<noteq> 0 then [RemoveSource (kill_timeout s)] else []) @ ds @
      (if disconnect_requested s then (if quit_pending s then [MainLoopQuit] else []) else [exit_report status])"
proof -
  define w where "w = (let s = (act (Waitpid pid) s)\<lparr>watches := remove1 pid (watches s)\<rparr>;
      s = (if kill_timeout s \<noteq> 0 then (act (RemoveSource (kill_timeout s)) s)\<lparr>kill_timeout := 0\<rparr> else s)
    in s\<lparr>priv_pid := 0, disconnect_requested := False\<rparr>)"
  define w2 where "w2 = (case priv_tun_name w of
      Some name \<Rightarrow> (destroy_persistent_tundev sys name (deactivate_assumed_tun_connection sys (Some name) w))\<lparr>priv_tun_name := None\<rparr>
    | None \<Rightarrow> w)"
  have w: "trace w = trace s @ Waitpid pid # (if kill_timeout s \<noteq> 0 then [RemoveSource (kill_timeout s)] else [])"
    by (simp add: w_def act_def Let_def)
  obtain ds where ds: "trace w2 = trace w @ ds" "\<forall>a \<in> set ds. \<exists>c. a = Deactivate c"
    using deactivate_trace [of sys "priv_tun_name w" w] by (cases "priv_tun_name w") (auto simp: w2_def)
  have "quit_pending w2 = quit_pending s" "gl_loop w2 = gl_loop s"
    by (auto simp: w2_def w_def Let_def split: option.split)
  moreover have "openconnect_watch_cb sys pid status s =
      (if disconnect_requested s then (if quit_pending w2 \<and> gl_loop w2 then (act MainLoopQuit w2)\<lparr>loop_quit := True\<rparr> else w2)
       else act (exit_report status) w2)"
  proof -
    have "openconnect_watch_cb sys pid status s =
        (if disconnect_requested s then (if quit_pending w2 \<and> gl_loop w2 then (act MainLoopQuit w2)\<lparr>loop_quit := True\<rparr> else w2)
         else if exit_error (disconnect_requested s) status = 2 then act (ReportFailure LOGIN_FAILED) w2
         else if exit_error (disconnect_requested s) status = 1 then act (ReportFailure CONNECT_FAILED) w2
         else act ReportDisconnect w2)"
      by (simp only: openconnect_watch_cb_def w_def w2_def Let_def)
    then show ?thesis by (simp add: exit_error_def exit_report_def)
  qed
  ultimately have "trace (openconnect_watch_cb sys pid status s) = trace w2 @
      (if disconnect_requested s then (if quit_pending s then [MainLoopQuit] else []) else [exit_report status])"
    using assms by (simp add: act_def)
  with w ds show ?thesis by auto
qed

lemma exit_emits:
  assumes "svc_inv s" "phase_of s p" "\<not> loop_quit s" "pid \<in> set (watches s)"
  shows "\<exists>q. emits p s (openconnect_watch_cb sys pid status s) q \<and> phase_of (openconnect_watch_cb sys pid status s) q"
proof -
  have pid: "pid = priv_pid s" "priv_pid s \<noteq> 0" and timer: "kill_timeout s \<noteq> 0 \<Longrightarrow> disconnect_requested s"
    and quit: "quit_pending s \<Longrightarrow> disconnect_requested s" and gl: "gl_loop s"
    using assms(1,3,4) by (auto simp: svc_inv_def split: if_splits)
  obtain ds where ds: "trace (openconnect_watch_cb sys pid status s) = trace s @ Waitpid pid #
      (if kill_timeout s \<noteq> 0 then [RemoveSource (kill_timeout s)] else []) @ ds @
      (if disconnect_requested s then (if quit_pending s then [MainLoopQuit] else []) else [exit_report status])"
    "\<forall>a \<in> set ds. \<exists>c. a = Deactivate c"
    using watch_cb_actions [OF gl] by blast
  have id: "run_mon protocol Idle ds = Some Idle" "run_mon protocol Reaped ds = Some Reaped"
    using ds(2) by (auto intro!: run_mon_stays)
  have er: "protocol Reaped (exit_report status) = Some Idle" by (simp add: exit_report_def)
  show ?thesis
  proof (cases "disconnect_requested s")
    case True
    then have "p = Interrupted pid" using assms(2,3) pid by (simp add: phase_of_def)
    with True show ?thesis
      using ds(1) id gl assms(3) by (simp add: emits_def phase_of_def run_mon_append pid(1))
  next
    case False
    then have "p = Running pid" using assms(2,3) pid by (simp add: phase_of_def)
    with False show ?thesis
      using ds(1) id timer er assms(3) by (auto simp: emits_def phase_of_def run_mon_append pid(1))
  qed
qed

lemma disconnect_emits:
  assumes "svc_inv s" "phase_of s p" "\<not> loop_quit s"
  shows "\<exists>q. emits p s (real_disconnect sys s) q \<and> phase_of (real_disconnect sys s) q"
proof (cases "priv_pid s = 0")
  case True
  with assms(2) show ?thesis by (auto simp: real_disconnect_def emits_refl intro!: exI [of _ p])
next
  case False
  then have pos: "priv_pid s > 0" using assms(1) by (simp add: svc_inv_def)
  have "p = Running (priv_pid s) \<or> p = Interrupted (priv_pid s)"
    using False assms(2,3) by (simp add: phase_of_def split: if_splits)
  then have "emits p s (real_disconnect sys s) (Interrupted (priv_pid s))"
    using False pos by (auto simp: emits_def real_disconnect_def act_def Let_def)
  with False assms(3) show ?thesis by (auto simp: phase_of_def)
qed

lemma kill_emits:
  assumes "svc_inv s" "phase_of s p" "\<not> loop_quit s" "kill_timeout s \<noteq> 0"
  shows "emits p s (ensure_killed sys s) p \<and> phase_of (ensure_killed sys s) p"
proof -
  have "priv_pid s > 0" "disconnect_requested s" using assms(1,4) by (auto simp: svc_inv_def)
  moreover from this have "p = Interrupted (priv_pid s)" using assms(2,3) by (simp add: phase_of_def)
  ultimately show ?thesis
    using assms(3) by (auto simp: emits_def phase_of_def ensure_killed_def act_def Let_def)
qed

lemma quit_emits:
  assumes "phase_of s p" "\<not> loop_quit s" "p \<noteq> Reaped"
  shows "emits p s ((act MainLoopQuit s)\<lparr>loop_quit := True\<rparr>) Ended \<and> phase_of ((act MainLoopQuit s)\<lparr>loop_quit := True\<rparr>) Ended"
  using assms by (cases p) (auto simp: emits_def act_def phase_of_def split: if_splits)

lemma phase_not_reaped: "phase_of s p \<Longrightarrow> p \<noteq> Reaped"
  by (auto simp: phase_of_def split: if_splits)

lemma step_emits:
  assumes "svc_step True cfg gf s s'" "svc_inv s" "phase_of s p"
  shows "\<exists>q. emits p s s' q \<and> phase_of s' q"
  using assms
proof (induction rule: svc_step.induct)
  case (step_connect s sys s_con v)
  then show ?case using connect_emits [of p s] by (simp add: phase_of_def)
next
  case (step_need_secrets s sys c)
  obtain q where q: "emits p s (snd (real_need_secrets gf sys c s)) q" "priv_pid s = 0 \<longrightarrow> at_rest q" "priv_pid s \<noteq> 0 \<longrightarrow> q = p"
  proof (cases "snd (real_need_secrets gf sys c s) = s")
    case True
    with step_need_secrets that [of p] show thesis by (auto simp: emits_refl phase_of_def)
  next
    case False
    then obtain n where "priv_pid s = 0" "snd (real_need_secrets gf sys c s) = deactivate_assumed_tun_connection sys n s"
      by (auto simp: real_need_secrets_def Let_def split: option.splits sum.splits if_splits)
    with deactivate_emits [of p s sys n] step_need_secrets that show thesis by (auto simp: phase_of_def)
  qed
  with step_need_secrets need_secrets_same_child [of s gf sys c] show ?case
    by (intro exI [of _ q]) (auto simp: phase_of_def same_child_def)
next
  case (step_disconnect s sys)
  then show ?case using disconnect_emits by blast
next
  case (step_quit s sys)
  let ?s = "s\<lparr>quit_pending := True\<rparr>"
  have ph: "phase_of ?s p" using step_quit.prems(2) by (simp add: phase_of_def)
  consider "priv_pid s = 0" | "priv_pid s \<noteq> 0" "disconnect_requested s" | "priv_pid s \<noteq> 0" "\<not> disconnect_requested s" by blast
  then show ?case
  proof cases
    case 1
    then show ?thesis using quit_emits step_quit phase_not_reaped by (auto simp: quit_mainloop_cases)
  next
    case 2
    then show ?thesis using ph by (auto simp: quit_mainloop_cases emits_refl intro!: exI [of _ p])
  next
    case 3
    then have "p = Running (priv_pid s)" "priv_pid s > 0"
      using step_quit by (auto simp: phase_of_def svc_inv_def)
    then have "emits p s (real_disconnect sys ?s) (Interrupted (priv_pid s))"
      using 3 by (auto simp: emits_def real_disconnect_def act_def Let_def)
    then show ?thesis
      using 3 step_quit.hyps by (intro exI [of _ "Interrupted (priv_pid s)"]) (auto simp: quit_mainloop_cases phase_of_def)
  qed
next
  case (step_child_exit s pid sys status)
  then show ?case using exit_emits by blast
next
  case (step_kill_timer s sys)
  then show ?case using kill_emits by blast
next
  case (step_signal s signo)
  then show ?case using quit_emits [of s p] phase_not_reaped [of s p]
    by (cases "signo = SIGINT \<or> signo = SIGTERM")
      (auto simp: signal_handler_def intro: exI [of _ Ended] exI [of _ p] emits_refl)
qed

interpretation svc_protocol: monitored_system svc_init "svc_step True cfg gf" svc_inv trace protocol phase_of Idle for cfg gf
proof
  show "phase_of s Idle" if "svc_init s" for s
    using that by (simp add: svc_init_def phase_of_def)
  show "\<exists>as q. trace s' = trace s @ as \<and> run_mon protocol p as = Some q \<and> phase_of s' q"
    if "svc_inv s" "phase_of s p" "svc_step True cfg gf s s'" for s p s'
    using step_emits [OF that(3,1,2)] by (auto simp: emits_def)
qed

section \<open>Words of the protocol\<close>

lemma run_mon_split:
  assumes "run_mon m p (us @ a # vs) = Some q"
  obtains r t where "run_mon m p us = Some r" "m r a = Some t" "run_mon m t vs = Some q"
  using assms by (auto simp: run_mon_append split: option.splits)

lemma ended_accepts_nothing: "run_mon protocol Ended as = Some q \<Longrightarrow> as = [] \<and> q = Ended"
  by (cases as) auto

text \<open>From the time its exit is watched, only signals to the child, the timer of the interrupt, its exit and the
  end of the main loop can follow.\<close>

lemma watched_phase:
  assumes "run_mon protocol p vs = Some q" "p = Running pid \<or> p = Interrupted pid" "Waitpid pid \<notin> set vs"
  shows "q = Ended \<or> q = Interrupted pid \<or> vs = [] \<and> q = p"
  using assms
proof (induction vs arbitrary: p)
  case (Cons a vs)
  then obtain r where r: "protocol p a = Some r" "run_mon protocol r vs = Some q" by (auto split: option.splits)
  then have "r = Interrupted pid \<or> r = Ended"
    using Cons.prems(2,3) by (cases a) (auto split: if_splits)
  then show ?case
    using Cons.IH [OF r(2)] ended_accepts_nothing [of vs q] r(2) Cons.prems(3) by auto
qed simp

lemma watched_letters:
  assumes "protocol p a = Some q" "p = Running pid \<or> p = Interrupted pid"
  shows "(\<exists>t sig. a = Kill t sig \<and> \<bar>t\<bar> = \<bar>pid\<bar>) \<or> a = AddTimeout 2000 \<or> a = Waitpid pid \<or> a = MainLoopQuit"
  using assms by (cases a) (auto split: if_splits)

fun is_watch :: "action \<Rightarrow> bool" where
  "is_watch (AddChildWatch pid) = True" | "is_watch a = False"

text \<open>The rest of the session after the exit of its child: nothing is reported any more once the phase is at rest,
  exactly one thing from \<open>Reaped\<close>.\<close>

lemma rest_reports:
  assumes "run_mon protocol p ws = Some q" "at_rest p"
  shows "filter is_report (takeWhile (\<lambda>a. \<not> is_watch a) ws) = []"
  using assms
proof (induction ws arbitrary: p)
  case (Cons a ws)
  then obtain r where r: "protocol p a = Some r" "run_mon protocol r ws = Some q" by (auto split: option.splits)
  then have a: "is_watch a \<or> \<not> is_report a \<and> (at_rest r \<or> r = Ended)"
    using Cons.prems(2) by (cases p; cases a) auto
  with Cons.IH [OF r(2)] ended_accepts_nothing [of ws q] r(2) show ?case by (cases "is_watch a") auto
qed simp

lemma reaped_reports:
  assumes "run_mon protocol Reaped ws = Some q" "q \<noteq> Reaped"
  shows "length (filter is_report (takeWhile (\<lambda>a. \<not> is_watch a) ws)) = 1"
  using assms
proof (induction ws)
  case (Cons a ws)
  then obtain r where r: "protocol Reaped a = Some r" "run_mon protocol r ws = Some q" by (auto split: option.splits)
  then have "r = Reaped \<and> \<not> is_report a \<and> \<not> is_watch a \<or> r = Idle \<and> is_report a \<and> \<not> is_watch a"
    by (cases a) auto
  with Cons r(2) rest_reports [of r ws q] show ?case by auto
qed simp

section \<open>Properties\<close>

lemma calm_run_monitored:
  assumes "svc_init s0" "(svc_step True cfg gf)\<^sup>*\<^sup>* s0 s"
  shows "\<exists>as q. trace s = trace s0 @ as \<and> run_mon protocol Idle as = Some q \<and> phase_of s q"
  using svc_protocol.sim_run [OF assms(2,1)] .

text \<open>C3: The service implements its protocol: in every run in which libnm connects only when no child is left, the
  actions are a word of the automaton, and the phase it ends in is that of the plugin's fields. So a cookie is
  written only to the child just spawned, one child is watched at a time, only that child is signalled and
  first interrupted, an exit nobody asked for is reported before anything else is done, and nothing follows
  the end of the main loop.\<close>

theorem calm_runs_follow_protocol:
  assumes "svc_init s0" "(svc_step True cfg gf)\<^sup>*\<^sup>* s0 s"
  shows "\<exists>as q. trace s = trace s0 @ as \<and> run_mon protocol Idle as = Some q \<and> phase_of s q"
  by (rule calm_run_monitored [OF assms])

text \<open>C26: Sessions do not overlap: between the moment the exit of a child is watched and that exit, the service only
  signals that child, arms the kill timer or ends its main loop: it spawns nothing, writes nothing, reports
  nothing, removes no lock and deactivates no connection of NetworkManager's.\<close>

theorem sessions_are_serial:
  assumes "svc_init s0" "(svc_step True cfg gf)\<^sup>*\<^sup>* s0 s"
    and "trace s = trace s0 @ us @ AddChildWatch pid # vs @ a # ws" "Waitpid pid \<notin> set vs"
  shows "(\<exists>t sig. a = Kill t sig \<and> \<bar>t\<bar> = \<bar>pid\<bar>) \<or> a = AddTimeout 2000 \<or> a = Waitpid pid \<or> a = MainLoopQuit"
proof -
  obtain q where "run_mon protocol Idle (us @ AddChildWatch pid # vs @ a # ws) = Some q"
    using calm_run_monitored [OF assms(1,2)] assms(3) by auto
  then obtain p r t where p: "protocol p (AddChildWatch pid) = Some r" "run_mon protocol r (vs @ a # ws) = Some t"
    by (rule run_mon_split)
  then have "r = Running pid" by (cases p) (auto split: if_splits)
  with p(2) obtain x y where "run_mon protocol (Running pid) vs = Some x" "protocol x a = Some y"
    by (elim run_mon_split) auto
  with watched_phase [of "Running pid" vs x pid] assms(4) show ?thesis
    by (intro watched_letters [of x a y pid]) auto
qed

text \<open>C4: Every child is accounted for: when a watched child exits, its end is reported to NetworkManager exactly once
  before the next child is watched if nobody had asked it to stop, and not at all if somebody had.\<close>

theorem exits_are_reported_once:
  assumes "svc_init s0" "(svc_step True cfg gf)\<^sup>*\<^sup>* s0 s"
    and "trace s = trace s0 @ us @ AddChildWatch pid # vs @ Waitpid pid # ws" "Waitpid pid \<notin> set vs"
  shows "length (filter is_report (takeWhile (\<lambda>a. \<not> is_watch a) ws)) = (if \<exists>t. Kill t SIGINT \<in> set vs then 0 else 1)"
proof -
  obtain q where q: "run_mon protocol Idle (us @ AddChildWatch pid # vs @ Waitpid pid # ws) = Some q" "phase_of s q"
    using calm_run_monitored [OF assms(1,2)] assms(3) by auto
  from q(1) obtain p r where p: "protocol p (AddChildWatch pid) = Some r" "run_mon protocol r (vs @ Waitpid pid # ws) = Some q"
    by (rule run_mon_split)
  then have r: "r = Running pid" by (cases p) (auto split: if_splits)
  with p(2) obtain x y where x: "run_mon protocol (Running pid) vs = Some x" "protocol x (Waitpid pid) = Some y"
    "run_mon protocol y ws = Some q" by (elim run_mon_split) auto
  have "x = Running pid \<and> vs = [] \<or> x = Interrupted pid \<and> (\<exists>t. Kill t SIGINT \<in> set vs)"
    using watched_phase [OF x(1) _ assms(4)] x(1,2) assms(4)
    by (cases vs) (auto split: option.splits action.splits if_splits dest: ended_accepts_nothing)
  then show ?thesis
    using x(2,3) rest_reports [of Idle ws q] reaped_reports [of ws q] phase_not_reaped [OF q(2)] by auto
qed

section \<open>Example runs\<close>

definition exited :: "u32 \<Rightarrow> service" where
  "exited status = openconnect_watch_cb sample_sys 4242 status (connected 4242 sample_service)"

lemma sample_init: "svc_init sample_service"
  by (simp add: svc_init_def sample_service_def)

lemma connected_run: "(svc_step True sample_config sample_gf)\<^sup>*\<^sup>* sample_service (connected 4242 sample_service)"
  unfolding connected_def
  by (rule r_into_rtranclp, rule step_connect) (simp_all add: sample_service_def spawns_ok)

lemma stopping_run: "(svc_step True sample_config sample_gf)\<^sup>*\<^sup>* sample_service (stopping 4242 sample_service)"
  unfolding stopping_def
  by (rule rtranclp.rtrancl_into_rtrancl [OF connected_run], rule step_disconnect) (simp_all add: connected_fields spawns_ok)

lemma exited_run: "(svc_step True sample_config sample_gf)\<^sup>*\<^sup>* sample_service (exited status)"
  unfolding exited_def
  by (rule rtranclp.rtrancl_into_rtrancl [OF connected_run], rule step_child_exit) (simp_all add: connected_fields)

lemma stopping_trace:
  "drop 4 (trace (stopping 4242 sample_service)) = [AddChildWatch 4242, Kill (- 4242) SIGINT, AddTimeout 2000]"
  by code_simp

lemma exited_trace:
  "drop 4 (trace (exited 256)) = [AddChildWatch 4242, Waitpid 4242, ReportFailure CONNECT_FAILED]"
  by code_simp

lemma drop_split: "drop n xs = ys \<Longrightarrow> xs = take n xs @ ys"
  by (metis append_take_drop_id)

theorem calm_runs_follow_protocol_witness:
  "\<exists>q. run_mon protocol Idle (trace (stopping 4242 sample_service)) = Some q \<and> q = Interrupted 4242"
proof -
  have "\<not> loop_quit (stopping 4242 sample_service)" "disconnect_requested (stopping 4242 sample_service)" "trace sample_service = []"
    by code_simp+
  then show ?thesis
    using calm_runs_follow_protocol [OF sample_init stopping_run] stopping_fields by (auto simp: phase_of_def)
qed

theorem sessions_are_serial_witness:
  "(\<exists>t sig. Kill (- 4242) SIGINT = Kill t sig \<and> \<bar>t\<bar> = \<bar>4242\<bar>) \<or> Kill (- 4242) SIGINT = AddTimeout 2000 \<or>
     Kill (- 4242) SIGINT = Waitpid 4242 \<or> Kill (- 4242) SIGINT = MainLoopQuit"
proof (rule sessions_are_serial [OF sample_init stopping_run])
  have "trace sample_service = []" by code_simp
  then show "trace (stopping 4242 sample_service) = trace sample_service @ take 4 (trace (stopping 4242 sample_service)) @
      AddChildWatch 4242 # [] @ Kill (- 4242) SIGINT # [AddTimeout 2000]"
    using drop_split [OF stopping_trace] by simp
qed simp

theorem exits_are_reported_once_witness:
  "length (filter is_report (takeWhile (\<lambda>a. \<not> is_watch a) [ReportFailure CONNECT_FAILED])) = 1"
proof -
  have "trace sample_service = []" by code_simp
  then show ?thesis
    using exits_are_reported_once [OF sample_init exited_run, of 256 "take 4 (trace (exited 256))" 4242 "[]"
        "[ReportFailure CONNECT_FAILED]"] drop_split [OF exited_trace]
    by simp
qed

text \<open>The run that reconnects during a shutdown leaves the protocol: libnm's second connect spawns a child while the
  first is still watched.\<close>

lemma restart_breaks_protocol:
  "run_mon protocol Idle (trace (connected 4243 (stopping 4242 sample_service))) = None"
  by code_simp

end
