(* ===== verification/Helper.thy ===== *)
theory Helper
  imports Inet Nm_Utils Defines Errors
begin

text \<open>
  \<open>src/nm-gpclient-service-helper.c\<close>: the script hook \<open>gpclient\<close> runs when the tunnel is up. It
  reads the network configuration from environment variables, turns it into the dictionaries of
  libnm's VPN plugin interface and sends them to the service over D-Bus.

  \<open>helper_sys\<close> holds the environment and what is not under \<open>src/\<close>: glibc's IPv6 text parser, libnm's
  netmask conversion and \<open>nm_ip_route_new\<close>, GLib's UTF-8 check and character set conversion, whether
  an array of a given size can be reserved, and the results of the D-Bus calls. Dictionary keys are
  the \<open>NM_VPN_PLUGIN_*\<close> macros of libnm.
\<close>

section \<open>Values, keys and calls\<close>

datatype gvar =
    GBool bool
  | GUint32 u32
  | GAddr6 "u8 list"
  | GString string
  | GUint32s "u32 list"
  | GAddr6s "u8 list list"
  | GStrv "string list"
  | GRoutes4 "(u32 \<times> u32 \<times> u32 \<times> u32) list"
  | GRoutes6 "(string \<times> u32) list"

datatype cfg_key =
    EXT_GATEWAY | CAN_PERSIST | TUNDEV | BANNER | PROXY_PAC | MTU | HAS_IP4 | HAS_IP6
  | ADDRESS | PTP | PREFIX | DNS | NBNS | DOMAINS | DOMAIN | ROUTES | NEVER_DEFAULT

type_synonym vardict = "(cfg_key \<times> gvar) list"

datatype call = SetFailure string | SetConfig vardict | SetIp4Config vardict | SetIp6Config vardict

record helper_sys =
  h_environ :: strmap
  h_pton6 :: "string \<Rightarrow> (u8 list) option"
  h_netmask_to_prefix :: "u32 \<Rightarrow> u32"
  h_utf8 :: "string \<Rightarrow> bool"
  h_convert :: "string \<Rightarrow> string \<Rightarrow> string \<Rightarrow> string option"
  h_route6 :: "string \<Rightarrow> u32 \<Rightarrow> bool"
  h_reserve :: "u32 \<Rightarrow> bool"
  h_proxy :: "string \<Rightarrow> bool"
  h_call :: "call \<Rightarrow> bool"

definition getenv :: "helper_sys \<Rightarrow> string \<Rightarrow> cstr" where
  "getenv sys k = map_of (h_environ sys) k"

section \<open>Converting one variable\<close>

text \<open>\<open>g_variant_new_string\<close> rejects what is not UTF-8 with NULL.\<close>

definition g_variant_new_string :: "helper_sys \<Rightarrow> string \<Rightarrow> gvar option" where
  "g_variant_new_string sys s = (if h_utf8 sys s then Some (GString s) else None)"

text \<open>\<open>g_convert\<close> of the NULL the first conversion left in \<open>str\<close> is NULL again.\<close>

definition g_convert_null :: "helper_sys \<Rightarrow> cstr \<Rightarrow> string \<Rightarrow> string \<Rightarrow> cstr" where
  "g_convert_null sys s to_cs from_cs = (case s of None \<Rightarrow> None | Some t \<Rightarrow> h_convert sys t to_cs from_cs)"

definition str_to_gvariant :: "helper_sys \<Rightarrow> cstr \<Rightarrow> bool \<Rightarrow> gvar option" where
  "str_to_gvariant sys str try_convert =
     (case str of
        None \<Rightarrow> None
      | Some s \<Rightarrow>
          if s = [] then None
          else if \<not> h_utf8 sys s then
            (let converted =
               (if try_convert then
                  (case g_convert_null sys (Some s) ''ISO-8859-1'' ''UTF-8'' of
                     None \<Rightarrow> g_convert_null sys None ''C'' ''UTF-8''
                   | Some t \<Rightarrow> Some t)
                else Some s)
             in case converted of None \<Rightarrow> None | Some t \<Rightarrow> g_variant_new_string sys t)
          else g_variant_new_string sys s)"

definition addr4_to_gvariant :: "cstr \<Rightarrow> gvar option" where
  "addr4_to_gvariant str =
     (case str of
        None \<Rightarrow> None
      | Some s \<Rightarrow> if s = [] then None else map_option GUint32 (inet_pton4 s))"

fun addr4_list_loop :: "string list \<Rightarrow> u32 list \<Rightarrow> u32 list option" where
  "addr4_list_loop [] acc = Some acc"
| "addr4_list_loop (w # ws) acc =
     (case inet_pton4 w of None \<Rightarrow> None | Some a \<Rightarrow> addr4_list_loop ws (acc @ [a]))"

definition addr4_list_to_gvariant :: "cstr \<Rightarrow> gvar option" where
  "addr4_list_to_gvariant str =
     (case str of
        None \<Rightarrow> None
      | Some s \<Rightarrow>
          if s = [] then None
          else let split = g_strsplit_char s CHR '' '' in
               if split = [] then None else map_option GUint32s (addr4_list_loop split []))"

definition addr6_bytes :: "helper_sys \<Rightarrow> cstr \<Rightarrow> (u8 list) option" where
  "addr6_bytes sys str = (case str of None \<Rightarrow> None | Some s \<Rightarrow> if s = [] then None else h_pton6 sys s)"

definition addr6_to_gvariant :: "helper_sys \<Rightarrow> cstr \<Rightarrow> gvar option" where
  "addr6_to_gvariant sys str = map_option GAddr6 (addr6_bytes sys str)"

text \<open>The loop of \<open>addr46_list_to_gvariant\<close>; a builder exists once it has an element.\<close>

fun addr46_loop :: "helper_sys \<Rightarrow> string list \<Rightarrow> u32 list \<Rightarrow> u8 list list \<Rightarrow> (u32 list \<times> u8 list list) option" where
  "addr46_loop sys [] b4 b6 = Some (b4, b6)"
| "addr46_loop sys (w # ws) b4 b6 =
     (case inet_pton4 w of
        Some a \<Rightarrow> addr46_loop sys ws (b4 @ [a]) b6
      | None \<Rightarrow>
          case addr6_bytes sys (Some w) of
            Some bytes \<Rightarrow> addr46_loop sys ws b4 (b6 @ [bytes])
          | None \<Rightarrow> None)"

text \<open>The two output arguments are NULL before the call, and stay so on every early return.\<close>

definition addr46_list_to_gvariant :: "helper_sys \<Rightarrow> cstr \<Rightarrow> gvar option \<times> gvar option" where
  "addr46_list_to_gvariant sys str =
     (case str of
        None \<Rightarrow> (None, None)
      | Some s \<Rightarrow>
          if s = [] then (None, None)
          else let split = g_strsplit_char s CHR '' '' in
               if split = [] then (None, None)
               else case addr46_loop sys split [] [] of
                      None \<Rightarrow> (None, None)
                    | Some (b4, b6) \<Rightarrow>
                        (if b4 \<noteq> [] then Some (GUint32s b4) else None,
                         if b6 \<noteq> [] then Some (GAddr6s b6) else None))"

text \<open>The in-place compaction of \<open>split\<close>: \<open>i\<close> reads, \<open>j\<close> writes, a moved or freed entry is NULL.\<close>

function (sequential) compact :: "cstr list \<Rightarrow> nat \<Rightarrow> nat \<Rightarrow> cstr list \<times> nat" where
  "compact split i j =
     (if i < length split then
        case split ! i of
          None \<Rightarrow> (split, j)
        | Some w \<Rightarrow>
            if w \<noteq> [] then
              compact (if j \<noteq> i then (split[j := split ! i])[i := None] else split) (i + 1) (j + 1)
            else compact (split[i := None]) (i + 1) j
      else (split, j))"
  by pat_completeness auto
termination by (relation "measure (\<lambda>(s, i, j). length s - i)") (auto split: if_splits)

declare compact.simps [simp del]

definition g_variant_new_strv :: "cstr list \<Rightarrow> gvar" where
  "g_variant_new_strv split = GStrv (map the (takeWhile (\<lambda>w. w \<noteq> None) split))"

definition split_dns_list_to_gvariant :: "cstr \<Rightarrow> gvar option" where
  "split_dns_list_to_gvariant str =
     (case str of
        None \<Rightarrow> None
      | Some s \<Rightarrow>
          if s = [] then None
          else let (split, j) = compact (map Some (g_strsplit_set s '', '')) 0 0
               in if j \<noteq> 0 then Some (g_variant_new_strv split) else None)"

section \<open>Routes\<close>

definition inc_var :: "string \<Rightarrow> int \<Rightarrow> string \<Rightarrow> string" where
  "inc_var prefix i suffix = prefix @ show_int i @ suffix"

text \<open>\<open>strtol (tmp, NULL, 10)\<close> with \<open>errno\<close> cleared, and the range check; a text without digits is 0.\<close>

definition parse_masklen :: "string \<Rightarrow> int \<Rightarrow> u32 option" where
  "parse_masklen tmp hi =
     (let (tmp_prefix, erange, e) = strtol10 tmp in
      if erange \<or> tmp_prefix < 0 \<or> tmp_prefix > hi then None else Some (word_of_int tmp_prefix))"

text \<open>One turn of a loop: \<open>Skipped\<close> and \<open>Default\<close> are its two kinds of \<open>continue\<close>.\<close>

datatype 'r turn = Skipped | Default | Route 'r

definition ip4_route :: "helper_sys \<Rightarrow> int \<Rightarrow> (u32 \<times> u32 \<times> u32 \<times> u32) turn" where
  "ip4_route sys i =
     (case (case getenv sys (inc_var ''CISCO_SPLIT_INC_'' i ''_ADDR'') of None \<Rightarrow> None | Some tmp \<Rightarrow> inet_pton4 tmp) of
        None \<Rightarrow> Skipped
      | Some network \<Rightarrow>
          case (case getenv sys (inc_var ''CISCO_SPLIT_INC_'' i ''_MASKLEN'') of
                  Some tmp \<Rightarrow> parse_masklen tmp 32
                | None \<Rightarrow>
                    case getenv sys (inc_var ''CISCO_SPLIT_INC_'' i ''_MASK'') of
                      None \<Rightarrow> None
                    | Some tmp \<Rightarrow> map_option (h_netmask_to_prefix sys) (inet_pton4 tmp)) of
            None \<Rightarrow> Skipped
          | Some prefix \<Rightarrow> if prefix = 0 then Default else Route (network, prefix, 0, 0))"

definition ip6_route :: "helper_sys \<Rightarrow> int \<Rightarrow> (string \<times> u32) turn" where
  "ip6_route sys i =
     (case getenv sys (inc_var ''CISCO_IPV6_SPLIT_INC_'' i ''_ADDR'') of
        None \<Rightarrow> Skipped
      | Some network \<Rightarrow>
          case getenv sys (inc_var ''CISCO_IPV6_SPLIT_INC_'' i ''_MASKLEN'') of
            None \<Rightarrow> Skipped
          | Some tmp \<Rightarrow>
              case parse_masklen tmp 128 of
                None \<Rightarrow> Skipped
              | Some prefix \<Rightarrow>
                  if prefix = 0 then Default
                  else if \<not> h_route6 sys network prefix then Skipped
                  else Route (network, prefix))"

text \<open>\<open>for (i = 0; i < num; i++)\<close>, with the routes so far and \<open>*defaultroute\<close>.\<close>

function (sequential) routes_loop :: "(int \<Rightarrow> 'r turn) \<Rightarrow> int \<Rightarrow> int \<Rightarrow> 'r list \<Rightarrow> bool \<Rightarrow> 'r list \<times> bool" where
  "routes_loop turn i num routes dflt =
     (if i < num then
        case turn i of
          Skipped \<Rightarrow> routes_loop turn (i + 1) num routes dflt
        | Default \<Rightarrow> routes_loop turn (i + 1) num routes True
        | Route r \<Rightarrow> routes_loop turn (i + 1) num (routes @ [r]) dflt
      else (routes, dflt))"
  by pat_completeness auto
termination by (relation "measure (\<lambda>(t, i, num, rs, d). nat (num - i))") auto

declare routes_loop.simps [simp del]

definition get_ip4_routes :: "helper_sys \<Rightarrow> bool \<Rightarrow> gvar option \<times> bool" where
  "get_ip4_routes sys defaultroute =
     (case getenv sys ''CISCO_SPLIT_INC'' of
        None \<Rightarrow> (None, defaultroute)
      | Some tmp \<Rightarrow>
          if tmp = [] \<or> atoi tmp = 0 then (None, defaultroute)
          else let (routes, dflt) = routes_loop (ip4_route sys) 0 (atoi tmp) [] defaultroute
               in (if length routes > 0 then Some (GRoutes4 routes) else None, dflt))"

text \<open>\<open>g_ptr_array_new_full\<close> takes the count as an unsigned number, so a negative one asks for
  billions of entries; a failed reservation (\<open>None\<close>) aborts the process.\<close>

definition get_ip6_routes :: "helper_sys \<Rightarrow> bool \<Rightarrow> (gvar option \<times> bool) option" where
  "get_ip6_routes sys defaultroute =
     (case getenv sys ''CISCO_IPV6_SPLIT_INC'' of
        None \<Rightarrow> Some (None, defaultroute)
      | Some tmp \<Rightarrow>
          if tmp = [] \<or> atoi tmp = 0 then Some (None, defaultroute)
          else if \<not> h_reserve sys (word_of_int (atoi tmp)) then None
          else let (routes, dflt) = routes_loop (ip6_route sys) 0 (atoi tmp) [] defaultroute
               in Some (if length routes > 0 then Some (GRoutes6 routes) else None, dflt))"

section \<open>Collecting the configuration\<close>

text \<open>The builders and flags of \<open>main\<close>.\<close>

record collected =
  c_builder :: vardict
  c_ip4builder :: vardict
  c_ip6builder :: vardict
  has_ip4 :: bool
  has_ip6 :: bool
  not_ipv4_never_default :: bool
  not_ipv6_never_default :: bool

text \<open>\<open>HelperFailed reason\<close> is a call of \<open>helper_failed\<close>, which does not return.\<close>

datatype stop = HelperFailed string | OutOfMemory

definition add_conf :: "cfg_key \<Rightarrow> gvar \<Rightarrow> collected \<Rightarrow> collected" where
  "add_conf k v c = c\<lparr>c_builder := c_builder c @ [(k, v)]\<rparr>"
definition add_ip4 :: "cfg_key \<Rightarrow> gvar \<Rightarrow> collected \<Rightarrow> collected" where
  "add_ip4 k v c = c\<lparr>c_ip4builder := c_ip4builder c @ [(k, v)]\<rparr>"
definition add_ip6 :: "cfg_key \<Rightarrow> gvar \<Rightarrow> collected \<Rightarrow> collected" where
  "add_ip6 k v c = c\<lparr>c_ip6builder := c_ip6builder c @ [(k, v)]\<rparr>"

text \<open>\<open>if (val) g_variant_builder_add (...)\<close>.\<close>

definition add_opt :: "(cfg_key \<Rightarrow> gvar \<Rightarrow> collected \<Rightarrow> collected) \<Rightarrow> cfg_key \<Rightarrow> gvar option \<Rightarrow> collected \<Rightarrow> collected" where
  "add_opt add k v c = (case v of None \<Rightarrow> c | Some x \<Rightarrow> add k x c)"

definition gateway_value :: "helper_sys \<Rightarrow> gvar option" where
  "gateway_value sys =
     (case addr4_to_gvariant (getenv sys ''VPNGATEWAY'') of
        Some v \<Rightarrow> Some v | None \<Rightarrow> addr6_to_gvariant sys (getenv sys ''VPNGATEWAY''))"

definition mtu_value :: "helper_sys \<Rightarrow> gvar option" where
  "mtu_value sys =
     (case getenv sys ''INTERNAL_IP4_MTU'' of
        None \<Rightarrow> None
      | Some tmp \<Rightarrow>
          if tmp = [] then None
          else let (mtu, erange, e) = strtol10 tmp in
               if erange \<or> mtu < 0 \<or> mtu > 20000 then None else Some (GUint32 (word_of_int mtu)))"

text \<open>Gateway, persistence, device, banner, proxy and MTU: the generic configuration.\<close>

definition collect_general :: "helper_sys \<Rightarrow> collected \<Rightarrow> stop + collected" where
  "collect_general sys c =
     (case gateway_value sys of
        None \<Rightarrow> Inl (HelperFailed ''VPN Gateway'')
      | Some gw \<Rightarrow>
          let c = add_conf CAN_PERSIST (GBool True) (add_conf EXT_GATEWAY gw c) in
          case str_to_gvariant sys (getenv sys ''TUNDEV'') False of
            None \<Rightarrow> Inl (HelperFailed ''Tunnel Device'')
          | Some dev \<Rightarrow>
              let c = add_conf TUNDEV dev c;
                  c = add_opt add_conf BANNER (str_to_gvariant sys (getenv sys ''CISCO_BANNER'') True) c;
                  c = add_opt add_conf PROXY_PAC (str_to_gvariant sys (getenv sys ''CISCO_PROXY_PAC'') True) c
              in Inr (add_opt add_conf MTU (mtu_value sys) c))"

definition collect_ip4_addr :: "helper_sys \<Rightarrow> collected \<Rightarrow> stop + collected" where
  "collect_ip4_addr sys c =
     (let tmp = getenv sys ''INTERNAL_IP4_ADDRESS'' in
      if \<not> nonempty tmp then Inr c
      else case addr4_to_gvariant tmp of
             None \<Rightarrow> Inl (HelperFailed ''IP4 Address'')
           | Some v \<Rightarrow> Inr ((add_ip4 ADDRESS v c)\<lparr>has_ip4 := True\<rparr>))"

definition collect_ip4_ptp :: "helper_sys \<Rightarrow> collected \<Rightarrow> stop + collected" where
  "collect_ip4_ptp sys c =
     (let tmp = getenv sys ''INTERNAL_IP4_ADDRESS'' in
      if \<not> nonempty tmp then Inr c
      else case addr4_to_gvariant tmp of
             None \<Rightarrow> Inl (HelperFailed ''IP4 Address'')
           | Some v \<Rightarrow> Inr (add_ip4 PTP v c))"

definition collect_ip4_netmask :: "helper_sys \<Rightarrow> collected \<Rightarrow> collected" where
  "collect_ip4_netmask sys c =
     (case (case getenv sys ''INTERNAL_IP4_NETMASK'' of None \<Rightarrow> None | Some tmp \<Rightarrow> inet_pton4 tmp) of
        None \<Rightarrow> c
      | Some addr \<Rightarrow>
          let prefix = h_netmask_to_prefix sys addr;
              (prefix, c) = (if prefix = 0 then (32, c\<lparr>not_ipv4_never_default := True\<rparr>) else (prefix, c))
          in add_ip4 PREFIX (GUint32 prefix) c)"

definition domains_value :: "helper_sys \<Rightarrow> gvar option" where
  "domains_value sys =
     (case split_dns_list_to_gvariant (getenv sys ''CISCO_SPLIT_DNS'') of
        Some v \<Rightarrow> Some v | None \<Rightarrow> split_dns_list_to_gvariant (getenv sys ''CISCO_DEF_DOMAIN''))"

text \<open>DNS, WINS, domains, IPv4 routes and the default domain.\<close>

definition collect_ip4_rest :: "helper_sys \<Rightarrow> collected \<Rightarrow> collected" where
  "collect_ip4_rest sys c =
     (let (legacy_dns, ipv6_dns) = addr46_list_to_gvariant sys (getenv sys ''INTERNAL_IP4_DNS'');
          c = add_opt add_ip4 DNS legacy_dns c;
          c = add_opt add_ip6 DNS ipv6_dns c;
          c = add_opt add_ip4 NBNS (addr4_list_to_gvariant (getenv sys ''INTERNAL_IP4_NBNS'')) c;
          c = add_opt add_ip4 DOMAINS (domains_value sys) c;
          (val, nd) = get_ip4_routes sys (not_ipv4_never_default c);
          c = c\<lparr>not_ipv4_never_default := nd\<rparr>;
          c = (case val of
                 None \<Rightarrow> c
               | Some v \<Rightarrow>
                   let c = add_ip4 ROUTES v c
                   in if \<not> nd then add_ip4 NEVER_DEFAULT (GBool True) c else c)
      in add_opt add_ip6 DOMAIN (str_to_gvariant sys (getenv sys ''CISCO_DEF_DOMAIN'') True) c)"

definition collect_ip6_addr :: "helper_sys \<Rightarrow> collected \<Rightarrow> stop + collected" where
  "collect_ip6_addr sys c =
     (let tmp = getenv sys ''INTERNAL_IP6_ADDRESS'' in
      if \<not> nonempty tmp then Inr c
      else case addr6_to_gvariant sys tmp of
             None \<Rightarrow> Inl (HelperFailed ''IP6 Address'')
           | Some v \<Rightarrow> Inr ((add_ip6 ADDRESS v c)\<lparr>has_ip6 := True\<rparr>))"

definition collect_ip6_ptp :: "helper_sys \<Rightarrow> collected \<Rightarrow> stop + collected" where
  "collect_ip6_ptp sys c =
     (let tmp = getenv sys ''INTERNAL_IP6_ADDRESS'' in
      if \<not> nonempty tmp then Inr c
      else case addr6_to_gvariant sys tmp of
             None \<Rightarrow> Inl (HelperFailed ''IP6 PTP Address'')
           | Some v \<Rightarrow> Inr (add_ip6 PTP v c))"

text \<open>\<open>strchr (tmp, '/')\<close>, and \<open>strtol\<close> of what follows cut to 32 bits, without a check.\<close>

definition collect_ip6_netmask :: "helper_sys \<Rightarrow> collected \<Rightarrow> collected" where
  "collect_ip6_netmask sys c =
     (case getenv sys ''INTERNAL_IP6_NETMASK'' of
        None \<Rightarrow> c
      | Some tmp \<Rightarrow>
          case dropWhile (\<lambda>x. x \<noteq> CHR ''/'') tmp of
            [] \<Rightarrow> c
          | _ # rest \<Rightarrow>
              let prefix = word_of_int (fst (strtol10 rest)) :: u32;
                  (prefix, c) = (if prefix = 0 then (128, c\<lparr>not_ipv6_never_default := True\<rparr>) else (prefix, c))
              in add_ip6 PREFIX (GUint32 prefix) c)"

definition collect_ip6_routes :: "helper_sys \<Rightarrow> collected \<Rightarrow> stop + collected" where
  "collect_ip6_routes sys c =
     (case get_ip6_routes sys (not_ipv6_never_default c) of
        None \<Rightarrow> Inl OutOfMemory
      | Some (val, nd) \<Rightarrow>
          let c = c\<lparr>not_ipv6_never_default := nd\<rparr> in
          Inr (case val of
                 None \<Rightarrow> c
               | Some v \<Rightarrow>
                   let c = add_ip6 ROUTES v c
                   in if \<not> nd then add_ip6 NEVER_DEFAULT (GBool True) c else c))"

definition empty_collected :: collected where
  "empty_collected = \<lparr>c_builder = [], c_ip4builder = [], c_ip6builder = [], has_ip4 = False, has_ip6 = False,
     not_ipv4_never_default = False, not_ipv6_never_default = False\<rparr>"

definition then_do :: "stop + collected \<Rightarrow> (collected \<Rightarrow> stop + collected) \<Rightarrow> stop + collected" where
  "then_do r f = (case r of Inl e \<Rightarrow> Inl e | Inr c \<Rightarrow> f c)"

definition collect_ip4 :: "helper_sys \<Rightarrow> collected \<Rightarrow> stop + collected" where
  "collect_ip4 sys c =
     then_do (collect_ip4_addr sys c)
       (\<lambda>c. then_do (collect_ip4_ptp sys c)
         (\<lambda>c. Inr (collect_ip4_rest sys (collect_ip4_netmask sys c))))"

definition collect_ip6 :: "helper_sys \<Rightarrow> collected \<Rightarrow> stop + collected" where
  "collect_ip6 sys c =
     then_do (collect_ip6_addr sys c)
       (\<lambda>c. then_do (collect_ip6_ptp sys c) (\<lambda>c. Inr (collect_ip6_netmask sys c)))"

definition collect :: "helper_sys \<Rightarrow> stop + collected" where
  "collect sys =
     then_do (collect_general sys empty_collected)
       (\<lambda>c. then_do (collect_ip4 sys c) (\<lambda>c. then_do (collect_ip6 sys c) (collect_ip6_routes sys)))"

section \<open>Sending it\<close>

text \<open>The calls are made in order, the first that fails is the last; \<open>ip4config\<close> and \<open>ip6config\<close> are
  skipped when NULL.\<close>

fun send_calls :: "helper_sys \<Rightarrow> call list \<Rightarrow> bool \<times> call list" where
  "send_calls sys [] = (True, [])"
| "send_calls sys (c # cs) =
     (if \<not> h_call sys c then (False, [c])
      else let (ok, made) = send_calls sys cs in (ok, c # made))"

definition send_config :: "helper_sys \<Rightarrow> vardict \<Rightarrow> vardict option \<Rightarrow> vardict option \<Rightarrow> bool \<times> call list" where
  "send_config sys config ip4config ip6config =
     send_calls sys ([SetConfig config] @
       (case ip4config of Some c \<Rightarrow> [SetIp4Config c] | None \<Rightarrow> []) @
       (case ip6config of Some c \<Rightarrow> [SetIp6Config c] | None \<Rightarrow> []))"

text \<open>How the process ends, and the D-Bus calls it made. \<open>helper_failed\<close> exits with 1 whether or not
  its own call succeeds.\<close>

datatype helper_end = HExit int "call list" | HAbort

definition helper_failed :: "string \<Rightarrow> helper_end" where
  "helper_failed reason = HExit 1 [SetFailure reason]"

definition helper_log_level :: "strtoll \<Rightarrow> helper_sys \<Rightarrow> int" where
  "helper_log_level strtoll sys =
     fst (nm_utils_ascii_str_to_int64 strtoll (getenv sys ''NM_VPN_LOG_LEVEL'') 10 0 LOG_DEBUG LOG_NOTICE)"

text \<open>The end of \<open>main\<close>: which families are announced, and the hand-over.\<close>

definition helper_finish :: "helper_sys \<Rightarrow> collected \<Rightarrow> helper_end" where
  "helper_finish sys c =
     (let c = (if has_ip4 c then add_conf HAS_IP4 (GBool True) c else c);
          c = (if has_ip6 c then add_conf HAS_IP6 (GBool True) c else c);
          (ok, calls) = send_config sys (c_builder c)
            (if has_ip4 c then Some (c_ip4builder c) else None)
            (if has_ip6 c then Some (c_ip6builder c) else None)
      in if \<not> ok then HExit 1 calls else HExit 0 calls)"

definition helper_bus_path :: "helper_sys \<Rightarrow> string" where
  "helper_bus_path sys =
     (case getenv sys ''NM_DBUS_SERVICE_OPENCONNECT'' of Some b \<Rightarrow> b | None \<Rightarrow> NM_DBUS_SERVICE_OPENCONNECT)"

definition helper_main :: "helper_sys \<Rightarrow> helper_end" where
  "helper_main sys =
     (if (case getenv sys ''reason'' of Some r \<Rightarrow> r \<noteq> ''connect'' | None \<Rightarrow> False) then HExit 0 []
      else
        let bus_path = helper_bus_path sys
        in if \<not> h_proxy sys bus_path then HExit 1 []
           else case collect sys of
                  Inl (HelperFailed reason) \<Rightarrow> helper_failed reason
                | Inl OutOfMemory \<Rightarrow> HAbort
                | Inr c \<Rightarrow> helper_finish sys c)"

end
