(* ===== verification/Macros.thy ===== *)
theory Macros
  imports Nm_Utils
begin

unbundle bit_operations_syntax

text \<open>
  The macros and inline functions with behaviour of their own of \<open>shared/nm-utils/nm-macros-internal.h\<close>,
  \<open>nm-glib.h\<close> and \<open>gsystem-local-alloc.h\<close>. An integer of the C type at hand is a word of its width,
  with a flag where the macro looks at its sign. GLib itself is a parameter where a wrapper calls it;
  a pointer that may be NULL is an option.
\<close>

section \<open>Integers and flags\<close>

text \<open>\<open>is_signed\<close> is the compile-time constant \<open>! (((typeof (x)) -1) > ((typeof (x)) 0))\<close>.\<close>

definition nm_utils_is_power_of_two :: "bool \<Rightarrow> 'a::len word \<Rightarrow> bool" where
  "nm_utils_is_power_of_two is_signed x \<longleftrightarrow>
     (\<not> is_signed \<or> sint x > 0 \<or> sint x = 0) \<and> x AND (x - 1) = 0"

definition NM_FLAGS_ANY :: "'a::len word \<Rightarrow> 'a word \<Rightarrow> bool" where
  "NM_FLAGS_ANY flags check \<longleftrightarrow> flags AND check \<noteq> 0"

definition NM_FLAGS_HAS :: "'a::len word \<Rightarrow> 'a word \<Rightarrow> bool" where
  "NM_FLAGS_HAS flags check \<longleftrightarrow> NM_FLAGS_ANY flags check"

definition NM_FLAGS_ALL :: "'a::len word \<Rightarrow> 'a word \<Rightarrow> bool" where
  "NM_FLAGS_ALL flags check \<longleftrightarrow> flags AND check = check"

definition NM_FLAGS_SET :: "'a::len word \<Rightarrow> 'a word \<Rightarrow> 'a word" where
  "NM_FLAGS_SET flags val = flags OR val"

definition NM_FLAGS_UNSET :: "'a::len word \<Rightarrow> 'a word \<Rightarrow> 'a word" where
  "NM_FLAGS_UNSET flags val = flags AND NOT val"

definition NM_FLAGS_ASSIGN :: "'a::len word \<Rightarrow> 'a word \<Rightarrow> bool \<Rightarrow> 'a word" where
  "NM_FLAGS_ASSIGN flags val assign = (if assign then flags OR val else flags AND NOT val)"

definition nm_encode_version :: "u32 \<Rightarrow> u32 \<Rightarrow> u32 \<Rightarrow> u32" where
  "nm_encode_version major minor micro = (push_bit 16 major OR push_bit 8 minor) OR micro"

definition nm_decode_version :: "u32 \<Rightarrow> u32 \<times> u32 \<times> u32" where
  "nm_decode_version version =
     (drop_bit 16 (version AND 0xFFFF0000), drop_bit 8 (version AND 0x0000FF00), version AND 0x000000FF)"

section \<open>Sets of values and strings\<close>

text \<open>\<open>(_x == y1) op (_x == y2) op ...\<close>; the values have no effects, so \<open>||\<close> and \<open>|\<close> agree.\<close>

fun in_set_eval :: "'a \<Rightarrow> 'a list \<Rightarrow> bool" where
  "in_set_eval x [] = False"
| "in_set_eval x (y # ys) = (x = y \<or> in_set_eval x ys)"

definition in_strset_streq :: "string \<Rightarrow> cstr \<Rightarrow> bool" where
  "in_strset_streq x s = (case s of None \<Rightarrow> False | Some t \<Rightarrow> x = t)"

fun in_strset_eval :: "string \<Rightarrow> cstr list \<Rightarrow> bool" where
  "in_strset_eval x [] = False"
| "in_strset_eval x (y # ys) = (in_strset_streq x y \<or> in_strset_eval x ys)"

definition NM_IN_STRSET :: "cstr \<Rightarrow> cstr list \<Rightarrow> bool" where
  "NM_IN_STRSET x ys \<longleftrightarrow> x = None \<and> in_set_eval None ys \<or> x \<noteq> None \<and> in_strset_eval (the x) ys"

definition NM_PRINT_FMT_QUOTED :: "bool \<Rightarrow> string \<Rightarrow> string \<Rightarrow> string \<Rightarrow> string \<Rightarrow> string \<times> string \<times> string" where
  "NM_PRINT_FMT_QUOTED cond prefix str suffix str_else =
     (if cond then prefix else [], if cond then str else str_else, if cond then suffix else [])"

text \<open>A \<open>GError\<close> that may be NULL, with a message that may be NULL.\<close>

definition NM_G_ERROR_MSG :: "cstr option \<Rightarrow> string" where
  "NM_G_ERROR_MSG error =
     (case error of None \<Rightarrow> ''(no-error)'' | Some message \<Rightarrow> (case message of None \<Rightarrow> ''(null)'' | Some m \<Rightarrow> m))"

text \<open>The bytes of the buffer, its terminator included.\<close>

definition nm_strquote_a :: "nat \<Rightarrow> cstr \<Rightarrow> string" where
  "nm_strquote_a bufsize str =
     (case str of
        None \<Rightarrow> ''(null)'' @ [CHR 0x00]
      | Some s \<Rightarrow>
          let l = length s + 3; truncated = bufsize < l; l = (if truncated then bufsize else l)
          in CHR 0x27 # take (l - 3) s @ [if truncated then CHR ''^'' else CHR 0x27] @ [CHR 0x00])"

section \<open>Clearing\<close>

datatype clear_act =
    SourceRemove nat | HandlerDisconnect nat | VariantUnref nat | CancellableCancel nat | ObjectRef nat | ObjectUnref nat

text \<open>\<open>None\<close> is a NULL pointer to the variable; the variable holds 0 or NULL when it is 0.\<close>

definition clear_with :: "(nat \<Rightarrow> clear_act list) \<Rightarrow> nat option \<Rightarrow> bool \<times> nat option \<times> clear_act list" where
  "clear_with release var =
     (case var of
        None \<Rightarrow> (False, None, [])
      | Some v \<Rightarrow> if v \<noteq> 0 then (True, Some 0, release v) else (False, Some v, []))"

definition nm_clear_g_source :: "nat option \<Rightarrow> bool \<times> nat option \<times> clear_act list" where
  "nm_clear_g_source = clear_with (\<lambda>v. [SourceRemove v])"

definition nm_clear_g_signal_handler :: "nat option \<Rightarrow> bool \<times> nat option \<times> clear_act list" where
  "nm_clear_g_signal_handler = clear_with (\<lambda>v. [HandlerDisconnect v])"

definition nm_clear_g_variant :: "nat option \<Rightarrow> bool \<times> nat option \<times> clear_act list" where
  "nm_clear_g_variant = clear_with (\<lambda>v. [VariantUnref v])"

definition nm_clear_g_cancellable :: "nat option \<Rightarrow> bool \<times> nat option \<times> clear_act list" where
  "nm_clear_g_cancellable = clear_with (\<lambda>v. [CancellableCancel v, ObjectUnref v])"

definition nm_g_object_ref :: "nat \<Rightarrow> nat \<times> clear_act list" where
  "nm_g_object_ref obj = (obj, if obj \<noteq> 0 then [ObjectRef obj] else [])"

definition nm_g_object_unref :: "nat \<Rightarrow> clear_act list" where
  "nm_g_object_unref obj = (if obj \<noteq> 0 then [ObjectUnref obj] else [])"

definition nm_g_steal_pointer :: "nat \<Rightarrow> nat \<times> nat" where
  "nm_g_steal_pointer ptr = (ptr, 0)"

text \<open>\<open>GS_DEFINE_CLEANUP_FUNCTION\<close>, \<open>GS_DEFINE_CLEANUP_FUNCTION0\<close> and \<open>gs_cleanup_close_fdp\<close>: what is
  released when the variable goes out of scope.\<close>

definition gs_cleanup :: "nat \<Rightarrow> nat list" where
  "gs_cleanup v = [v]"

definition gs_cleanup0 :: "nat \<Rightarrow> nat list" where
  "gs_cleanup0 v = (if v \<noteq> 0 then [v] else [])"

definition gs_cleanup_close_fdp :: "int \<Rightarrow> int list" where
  "gs_cleanup_close_fdp fd = (if fd \<noteq> -1 then [fd] else [])"

section \<open>GLib of any version\<close>

type_synonym glib_version = "nat \<times> nat \<times> nat"

definition GLIB_CHECK_VERSION :: "glib_version \<Rightarrow> glib_version \<Rightarrow> bool" where
  "GLIB_CHECK_VERSION have want =
     (case (have, want) of ((a, b, c), (major, minor, micro)) \<Rightarrow>
        a > major \<or> (a = major \<and> b > minor) \<or> (a = major \<and> b = minor \<and> c \<ge> micro))"

text \<open>\<open>headers\<close> is the version compiled against, \<open>running\<close> the one loaded.\<close>

definition nm_glib_check_version :: "glib_version \<Rightarrow> glib_version \<Rightarrow> glib_version \<Rightarrow> bool" where
  "nm_glib_check_version headers running want \<longleftrightarrow>
     GLIB_CHECK_VERSION headers want \<or>
     (case (running, want) of ((a, b, c), (major, minor, micro)) \<Rightarrow>
        a > major \<or> (a = major \<and> b > minor) \<or> (a = major \<and> b = minor \<and> c \<ge> micro))"

text \<open>\<open>native\<close> is GLib's own function, whose result has a meaning from 2.40 on.\<close>

definition nm_g_hash_table_insert ::
  "glib_version \<Rightarrow> ('k \<Rightarrow> 'v \<Rightarrow> ('k \<rightharpoonup> 'v) \<Rightarrow> bool \<times> ('k \<rightharpoonup> 'v)) \<Rightarrow> 'k \<Rightarrow> 'v \<Rightarrow> ('k \<rightharpoonup> 'v) \<Rightarrow> bool \<times> ('k \<rightharpoonup> 'v)" where
  "nm_g_hash_table_insert headers native key v hash =
     (if GLIB_CHECK_VERSION headers (2, 40, 0) then native key v hash
      else let contained = (hash key \<noteq> None) in (\<not> contained, snd (native key v hash)))"

definition nm_g_hash_table_replace ::
  "glib_version \<Rightarrow> ('k \<Rightarrow> 'v \<Rightarrow> ('k \<rightharpoonup> 'v) \<Rightarrow> bool \<times> ('k \<rightharpoonup> 'v)) \<Rightarrow> 'k \<Rightarrow> 'v \<Rightarrow> ('k \<rightharpoonup> 'v) \<Rightarrow> bool \<times> ('k \<rightharpoonup> 'v)" where
  "nm_g_hash_table_replace headers native key v hash =
     (if GLIB_CHECK_VERSION headers (2, 40, 0) then native key v hash
      else let contained = (hash key \<noteq> None) in (\<not> contained, snd (native key v hash)))"

definition nm_g_hash_table_add ::
  "glib_version \<Rightarrow> ('k \<Rightarrow> 'k \<Rightarrow> ('k \<rightharpoonup> 'k) \<Rightarrow> bool \<times> ('k \<rightharpoonup> 'k)) \<Rightarrow> 'k \<Rightarrow> ('k \<rightharpoonup> 'k) \<Rightarrow> bool \<times> ('k \<rightharpoonup> 'k)" where
  "nm_g_hash_table_add headers native key hash =
     (if GLIB_CHECK_VERSION headers (2, 40, 0) then native key key hash
      else let contained = (hash key \<noteq> None) in (\<not> contained, snd (native key key hash)))"

text \<open>\<open>memmove\<close> of \<open>n\<close> elements inside an array, as if through a copy.\<close>

definition memmove :: "'a list \<Rightarrow> nat \<Rightarrow> nat \<Rightarrow> nat \<Rightarrow> 'a list" where
  "memmove xs dst src n = take dst xs @ take n (drop src xs) @ drop (dst + n) xs"

text \<open>A failed \<open>g_return_if_fail\<close> leaves the array alone. The array has fewer than \<open>2 ^ 31\<close> elements, so that
  \<open>(gint) array->len\<close> is its length.\<close>

definition nm_g_ptr_array_insert :: "'a list \<Rightarrow> int \<Rightarrow> 'a \<Rightarrow> 'a list" where
  "nm_g_ptr_array_insert xs index d =
     (if \<not> index \<ge> -1 then xs
      else if \<not> index \<le> int (length xs) then xs
      else
        let ys = xs @ [d] in
        if index \<noteq> -1 \<and> index \<noteq> int (length ys) - 1 then
          (memmove ys (nat (index + 1)) (nat index) (nat (int (length ys) - index - 1)))[nat index := d]
        else ys)"

text \<open>The loop over the iterator fills an array of \<open>n + 1\<close> NULL pointers.\<close>

fun keys_loop :: "'k list \<Rightarrow> 'k option list \<Rightarrow> nat \<Rightarrow> 'k option list \<times> nat" where
  "keys_loop [] ret i = (ret[i := None], i)"
| "keys_loop (key # iter) ret i = keys_loop iter (ret[i := Some key]) (i + 1)"

definition nm_g_hash_table_get_keys_as_array :: "'k list \<Rightarrow> 'k option list \<times> nat" where
  "nm_g_hash_table_get_keys_as_array iter = keys_loop iter (replicate (length iter + 1) None) 0"

text \<open>The loop ends at the NULL entry; an array without one is read past its end.\<close>

fun strv_loop :: "cstr list \<Rightarrow> string \<Rightarrow> bool option" where
  "strv_loop [] str = None"
| "strv_loop (None # rest) str = Some False"
| "strv_loop (Some s # rest) str = (if str = s then Some True else strv_loop rest str)"

definition nm_g_strv_contains :: "(cstr list \<Rightarrow> string \<Rightarrow> bool option) \<Rightarrow> glib_version \<Rightarrow> cstr list \<Rightarrow> string \<Rightarrow> bool option" where
  "nm_g_strv_contains native headers strv str =
     (if \<not> GLIB_CHECK_VERSION headers (2, 44, 0) then strv_loop strv str else native strv str)"

section \<open>Strings\<close>

text \<open>\<open>strcmp\<close> compares as \<open>unsigned char\<close>; of its result only the sign has a meaning.\<close>

fun c_strcmp :: "string \<Rightarrow> string \<Rightarrow> int" where
  "c_strcmp [] [] = 0"
| "c_strcmp [] (d # ds) = -1"
| "c_strcmp (c # cs) [] = 1"
| "c_strcmp (c # cs) (d # ds) =
     (if c = d then c_strcmp cs ds else if (of_char c :: nat) < of_char d then -1 else 1)"

text \<open>The compare functions get pointers to the elements of the array: indices into it.\<close>

definition nm_strcmp_p :: "string list \<Rightarrow> nat \<Rightarrow> nat \<Rightarrow> int" where
  "nm_strcmp_p xs a b = c_strcmp (xs ! a) (xs ! b)"

definition nm_strcmp_p_with_data :: "string list \<Rightarrow> nat \<Rightarrow> nat \<Rightarrow> 'd \<Rightarrow> int" where
  "nm_strcmp_p_with_data xs a b user_data = c_strcmp (xs ! a) (xs ! b)"

definition nm_streq :: "string \<Rightarrow> string \<Rightarrow> bool" where
  "nm_streq s1 s2 \<longleftrightarrow> c_strcmp s1 s2 = 0"

text \<open>\<open>g_strcmp0\<close> puts NULL before every string.\<close>

fun g_strcmp0 :: "cstr \<Rightarrow> cstr \<Rightarrow> int" where
  "g_strcmp0 None b = (if b = None then 0 else -1)"
| "g_strcmp0 (Some s) None = 1"
| "g_strcmp0 (Some s) (Some t) = c_strcmp s t"

definition nm_streq0 :: "cstr \<Rightarrow> cstr \<Rightarrow> bool" where
  "nm_streq0 s1 s2 \<longleftrightarrow> g_strcmp0 s1 s2 = 0"

definition nm_strstrip :: "cstr \<Rightarrow> cstr" where
  "nm_strstrip str = map_option (\<lambda>s. g_strchomp (dropWhile g_ascii_isspace s)) str"

text \<open>\<open>g_snprintf\<close> of a text into a buffer of \<open>n\<close> bytes. The buffer of \<open>nm_sprintf_buf\<close> must not have the
  size of a pointer, and that of \<open>nm_sprintf_bufa\<close> not be empty, or the program does not compile.\<close>

definition g_snprintf :: "nat \<Rightarrow> string \<Rightarrow> string" where
  "g_snprintf n s = (if n = 0 then [] else take (n - 1) s)"

definition nm_sprintf_buf :: "nat \<Rightarrow> string \<Rightarrow> string option" where
  "nm_sprintf_buf n s = (if n \<noteq> 8 then Some (g_snprintf n s) else None)"

definition nm_sprintf_bufa :: "nat \<Rightarrow> string \<Rightarrow> string option" where
  "nm_sprintf_bufa n s = (if max n 1 = n then Some (g_snprintf n s) else None)"

text \<open>The function \<open>G_DEFINE_QUARK\<close> defines, with its static variable: 0 is a quark not asked for yet.
  Interning gives the quark and counts as a call.\<close>

definition quark_fn :: "(string \<Rightarrow> u32) \<Rightarrow> string \<Rightarrow> u32 \<times> nat \<Rightarrow> u32 \<times> (u32 \<times> nat)" where
  "quark_fn intern name st =
     (let (q, calls) = st; (q, calls) = (if q = 0 then (intern name, calls + 1) else (q, calls)) in (q, (q, calls)))"

section \<open>Replacements for older GLib\<close>

text \<open>What \<open>g_clear_pointer\<close> does to the variable and to what it pointed to, in order.\<close>

datatype pointer_act = SetPointer nat | DestroyPointee nat

definition g_clear_pointer :: "nat \<Rightarrow> pointer_act list" where
  "g_clear_pointer p = (if p \<noteq> 0 then [SetPointer 0, DestroyPointee p] else [])"

definition nm_auto_free_gstring_impl :: "nat \<Rightarrow> nat list" where
  "nm_auto_free_gstring_impl v = (if v \<noteq> 0 then [v] else [])"

text \<open>The assertion of \<open>g_assert_cmpmem\<close>: the lengths first, then as many bytes.\<close>

datatype cmpmem_result = CmpmemPassed | LengthsDiffer nat nat | ContentsDiffer

definition g_assert_cmpmem :: "string \<Rightarrow> nat \<Rightarrow> string \<Rightarrow> nat \<Rightarrow> cmpmem_result" where
  "g_assert_cmpmem m1 l1 m2 l2 =
     (if l1 \<noteq> l2 then LengthsDiffer l1 l2
      else if take l1 m1 \<noteq> take l1 m2 then ContentsDiffer
      else CmpmemPassed)"

text \<open>\<open>_g_key_file_save_to_file\<close>: a NULL key file or file name, or an error location that already holds one, is
  refused; \<open>None\<close> is the failed \<open>g_assert\<close>. The error location is \<open>None\<close> when NULL, and holds \<open>None\<close> when unset.\<close>

definition g_key_file_save_to_file ::
  "('kf \<Rightarrow> string option) \<Rightarrow> (string \<Rightarrow> string \<Rightarrow> 'e + unit) \<Rightarrow> 'kf option \<Rightarrow> cstr \<Rightarrow> 'e option option \<Rightarrow>
     (bool \<times> 'e option option) option" where
  "g_key_file_save_to_file to_data set_contents key_file filename error =
     (case (key_file, filename) of
        (Some kf, Some name) \<Rightarrow>
          (case error of
             Some (Some e) \<Rightarrow> Some (False, error)
           | _ \<Rightarrow>
               (case to_data kf of
                  None \<Rightarrow> None
                | Some contents \<Rightarrow>
                    (case set_contents name contents of
                       Inl e \<Rightarrow> Some (False, map_option (\<lambda>_. Some e) error)
                     | Inr _ \<Rightarrow> Some (True, error))))
      | _ \<Rightarrow> Some (False, error))"

text \<open>\<open>__g_test_add_data_func_full\<close> without GLib's own: the paths of the tests registered.\<close>

definition g_test_add_data_func_full :: "cstr \<Rightarrow> bool \<Rightarrow> string list \<Rightarrow> string list" where
  "g_test_add_data_func_full testpath has_func registered =
     (case testpath of
        None \<Rightarrow> registered
      | Some path \<Rightarrow>
          if take 1 path \<noteq> ''/'' then registered
          else if \<not> has_func then registered
          else registered @ [path])"

end
