(* ===== verification/Logging.thy ===== *)
theory Logging
  imports Service_Main Helper Macros
begin

text \<open>
  Logging: the variadic macros that count and split arguments, the format directives in use, the \<open>_NMLOG\<close>
  macros of the service and of its helper, the messages of the child-exit callback, and the
  remaining tables \<open>main\<close> sets up: the signal dispositions and the virtual methods.
\<close>

section \<open>Counting macro arguments\<close>

text \<open>The preprocessor's view: a macro argument, or one of the tokens a macro adds. Choosing beyond the end of
  the list is an error of the preprocessor.\<close>

datatype 'a macro_token = Arg 'a | ONE | TWOORMORE | Throwaway | Count nat

definition macro_select :: "nat \<Rightarrow> 'a macro_token list \<Rightarrow> 'a macro_token option" where
  "macro_select n toks = (if n < length toks then Some (toks ! n) else None)"

definition NM_UTILS_MACRO_FIRST :: "'a list \<Rightarrow> 'a macro_token" where
  "NM_UTILS_MACRO_FIRST args = hd (map Arg args @ [Throwaway])"

definition NM_UTILS_MACRO_REST_NUM :: "'a list \<Rightarrow> 'a macro_token option" where
  "NM_UTILS_MACRO_REST_NUM args = macro_select 19 (map Arg args @ replicate 18 TWOORMORE @ [ONE, Throwaway])"

definition NM_UTILS_MACRO_REST :: "'a list \<Rightarrow> 'a list option" where
  "NM_UTILS_MACRO_REST args =
     (case NM_UTILS_MACRO_REST_NUM args of
        Some ONE \<Rightarrow> if length args = 1 then Some [] else None
      | Some TWOORMORE \<Rightarrow> if length args \<ge> 2 then Some (tl args) else None
      | _ \<Rightarrow> None)"

definition NM_NARG :: "'a list \<Rightarrow> 'a macro_token option" where
  "NM_NARG args = macro_select 63 (map Arg args @ map Count (rev [0..<64]))"

lemma narg_counts: "NM_NARG args = (if length args \<le> 63 then Some (Count (length args)) else Some (Arg (args ! 63)))"
  by (simp add: NM_NARG_def macro_select_def nth_append rev_nth del: upt_Suc)

lemma rest_num_cases:
  assumes "args \<noteq> []"
  shows "NM_UTILS_MACRO_REST_NUM args =
     (if length args = 1 then Some ONE else if length args \<le> 19 then Some TWOORMORE else Some (Arg (args ! 19)))"
proof -
  have "1 \<le> length args" using assms by (cases args) auto
  then consider "length args = 1" | "2 \<le> length args" "length args \<le> 19" | "length args \<ge> 20" by linarith
  then show ?thesis
    by cases (auto simp: NM_UTILS_MACRO_REST_NUM_def macro_select_def nth_append)
qed

text \<open>The macros split any argument list of one to nineteen arguments into its first and the others, and do
  not expand for a longer one.\<close>

theorem macro_split:
  assumes "args \<noteq> []"
  shows "NM_UTILS_MACRO_FIRST args = Arg (hd args) \<and>
    NM_UTILS_MACRO_REST args = (if length args \<le> 19 then Some (tl args) else None)"
proof -
  have "length args = 1 \<or> 2 \<le> length args" "length args = 1 \<longrightarrow> tl args = []"
    using assms by (cases args; simp add: Suc_le_eq; cases "tl args"; simp)+
  then show ?thesis
    using assms by (auto simp: NM_UTILS_MACRO_FIRST_def NM_UTILS_MACRO_REST_def rest_num_cases hd_append hd_map)
qed

section \<open>Formatting\<close>

datatype parg = PInt int | PStr string

definition pad_right :: "nat \<Rightarrow> string \<Rightarrow> string" where
  "pad_right n s = s @ replicate (n - length s) (CHR '' '')"

text \<open>The directives the log macros and messages use; anything else, or an argument of another type, is
  outside the C standard's guarantees.\<close>

definition directive :: "string \<Rightarrow> ((parg \<Rightarrow> string option) \<times> string) option" where
  "directive f =
     (let int_arg = (\<lambda>a. case a of PInt i \<Rightarrow> Some (show_int i) | PStr s \<Rightarrow> None);
          str_arg = (\<lambda>n a. case a of PInt i \<Rightarrow> None | PStr s \<Rightarrow> Some (pad_right n s))
      in if take 1 f = ''d'' then Some (int_arg, drop 1 f)
         else if take 2 f = ''ld'' then Some (int_arg, drop 2 f)
         else if take 1 f = ''s'' then Some (str_arg 0, drop 1 f)
         else if take 3 f = ''-7s'' then Some (str_arg 7, drop 3 f)
         else None)"

lemma directive_shorter: "directive f = Some (g, r) \<Longrightarrow> length r \<le> length f"
  by (auto simp: directive_def Let_def split: if_splits)

function printf :: "string \<Rightarrow> parg list \<Rightarrow> string option" where
  "printf [] args = Some []"
| "printf (c # f) args =
     (if c \<noteq> CHR ''%'' then map_option ((#) c) (printf f args)
      else case directive f of
             None \<Rightarrow> None
           | Some (g, r) \<Rightarrow>
               (case args of
                  [] \<Rightarrow> None
                | a # as \<Rightarrow> (case g a of None \<Rightarrow> None | Some t \<Rightarrow> map_option ((@) t) (printf r as))))"
  by pat_completeness auto
termination
  by (relation "measure (\<lambda>(f, args). length f)") (auto dest!: directive_shorter)

declare printf.simps [simp del]

lemma directive_newline:
  "directive (f @ [CHR 0x0A]) = (case directive f of None \<Rightarrow> None | Some (g, r) \<Rightarrow> Some (g, r @ [CHR 0x0A]))"
proof -
  consider "f = []" | c where "f = [c]" | c d where "f = [c, d]" | c d e r where "f = c # d # e # r"
    by (metis neq_Nil_conv)
  then show ?thesis by cases (simp_all add: directive_def Let_def)
qed

lemma printf_newline: "printf (f @ [CHR 0x0A]) args = map_option (\<lambda>m. m @ [CHR 0x0A]) (printf f args)"
proof (induction f args rule: printf.induct)
  case (2 c f args)
  then show ?case
    by (simp add: printf.simps(2) directive_newline option.map_comp comp_def split: option.split list.split)
qed (simp add: printf.simps)

text \<open>A format without a directive at its front.\<close>

lemma printf_plain: "CHR ''%'' \<notin> set t \<Longrightarrow> printf (t @ f) args = map_option ((@) t) (printf f args)"
proof (induction t)
  case Nil
  show ?case by (cases "printf f args") simp_all
next
  case (Cons c t)
  then have "c \<noteq> CHR ''%''" by auto
  with Cons have "printf ((c # t) @ f) args = map_option ((#) c) (map_option ((@) t) (printf f args))"
    by (simp add: printf.simps(2))
  then show ?case by (cases "printf f args") simp_all
qed

lemma printf_int:
  "printf (CHR ''%'' # CHR ''d'' # f) (PInt i # as) = map_option ((@) (show_int i)) (printf f as)"
  "printf (CHR ''%'' # CHR ''l'' # CHR ''d'' # f) (PInt i # as) = map_option ((@) (show_int i)) (printf f as)"
  by (simp_all add: printf.simps(2) directive_def Let_def)

lemma printf_str:
  "printf (CHR ''%'' # CHR ''s'' # f) (PStr t # as) = map_option ((@) t) (printf f as)"
  "printf (CHR ''%'' # CHR ''-'' # CHR ''7'' # CHR ''s'' # f) (PStr t # as) = map_option ((@) (pad_right 7 t)) (printf f as)"
  by (simp_all add: printf.simps(2) directive_def Let_def pad_right_def)

lemma printf_code: "CHR ''%'' \<notin> set t \<Longrightarrow> printf (t @ ''%d'') [PInt i] = Some (t @ show_int i)"
  using printf_plain [of t "''%d''" "[PInt i]"] by (simp add: printf_int printf.simps(1))

section \<open>The log macros\<close>

text \<open>\<open>_NMLOG\<close> of the service and of the helper: nothing above the level, else the line, or \<open>None\<close> when the
  call is not well-formed.\<close>

definition service_NMLOG :: "int \<Rightarrow> int \<Rightarrow> int \<Rightarrow> parg list \<Rightarrow> string option" where
  "service_NMLOG gl_level getpid level args =
     (if gl_level \<ge> level then
        (case (NM_UTILS_MACRO_FIRST args, NM_UTILS_MACRO_REST args) of
           (Arg (PStr fmt), Some rest) \<Rightarrow>
             printf (''nm-gpclient[%ld] %-7s '' @ fmt @ [CHR 0x0A]) ([PInt getpid, PStr (nm_utils_syslog_to_str level)] @ rest)
         | _ \<Rightarrow> None)
      else Some [])"

definition helper_NMLOG :: "int \<Rightarrow> string \<Rightarrow> int \<Rightarrow> int \<Rightarrow> parg list \<Rightarrow> string option" where
  "helper_NMLOG gl_level log_prefix_token getpid level args =
     (if gl_level \<ge> level then
        (case (NM_UTILS_MACRO_FIRST args, NM_UTILS_MACRO_REST args) of
           (Arg (PStr fmt), Some rest) \<Rightarrow>
             printf (''nm-gpclient[%s] %-7s [helper-%ld] '' @ fmt @ [CHR 0x0A])
               ([PStr log_prefix_token, PStr (nm_utils_syslog_to_str level), PInt getpid] @ rest)
         | _ \<Rightarrow> None)
      else Some [])"

text \<open>What every line starts with.\<close>

definition log_head :: "string \<Rightarrow> int \<Rightarrow> string" where
  "log_head token level = ''nm-gpclient['' @ token @ ''] '' @ pad_right 7 (nm_utils_syslog_to_str level) @ '' ''"

lemma service_NMLOG_line:
  assumes "length args \<le> 18"
  shows "service_NMLOG gl_level getpid level (PStr fmt # args) =
    (if gl_level \<ge> level then map_option (\<lambda>m. log_head (show_int getpid) level @ m @ [CHR 0x0A]) (printf fmt args) else Some [])"
proof -
  have "printf (''nm-gpclient[%ld] %-7s '' @ fmt @ [CHR 0x0A]) (PInt getpid # PStr t # args) =
      map_option (\<lambda>m. ''nm-gpclient['' @ show_int getpid @ ''] '' @ pad_right 7 t @ '' '' @ m @ [CHR 0x0A]) (printf fmt args)" for t
    using printf_plain [of "''nm-gpclient[''" "''%ld] %-7s '' @ fmt @ [CHR 0x0A]"] printf_plain [of "''] ''" "''%-7s '' @ fmt @ [CHR 0x0A]"]
      printf_plain [of "'' ''" "fmt @ [CHR 0x0A]"]
    by (simp add: printf_int printf_str printf_newline option.map_comp comp_def)
  with assms show ?thesis
    using macro_split [of "PStr fmt # args"] by (simp add: service_NMLOG_def log_head_def)
qed

lemma helper_NMLOG_line:
  assumes "length args \<le> 18"
  shows "helper_NMLOG gl_level token getpid level (PStr fmt # args) =
    (if gl_level \<ge> level
     then map_option (\<lambda>m. log_head token level @ ''[helper-'' @ show_int getpid @ ''] '' @ m @ [CHR 0x0A]) (printf fmt args)
     else Some [])"
proof -
  have "printf (''nm-gpclient[%s] %-7s [helper-%ld] '' @ fmt @ [CHR 0x0A]) (PStr token # PStr t # PInt getpid # args) =
      map_option (\<lambda>m. ''nm-gpclient['' @ token @ ''] '' @ pad_right 7 t @ '' [helper-'' @ show_int getpid @ ''] '' @ m @ [CHR 0x0A])
        (printf fmt args)" for t
    using printf_plain [of "''nm-gpclient[''" "''%s] %-7s [helper-%ld] '' @ fmt @ [CHR 0x0A]"]
      printf_plain [of "''] ''" "''%-7s [helper-%ld] '' @ fmt @ [CHR 0x0A]"]
      printf_plain [of "'' [helper-''" "''%ld] '' @ fmt @ [CHR 0x0A]"] printf_plain [of "''] ''" "fmt @ [CHR 0x0A]"]
    by (simp add: printf_int printf_str printf_newline option.map_comp comp_def)
  with assms show ?thesis
    using macro_split [of "PStr fmt # args"] by (simp add: helper_NMLOG_def log_head_def)
qed

text \<open>The helper's prefix, and its switch for messages that are costly to make.\<close>

definition helper_log_prefix_token :: "helper_sys \<Rightarrow> string" where
  "helper_log_prefix_token sys = (case getenv sys ''NM_VPN_LOG_PREFIX_TOKEN'' of Some t \<Rightarrow> t | None \<Rightarrow> ''???'')"

definition helper_LOGD_enabled :: "int \<Rightarrow> bool" where
  "helper_LOGD_enabled gl_level \<longleftrightarrow> gl_level \<ge> LOG_INFO"

section \<open>What the exit of the child logs\<close>

text \<open>The level and the arguments of the one call of the log macros \<open>openconnect_watch_cb\<close> makes, if any.\<close>

definition exit_log :: "bool \<Rightarrow> u32 \<Rightarrow> (int \<times> parg list) option" where
  "exit_log requested status =
     (if requested then
        Some (LOG_NOTICE,
          if WIFEXITED status
          then [PStr ''gpclient exited after requested disconnect with code %d'', PInt (uint (WEXITSTATUS status))]
          else if WIFSIGNALED status
          then [PStr ''gpclient stopped after requested disconnect with signal %d'', PInt (uint (WTERMSIG status))]
          else [PStr ''gpclient stopped after requested disconnect''])
      else if WIFEXITED status then
        (if WEXITSTATUS status \<noteq> 0
         then Some (LOG_WARNING, [PStr ''gpclient exited with error code %d'', PInt (uint (WEXITSTATUS status))])
         else None)
      else if WIFSTOPPED status
      then Some (LOG_WARNING, [PStr ''gpclient stopped unexpectedly with signal %d'', PInt (uint (WEXITSTATUS status))])
      else if WIFSIGNALED status
      then Some (LOG_WARNING, [PStr ''gpclient died with signal %d'', PInt (uint (WTERMSIG status))])
      else Some (LOG_WARNING, [PStr ''gpclient died from an unknown cause'']))"

definition logged :: "int \<Rightarrow> int \<Rightarrow> (int \<times> parg list) option \<Rightarrow> string option" where
  "logged gl_level getpid call =
     (case call of None \<Rightarrow> Some [] | Some (level, args) \<Rightarrow> service_NMLOG gl_level getpid level args)"

text \<open>The log tells what was reported to NetworkManager: for an exit nobody asked for, a failure exactly when
  its code is logged, as a warning, 2 for a failed login and 1 for a failed connection; nothing is logged
  only for a clean exit.\<close>

theorem exit_log_matches_report:
  "(exit_report status = ReportFailure LOGIN_FAILED \<longleftrightarrow>
      exit_log False status = Some (LOG_WARNING, [PStr ''gpclient exited with error code %d'', PInt 2])) \<and>
   (exit_report status = ReportFailure CONNECT_FAILED \<longleftrightarrow>
      exit_log False status = Some (LOG_WARNING, [PStr ''gpclient exited with error code %d'', PInt 1])) \<and>
   (exit_log False status = None \<longleftrightarrow> WIFEXITED status \<and> WEXITSTATUS status = 0) \<and>
   (exit_log False status = None \<longrightarrow> exit_report status = ReportDisconnect)"
proof -
  have "uint x = 2 \<longleftrightarrow> x = 2" "uint x = 1 \<longleftrightarrow> x = 1" for x :: u32
    by (auto simp: word_uint_eq_iff)
  then show ?thesis by (auto simp: exit_report_def exit_log_def)
qed

text \<open>Every message of the callback is well-formed, and a warning is written at every level from warnings on.\<close>

theorem exit_log_is_written:
  "\<exists>line. logged gl_level getpid (exit_log requested status) = Some line \<and>
    (exit_log requested status = None \<or> gl_level < (if requested then LOG_NOTICE else LOG_WARNING) \<longleftrightarrow> line = [])"
proof -
  have m: "printf ''gpclient exited after requested disconnect with code %d'' [PInt i] \<noteq> None"
    "printf ''gpclient stopped after requested disconnect with signal %d'' [PInt i] \<noteq> None"
    "printf ''gpclient stopped after requested disconnect'' [] \<noteq> None"
    "printf ''gpclient exited with error code %d'' [PInt i] \<noteq> None"
    "printf ''gpclient stopped unexpectedly with signal %d'' [PInt i] \<noteq> None"
    "printf ''gpclient died with signal %d'' [PInt i] \<noteq> None"
    "printf ''gpclient died from an unknown cause'' [] \<noteq> None" for i
    using printf_code [of "''gpclient exited after requested disconnect with code ''" i]
      printf_code [of "''gpclient stopped after requested disconnect with signal ''" i]
      printf_plain [of "''gpclient stopped after requested disconnect''" "[]" "[]"]
      printf_code [of "''gpclient exited with error code ''" i]
      printf_code [of "''gpclient stopped unexpectedly with signal ''" i]
      printf_code [of "''gpclient died with signal ''" i]
      printf_plain [of "''gpclient died from an unknown cause''" "[]" "[]"]
    by (simp_all only: append.simps list.set insert_iff empty_iff char.inject simp_thms printf.simps(1) option.map option.distinct)
  have w: "\<exists>line. logged gl_level getpid (Some (level, PStr fmt # args)) = Some line \<and> (gl_level < level \<longleftrightarrow> line = [])"
    if "printf fmt args \<noteq> None" "length args \<le> 18" for level fmt args
    using that by (auto simp: logged_def service_NMLOG_line log_head_def)
  show ?thesis
  proof (cases "exit_log requested status")
    case None
    then show ?thesis by (simp add: logged_def)
  next
    case (Some call)
    then obtain fmt args where "call = (if requested then LOG_NOTICE else LOG_WARNING, PStr fmt # args)"
      "printf fmt args \<noteq> None" "length args \<le> 18"
      using m by (auto simp: exit_log_def split: if_splits)
    with Some w show ?thesis by auto
  qed
qed

section \<open>Signals and virtual methods\<close>

text \<open>The disposition of each signal; \<open>None\<close> is the default.\<close>

type_synonym dispositions = "int \<Rightarrow> (int \<Rightarrow> service \<Rightarrow> service) option"

definition setup_signals :: "dispositions \<Rightarrow> dispositions" where
  "setup_signals disp = (disp(SIGTERM \<mapsto> signal_handler))(SIGINT \<mapsto> signal_handler)"

record plugin_class =
  class_connect :: "config \<Rightarrow> get_flags \<Rightarrow> sys \<Rightarrow> connection \<Rightarrow> service \<Rightarrow> connect_result \<times> service"
  class_need_secrets :: "get_flags \<Rightarrow> sys \<Rightarrow> connection \<Rightarrow> service \<Rightarrow> (gerror + cstr) \<times> service"
  class_disconnect :: "sys \<Rightarrow> service \<Rightarrow> service"

definition nm_openconnect_plugin_class_init :: "plugin_class \<Rightarrow> plugin_class" where
  "nm_openconnect_plugin_class_init parent_class =
     parent_class\<lparr>class_connect := real_connect, class_need_secrets := real_need_secrets, class_disconnect := real_disconnect\<rparr>"

text \<open>Exactly the two signals with a handler end the loop, and each handler does.\<close>

theorem signals_end_the_loop:
  "(case setup_signals (\<lambda>signo. None) signo of
      None \<Rightarrow> signo \<noteq> SIGINT \<and> signo \<noteq> SIGTERM
    | Some h \<Rightarrow> (signo = SIGINT \<or> signo = SIGTERM) \<and> loop_quit (h signo s))"
  by (simp add: setup_signals_def signal_handler_def SIGINT_def SIGTERM_def)

end
