(* ===== verification/Helper_Facts.thy ===== *)
theory Helper_Facts
  imports Helper
begin

text \<open>
  What \<open>nm-gpclient-service-helper\<close> makes of the environment: the list splitters, the routes, the
  values it accepts, and which calls it makes.
\<close>

section \<open>Domain lists\<close>

lemma compact_empty:
  "i < length split \<Longrightarrow> split ! i = Some w \<Longrightarrow> w = [] \<Longrightarrow> compact split i j = compact (split[i := None]) (i + 1) j"
  by (simp add: compact.simps [of split i j])

lemma compact_word:
  "i < length split \<Longrightarrow> split ! i = Some w \<Longrightarrow> w \<noteq> [] \<Longrightarrow>
     compact split i j = compact (if j \<noteq> i then (split[j := Some w])[i := None] else split) (i + 1) (j + 1)"
  by (simp add: compact.simps [of split i j])

lemma compact_invariant:
  "compact (map Some ws @ replicate k None @ map Some rest) (length ws + k) (length ws) =
     (map Some (ws @ filter (\<lambda>w. w \<noteq> []) rest) @ replicate (k + length (filter (\<lambda>w. w = []) rest)) None,
      length ws + length (filter (\<lambda>w. w \<noteq> []) rest))"
proof (induction rest arbitrary: ws k)
  case Nil
  then show ?case by (simp add: compact.simps)
next
  case (Cons x rest)
  let ?split = "map Some ws @ replicate k None @ map Some (x # rest)"
  have nth: "?split ! (length ws + k) = Some x" by (simp add: nth_append)
  have len: "length ws + k < length ?split" by simp
  show ?case
  proof (cases "x = []")
    case True
    have "?split[length ws + k := None] = map Some ws @ replicate (k + 1) None @ map Some rest"
      by (simp add: list_update_append replicate_append_same flip: replicate_Suc)
    with compact_empty [OF len nth True, of "length ws"] Cons.IH [of ws "k + 1"] True
    show ?thesis by (simp del: list.map)
  next
    case False
    have "(if length ws \<noteq> length ws + k then ?split[length ws := Some x, length ws + k := None] else ?split) =
        map Some (ws @ [x]) @ replicate k None @ map Some rest"
    proof (cases k)
      case (Suc m)
      then show ?thesis
        by (simp add: list_update_append replicate_app_Cons_same)
    qed simp
    with compact_word [OF len nth False, of "length ws"] Cons.IH [of "ws @ [x]" k] False
    show ?thesis by (simp del: list.map)
  qed
qed

lemma takeWhile_somes: "takeWhile (\<lambda>w. \<exists>y. w = Some y) (map Some ws @ replicate n None) = map Some ws"
  by (induction ws) (cases n, auto)

lemma split_dns_words:
  "split_dns_list_to_gvariant (Some s) =
     (case filter (\<lambda>w. w \<noteq> []) (split_pieces (\<lambda>c. c = CHR '','' \<or> c = CHR '' '') s) of
        [] \<Rightarrow> None | words \<Rightarrow> Some (GStrv words))"
proof (cases "s = []")
  case False
  let ?ws = "split_pieces (\<lambda>c. c = CHR '','' \<or> c = CHR '' '') s"
  have split: "g_strsplit_set s '', '' = ?ws"
    using False by (simp add: g_strsplit_set_def)
  have "compact (map Some ?ws) 0 0 =
      (map Some (filter (\<lambda>w. w \<noteq> []) ?ws) @ replicate (length (filter (\<lambda>w. w = []) ?ws)) None,
       length (filter (\<lambda>w. w \<noteq> []) ?ws))"
    using compact_invariant [of "[]" 0 ?ws] by simp
  with False split show ?thesis
    by (auto simp: split_dns_list_to_gvariant_def g_variant_new_strv_def takeWhile_somes comp_def split: list.splits)
qed (simp add: split_dns_list_to_gvariant_def)

text \<open>C30: A search-domain list becomes the list of its non-empty pieces between commas and blanks, in
  their order, or nothing when there is none: the in-place compaction loses and invents none.\<close>

theorem split_dns_is_words:
  "split_dns_list_to_gvariant (Some s) =
     (case filter (\<lambda>w. w \<noteq> []) (split_pieces (\<lambda>c. c = CHR '','' \<or> c = CHR '' '') s) of
        [] \<Rightarrow> None | words \<Rightarrow> Some (GStrv words))"
  by (rule split_dns_words)

section \<open>Server lists\<close>

lemma addr46_loop_all:
  "addr46_loop sys ws b4 b6 =
     (if list_all (\<lambda>w. \<not> (inet_pton4 w = None \<and> addr6_bytes sys (Some w) = None)) ws
      then Some (b4 @ List.map_filter inet_pton4 ws,
                 b6 @ List.map_filter (\<lambda>w. addr6_bytes sys (Some w)) (filter (\<lambda>w. inet_pton4 w = None) ws))
      else None)"
  by (induction ws arbitrary: b4 b6) (auto simp: map_filter_simps split: option.splits)

text \<open>A DNS server list is all or nothing: when every blank-separated entry is an address, the
  IPv4 and the IPv6 ones are separated, each in their order; when one is not, and an extra blank is
  enough, all servers are dropped.\<close>

theorem dns_all_or_nothing:
  "addr46_list_to_gvariant sys (Some s) =
     (let ws = g_strsplit_char s CHR '' '';
          v4 = List.map_filter inet_pton4 ws;
          v6 = List.map_filter (\<lambda>w. addr6_bytes sys (Some w)) (filter (\<lambda>w. inet_pton4 w = None) ws)
      in if list_all (\<lambda>w. \<not> (inet_pton4 w = None \<and> addr6_bytes sys (Some w) = None)) ws
         then (if v4 \<noteq> [] then Some (GUint32s v4) else None, if v6 \<noteq> [] then Some (GAddr6s v6) else None)
         else (None, None))"
  by (simp add: addr46_list_to_gvariant_def addr46_loop_all g_strsplit_char_def Let_def map_filter_simps)

section \<open>Routes\<close>

fun route_of :: "'r turn \<Rightarrow> 'r option" where
  "route_of (Route r) = Some r" | "route_of _ = None"

fun is_default :: "'r turn \<Rightarrow> bool" where
  "is_default Default = True" | "is_default _ = False"

lemma routes_loop_collects:
  "routes_loop turn i num routes d =
     (routes @ List.map_filter (\<lambda>k. route_of (turn k)) [i..num - 1],
      d \<or> list_ex (\<lambda>k. is_default (turn k)) [i..num - 1])"
proof (induction turn i num routes d rule: routes_loop.induct)
  case (1 turn i num routes d)
  show ?case
  proof (cases "i < num")
    case True
    then have "[i..num - 1] = i # [i + 1..num - 1]" by (intro upto_rec1) simp
    with True 1 show ?thesis
      by (cases "turn i") (simp_all add: routes_loop.simps [of turn i] map_filter_simps)
  qed (simp add: routes_loop.simps map_filter_simps)
qed

text \<open>C18: The IPv4 split routes are exactly the valid entries, in the order of their numbers below the
  announced count; the default-route flag is raised exactly when it was already or some entry is a
  route of prefix length 0. Invalid entries and entries past the count are ignored.\<close>

theorem ip4_routes_spec:
  "get_ip4_routes sys d =
     (case getenv sys ''CISCO_SPLIT_INC'' of
        None \<Rightarrow> (None, d)
      | Some n \<Rightarrow>
          (case List.map_filter (\<lambda>k. route_of (ip4_route sys k)) [0..atoi n - 1] of [] \<Rightarrow> None | rs \<Rightarrow> Some (GRoutes4 rs),
           d \<or> list_ex (\<lambda>k. is_default (ip4_route sys k)) [0..atoi n - 1]))"
proof -
  have "atoi [] = 0" by (simp add: atoi_def)
  then show ?thesis
    by (auto simp: get_ip4_routes_def routes_loop_collects map_filter_simps split: option.splits list.splits)
qed

lemma parse_masklen_range: "parse_masklen tmp hi = Some w \<Longrightarrow> 0 \<le> hi \<Longrightarrow> hi < 2 ^ 31 \<Longrightarrow> uint w \<le> hi"
  by (auto simp: parse_masklen_def Let_def word_of_int_inverse take_bit_int_eq_self uint_word_of_int
      split: prod.splits if_splits)

lemma ip4_route_Route:
  assumes "ip4_route sys i = Route (n, p, h, m)" "\<And>a. h_netmask_to_prefix sys a \<le> 32"
  shows "0 < p \<and> p \<le> 32 \<and> h = 0 \<and> m = 0 \<and>
    (\<exists>addr. getenv sys (inc_var ''CISCO_SPLIT_INC_'' i ''_ADDR'') = Some addr \<and> inet_pton4 addr = Some n)"
proof -
  have len: "w \<le> 32" if "parse_masklen tmp 32 = Some w" for tmp w
    using parse_masklen_range [OF that] by (simp add: word_le_def)
  show ?thesis
    using assms(1) len assms(2)
    by (auto simp: ip4_route_def word_gt_0 split: option.splits if_splits)
qed

text \<open>C40: Every IPv4 route sent has a prefix length between 1 and 32, no next hop and metric 0, and
  its network is the address given for one of the entries below the count (netmasks being
  converted to at most 32).\<close>

theorem ip4_routes_bounds:
  assumes "get_ip4_routes sys d = (Some v, nd)" "\<And>a. h_netmask_to_prefix sys a \<le> 32"
  shows "\<exists>rs. v = GRoutes4 rs \<and> rs \<noteq> [] \<and>
    (\<forall>(n, p, h, m) \<in> set rs. 0 < p \<and> p \<le> 32 \<and> h = 0 \<and> m = 0 \<and>
       (\<exists>i addr. 0 \<le> i \<and> i < atoi (the (getenv sys ''CISCO_SPLIT_INC'')) \<and>
          getenv sys (inc_var ''CISCO_SPLIT_INC_'' i ''_ADDR'') = Some addr \<and> inet_pton4 addr = Some n))"
proof -
  from assms(1) obtain num where num: "getenv sys ''CISCO_SPLIT_INC'' = Some num"
    and v: "v = GRoutes4 (List.map_filter (\<lambda>k. route_of (ip4_route sys k)) [0..atoi num - 1])"
      "List.map_filter (\<lambda>k. route_of (ip4_route sys k)) [0..atoi num - 1] \<noteq> []"
    by (auto simp: get_ip4_routes_def routes_loop_collects split: option.splits if_splits)
  have "0 < p \<and> p \<le> 32 \<and> h = 0 \<and> m = 0 \<and> (\<exists>i addr. 0 \<le> i \<and> i < atoi num \<and>
      getenv sys (inc_var ''CISCO_SPLIT_INC_'' i ''_ADDR'') = Some addr \<and> inet_pton4 addr = Some n)"
    if "(n, p, h, m) \<in> set (List.map_filter (\<lambda>k. route_of (ip4_route sys k)) [0..atoi num - 1])" for n p h m
  proof -
    from that obtain i where i: "0 \<le> i" "i < atoi num" "route_of (ip4_route sys i) = Some (n, p, h, m)"
      by (auto simp: List.map_filter_def)
    then have "ip4_route sys i = Route (n, p, h, m)" by (cases "ip4_route sys i") auto
    with ip4_route_Route [OF this assms(2)] i show ?thesis by blast
  qed
  with v num show ?thesis by auto
qed

text \<open>A prefix length without a single digit is taken for 0: the entry is not ignored as invalid
  but announces a default route, which keeps the never-default mark from the whole connection.\<close>

theorem garbage_masklen_is_default:
  assumes "getenv sys (inc_var ''CISCO_SPLIT_INC_'' i ''_ADDR'') = Some addr" "inet_pton4 addr = Some n"
    and "getenv sys (inc_var ''CISCO_SPLIT_INC_'' i ''_MASKLEN'') = Some txt"
    and "takeWhile is_digit (snd (take_sign (dropWhile c_isspace txt))) = []"
  shows "ip4_route sys i = Default"
  using assms by (simp add: ip4_route_def parse_masklen_def strtol10_no_digits)

section \<open>Text and numbers\<close>

text \<open>The conversion of texts that are not UTF-8 never helps: when converting from UTF-8 fails on
  such texts, as GLib documents, a banner in another character set is dropped, just as without the
  conversion.\<close>

theorem text_conversion_is_dead:
  assumes "\<And>s to_cs. \<not> h_utf8 sys s \<Longrightarrow> h_convert sys s to_cs ''UTF-8'' = None"
  shows "str_to_gvariant sys str try_convert =
    (case str of Some s \<Rightarrow> if s \<noteq> [] \<and> h_utf8 sys s then Some (GString s) else None | None \<Rightarrow> None)"
  using assms by (auto simp: str_to_gvariant_def g_variant_new_string_def g_convert_null_def split: option.splits)

lemma mtu_value_bounds: "mtu_value sys = Some (GUint32 w) \<Longrightarrow> uint w \<le> 20000"
  by (auto simp: mtu_value_def Let_def uint_word_of_int take_bit_int_eq_self split: option.splits if_splits prod.splits)

section \<open>The IPv4 and IPv6 dictionaries\<close>

lemma add_simps [simp]:
  "c_builder (add_conf k v c) = c_builder c @ [(k, v)]" "c_ip4builder (add_conf k v c) = c_ip4builder c"
  "c_ip6builder (add_conf k v c) = c_ip6builder c" "has_ip4 (add_conf k v c) = has_ip4 c"
  "has_ip6 (add_conf k v c) = has_ip6 c"
  "not_ipv4_never_default (add_conf k v c) = not_ipv4_never_default c"
  "not_ipv6_never_default (add_conf k v c) = not_ipv6_never_default c"
  "c_builder (add_ip4 k v c) = c_builder c" "c_ip4builder (add_ip4 k v c) = c_ip4builder c @ [(k, v)]"
  "c_ip6builder (add_ip4 k v c) = c_ip6builder c" "has_ip4 (add_ip4 k v c) = has_ip4 c"
  "has_ip6 (add_ip4 k v c) = has_ip6 c"
  "not_ipv4_never_default (add_ip4 k v c) = not_ipv4_never_default c"
  "not_ipv6_never_default (add_ip4 k v c) = not_ipv6_never_default c"
  "c_builder (add_ip6 k v c) = c_builder c" "c_ip4builder (add_ip6 k v c) = c_ip4builder c"
  "c_ip6builder (add_ip6 k v c) = c_ip6builder c @ [(k, v)]" "has_ip4 (add_ip6 k v c) = has_ip4 c"
  "has_ip6 (add_ip6 k v c) = has_ip6 c"
  "not_ipv4_never_default (add_ip6 k v c) = not_ipv4_never_default c"
  "not_ipv6_never_default (add_ip6 k v c) = not_ipv6_never_default c"
  by (simp_all add: add_conf_def add_ip4_def add_ip6_def)

text \<open>An optional entry, and the stages as updates of the three dictionaries.\<close>

definition opt_entry :: "cfg_key \<Rightarrow> gvar option \<Rightarrow> vardict" where
  "opt_entry k v = (case v of None \<Rightarrow> [] | Some x \<Rightarrow> [(k, x)])"

lemma opt_entry_simps [simp]: "opt_entry k None = []" "opt_entry k (Some v) = [(k, v)]"
  by (simp_all add: opt_entry_def)

lemma add_opt_update:
  "add_opt add_conf k v c = c\<lparr>c_builder := c_builder c @ opt_entry k v\<rparr>"
  "add_opt add_ip4 k v c = c\<lparr>c_ip4builder := c_ip4builder c @ opt_entry k v\<rparr>"
  "add_opt add_ip6 k v c = c\<lparr>c_ip6builder := c_ip6builder c @ opt_entry k v\<rparr>"
  by (cases v; simp add: add_opt_def add_conf_def add_ip4_def add_ip6_def)+

definition general_dict :: "helper_sys \<Rightarrow> gvar \<Rightarrow> gvar \<Rightarrow> vardict" where
  "general_dict sys gw dev =
     [(EXT_GATEWAY, gw), (CAN_PERSIST, GBool True), (TUNDEV, dev)] @
     opt_entry BANNER (str_to_gvariant sys (getenv sys ''CISCO_BANNER'') True) @
     opt_entry PROXY_PAC (str_to_gvariant sys (getenv sys ''CISCO_PROXY_PAC'') True) @
     opt_entry MTU (mtu_value sys)"

lemma collect_general_eq:
  "collect_general sys empty_collected =
     (case (gateway_value sys, str_to_gvariant sys (getenv sys ''TUNDEV'') False) of
        (None, _) \<Rightarrow> Inl (HelperFailed ''VPN Gateway'')
      | (_, None) \<Rightarrow> Inl (HelperFailed ''Tunnel Device'')
      | (Some gw, Some dev) \<Rightarrow> Inr (empty_collected\<lparr>c_builder := general_dict sys gw dev\<rparr>))"
  by (cases "gateway_value sys"; cases "str_to_gvariant sys (getenv sys ''TUNDEV'') False")
    (simp_all add: collect_general_def add_opt_update add_conf_def general_dict_def empty_collected_def Let_def)

text \<open>The prefix the netmask stands for; 0 is the default route and sent as 32.\<close>

definition netmask4 :: "helper_sys \<Rightarrow> u32 option" where
  "netmask4 sys =
     (case getenv sys ''INTERNAL_IP4_NETMASK'' of None \<Rightarrow> None | Some t \<Rightarrow> map_option (h_netmask_to_prefix sys) (inet_pton4 t))"

lemma collect_ip4_netmask_eq:
  "collect_ip4_netmask sys c =
     (case netmask4 sys of
        None \<Rightarrow> c
      | Some p \<Rightarrow> c\<lparr>c_ip4builder := c_ip4builder c @ [(PREFIX, GUint32 (if p = 0 then 32 else p))],
                    not_ipv4_never_default := (p = 0 \<or> not_ipv4_never_default c)\<rparr>)"
  by (auto simp: collect_ip4_netmask_def netmask4_def add_ip4_def split: option.splits)

definition routes4 :: "helper_sys \<Rightarrow> gvar option" where
  "routes4 sys = fst (get_ip4_routes sys False)"

definition default4 :: "helper_sys \<Rightarrow> bool" where
  "default4 sys \<longleftrightarrow> netmask4 sys = Some 0 \<or> snd (get_ip4_routes sys False)"

lemma get_ip4_routes_flag: "get_ip4_routes sys d = (routes4 sys, d \<or> snd (get_ip4_routes sys False))"
  by (auto simp: routes4_def get_ip4_routes_def routes_loop_collects Let_def split: option.splits)

definition ip4_dict :: "helper_sys \<Rightarrow> vardict" where
  "ip4_dict sys =
     (case addr4_to_gvariant (getenv sys ''INTERNAL_IP4_ADDRESS'') of None \<Rightarrow> [] | Some v \<Rightarrow> [(ADDRESS, v), (PTP, v)]) @
     opt_entry PREFIX (map_option (\<lambda>p. GUint32 (if p = 0 then 32 else p)) (netmask4 sys)) @
     opt_entry DNS (fst (addr46_list_to_gvariant sys (getenv sys ''INTERNAL_IP4_DNS''))) @
     opt_entry NBNS (addr4_list_to_gvariant (getenv sys ''INTERNAL_IP4_NBNS'')) @
     opt_entry DOMAINS (domains_value sys) @
     opt_entry ROUTES (routes4 sys) @
     (if routes4 sys \<noteq> None \<and> \<not> default4 sys then [(NEVER_DEFAULT, GBool True)] else [])"

text \<open>Both IPv4 address stages together.\<close>

lemma collect_ip4_eq:
  "collect_ip4 sys c =
   (if nonempty (getenv sys ''INTERNAL_IP4_ADDRESS'') \<and> addr4_to_gvariant (getenv sys ''INTERNAL_IP4_ADDRESS'') = None
    then Inl (HelperFailed ''IP4 Address'')
    else Inr (collect_ip4_rest sys (collect_ip4_netmask sys
      (c\<lparr>has_ip4 := (has_ip4 c \<or> nonempty (getenv sys ''INTERNAL_IP4_ADDRESS'')),
         c_ip4builder := c_ip4builder c @
           (case addr4_to_gvariant (getenv sys ''INTERNAL_IP4_ADDRESS'') of None \<Rightarrow> [] | Some v \<Rightarrow> [(ADDRESS, v), (PTP, v)])\<rparr>))))"
  by (cases "addr4_to_gvariant (getenv sys ''INTERNAL_IP4_ADDRESS'')"; cases "getenv sys ''INTERNAL_IP4_ADDRESS''")
    (auto simp: collect_ip4_def then_do_def collect_ip4_addr_def collect_ip4_ptp_def add_ip4_def addr4_to_gvariant_def Let_def)

lemma collect_ip4_rest_eq:
  "collect_ip4_rest sys c =
     c\<lparr>c_ip4builder := c_ip4builder c @
         opt_entry DNS (fst (addr46_list_to_gvariant sys (getenv sys ''INTERNAL_IP4_DNS''))) @
         opt_entry NBNS (addr4_list_to_gvariant (getenv sys ''INTERNAL_IP4_NBNS'')) @
         opt_entry DOMAINS (domains_value sys) @ opt_entry ROUTES (routes4 sys) @
         (if routes4 sys \<noteq> None \<and> \<not> (not_ipv4_never_default c \<or> snd (get_ip4_routes sys False))
          then [(NEVER_DEFAULT, GBool True)] else []),
       c_ip6builder := c_ip6builder c @
         opt_entry DNS (snd (addr46_list_to_gvariant sys (getenv sys ''INTERNAL_IP4_DNS''))) @
         opt_entry DOMAIN (str_to_gvariant sys (getenv sys ''CISCO_DEF_DOMAIN'') True),
       not_ipv4_never_default := (not_ipv4_never_default c \<or> snd (get_ip4_routes sys False))\<rparr>"
  by (cases "routes4 sys")
    (simp_all add: collect_ip4_rest_def split_beta get_ip4_routes_flag [of sys "not_ipv4_never_default c"]
      add_opt_update add_ip4_def Let_def)

definition netmask6 :: "helper_sys \<Rightarrow> u32 option" where
  "netmask6 sys =
     (case getenv sys ''INTERNAL_IP6_NETMASK'' of
        None \<Rightarrow> None
      | Some t \<Rightarrow> case dropWhile (\<lambda>x. x \<noteq> CHR ''/'') t of
            [] \<Rightarrow> None | _ # rest \<Rightarrow> Some (word_of_int (fst (strtol10 rest))))"

lemma collect_ip6_netmask_eq:
  "collect_ip6_netmask sys c =
     (case netmask6 sys of
        None \<Rightarrow> c
      | Some p \<Rightarrow> c\<lparr>c_ip6builder := c_ip6builder c @ [(PREFIX, GUint32 (if p = 0 then 128 else p))],
                    not_ipv6_never_default := (p = 0 \<or> not_ipv6_never_default c)\<rparr>)"
proof (cases "getenv sys ''INTERNAL_IP6_NETMASK''")
  case (Some t)
  show ?thesis
    by (cases "dropWhile (\<lambda>x. x \<noteq> CHR ''/'') t")
      (simp_all only: collect_ip6_netmask_def netmask6_def Some option.case list.case Let_def add_ip6_def split: if_split,
       simp_all)
qed (simp add: collect_ip6_netmask_def netmask6_def)

definition routes6 :: "helper_sys \<Rightarrow> gvar option" where
  "routes6 sys = (case get_ip6_routes sys False of None \<Rightarrow> None | Some (v, d) \<Rightarrow> v)"

definition default6 :: "helper_sys \<Rightarrow> bool" where
  "default6 sys \<longleftrightarrow> netmask6 sys = Some 0 \<or> (case get_ip6_routes sys False of None \<Rightarrow> False | Some (v, d) \<Rightarrow> d)"

lemma get_ip6_routes_flag:
  "get_ip6_routes sys d = map_option (\<lambda>(v, d'). (v, d \<or> d')) (get_ip6_routes sys False)"
  by (auto simp: get_ip6_routes_def routes_loop_collects Let_def split: option.splits)

definition ip6_dict :: "helper_sys \<Rightarrow> vardict" where
  "ip6_dict sys =
     opt_entry DNS (snd (addr46_list_to_gvariant sys (getenv sys ''INTERNAL_IP4_DNS''))) @
     opt_entry DOMAIN (str_to_gvariant sys (getenv sys ''CISCO_DEF_DOMAIN'') True) @
     (case addr6_to_gvariant sys (getenv sys ''INTERNAL_IP6_ADDRESS'') of None \<Rightarrow> [] | Some v \<Rightarrow> [(ADDRESS, v), (PTP, v)]) @
     opt_entry PREFIX (map_option (\<lambda>p. GUint32 (if p = 0 then 128 else p)) (netmask6 sys)) @
     opt_entry ROUTES (routes6 sys) @
     (if routes6 sys \<noteq> None \<and> \<not> default6 sys then [(NEVER_DEFAULT, GBool True)] else [])"

lemma collect_ip6_eq:
  "collect_ip6 sys c =
   (if nonempty (getenv sys ''INTERNAL_IP6_ADDRESS'') \<and> addr6_to_gvariant sys (getenv sys ''INTERNAL_IP6_ADDRESS'') = None
    then Inl (HelperFailed ''IP6 Address'')
    else Inr (collect_ip6_netmask sys
      (c\<lparr>has_ip6 := (has_ip6 c \<or> nonempty (getenv sys ''INTERNAL_IP6_ADDRESS'')),
         c_ip6builder := c_ip6builder c @
           (case addr6_to_gvariant sys (getenv sys ''INTERNAL_IP6_ADDRESS'') of None \<Rightarrow> [] | Some v \<Rightarrow> [(ADDRESS, v), (PTP, v)])\<rparr>)))"
  by (cases "addr6_to_gvariant sys (getenv sys ''INTERNAL_IP6_ADDRESS'')"; cases "getenv sys ''INTERNAL_IP6_ADDRESS''")
    (auto simp: collect_ip6_def then_do_def collect_ip6_addr_def collect_ip6_ptp_def add_ip6_def addr6_to_gvariant_def addr6_bytes_def Let_def)

lemma then_do_simps [simp]: "then_do (Inl e) f = Inl e" "then_do (Inr c) f = f c"
  by (simp_all add: then_do_def)

lemma collect_ip6_routes_eq:
  "collect_ip6_routes sys c =
     (if get_ip6_routes sys False = None then Inl OutOfMemory
      else let nd = (not_ipv6_never_default c \<or> (case get_ip6_routes sys False of None \<Rightarrow> False | Some (v, d) \<Rightarrow> d)) in
        Inr (c\<lparr>not_ipv6_never_default := nd,
          c_ip6builder := c_ip6builder c @ opt_entry ROUTES (routes6 sys) @
            (if routes6 sys \<noteq> None \<and> \<not> nd then [(NEVER_DEFAULT, GBool True)] else [])\<rparr>))"
  by (cases "get_ip6_routes sys False"; cases "routes6 sys")
    (auto simp: collect_ip6_routes_def get_ip6_routes_flag [of sys "not_ipv6_never_default c"] routes6_def add_ip6_def
      Let_def split: prod.splits)

text \<open>When the collection succeeds, and with which dictionaries.\<close>

lemma collect_result:
  "collect sys =
     (case (gateway_value sys, str_to_gvariant sys (getenv sys ''TUNDEV'') False) of
        (None, _) \<Rightarrow> Inl (HelperFailed ''VPN Gateway'')
      | (_, None) \<Rightarrow> Inl (HelperFailed ''Tunnel Device'')
      | (Some gw, Some dev) \<Rightarrow>
          if nonempty (getenv sys ''INTERNAL_IP4_ADDRESS'') \<and> addr4_to_gvariant (getenv sys ''INTERNAL_IP4_ADDRESS'') = None
          then Inl (HelperFailed ''IP4 Address'')
          else if nonempty (getenv sys ''INTERNAL_IP6_ADDRESS'') \<and> addr6_to_gvariant sys (getenv sys ''INTERNAL_IP6_ADDRESS'') = None
          then Inl (HelperFailed ''IP6 Address'')
          else if get_ip6_routes sys False = None then Inl OutOfMemory
          else Inr \<lparr>c_builder = general_dict sys gw dev, c_ip4builder = ip4_dict sys, c_ip6builder = ip6_dict sys,
                 has_ip4 = nonempty (getenv sys ''INTERNAL_IP4_ADDRESS''), has_ip6 = nonempty (getenv sys ''INTERNAL_IP6_ADDRESS''),
                 not_ipv4_never_default = default4 sys, not_ipv6_never_default = default6 sys\<rparr>)"
proof (cases "gateway_value sys")
  case gw: (Some gw)
  show ?thesis
  proof (cases "str_to_gvariant sys (getenv sys ''TUNDEV'') False")
    case (Some dev)
    have "collect sys = then_do (collect_ip4 sys (empty_collected\<lparr>c_builder := general_dict sys gw dev\<rparr>))
        (\<lambda>c. then_do (collect_ip6 sys c) (collect_ip6_routes sys))"
      by (simp add: collect_def collect_general_eq gw Some)
    then show ?thesis
      by (cases "netmask4 sys"; cases "netmask6 sys")
        (simp_all add: gw Some collect_ip4_eq collect_ip6_eq collect_ip4_rest_eq
          collect_ip4_netmask_eq collect_ip6_netmask_eq collect_ip6_routes_eq empty_collected_def ip4_dict_def
          ip6_dict_def default4_def default6_def Let_def)
  qed (simp add: collect_def collect_general_eq gw)
qed (simp add: collect_def collect_general_eq)

section \<open>What is sent\<close>

lemma send_calls_ok: "send_calls sys cs = (True, made) \<Longrightarrow> made = cs \<and> (\<forall>c \<in> set cs. h_call sys c)"
  by (induction cs arbitrary: made) (auto split: if_splits prod.splits)

lemma send_calls_prefix: "set (snd (send_calls sys cs)) \<subseteq> set cs"
  by (induction cs) (auto split: prod.splits)

lemma send_config_no_failure: "SetFailure r \<notin> set (snd (send_config sys g c4 c6))"
  using send_calls_prefix [of sys "[SetConfig g] @ (case c4 of Some c \<Rightarrow> [SetIp4Config c] | None \<Rightarrow> []) @
    (case c6 of Some c \<Rightarrow> [SetIp6Config c] | None \<Rightarrow> [])"]
  by (auto simp: send_config_def split: option.splits)

definition has_addr :: "helper_sys \<Rightarrow> string \<Rightarrow> bool" where
  "has_addr sys k \<longleftrightarrow> nonempty (getenv sys k)"

definition full_config :: "helper_sys \<Rightarrow> gvar \<Rightarrow> gvar \<Rightarrow> call list" where
  "full_config sys gw dev =
     [SetConfig (general_dict sys gw dev @
        (if has_addr sys ''INTERNAL_IP4_ADDRESS'' then [(HAS_IP4, GBool True)] else []) @
        (if has_addr sys ''INTERNAL_IP6_ADDRESS'' then [(HAS_IP6, GBool True)] else []))] @
     (if has_addr sys ''INTERNAL_IP4_ADDRESS'' then [SetIp4Config (ip4_dict sys)] else []) @
     (if has_addr sys ''INTERNAL_IP6_ADDRESS'' then [SetIp6Config (ip6_dict sys)] else [])"

text \<open>C8: When the helper succeeds after making any call, the reason was \<open>connect\<close> or not given, the
  gateway and the device are valid, and what NetworkManager accepted, in this order, is the general
  configuration, announcing a family exactly when its address was given, and then the dictionary
  of each announced family.\<close>

theorem helper_success:
  assumes "helper_main sys = HExit 0 calls" "calls \<noteq> []"
  shows "\<exists>gw dev. gateway_value sys = Some gw \<and> str_to_gvariant sys (getenv sys ''TUNDEV'') False = Some dev \<and>
    getenv sys ''reason'' \<in> {None, Some ''connect''} \<and> calls = full_config sys gw dev \<and> (\<forall>c \<in> set calls. h_call sys c)"
proof -
  from assms obtain gw dev where gd: "gateway_value sys = Some gw" "str_to_gvariant sys (getenv sys ''TUNDEV'') False = Some dev"
    and c: "collect sys \<noteq> Inl OutOfMemory" "\<And>r. collect sys \<noteq> Inl (HelperFailed r)"
    and r: "getenv sys ''reason'' \<in> {None, Some ''connect''}"
    by (auto simp: helper_main_def helper_finish_def helper_failed_def Let_def collect_result split: option.splits if_splits)
  have "send_calls sys (full_config sys gw dev) = (True, calls)"
    using assms gd c r
    by (auto simp: helper_main_def helper_finish_def collect_result full_config_def has_addr_def send_config_def Let_def add_conf_def
        split: if_splits option.splits prod.splits)
  with send_calls_ok gd r show ?thesis by blast
qed

text \<open>A failure is reported to NetworkManager at most once, naming one of the four required values,
  and then nothing else was or will be sent and the exit status is 1.\<close>

theorem helper_failure_is_exclusive:
  assumes "helper_main sys = HExit code calls" "SetFailure r \<in> set calls"
  shows "calls = [SetFailure r] \<and> code = 1 \<and>
    r \<in> {''VPN Gateway'', ''Tunnel Device'', ''IP4 Address'', ''IP6 Address''}"
proof (cases "collect sys")
  case (Inl e)
  with assms show ?thesis
    by (cases e) (auto simp: helper_main_def helper_finish_def helper_failed_def collect_result split: if_splits option.splits)
next
  case (Inr c)
  then have "calls = [] \<or> (\<exists>g c4 c6. calls = snd (send_config sys g c4 c6))"
    using assms(1) by (auto simp: helper_main_def helper_finish_def Let_def split_beta split: if_splits)
  with assms(2) send_config_no_failure show ?thesis by auto
qed

text \<open>C31: Split routing: a family's dictionary carries never-default exactly when it has routes and
  neither its netmask nor an entry stands for the default route; and no prefix of length 0 is ever
  sent.\<close>

theorem never_default_spec:
  assumes "collect sys = Inr c"
  shows "((NEVER_DEFAULT, GBool True) \<in> set (c_ip4builder c) \<longleftrightarrow> routes4 sys \<noteq> None \<and> \<not> default4 sys) \<and>
    ((NEVER_DEFAULT, GBool True) \<in> set (c_ip6builder c) \<longleftrightarrow> routes6 sys \<noteq> None \<and> \<not> default6 sys) \<and>
    (PREFIX, GUint32 0) \<notin> set (c_ip4builder c) \<and> (PREFIX, GUint32 0) \<notin> set (c_ip6builder c)"
proof -
  from assms have d: "c_ip4builder c = ip4_dict sys" "c_ip6builder c = ip6_dict sys"
    by (auto simp: collect_result split: option.splits if_splits)
  show ?thesis
    unfolding d by (auto simp: ip4_dict_def ip6_dict_def opt_entry_def split: option.splits)
qed

text \<open>The IPv6 prefix length is not checked: any number after the slash of the netmask is sent as
  it is, also one far above 128.\<close>

theorem ip6_prefix_unchecked:
  assumes "collect sys = Inr c" "getenv sys ''INTERNAL_IP6_NETMASK'' = Some (addr @ ''/'' @ show_nat n)"
    and "CHR ''/'' \<notin> set addr" "0 < n" "n < 2 ^ 32"
  shows "(PREFIX, GUint32 (of_nat n)) \<in> set (c_ip6builder c)"
proof -
  have "dropWhile (\<lambda>x. x \<noteq> CHR ''/'') (addr @ ''/'' @ show_nat n) = CHR ''/'' # show_nat n"
    using assms(3) by (induction addr) auto
  moreover have "strtol10 (show_nat n) = (int n, False, [])"
    using strtol10_show_nat [of n "[]" "[]"] assms(5) by (simp add: LONG_MAX_def)
  ultimately have "netmask6 sys = Some (of_nat n)"
    using assms(2) by (simp add: netmask6_def)
  moreover have "(of_nat n :: u32) \<noteq> 0"
    using assms(4,5) by (simp add: word_of_nat_eq_0_iff dvd_imp_le nat_dvd_not_less)
  moreover have "c_ip6builder c = ip6_dict sys"
    using assms(1) by (auto simp: collect_result split: option.splits if_splits)
  ultimately show ?thesis by (simp add: ip6_dict_def)
qed

section \<open>Examples\<close>

definition sample_helper :: helper_sys where
  "sample_helper = \<lparr>h_environ =
       [(''reason'', ''connect''), (''VPNGATEWAY'', ''192.0.2.1''), (''TUNDEV'', ''vpn0''),
        (''INTERNAL_IP4_ADDRESS'', ''10.0.0.5''), (''INTERNAL_IP6_NETMASK'', ''fe80::'' @ ''/'' @ show_nat 300),
        (''CISCO_SPLIT_INC'', ''2''), (''CISCO_SPLIT_INC_0_ADDR'', ''10.1.0.0''), (''CISCO_SPLIT_INC_0_MASKLEN'', ''16''),
        (''CISCO_SPLIT_INC_1_ADDR'', ''10.2.0.0''), (''CISCO_SPLIT_INC_1_MASKLEN'', ''none'')],
     h_pton6 = (\<lambda>s. None), h_netmask_to_prefix = (\<lambda>m. 24), h_utf8 = (\<lambda>s. True), h_convert = (\<lambda>s t f. None),
     h_route6 = (\<lambda>n p. True), h_reserve = (\<lambda>n. True), h_proxy = (\<lambda>b. True), h_call = (\<lambda>c. True)\<rparr>"

lemma sample_helper_runs:
  "case helper_main sample_helper of HExit code calls \<Rightarrow> code = 0 \<and> calls \<noteq> [] | HAbort \<Rightarrow> False"
  by code_simp

theorem helper_success_witness:
  "\<exists>gw dev calls. helper_main sample_helper = HExit 0 calls \<and> calls = full_config sample_helper gw dev"
proof -
  from sample_helper_runs obtain calls where c: "helper_main sample_helper = HExit 0 calls" "calls \<noteq> []"
    by (auto split: helper_end.splits)
  with helper_success [OF c] show ?thesis by blast
qed

theorem helper_failure_is_exclusive_witness:
  "\<exists>code calls. helper_main (sample_helper\<lparr>h_environ := []\<rparr>) = HExit code calls \<and> code = 1 \<and> calls = [SetFailure ''VPN Gateway'']"
proof -
  have h: "helper_main (sample_helper\<lparr>h_environ := []\<rparr>) = HExit 1 [SetFailure ''VPN Gateway'']"
    by code_simp
  show ?thesis
    using helper_failure_is_exclusive [OF h, of "''VPN Gateway''"] h by simp
qed

lemma sample_collect: "case collect sample_helper of Inr c \<Rightarrow> True | Inl e \<Rightarrow> False"
  by code_simp

theorem never_default_spec_witness:
  "\<exists>c. collect sample_helper = Inr c \<and> (PREFIX, GUint32 0) \<notin> set (c_ip4builder c)"
proof -
  from sample_collect obtain c where "collect sample_helper = Inr c" by (auto split: sum.splits)
  with never_default_spec [OF this] show ?thesis by blast
qed

theorem ip6_prefix_unchecked_witness:
  "\<exists>c. collect sample_helper = Inr c \<and> (PREFIX, GUint32 300) \<in> set (c_ip6builder c)"
proof -
  from sample_collect obtain c where c: "collect sample_helper = Inr c" by (auto split: sum.splits)
  have "getenv sample_helper ''INTERNAL_IP6_NETMASK'' = Some (''fe80::'' @ ''/'' @ show_nat 300)"
    by (simp add: getenv_def sample_helper_def)
  from ip6_prefix_unchecked [OF c this] c show ?thesis by simp
qed

lemma sample_routes:
  "case get_ip4_routes sample_helper False of (Some v, d) \<Rightarrow> d | _ \<Rightarrow> False"
  by code_simp

theorem ip4_routes_bounds_witness:
  "\<exists>v nd rs. get_ip4_routes sample_helper False = (Some v, nd) \<and> v = GRoutes4 rs \<and> rs \<noteq> []"
proof -
  from sample_routes obtain v nd where r: "get_ip4_routes sample_helper False = (Some v, nd)"
    by (auto split: prod.splits option.splits)
  have "h_netmask_to_prefix sample_helper a \<le> 32" for a
    by (simp add: sample_helper_def word_le_nat_alt)
  from ip4_routes_bounds [OF r this] r show ?thesis by blast
qed

theorem garbage_masklen_is_default_witness: "ip4_route sample_helper 1 = Default"
proof (rule garbage_masklen_is_default)
  show "getenv sample_helper (inc_var ''CISCO_SPLIT_INC_'' 1 ''_ADDR'') = Some ''10.2.0.0''"
    "inet_pton4 ''10.2.0.0'' = Some 522"
    "getenv sample_helper (inc_var ''CISCO_SPLIT_INC_'' 1 ''_MASKLEN'') = Some ''none''"
    "takeWhile is_digit (snd (take_sign (dropWhile c_isspace ''none''))) = []"
    by code_simp+
qed

theorem text_conversion_is_dead_witness:
  "str_to_gvariant (sample_helper\<lparr>h_utf8 := (\<lambda>s. False)\<rparr>) (Some ''caf'') True = None"
  using text_conversion_is_dead [of "sample_helper\<lparr>h_utf8 := (\<lambda>s. False)\<rparr>" "Some ''caf''" True]
  by (simp add: sample_helper_def)

end
