(* ===== verification/Helper_Types.thy ===== *)
theory Helper_Types
  imports Helper_Facts
begin

text \<open>
  The types of what the helper sends. libnm's D-Bus interface gives every key of the three dictionaries a
  type; the helper puts values under them from a dozen converters. Here every entry of every call has
  the type of its key, no key appears twice, and no list is empty.
\<close>

section \<open>The interface\<close>

definition ipv6_bytes :: "u8 list \<Rightarrow> bool" where
  "ipv6_bytes b \<longleftrightarrow> length b = 16"

definition gateway_type :: "gvar \<Rightarrow> bool" where
  "gateway_type v = (case v of GUint32 a \<Rightarrow> True | GAddr6 b \<Rightarrow> ipv6_bytes b | _ \<Rightarrow> False)"

definition uint_type :: "gvar \<Rightarrow> bool" where
  "uint_type v = (case v of GUint32 n \<Rightarrow> True | _ \<Rightarrow> False)"

definition bool_type :: "gvar \<Rightarrow> bool" where
  "bool_type v = (case v of GBool b \<Rightarrow> b | _ \<Rightarrow> False)"

definition text_type :: "helper_sys \<Rightarrow> gvar \<Rightarrow> bool" where
  "text_type sys v = (case v of GString s \<Rightarrow> h_utf8 sys s | _ \<Rightarrow> False)"

definition addr6_type :: "gvar \<Rightarrow> bool" where
  "addr6_type v = (case v of GAddr6 b \<Rightarrow> ipv6_bytes b | _ \<Rightarrow> False)"

text \<open>The type of a key in the general, the IPv4 and the IPv6 dictionary; a key that has none there is not
  allowed in it.\<close>

definition config_type :: "helper_sys \<Rightarrow> cfg_key \<Rightarrow> gvar \<Rightarrow> bool" where
  "config_type sys k v =
     (case k of
        EXT_GATEWAY \<Rightarrow> gateway_type v | CAN_PERSIST \<Rightarrow> bool_type v | TUNDEV \<Rightarrow> text_type sys v | BANNER \<Rightarrow> text_type sys v
      | PROXY_PAC \<Rightarrow> text_type sys v | MTU \<Rightarrow> uint_type v | HAS_IP4 \<Rightarrow> bool_type v | HAS_IP6 \<Rightarrow> bool_type v | _ \<Rightarrow> False)"

definition ip4_type :: "cfg_key \<Rightarrow> gvar \<Rightarrow> bool" where
  "ip4_type k v =
     (case k of
        ADDRESS \<Rightarrow> uint_type v | PTP \<Rightarrow> uint_type v | PREFIX \<Rightarrow> uint_type v
      | DNS \<Rightarrow> (case v of GUint32s as \<Rightarrow> as \<noteq> [] | _ \<Rightarrow> False)
      | NBNS \<Rightarrow> (case v of GUint32s as \<Rightarrow> as \<noteq> [] | _ \<Rightarrow> False)
      | DOMAINS \<Rightarrow> (case v of GStrv ws \<Rightarrow> ws \<noteq> [] \<and> [] \<notin> set ws | _ \<Rightarrow> False)
      | ROUTES \<Rightarrow> (case v of GRoutes4 rs \<Rightarrow> rs \<noteq> [] | _ \<Rightarrow> False)
      | NEVER_DEFAULT \<Rightarrow> bool_type v | _ \<Rightarrow> False)"

definition ip6_type :: "helper_sys \<Rightarrow> cfg_key \<Rightarrow> gvar \<Rightarrow> bool" where
  "ip6_type sys k v =
     (case k of
        ADDRESS \<Rightarrow> addr6_type v | PTP \<Rightarrow> addr6_type v | PREFIX \<Rightarrow> uint_type v
      | DNS \<Rightarrow> (case v of GAddr6s bs \<Rightarrow> bs \<noteq> [] \<and> list_all ipv6_bytes bs | _ \<Rightarrow> False)
      | DOMAIN \<Rightarrow> text_type sys v
      | ROUTES \<Rightarrow> (case v of GRoutes6 rs \<Rightarrow> rs \<noteq> [] | _ \<Rightarrow> False)
      | NEVER_DEFAULT \<Rightarrow> bool_type v | _ \<Rightarrow> False)"

definition typed_dict :: "(cfg_key \<Rightarrow> gvar \<Rightarrow> bool) \<Rightarrow> vardict \<Rightarrow> bool" where
  "typed_dict ty d \<longleftrightarrow> list_all (\<lambda>(k, v). ty k v) d \<and> distinct (map fst d)"

definition typed_call :: "helper_sys \<Rightarrow> call \<Rightarrow> bool" where
  "typed_call sys c =
     (case c of
        SetFailure r \<Rightarrow> r \<noteq> []
      | SetConfig d \<Rightarrow> typed_dict (config_type sys) d
      | SetIp4Config d \<Rightarrow> typed_dict ip4_type d
      | SetIp6Config d \<Rightarrow> typed_dict (ip6_type sys) d)"

section \<open>The converters\<close>

text \<open>What \<open>inet_pton (AF_INET6)\<close> promises: it fills a \<open>struct in6_addr\<close>.\<close>

definition pton6_law :: "helper_sys \<Rightarrow> bool" where
  "pton6_law sys \<longleftrightarrow> (\<forall>s b. h_pton6 sys s = Some b \<longrightarrow> length b = 16)"

lemma str_type: "str_to_gvariant sys s c = Some v \<Longrightarrow> text_type sys v"
  by (auto simp: str_to_gvariant_def g_variant_new_string_def text_type_def Let_def split: option.splits if_splits)

lemma addr4_type: "addr4_to_gvariant s = Some v \<Longrightarrow> uint_type v"
  by (auto simp: addr4_to_gvariant_def uint_type_def split: option.splits if_splits)

lemma addr6_bytes_length: "pton6_law sys \<Longrightarrow> addr6_bytes sys s = Some b \<Longrightarrow> ipv6_bytes b"
  by (auto simp: addr6_bytes_def pton6_law_def ipv6_bytes_def split: option.splits if_splits)

lemma addr6_converted: "pton6_law sys \<Longrightarrow> addr6_to_gvariant sys s = Some v \<Longrightarrow> addr6_type v"
  by (auto simp: addr6_to_gvariant_def addr6_type_def addr6_bytes_length)

lemma type_simps:
  "uint_type v \<longleftrightarrow> (\<exists>n. v = GUint32 n)" "addr6_type v \<longleftrightarrow> (\<exists>b. v = GAddr6 b \<and> ipv6_bytes b)"
  by (cases v; simp add: uint_type_def addr6_type_def)+

lemma gateway_converted:
  assumes "pton6_law sys" "gateway_value sys = Some v"
  shows "gateway_type v"
proof (cases "addr4_to_gvariant (getenv sys ''VPNGATEWAY'')")
  case None
  then have "addr6_type v" using assms addr6_converted by (simp add: gateway_value_def)
  then show ?thesis by (auto simp: type_simps gateway_type_def)
next
  case (Some w)
  then have "uint_type v" using assms addr4_type by (simp add: gateway_value_def)
  then show ?thesis by (auto simp: type_simps gateway_type_def)
qed

lemma mtu_type: "mtu_value sys = Some v \<Longrightarrow> uint_type v"
  by (auto simp: mtu_value_def uint_type_def Let_def split: option.splits prod.splits if_splits)

lemma addr4_list_type: "addr4_list_to_gvariant s = Some v \<Longrightarrow> \<exists>as. v = GUint32s as \<and> as \<noteq> []"
proof -
  have loop: "addr4_list_loop ws acc = Some as \<Longrightarrow> length as = length acc + length ws" for ws acc as
    by (induction ws arbitrary: acc) (auto split: option.splits)
  show "addr4_list_to_gvariant s = Some v \<Longrightarrow> ?thesis"
    using loop by (fastforce simp: addr4_list_to_gvariant_def Let_def split: option.splits if_splits)
qed

lemma addr46_type:
  assumes "pton6_law sys"
  shows "fst (addr46_list_to_gvariant sys s) = Some v \<Longrightarrow> \<exists>as. v = GUint32s as \<and> as \<noteq> []"
    "snd (addr46_list_to_gvariant sys s) = Some v \<Longrightarrow> \<exists>bs. v = GAddr6s bs \<and> bs \<noteq> [] \<and> list_all ipv6_bytes bs"
proof -
  have loop: "addr46_loop sys ws b4 b6 = Some (as, bs) \<Longrightarrow> list_all ipv6_bytes b6 \<Longrightarrow> list_all ipv6_bytes bs" for ws b4 b6 as bs
    by (induction ws arbitrary: b4 b6) (auto split: option.splits dest: addr6_bytes_length [OF assms])
  show "fst (addr46_list_to_gvariant sys s) = Some v \<Longrightarrow> \<exists>as. v = GUint32s as \<and> as \<noteq> []"
    by (auto simp: addr46_list_to_gvariant_def Let_def split: option.splits if_splits)
  show "snd (addr46_list_to_gvariant sys s) = Some v \<Longrightarrow> \<exists>bs. v = GAddr6s bs \<and> bs \<noteq> [] \<and> list_all ipv6_bytes bs"
    using loop [of _ "[]" "[]"] by (auto simp: addr46_list_to_gvariant_def Let_def split: option.splits if_splits)
qed

lemma domains_type:
  assumes "domains_value sys = Some v"
  shows "\<exists>ws. v = GStrv ws \<and> ws \<noteq> [] \<and> [] \<notin> set ws"
proof -
  have "\<exists>ws. v = GStrv ws \<and> ws \<noteq> [] \<and> [] \<notin> set ws" if "split_dns_list_to_gvariant s = Some v" for s
  proof (cases s)
    case (Some t)
    let ?ws = "filter (\<lambda>w. w \<noteq> []) (split_pieces (\<lambda>c. c = CHR '','' \<or> c = CHR '' '') t)"
    have "?ws \<noteq> []" "v = GStrv ?ws" using that by (simp_all add: Some split_dns_words split: list.splits)
    then show ?thesis by auto
  qed (use that in \<open>simp add: split_dns_list_to_gvariant_def\<close>)
  then show ?thesis using assms by (auto simp: domains_value_def split: option.splits)
qed

lemma routes_types:
  "routes4 sys = Some v \<Longrightarrow> \<exists>rs. v = GRoutes4 rs \<and> rs \<noteq> []"
  "routes6 sys = Some v \<Longrightarrow> \<exists>rs. v = GRoutes6 rs \<and> rs \<noteq> []"
  by (auto simp: routes4_def routes6_def get_ip4_routes_def get_ip6_routes_def Let_def split: option.splits if_splits prod.splits)

section \<open>The dictionaries\<close>

text \<open>An optional entry has at most the one key, so that distinctness only looks at the keys.\<close>

lemma typed_dict_simps:
  "typed_dict ty [] = True"
  "typed_dict ty ((k, v) # d) \<longleftrightarrow> ty k v \<and> k \<notin> fst ` set d \<and> typed_dict ty d"
  "typed_dict ty (opt_entry k x @ d) \<longleftrightarrow> (\<forall>v. x = Some v \<longrightarrow> ty k v \<and> k \<notin> fst ` set d) \<and> typed_dict ty d"
  "typed_dict ty (opt_entry k x) \<longleftrightarrow> (\<forall>v. x = Some v \<longrightarrow> ty k v)"
  by (cases x; auto simp: typed_dict_def opt_entry_def)+

lemma keys_opt_entry: "fst ` set (opt_entry k x) = (if x = None then {} else {k})"
  by (cases x) (simp_all add: opt_entry_def)

lemmas dict_keys = typed_dict_simps keys_opt_entry image_Un

lemma general_dict_typed:
  assumes "gateway_type gw" "text_type sys dev" "set extra \<subseteq> {(HAS_IP4, GBool True), (HAS_IP6, GBool True)}"
    and "distinct (map fst extra)"
  shows "typed_dict (config_type sys) (general_dict sys gw dev @ extra)"
proof -
  have e: "typed_dict (config_type sys) extra"
    using assms(3,4) by (auto simp: typed_dict_def list_all_iff config_type_def bool_type_def)
  have k: "fst ` set extra \<subseteq> {HAS_IP4, HAS_IP6}" using assms(3) by auto
  show ?thesis
    using assms(1,2) e k
    by (auto simp: general_dict_def dict_keys config_type_def bool_type_def str_type mtu_type)
qed

lemma ip4_dict_typed:
  assumes "pton6_law sys"
  shows "typed_dict ip4_type (ip4_dict sys)"
proof -
  have lists: "fst (addr46_list_to_gvariant sys s) = Some v \<Longrightarrow> ip4_type DNS v" "addr4_list_to_gvariant s = Some v \<Longrightarrow> ip4_type NBNS v"
    "domains_value sys = Some v \<Longrightarrow> ip4_type DOMAINS v" "routes4 sys = Some v \<Longrightarrow> ip4_type ROUTES v" for s v
    using addr46_type(1) [OF assms, of s v] addr4_list_type [of s v] domains_type [of sys v] routes_types(1) [of sys v]
    by (auto simp: ip4_type_def)
  have "addr4_to_gvariant s = Some v \<Longrightarrow> ip4_type ADDRESS v \<and> ip4_type PTP v" for s v
    by (simp add: ip4_type_def addr4_type)
  moreover have "ip4_type PREFIX (GUint32 n)" "ip4_type NEVER_DEFAULT (GBool True)" for n
    by (simp_all add: ip4_type_def uint_type_def bool_type_def)
  ultimately show ?thesis
    using lists by (auto simp: ip4_dict_def dict_keys split: option.split)
qed

lemma ip6_dict_typed:
  assumes "pton6_law sys"
  shows "typed_dict (ip6_type sys) (ip6_dict sys)"
proof -
  have lists: "snd (addr46_list_to_gvariant sys s) = Some v \<Longrightarrow> ip6_type sys DNS v"
    "str_to_gvariant sys s True = Some v \<Longrightarrow> ip6_type sys DOMAIN v" "routes6 sys = Some v \<Longrightarrow> ip6_type sys ROUTES v" for s v
    using addr46_type(2) [OF assms, of s v] str_type [of sys s True v] routes_types(2) [of sys v]
    by (auto simp: ip6_type_def)
  have "addr6_to_gvariant sys s = Some v \<Longrightarrow> ip6_type sys ADDRESS v \<and> ip6_type sys PTP v" for s v
    by (simp add: ip6_type_def addr6_converted [OF assms])
  moreover have "ip6_type sys PREFIX (GUint32 n)" "ip6_type sys NEVER_DEFAULT (GBool True)" for n
    by (simp_all add: ip6_type_def uint_type_def bool_type_def)
  ultimately show ?thesis
    using lists by (auto simp: ip6_dict_def dict_keys split: option.split)
qed

section \<open>Every call\<close>

text \<open>C10: Every call the helper makes is well-typed, accepted or not: each entry of each dictionary has the
  type the interface gives its key in that dictionary, booleans are only sent as true, addresses have the
  width of their family, texts outside the domain list are valid UTF-8, no list is empty, and no key is given twice.\<close>

theorem helper_calls_typed:
  assumes "pton6_law sys" "helper_main sys = HExit code calls"
  shows "list_all (typed_call sys) calls"
proof (cases "collect sys")
  case (Inl e)
  then show ?thesis
    using assms(2)
    by (cases e) (auto simp: helper_main_def helper_finish_def helper_failed_def typed_call_def collect_result split: if_split_asm option.split_asm)
next
  case (Inr c)
  obtain gw dev where gd: "gateway_value sys = Some gw" "str_to_gvariant sys (getenv sys ''TUNDEV'') False = Some dev"
    and c: "c_builder c = general_dict sys gw dev" "c_ip4builder c = ip4_dict sys" "c_ip6builder c = ip6_dict sys"
      "has_ip4 c = has_addr sys ''INTERNAL_IP4_ADDRESS''" "has_ip6 c = has_addr sys ''INTERNAL_IP6_ADDRESS''"
    using Inr by (auto simp: collect_result has_addr_def split: option.splits if_splits)
  have ok: "calls = [] \<or> calls = snd (send_calls sys (full_config sys gw dev))"
    using assms(2)
    by (cases "has_ip4 c"; cases "has_ip6 c")
      (auto simp: helper_main_def helper_finish_def Inr full_config_def send_config_def add_conf_def c Let_def split: if_split_asm prod.split_asm)
  then have "set calls \<subseteq> set (full_config sys gw dev)"
    using send_calls_prefix [of sys "full_config sys gw dev"] by auto
  moreover have "list_all (typed_call sys) (full_config sys gw dev)"
    using general_dict_typed [OF gateway_converted [OF assms(1) gd(1)] str_type [OF gd(2)]]
      general_dict_typed [OF gateway_converted [OF assms(1) gd(1)] str_type [OF gd(2)], of "[]"]
      ip4_dict_typed [OF assms(1)] ip6_dict_typed [OF assms(1)]
    by (simp add: full_config_def typed_call_def)
  ultimately show ?thesis by (auto simp: list_all_iff)
qed

theorem helper_calls_typed_witness:
  "\<exists>calls. helper_main sample_helper = HExit 0 calls \<and> calls \<noteq> [] \<and> list_all (typed_call sample_helper) calls"
proof -
  from sample_helper_runs obtain calls where c: "helper_main sample_helper = HExit 0 calls" "calls \<noteq> []"
    by (auto split: helper_end.splits)
  have "pton6_law sample_helper" by (simp add: pton6_law_def sample_helper_def)
  with helper_calls_typed [OF _ c(1)] c show ?thesis by blast
qed

text \<open>Only the lists of domains are not checked for UTF-8, unlike every other text: a word that is not UTF-8
  goes into the string array.\<close>

theorem domains_are_not_checked:
  "\<exists>sys. domains_value sys = Some (GStrv [[CHR 0xFF]]) \<and> \<not> h_utf8 sys [CHR 0xFF]"
proof (intro exI conjI)
  let ?sys = "sample_helper\<lparr>h_environ := [(''CISCO_SPLIT_DNS'', [CHR 0xFF])], h_utf8 := list_all (\<lambda>c. of_char c < (128 :: nat))\<rparr>"
  show "domains_value ?sys = Some (GStrv [[CHR 0xFF]])" by code_simp
  show "\<not> h_utf8 ?sys [CHR 0xFF]" by code_simp
qed

end
