(* ===== verification/Plugin_Utils.thy ===== *)
theory Plugin_Utils
  imports Errors Settings
begin

text \<open>
  \<open>shared/nm-utils/nm-vpn-plugin-utils.c\<close> and \<open>nm-vpn-editor-plugin-call.h\<close>: loading the editor
  library of a plugin once and calling its factory, and calling the optional functions of a plugin's
  function table. The dynamic linker is a parameter (\<open>dl_sys\<close>): what \<open>dladdr\<close> names, what \<open>dlopen\<close>
  and \<open>dlsym\<close> find or complain about, and which files exist. A factory is any value of type \<open>'f\<close>,
  an editor any value of type \<open>'e\<close>.
\<close>

section \<open>The cached editor library\<close>

text \<open>\<open>dl_fname\<close> is \<open>None\<close> when \<open>dladdr\<close> fails; \<open>dl_stale\<close> is what the uninitialised
  \<open>plugin_info.dli_fname\<close> holds then. \<open>dl_path\<close> is \<open>g_build_filename\<close> of the directory of the first
  argument and the second.\<close>

record 'f dl_sys =
  dl_fname :: cstr
  dl_stale :: string
  dl_path :: "string \<Rightarrow> string \<Rightarrow> string"
  dl_open :: "string \<Rightarrow> string + nat"
  dl_file_exists :: "string \<Rightarrow> bool"
  dl_sym :: "nat \<Rightarrow> string \<Rightarrow> string + 'f"

record 'f dl_cache =
  cd_factory :: "'f option"
  cd_dl_module :: "nat option"
  cd_module_name :: cstr
  cd_factory_name :: cstr

datatype dl_action = DlOpen nat | DlClose nat

definition empty_cache :: "'f dl_cache" where
  "empty_cache = \<lparr>cd_factory = None, cd_dl_module = None, cd_module_name = None, cd_factory_name = None\<rparr>"

definition g_path_is_absolute :: "string \<Rightarrow> bool" where
  "g_path_is_absolute p = has_prefix p ''/''"

text \<open>The path to open, and the error already set when the plugin's own path is unknown.\<close>

definition module_path :: "'f dl_sys \<Rightarrow> string \<Rightarrow> string \<times> gerror option" where
  "module_path dl module_name =
     (if \<not> g_path_is_absolute module_name then
        (case dl_fname dl of
           Some fname \<Rightarrow> (dl_path dl fname module_name, None)
         | None \<Rightarrow> (dl_path dl (dl_stale dl) module_name, g_set_error PluginNameUnavailable None))
      else (module_name, None))"

text \<open>Finding the factory: in the cache, or by opening the library. \<open>Inl\<close> carries the error the return
  leaves behind.\<close>

definition get_factory ::
  "'f dl_sys \<Rightarrow> string \<Rightarrow> string \<Rightarrow> string \<Rightarrow> gerror option \<Rightarrow> 'f dl_cache \<Rightarrow>
     (gerror option + 'f) \<times> 'f dl_cache \<times> dl_action list" where
  "get_factory dl path module_name factory_name err cache =
     (case cd_factory cache of
        Some factory \<Rightarrow>
          (if cd_dl_module cache = None then (Inl err, cache, [])
           else if cd_factory_name cache \<noteq> Some factory_name then (Inl err, cache, [])
           else if cd_module_name cache \<noteq> Some module_name then (Inl err, cache, [])
           else (Inr factory, cache, []))
      | None \<Rightarrow>
          (case dl_open dl path of
             Inl dlerror \<Rightarrow>
               (if \<not> dl_file_exists dl path then (Inl (g_set_error (MissingPluginFile path) err), cache, [])
                else (Inl (g_set_error (CannotLoadPlugin dlerror) err), cache, []))
           | Inr dl_module \<Rightarrow>
               (case dl_sym dl dl_module factory_name of
                  Inl dlerror \<Rightarrow>
                    (Inl (g_set_error (CannotLoadFactory factory_name) err), cache, [DlOpen dl_module, DlClose dl_module])
                | Inr factory \<Rightarrow>
                    (Inr factory,
                     \<lparr>cd_factory = Some factory, cd_dl_module = Some dl_module, cd_module_name = Some module_name,
                      cd_factory_name = Some factory_name\<rparr>,
                     [DlOpen dl_module]))))"

text \<open>The whole function: the editor, the error, the cache and what was done with libraries. A factory
  call gets the current error location and returns an editor and the new error.\<close>

definition nm_vpn_plugin_utils_load_editor ::
  "'f dl_sys \<Rightarrow> string \<Rightarrow> string \<Rightarrow> ('f \<Rightarrow> connection \<Rightarrow> gerror option \<Rightarrow> 'e option \<times> gerror option) \<Rightarrow>
     connection \<Rightarrow> 'f dl_cache \<Rightarrow> 'e option \<times> gerror option \<times> 'f dl_cache \<times> dl_action list" where
  "nm_vpn_plugin_utils_load_editor dl module_name factory_name editor_factory connection cache =
     (if factory_name = [] then (None, None, cache, [])
      else
        let (path, err) = module_path dl module_name;
            (found, cache, acts) = get_factory dl path module_name factory_name err cache
        in case found of
             Inl err \<Rightarrow> (None, err, cache, acts)
           | Inr factory \<Rightarrow>
               (case editor_factory factory connection err of
                  (None, err) \<Rightarrow>
                    (None, (if err = None then g_set_error UnknownEditorError err else err), cache, acts)
                | (Some editor, err) \<Rightarrow> (Some editor, err, cache, acts)))"

section \<open>Which library\<close>

text \<open>\<open>plugin_get_editor\<close> of the gpclient plugin and \<open>get_editor\<close> of the openconnect plugin look for a
  GTK 3 symbol in the running program. \<open>self\<close> is \<open>g_module_open (NULL)\<close>: \<open>None\<close> when it fails,
  otherwise whether the symbol is found.\<close>

definition gtk_symbol_gp :: "bool option \<Rightarrow> bool" where
  "gtk_symbol_gp self = (case self of Some found \<Rightarrow> found | None \<Rightarrow> False)"

definition plugin_get_editor ::
  "'f dl_sys \<Rightarrow> ('f \<Rightarrow> connection \<Rightarrow> gerror option \<Rightarrow> 'e option \<times> gerror option) \<Rightarrow> bool option \<Rightarrow>
     connection \<Rightarrow> 'f dl_cache \<Rightarrow> 'e option \<times> gerror option \<times> 'f dl_cache \<times> dl_action list" where
  "plugin_get_editor dl call_editor_factory self connection cache =
     nm_vpn_plugin_utils_load_editor dl
       (if gtk_symbol_gp self then ''libnm-vpn-plugin-gpclient-editor.so''
        else ''libnm-gtk4-vpn-plugin-gpclient-editor.so'')
       ''nm_vpn_editor_factory_gpclient'' call_editor_factory connection cache"

text \<open>The openconnect plugin does not check whether the program's own module could be opened: then
  \<open>gtk3_only_symbol\<close> keeps the value the stack holds, \<open>stale\<close>.\<close>

definition gtk_symbol_oc :: "bool \<Rightarrow> bool option \<Rightarrow> bool" where
  "gtk_symbol_oc stale self = (case self of Some found \<Rightarrow> found | None \<Rightarrow> stale)"

definition get_editor ::
  "'f dl_sys \<Rightarrow> ('f \<Rightarrow> connection \<Rightarrow> gerror option \<Rightarrow> 'e option \<times> gerror option) \<Rightarrow> bool \<Rightarrow> bool option \<Rightarrow>
     connection \<Rightarrow> 'f dl_cache \<Rightarrow> 'e option \<times> gerror option \<times> 'f dl_cache \<times> dl_action list" where
  "get_editor dl call_editor_factory stale self connection cache =
     nm_vpn_plugin_utils_load_editor dl
       (if gtk_symbol_oc stale self then ''libnm-vpn-plugin-openconnect-editor.so''
        else ''libnm-gtk4-vpn-plugin-openconnect-editor.so'')
       ''nm_vpn_editor_factory_openconnect'' call_editor_factory connection cache"

section \<open>The function table of a plugin\<close>

text \<open>Which of the four output locations the caller gave.\<close>

record wanted =
  want_short :: bool
  want_pretty :: bool
  want_description :: bool
  want_key :: bool
  want_val :: bool
  want_flags :: bool

text \<open>What is in the output locations after a call; a location that was not given or not written is
  \<open>None\<close>.\<close>

record outs =
  out_short_name :: cstr
  out_pretty_name :: cstr
  out_description :: cstr
  out_add_detail_key :: cstr
  out_add_detail_val :: cstr
  out_flags :: "u32 option"

definition no_outs :: outs where
  "no_outs = \<lparr>out_short_name = None, out_pretty_name = None, out_description = None, out_add_detail_key = None,
     out_add_detail_val = None, out_flags = None\<rparr>"

text \<open>\<open>NM_SET_OUT\<close>: the assignment happens only if there is a location.\<close>

definition set_out :: "bool \<Rightarrow> 'a option \<Rightarrow> 'a option \<Rightarrow> 'a option" where
  "set_out wanted v old = (if wanted then v else old)"

text \<open>The functions of a plugin run its own code: \<open>Inl ()\<close> is undefined behaviour there. Of the results,
  \<open>None\<close> is \<open>FALSE\<close> or \<open>NULL\<close>.\<close>

record plugin_vt =
  fcn_get_service_info :: "(wanted \<Rightarrow> string \<Rightarrow> unit + outs option) option"
  fcn_get_service_add_details :: "(string \<Rightarrow> unit + string list option) option"
  fcn_get_service_add_detail :: "(wanted \<Rightarrow> string \<Rightarrow> string \<Rightarrow> unit + outs option) option"

text \<open>The wrappers: the plugin writes to local variables, only on success are they handed on. The flags
  local starts as 0, the strings as NULL.\<close>

definition hand_on :: "wanted \<Rightarrow> outs \<Rightarrow> outs" where
  "hand_on w loc =
     \<lparr>out_short_name = set_out (want_short w) (out_short_name loc) None,
      out_pretty_name = set_out (want_pretty w) (out_pretty_name loc) None,
      out_description = set_out (want_description w) (out_description loc) None,
      out_add_detail_key = set_out (want_key w) (out_add_detail_key loc) None,
      out_add_detail_val = set_out (want_val w) (out_add_detail_val loc) None,
      out_flags = set_out (want_flags w) (Some (case out_flags loc of Some f \<Rightarrow> f | None \<Rightarrow> 0)) None\<rparr>"

definition nm_vpn_editor_plugin_get_service_info :: "plugin_vt \<Rightarrow> wanted \<Rightarrow> string \<Rightarrow> unit + outs option" where
  "nm_vpn_editor_plugin_get_service_info vt w service_type =
     (case fcn_get_service_info vt of
        None \<Rightarrow> Inr None
      | Some f \<Rightarrow> map_sum id (map_option (hand_on (w\<lparr>want_key := False, want_val := False\<rparr>))) (f w service_type))"

definition nm_vpn_editor_plugin_get_service_add_details :: "plugin_vt \<Rightarrow> string \<Rightarrow> unit + string list" where
  "nm_vpn_editor_plugin_get_service_add_details vt service_name =
     (case fcn_get_service_add_details vt of
        None \<Rightarrow> Inr []
      | Some f \<Rightarrow> map_sum id (\<lambda>details. case details of None \<Rightarrow> [] | Some ds \<Rightarrow> ds) (f service_name))"

definition nm_vpn_editor_plugin_get_service_add_detail ::
  "plugin_vt \<Rightarrow> wanted \<Rightarrow> string \<Rightarrow> string \<Rightarrow> unit + outs option" where
  "nm_vpn_editor_plugin_get_service_add_detail vt w service_type add_detail =
     (case fcn_get_service_add_detail vt of
        None \<Rightarrow> Inr None
      | Some f \<Rightarrow> map_sum id (map_option (hand_on (w\<lparr>want_short := False\<rparr>))) (f w service_type add_detail))"

section \<open>The openconnect plugin's functions\<close>

text \<open>\<open>struct oc_vpn_proto\<close> of libopenconnect, as far as the plugin reads it.\<close>

record oc_vpn_proto =
  op_name :: string
  op_pretty_name :: string
  op_description :: string
  op_flags :: int

record oc_plugin =
  nr_supported_protocols :: int
  supported_protocols :: "oc_vpn_proto list"

text \<open>\<open>protos\<close> is \<open>openconnect_get_supported_protocols\<close>: the count it returns, negative for an error, and
  the array.\<close>

definition notify_plugin_info_set :: "int \<times> oc_vpn_proto list \<Rightarrow> bool \<Rightarrow> oc_plugin \<Rightarrow> oc_plugin" where
  "notify_plugin_info_set protos plugin_info priv =
     (if \<not> plugin_info then priv
      else priv\<lparr>supported_protocols := snd protos, nr_supported_protocols := fst protos\<rparr>)"

text \<open>\<open>guint i\<close> against \<open>int nr\<close>: the comparison is unsigned. An index beyond the array is undefined
  behaviour, \<open>Inl ()\<close>.\<close>

definition loop_limit :: "int \<Rightarrow> nat" where
  "loop_limit nr = unat (word_of_int nr :: u32)"

function add_details_loop :: "oc_vpn_proto list \<Rightarrow> nat \<Rightarrow> nat \<Rightarrow> unit + string list" where
  "add_details_loop ps i n =
     (if i < n
      then (if i < length ps then map_sum id ((#) (op_name (ps ! i))) (add_details_loop ps (i + 1) n)
            else Inl ())
      else Inr [])"
  by auto
termination by (relation "measure (\<lambda>(ps, i, n). n - i)") auto

declare add_details_loop.simps [simp del]

definition vt_impl_get_service_add_details :: "oc_plugin \<Rightarrow> string \<Rightarrow> unit + string list option" where
  "vt_impl_get_service_add_details priv service_type =
     map_sum id Some (add_details_loop (supported_protocols priv) 0 (loop_limit (nr_supported_protocols priv)))"

text \<open>The search for a protocol by its name; \<open>Inl\<close> is a read outside the array.\<close>

function add_detail_loop :: "oc_vpn_proto list \<Rightarrow> nat \<Rightarrow> nat \<Rightarrow> string \<Rightarrow> unit + (nat \<times> oc_vpn_proto) option" where
  "add_detail_loop ps i n add_detail =
     (if i < n
      then (if i < length ps
            then (if add_detail \<noteq> op_name (ps ! i) then add_detail_loop ps (i + 1) n add_detail
                  else Inr (Some (i, ps ! i)))
            else Inl ())
      else Inr None)"
  by auto
termination by (relation "measure (\<lambda>(ps, i, n, d). n - i)") auto

declare add_detail_loop.simps [simp del]

definition detail_outs :: "wanted \<Rightarrow> nat \<Rightarrow> oc_vpn_proto \<Rightarrow> string \<Rightarrow> outs" where
  "detail_outs w i p add_detail =
     (let o1 = no_outs\<lparr>out_pretty_name := set_out (want_pretty w) (Some (op_pretty_name p @ '' (OpenConnect)'')) None,
            out_description := set_out (want_description w) (Some (op_description p)) None\<rparr>;
          o2 = (if i \<noteq> 0
                then o1\<lparr>out_add_detail_key := set_out (want_key w) (Some NM_OPENCONNECT_KEY_PROTOCOL) None,
                  out_add_detail_val := set_out (want_val w) (Some add_detail) None\<rparr>
                else o1)
      in o2\<lparr>out_flags := set_out (want_flags w) (Some 0) None\<rparr>)"

definition vt_impl_get_service_add_detail ::
  "oc_plugin \<Rightarrow> wanted \<Rightarrow> string \<Rightarrow> string \<Rightarrow> unit + outs option" where
  "vt_impl_get_service_add_detail priv w service_type add_detail =
     (if service_type \<noteq> NM_VPN_SERVICE_TYPE_OPENCONNECT then Inr None
      else case add_detail_loop (supported_protocols priv) 0 (loop_limit (nr_supported_protocols priv)) add_detail of
             Inl u \<Rightarrow> Inl u
           | Inr None \<Rightarrow> Inr None
           | Inr (Some (i, p)) \<Rightarrow> Inr (Some (detail_outs w i p add_detail)))"

definition vt :: "oc_plugin \<Rightarrow> plugin_vt" where
  "vt priv = \<lparr>fcn_get_service_info = None,
     fcn_get_service_add_details = Some (vt_impl_get_service_add_details priv),
     fcn_get_service_add_detail = Some (vt_impl_get_service_add_detail priv)\<rparr>"

definition NM_VPN_EDITOR_PLUGIN_CAPABILITY_NONE :: u32 where "NM_VPN_EDITOR_PLUGIN_CAPABILITY_NONE = 0"
definition NM_VPN_EDITOR_PLUGIN_CAPABILITY_IMPORT :: u32 where "NM_VPN_EDITOR_PLUGIN_CAPABILITY_IMPORT = 1"
definition NM_VPN_EDITOR_PLUGIN_CAPABILITY_EXPORT :: u32 where "NM_VPN_EDITOR_PLUGIN_CAPABILITY_EXPORT = 2"
definition NM_VPN_EDITOR_PLUGIN_CAPABILITY_IPV6 :: u32 where "NM_VPN_EDITOR_PLUGIN_CAPABILITY_IPV6 = 4"

definition plugin_get_capabilities :: u32 where
  "plugin_get_capabilities = NM_VPN_EDITOR_PLUGIN_CAPABILITY_NONE"

definition get_capabilities :: u32 where
  "get_capabilities = or NM_VPN_EDITOR_PLUGIN_CAPABILITY_IMPORT
     (or NM_VPN_EDITOR_PLUGIN_CAPABILITY_EXPORT NM_VPN_EDITOR_PLUGIN_CAPABILITY_IPV6)"

text \<open>The three properties of a plugin object; \<open>None\<close> is an invalid property id.\<close>

datatype plugin_prop = PROP_NAME | PROP_DESC | PROP_SERVICE | PROP_OTHER

fun plugin_get_property :: "(string \<Rightarrow> string) \<Rightarrow> plugin_prop \<Rightarrow> cstr" where
  "plugin_get_property gettext PROP_NAME = Some (gettext ''GlobalProtect (gpclient)'')"
| "plugin_get_property gettext PROP_DESC = Some (gettext ''GlobalProtect VPN using gpclient browser authentication'')"
| "plugin_get_property gettext PROP_SERVICE = Some NM_VPN_SERVICE_TYPE_OPENCONNECT"
| "plugin_get_property gettext PROP_OTHER = None"

fun get_property :: "(string \<Rightarrow> string) \<Rightarrow> plugin_prop \<Rightarrow> cstr" where
  "get_property gettext PROP_NAME = Some (gettext ''Multi-protocol VPN client (openconnect)'')"
| "get_property gettext PROP_DESC =
     Some (gettext ''Compatible with Cisco AnyConnect, Juniper Network Connect and Junos Pulse, and PAN GlobalProtect SSL VPNs.'')"
| "get_property gettext PROP_SERVICE = Some NM_VPN_SERVICE_TYPE_OPENCONNECT"
| "get_property gettext PROP_OTHER = None"

text \<open>\<open>dispose\<close> frees the protocols but leaves their number.\<close>

definition openconnect_editor_plugin_dispose :: "oc_plugin \<Rightarrow> oc_plugin" where
  "openconnect_editor_plugin_dispose priv = priv\<lparr>supported_protocols := []\<rparr>"

end
