(* ===== verification/Plugin_Facts.thy ===== *)
theory Plugin_Facts
  imports Plugin_Utils Transition
begin

text \<open>
  What the plugin utilities guarantee: the editor library is opened once and cached with its factory,
  failures carry their error, and what the openconnect plugin lists it also describes.
\<close>

section \<open>Loading once\<close>

text \<open>The history of one process: the cache and everything done with libraries, over calls with any
  names, linkers and factories. An editor is its address here.\<close>

inductive load_step :: "'f dl_cache \<times> dl_action list \<Rightarrow> 'f dl_cache \<times> dl_action list \<Rightarrow> bool" where
  "nm_vpn_plugin_utils_load_editor dl module_name factory_name editor_factory connection cache = (ed :: nat option, err, cache', acts) \<Longrightarrow>
     load_step (cache, log) (cache', log @ acts)"

definition load_init :: "'f dl_cache \<times> dl_action list \<Rightarrow> bool" where
  "load_init s \<longleftrightarrow> s = (empty_cache, [])"

fun open_handles :: "dl_action list \<Rightarrow> nat list" where
  "open_handles [] = []"
| "open_handles (DlOpen h # acts) = h # open_handles acts"
| "open_handles (DlClose h # acts) = open_handles acts"

fun closed_handles :: "dl_action list \<Rightarrow> nat list" where
  "closed_handles [] = []"
| "closed_handles (DlOpen h # acts) = closed_handles acts"
| "closed_handles (DlClose h # acts) = h # closed_handles acts"

lemma handles_append [simp]:
  "open_handles (xs @ ys) = open_handles xs @ open_handles ys"
  "closed_handles (xs @ ys) = closed_handles xs @ closed_handles ys"
  by (induction xs rule: open_handles.induct) auto

definition cache_ok :: "'f dl_cache \<Rightarrow> bool" where
  "cache_ok c \<longleftrightarrow> (if cd_factory c = None then c = empty_cache
     else cd_dl_module c \<noteq> None \<and> cd_module_name c \<noteq> None \<and> cd_factory_name c \<noteq> None)"

definition load_inv :: "'f dl_cache \<times> dl_action list \<Rightarrow> bool" where
  "load_inv s \<longleftrightarrow> cache_ok (fst s) \<and>
     (case cd_dl_module (fst s) of
        None \<Rightarrow> open_handles (snd s) = closed_handles (snd s)
      | Some h \<Rightarrow> open_handles (snd s) = closed_handles (snd s) @ [h])"

lemma get_factory_cached:
  "cd_factory cache = Some f \<Longrightarrow> snd (get_factory dl path m n err cache) = (cache, [])"
  by (simp add: get_factory_def)

lemma load_editor_cached:
  "cd_factory cache = Some f \<Longrightarrow> snd (snd (nm_vpn_plugin_utils_load_editor dl m n ef conn cache)) = (cache, [])"
  using get_factory_cached [of cache f dl "fst (module_path dl m)" m n "snd (module_path dl m)"]
  by (auto simp: nm_vpn_plugin_utils_load_editor_def split: prod.splits sum.splits option.splits)

lemma load_editor_fresh:
  assumes "nm_vpn_plugin_utils_load_editor dl m n ef conn empty_cache = (ed, err, cache', acts)"
  shows "cache' = empty_cache \<and> open_handles acts = closed_handles acts \<or>
    (\<exists>h f. cache' = \<lparr>cd_factory = Some f, cd_dl_module = Some h, cd_module_name = Some m, cd_factory_name = Some n\<rparr> \<and>
       acts = [DlOpen h])"
  using assms
  by (auto simp: nm_vpn_plugin_utils_load_editor_def get_factory_def empty_cache_def Let_def
      split: prod.splits sum.splits option.splits if_splits)

interpretation loading: invariant_system load_init load_step load_inv
proof unfold_locales
  fix s s' :: "'f dl_cache \<times> dl_action list"
  show "load_init s \<Longrightarrow> load_inv s" by (simp add: load_init_def load_inv_def cache_ok_def empty_cache_def)
  assume i: "load_inv s" and "load_step s s'"
  then obtain dl m n ef conn cache err cache' acts log and ed :: "nat option" where
    l: "nm_vpn_plugin_utils_load_editor dl m n ef conn cache = (ed, err, cache', acts)"
    and s: "s = (cache, log)" "s' = (cache', log @ acts)" by (auto elim: load_step.cases)
  show "load_inv s'"
  proof (cases "cd_factory cache")
    case None
    with i s have "cache = empty_cache" by (simp add: load_inv_def cache_ok_def)
    with load_editor_fresh l i s show ?thesis
      by (fastforce simp: load_inv_def cache_ok_def empty_cache_def)
  next
    case (Some f)
    with load_editor_cached [OF Some, of dl m n ef conn] l i s show ?thesis by simp
  qed
qed

text \<open>C29: The editor library is opened once: over any calls, with whatever names and linkers, the handles
  opened are those closed again and at most one more, which the cache holds together with its factory;
  once it does, no call opens anything or changes what later calls get.\<close>

theorem editor_library_loaded_once:
  assumes "reach load_init load_step (cache, log)"
  shows "(case cd_dl_module cache of
      None \<Rightarrow> cd_factory cache = None \<and> open_handles log = closed_handles log
    | Some h \<Rightarrow> open_handles log = closed_handles log @ [h] \<and>
        (\<forall>dl m n (ef :: 'f \<Rightarrow> connection \<Rightarrow> gerror option \<Rightarrow> nat option \<times> gerror option) conn.
           snd (snd (nm_vpn_plugin_utils_load_editor dl m n ef conn cache)) = (cache, [])))"
proof -
  from loading.reach_inv [OF assms] have i: "load_inv (cache, log)" .
  show ?thesis
  proof (cases "cd_factory cache")
    case None
    with i show ?thesis by (auto simp: load_inv_def cache_ok_def empty_cache_def)
  next
    case (Some f)
    with i load_editor_cached [OF Some] show ?thesis by (auto simp: load_inv_def cache_ok_def split: option.splits)
  qed
qed

text \<open>A call that gives no editor says why: with a fresh cache and the plugin's own path known, either
  the library could not be opened, or it has no such factory and was closed again, or the factory gave
  no editor, and each leaves its error; otherwise the editor is what the factory of the opened library
  made, and the cache remembers it under the names asked for.\<close>

theorem load_editor_spec:
  assumes "module_path dl m = (path, None)" "n = c # cs"
  shows "nm_vpn_plugin_utils_load_editor dl m n ef conn empty_cache =
    (case dl_open dl path of
       Inl e \<Rightarrow> (None, Some (if dl_file_exists dl path then CannotLoadPlugin e else MissingPluginFile path), empty_cache, [])
     | Inr h \<Rightarrow>
         (case dl_sym dl h n of
            Inl e \<Rightarrow> (None, Some (CannotLoadFactory n), empty_cache, [DlOpen h, DlClose h])
          | Inr f \<Rightarrow>
              (case ef f conn None of
                 (ed, err) \<Rightarrow>
                   (ed, (if ed = None \<and> err = None then Some UnknownEditorError else err),
                    \<lparr>cd_factory = Some f, cd_dl_module = Some h, cd_module_name = Some m, cd_factory_name = Some n\<rparr>,
                    [DlOpen h]))))"
  using assms
  by (auto simp: nm_vpn_plugin_utils_load_editor_def get_factory_def empty_cache_def split: prod.splits sum.splits option.splits)

text \<open>When \<open>dladdr\<close> fails the function reports that and goes on with a path made of uninitialised
  memory: it can return an editor together with an error.\<close>

theorem dladdr_failure_goes_on:
  assumes "dl_fname dl = None" "m = c # cs" "c \<noteq> CHR ''/''" "n = d # ds"
    and "dl_open dl (dl_path dl (dl_stale dl) m) = Inr h" "dl_sym dl h n = Inr f"
    and "ef f conn (Some PluginNameUnavailable) = (Some ed, Some PluginNameUnavailable)"
  shows "\<exists>cache' acts. nm_vpn_plugin_utils_load_editor dl m n ef conn empty_cache =
    (Some ed, Some PluginNameUnavailable, cache', acts)"
  using assms
  by (auto simp: nm_vpn_plugin_utils_load_editor_def get_factory_def module_path_def g_path_is_absolute_def empty_cache_def)

section \<open>What the openconnect plugin lists\<close>

lemma add_details_loop_all:
  "i \<le> length ps \<Longrightarrow> add_details_loop ps i (length ps) = Inr (map op_name (drop i ps))"
proof (induction "length ps - i" arbitrary: i)
  case 0
  then show ?case by (simp add: add_details_loop.simps [of ps i])
next
  case (Suc k)
  then have "add_details_loop ps (i + 1) (length ps) = Inr (map op_name (drop (i + 1) ps))" by auto
  with Suc show ?case by (simp add: add_details_loop.simps [of ps i] Cons_nth_drop_Suc [symmetric])
qed

lemma add_detail_loop_finds:
  assumes "i \<le> k" "k < length ps" "\<And>j. i \<le> j \<Longrightarrow> j < k \<Longrightarrow> op_name (ps ! j) \<noteq> d" "op_name (ps ! k) = d"
  shows "add_detail_loop ps i (length ps) d = Inr (Some (k, ps ! k))"
  using assms
proof (induction "k - i" arbitrary: i)
  case 0
  then show ?case by (simp add: add_detail_loop.simps [of ps i])
next
  case (Suc n)
  then have "add_detail_loop ps (i + 1) (length ps) d = Inr (Some (k, ps ! k))" by auto
  moreover from Suc have "d \<noteq> op_name (ps ! i)" by (metis le_refl less_Suc_eq_le not_less_eq_eq Suc_diff_le diff_is_0_eq' nat.distinct(1) not_less)
  ultimately show ?case using Suc by (simp add: add_detail_loop.simps [of ps i])
qed

lemma add_details_loop_outside: "i \<le> length ps \<Longrightarrow> length ps < n \<Longrightarrow> add_details_loop ps i n = Inl ()"
proof (induction "length ps - i" arbitrary: i)
  case 0
  then show ?case by (simp add: add_details_loop.simps [of ps i])
next
  case (Suc k)
  then have "add_details_loop ps (i + 1) n = Inl ()" by auto
  with Suc show ?case by (simp add: add_details_loop.simps [of ps i])
qed

lemma loop_limit_nonneg: "0 \<le> nr \<Longrightarrow> nr < 2 ^ 32 \<Longrightarrow> loop_limit nr = nat nr"
  by (simp add: loop_limit_def unsigned_of_int take_bit_int_eq_self)

lemma loop_limit_neg: "- (2 ^ 31) \<le> nr \<Longrightarrow> nr < 0 \<Longrightarrow> loop_limit nr = nat (nr + 2 ^ 32)"
proof -
  assume "- (2 ^ 31) \<le> nr" "nr < 0"
  then have "nr mod 2 ^ 32 = nr + 2 ^ 32"
    using mod_add_self2 [of nr "2 ^ 32 :: int"] mod_pos_pos_trivial [of "nr + 2 ^ 32" "2 ^ 32"] by simp
  then show ?thesis by (simp add: loop_limit_def unsigned_of_int take_bit_eq_mod)
qed

definition everything :: wanted where
  "everything = \<lparr>want_short = True, want_pretty = True, want_description = True, want_key = True, want_val = True,
     want_flags = True\<rparr>"

text \<open>A caller who asks which connection types the openconnect plugin can add and then asks about each
  gets an answer for each: its name, its description, and, for all but the first protocol, the data item
  that selects it.\<close>

theorem listed_details_are_described:
  assumes "nr_supported_protocols priv = int (length (supported_protocols priv))"
    and "int (length (supported_protocols priv)) < 2 ^ 32"
    and "distinct (map op_name (supported_protocols priv))" "k < length (supported_protocols priv)"
  shows "\<exists>details. nm_vpn_editor_plugin_get_service_add_details (vt priv) s = Inr details \<and>
    length details = length (supported_protocols priv) \<and>
    nm_vpn_editor_plugin_get_service_add_detail (vt priv) everything NM_VPN_SERVICE_TYPE_OPENCONNECT (details ! k) =
      Inr (Some \<lparr>out_short_name = None,
        out_pretty_name = Some (op_pretty_name (supported_protocols priv ! k) @ '' (OpenConnect)''),
        out_description = Some (op_description (supported_protocols priv ! k)),
        out_add_detail_key = (if k = 0 then None else Some ''protocol''),
        out_add_detail_val = (if k = 0 then None else Some (details ! k)),
        out_flags = Some 0\<rparr>)"
proof -
  let ?ps = "supported_protocols priv"
  have n: "loop_limit (nr_supported_protocols priv) = length ?ps" using assms(1,2) by (simp add: loop_limit_nonneg)
  have "add_detail_loop ?ps 0 (length ?ps) (op_name (?ps ! k)) = Inr (Some (k, ?ps ! k))"
    using assms(3,4) by (intro add_detail_loop_finds) (auto simp: distinct_conv_nth)
  then have "nm_vpn_editor_plugin_get_service_add_detail (vt priv) everything NM_VPN_SERVICE_TYPE_OPENCONNECT
      (map op_name ?ps ! k) = Inr (Some (hand_on (everything\<lparr>want_short := False\<rparr>)
        (detail_outs everything k (?ps ! k) (op_name (?ps ! k)))))"
    using assms(4) n
    by (simp add: nm_vpn_editor_plugin_get_service_add_detail_def vt_def vt_impl_get_service_add_detail_def)
  moreover have "nm_vpn_editor_plugin_get_service_add_details (vt priv) s = Inr (map op_name ?ps)"
    using n by (simp add: nm_vpn_editor_plugin_get_service_add_details_def vt_def vt_impl_get_service_add_details_def
        add_details_loop_all)
  ultimately show ?thesis
    using assms(4)
    by (intro exI [of _ "map op_name ?ps"])
      (simp add: hand_on_def detail_outs_def everything_def set_out_def no_outs_def Let_def)
qed

text \<open>A failed protocol query is not an empty list: when libopenconnect returns a negative count, the
  unsigned comparison makes the listing read beyond the array.\<close>

theorem negative_count_reads_outside:
  assumes "fst protos < 0" "- (2 ^ 31) \<le> fst protos" "int (length (snd protos)) < 2 ^ 31"
  shows "nm_vpn_editor_plugin_get_service_add_details (vt (notify_plugin_info_set protos True priv)) s = Inl ()"
proof -
  have "length (snd protos) < loop_limit (fst protos)" using assms by (simp add: loop_limit_neg)
  then show ?thesis
    by (simp add: nm_vpn_editor_plugin_get_service_add_details_def vt_def vt_impl_get_service_add_details_def
        notify_plugin_info_set_def add_details_loop_outside)
qed

section \<open>Examples\<close>

definition sample_dl :: "nat dl_sys" where
  "sample_dl = \<lparr>dl_fname = Some ''/usr/lib/NetworkManager/plugin.so'', dl_stale = ''junk'',
     dl_path = (\<lambda>fname name. ''/usr/lib/NetworkManager/'' @ name), dl_open = (\<lambda>path. Inr 3),
     dl_file_exists = (\<lambda>path. True), dl_sym = (\<lambda>h name. Inr 8)\<rparr>"

definition sample_factory :: "nat \<Rightarrow> connection \<Rightarrow> gerror option \<Rightarrow> nat option \<times> gerror option" where
  "sample_factory f conn err = (Some 1, err)"

definition sample_connection :: connection where
  "sample_connection = \<lparr>c_con = None, c_vpn = None\<rparr>"

lemma sample_load:
  "nm_vpn_plugin_utils_load_editor sample_dl ''e.so'' ''factory'' sample_factory sample_connection empty_cache =
     (Some 1, None, \<lparr>cd_factory = Some 8, cd_dl_module = Some 3, cd_module_name = Some ''e.so'',
        cd_factory_name = Some ''factory''\<rparr>, [DlOpen 3])"
  by code_simp

definition loaded_cache :: "nat dl_cache" where
  "loaded_cache = \<lparr>cd_factory = Some 8, cd_dl_module = Some 3, cd_module_name = Some ''e.so'',
     cd_factory_name = Some ''factory''\<rparr>"

lemma load_sample_reach: "reach load_init load_step (loaded_cache, [DlOpen 3])"
proof (rule reach_step)
  show "reach load_init load_step (empty_cache :: nat dl_cache, [])" by (rule reach_init) (simp add: load_init_def)
  show "load_step (empty_cache, []) (loaded_cache, [DlOpen 3])"
    using load_step.intros [OF sample_load, of "[]"] by (simp add: loaded_cache_def)
qed

theorem editor_library_loaded_once_witness:
  "snd (snd (nm_vpn_plugin_utils_load_editor sample_dl ''other.so'' ''factory'' sample_factory sample_connection loaded_cache)) =
    (loaded_cache, [])"
proof -
  have "cd_dl_module loaded_cache = Some 3" by (simp add: loaded_cache_def)
  with editor_library_loaded_once [OF load_sample_reach] show ?thesis by simp
qed

theorem load_editor_spec_witness:
  "fst (nm_vpn_plugin_utils_load_editor sample_dl ''e.so'' ''factory'' (\<lambda>f c e. (None :: nat option, e)) sample_connection
      empty_cache) = None \<and>
   fst (snd (nm_vpn_plugin_utils_load_editor sample_dl ''e.so'' ''factory'' (\<lambda>f c e. (None :: nat option, e)) sample_connection
      empty_cache)) = Some UnknownEditorError"
  using load_editor_spec [of sample_dl "''e.so''" "''/usr/lib/NetworkManager/e.so''" "''factory''" "CHR ''f''" "''actory''"
      "\<lambda>f c e. (None :: nat option, e)" sample_connection]
  by (simp add: module_path_def g_path_is_absolute_def sample_dl_def)

theorem dladdr_failure_goes_on_witness:
  "\<exists>cache' acts. nm_vpn_plugin_utils_load_editor (sample_dl\<lparr>dl_fname := None\<rparr>) ''e.so'' ''factory'' sample_factory
     sample_connection empty_cache = (Some 1, Some PluginNameUnavailable, cache', acts)"
  by (rule dladdr_failure_goes_on [of _ _ "CHR ''e''" "''.so''" _ "CHR ''f''" "''actory''" 3 8])
    (simp_all add: sample_dl_def sample_factory_def)

definition sample_protos :: "oc_vpn_proto list" where
  "sample_protos =
     [\<lparr>op_name = ''anyconnect'', op_pretty_name = ''Cisco AnyConnect'', op_description = ''a'', op_flags = 1\<rparr>,
      \<lparr>op_name = ''gp'', op_pretty_name = ''GlobalProtect'', op_description = ''g'', op_flags = 2\<rparr>]"

theorem listed_details_are_described_witness:
  "\<exists>details. nm_vpn_editor_plugin_get_service_add_details
     (vt \<lparr>nr_supported_protocols = 2, supported_protocols = sample_protos\<rparr>) ''s'' = Inr details \<and> length details = 2"
  using listed_details_are_described [of "\<lparr>nr_supported_protocols = 2, supported_protocols = sample_protos\<rparr>" 1 "''s''"]
  by (auto simp: sample_protos_def)

theorem negative_count_reads_outside_witness:
  "nm_vpn_editor_plugin_get_service_add_details
     (vt (notify_plugin_info_set (- 12, []) True \<lparr>nr_supported_protocols = 0, supported_protocols = []\<rparr>)) ''s'' = Inl ()"
  by (rule negative_count_reads_outside) simp_all

end
