(* ===== verification/Oc_Import_Export.thy ===== *)
theory Oc_Import_Export
  imports Errors Settings
begin

text \<open>
  Import and export of \<open>properties/nm-openconnect-editor-plugin.c\<close>. GLib's key file parser is a
  parameter: the importer gets what \<open>g_key_file_load_from_file\<close> made of the file, \<open>None\<close> if it
  failed, as the two accessors it uses on the group \<open>openconnect\<close>. The exporter gives the text it
  leaves in the file.
\<close>

record keyfile =
  kf_get_string :: "string \<Rightarrow> cstr"
  kf_get_boolean :: "string \<Rightarrow> bool"

definition add_yes :: "string \<Rightarrow> bool \<Rightarrow> string \<times> cstr" where
  "add_yes key bval = (key, if bval then Some ''yes'' else None)"

text \<open>\<open>if (buf && strcmp (buf, "(null)"))\<close>.\<close>

definition not_null_text :: "cstr \<Rightarrow> cstr" where
  "not_null_text buf = (if streq buf ''(null)'' then None else buf)"

section \<open>Import\<close>

text \<open>The optional data items in the order they are added; the soft token secret is added in between
  but goes into the other table.\<close>

definition import_items :: "keyfile \<Rightarrow> (string \<times> cstr) list" where
  "import_items kf =
     (let s = kf_get_string kf; b = kf_get_boolean kf in
      [(NM_OPENCONNECT_KEY_CACERT, not_null_text (s ''CACert'')),
       (NM_OPENCONNECT_KEY_PROTOCOL, s ''Protocol''),
       (NM_OPENCONNECT_KEY_PROXY, s ''Proxy''),
       (NM_OPENCONNECT_KEY_USERAGENT, s ''UserAgent''),
       add_yes NM_OPENCONNECT_KEY_CSD_ENABLE (b ''CSDEnable''),
       (NM_OPENCONNECT_KEY_CSD_WRAPPER, s ''CSDWrapper''),
       (NM_OPENCONNECT_KEY_REPORTED_OS, s ''ReportedOS''),
       (NM_OPENCONNECT_KEY_MCACERT, not_null_text (s ''MachineCertificate'')),
       (NM_OPENCONNECT_KEY_MCAKEY, not_null_text (s ''MachinePrivateKey'')),
       (NM_OPENCONNECT_KEY_USERCERT, not_null_text (s ''UserCertificate'')),
       (NM_OPENCONNECT_KEY_PRIVKEY, not_null_text (s ''PrivateKey'')),
       add_yes NM_OPENCONNECT_KEY_PEM_PASSPHRASE_FSID (b ''FSID''),
       add_yes NM_OPENCONNECT_KEY_PREVENT_INVALID_CERT (b ''PreventInvalidCert''),
       add_yes NM_OPENCONNECT_KEY_DISABLE_UDP (b ''DisableUDP''),
       (NM_OPENCONNECT_KEY_TOKEN_MODE, s ''StokenSource''),
       add_yes NM_OPENCONNECT_KEY_ENTRA_CA (b ''EntraConditionalAccess''),
       (NM_OPENCONNECT_KEY_ENTRA_CA_SSO_URL, s ''EntraConditionalAccessSSOURL''),
       (NM_OPENCONNECT_KEY_ENTRA_CA_AUTHORITY, s ''EntraConditionalAccessAuthority''),
       (NM_OPENCONNECT_KEY_ENTRA_CA_CLIENT_ID, s ''EntraConditionalAccessClientID''),
       (NM_OPENCONNECT_KEY_ENTRA_CA_REDIRECT_URI, s ''EntraConditionalAccessRedirectURI'')])"

definition import_profile :: "keyfile option \<Rightarrow> gerror + connection" where
  "import_profile keyfile =
     (case keyfile of
        None \<Rightarrow> Inl ImportParseFailed
      | Some kf \<Rightarrow>
          let s_vpn = nm_setting_vpn_new\<lparr>vs_service := NM_VPN_SERVICE_TYPE_OPENCONNECT\<rparr> in
          case kf_get_string kf ''Host'' of
            None \<Rightarrow> Inl ImportNoHost
          | Some host \<Rightarrow>
              let s_vpn = add_data_item NM_OPENCONNECT_KEY_GATEWAY host s_vpn;
                  s_vpn = put_opts add_data_item (import_items kf) s_vpn;
                  s_vpn = put_opts add_secret [(NM_OPENCONNECT_KEY_TOKEN_SECRET, kf_get_string kf ''StokenString'')] s_vpn
              in Inr \<lparr>c_con = Some \<lparr>cs_id = kf_get_string kf ''Description'', cs_interface = None, cs_permissions = []\<rparr>,
                      c_vpn = Some s_vpn\<rparr>)"

section \<open>Export\<close>

definition conn_data :: "connection \<Rightarrow> string \<Rightarrow> cstr" where
  "conn_data connection key = (case c_vpn connection of None \<Rightarrow> None | Some s_vpn \<Rightarrow> get_data_item s_vpn key)"

definition conn_secret :: "connection \<Rightarrow> string \<Rightarrow> cstr" where
  "conn_secret connection key = (case c_vpn connection of None \<Rightarrow> None | Some s_vpn \<Rightarrow> get_secret s_vpn key)"

text \<open>\<open>if (value && strlen (value)) x = value\<close>, and later \<open>x ? x : dflt\<close>.\<close>

definition text_or :: "string \<Rightarrow> cstr \<Rightarrow> string" where
  "text_or dflt value = (case value of Some v \<Rightarrow> if v \<noteq> [] then v else dflt | None \<Rightarrow> dflt)"

definition yes_digit :: "cstr \<Rightarrow> string" where
  "yes_digit value = (if streq value ''yes'' then ''1'' else ''0'')"

text \<open>\<open>%s\<close> of a NULL pointer, as glibc prints it.\<close>

definition printf_s :: "cstr \<Rightarrow> string" where
  "printf_s s = (case s of Some t \<Rightarrow> t | None \<Rightarrow> ''(null)'')"

definition connection_id :: "connection \<Rightarrow> cstr" where
  "connection_id connection = (case c_con connection of None \<Rightarrow> None | Some s_con \<Rightarrow> cs_id s_con)"

definition token_secret :: "connection \<Rightarrow> cstr" where
  "token_secret connection =
     (let value = conn_secret connection NM_OPENCONNECT_KEY_TOKEN_SECRET in
      if nonempty value then value else conn_data connection NM_OPENCONNECT_KEY_TOKEN_SECRET)"

text \<open>The keys and values of the \<open>fprintf\<close>, in order.\<close>

definition export_lines :: "connection \<Rightarrow> string \<Rightarrow> (string \<times> string) list" where
  "export_lines connection gateway =
     (let d = conn_data connection in
      [(''Description'', printf_s (connection_id connection)),
       (''Host'', gateway),
       (''CACert'', text_or [] (d NM_OPENCONNECT_KEY_CACERT)),
       (''Protocol'', text_or ''anyconnect'' (d NM_OPENCONNECT_KEY_PROTOCOL)),
       (''Proxy'', text_or [] (d NM_OPENCONNECT_KEY_PROXY)),
       (''UserAgent'', text_or [] (d NM_OPENCONNECT_KEY_USERAGENT)),
       (''CSDEnable'', yes_digit (d NM_OPENCONNECT_KEY_CSD_ENABLE)),
       (''CSDWrapper'', text_or [] (d NM_OPENCONNECT_KEY_CSD_WRAPPER)),
       (''ReportedOS'', text_or [] (d NM_OPENCONNECT_KEY_REPORTED_OS)),
       (''MachineCertificate'', text_or [] (d NM_OPENCONNECT_KEY_MCACERT)),
       (''MachinePrivateKey'', text_or [] (d NM_OPENCONNECT_KEY_MCAKEY)),
       (''UserCertificate'', text_or [] (d NM_OPENCONNECT_KEY_USERCERT)),
       (''PrivateKey'', text_or [] (d NM_OPENCONNECT_KEY_PRIVKEY)),
       (''FSID'', yes_digit (d NM_OPENCONNECT_KEY_PEM_PASSPHRASE_FSID)),
       (''PreventInvalidCert'', yes_digit (d NM_OPENCONNECT_KEY_PREVENT_INVALID_CERT)),
       (''DisableUDP'', yes_digit (d NM_OPENCONNECT_KEY_DISABLE_UDP)),
       (''StokenSource'', text_or [] (d NM_OPENCONNECT_KEY_TOKEN_MODE)),
       (''StokenString'', text_or [] (token_secret connection)),
       (''EntraConditionalAccess'', yes_digit (d NM_OPENCONNECT_KEY_ENTRA_CA)),
       (''EntraConditionalAccessSSOURL'', text_or [] (d NM_OPENCONNECT_KEY_ENTRA_CA_SSO_URL)),
       (''EntraConditionalAccessAuthority'', text_or [] (d NM_OPENCONNECT_KEY_ENTRA_CA_AUTHORITY)),
       (''EntraConditionalAccessClientID'', text_or [] (d NM_OPENCONNECT_KEY_ENTRA_CA_CLIENT_ID)),
       (''EntraConditionalAccessRedirectURI'', text_or [] (d NM_OPENCONNECT_KEY_ENTRA_CA_REDIRECT_URI))])"

definition export_line :: "string \<times> string \<Rightarrow> string" where
  "export_line kv = fst kv @ ''='' @ snd kv @ [CHR 0x0A]"

definition export_text :: "(string \<times> string) list \<Rightarrow> string" where
  "export_text kvs = ''[openconnect]'' @ [CHR 0x0A] @ concat (map export_line kvs)"

text \<open>The result and what the file holds afterwards, \<open>None\<close> if it could not be opened. Opening for
  writing empties the file before the profile is looked at.\<close>

definition export_profile :: "bool \<Rightarrow> connection \<Rightarrow> (gerror + unit) \<times> cstr" where
  "export_profile can_open connection =
     (if \<not> can_open then (Inl ExportCannotOpen, None)
      else
        let value = conn_data connection NM_OPENCONNECT_KEY_GATEWAY in
        case value of
          None \<Rightarrow> (Inl ExportMissingGateway, Some [])
        | Some gateway \<Rightarrow>
            if gateway \<noteq> [] then (Inr (), Some (export_text (export_lines connection gateway)))
            else (Inl ExportMissingGateway, Some []))"

end
