(* ===== verification/Oc_Import_Facts.thy ===== *)
theory Oc_Import_Facts
  imports Oc_Import_Export Gp_Editor_Facts Inet
begin

text \<open>
  What export and import guarantee together, given a key file parser that gives back plain values:
  the settings in the file survive, empty ones stay without effect, and what the file has no line for is
  lost. And what an imported profile still lacks before the service takes it.
\<close>

section \<open>The key file parser, as documented\<close>

text \<open>Values without control characters, backslashes or spaces at their ends are read back as written,
  under every key of letters and digits that occurs once; a boolean is true for \<open>1\<close> and \<open>true\<close>.\<close>

definition in_range :: "nat \<Rightarrow> nat \<Rightarrow> char \<Rightarrow> bool" where
  "in_range lo hi c \<longleftrightarrow> lo \<le> of_char c \<and> of_char c \<le> hi"

definition name_char :: "char \<Rightarrow> bool" where
  "name_char c \<longleftrightarrow> in_range 0x30 0x39 c \<or> in_range 0x41 0x5A c \<or> in_range 0x61 0x7A c"

definition plain_value :: "string \<Rightarrow> bool" where
  "plain_value v \<longleftrightarrow> list_all (\<lambda>c. in_range 0x20 0x7E c \<and> c \<noteq> CHR 0x5C) v \<and>
     (v = [] \<or> hd v \<noteq> CHR '' '' \<and> last v \<noteq> CHR '' '')"

definition keyfile_law :: "(string \<Rightarrow> keyfile option) \<Rightarrow> bool" where
  "keyfile_law load \<longleftrightarrow>
     (\<forall>kvs. distinct (map fst kvs) \<and>
        list_all (\<lambda>kv. fst kv \<noteq> [] \<and> list_all name_char (fst kv) \<and>
          plain_value (snd kv)) kvs \<longrightarrow>
        (\<exists>kf. load (export_text kvs) = Some kf \<and> (\<forall>k. kf_get_string kf k = map_of kvs k) \<and>
           (\<forall>k. kf_get_boolean kf k = (map_of kvs k = Some ''1'' \<or> map_of kvs k = Some ''true''))))"

section \<open>Profiles that can be exported\<close>

definition plain_cstr :: "cstr \<Rightarrow> bool" where
  "plain_cstr s \<longleftrightarrow> (case s of None \<Rightarrow> True | Some v \<Rightarrow> plain_value v)"

definition plain_profile :: "connection \<Rightarrow> bool" where
  "plain_profile conn \<longleftrightarrow> plain_cstr (connection_id conn) \<and>
     (\<forall>k. plain_cstr (conn_data conn k) \<and> plain_cstr (conn_secret conn k) \<and> conn_data conn k \<noteq> Some ''(null)'')"

lemma conn_mk [simp]:
  "conn_data \<lparr>c_con = a, c_vpn = Some s\<rparr> k = get_data_item s k"
  "conn_secret \<lparr>c_con = a, c_vpn = Some s\<rparr> k = get_secret s k"
  "connection_id \<lparr>c_con = Some c, c_vpn = v\<rparr> = cs_id c"
  by (simp_all add: conn_data_def conn_secret_def connection_id_def)

lemma token_mk:
  "token_secret \<lparr>c_con = a, c_vpn = Some s\<rparr> =
     (if nonempty (get_secret s ''stoken_string'') then get_secret s ''stoken_string'' else get_data_item s ''stoken_string'')"
  by (simp add: token_secret_def Let_def)

lemma plain_printf: "plain_cstr s \<Longrightarrow> plain_value (printf_s s)"
  by (cases s) (simp_all add: plain_cstr_def printf_s_def plain_value_def in_range_def)

lemma plain_text_or: "plain_cstr s \<Longrightarrow> plain_value dflt \<Longrightarrow> plain_value (text_or dflt s)"
  by (cases s) (simp_all add: plain_cstr_def text_or_def)

lemma plain_consts [simp]:
  "plain_value []" "plain_value (yes_digit s)" "plain_value ''anyconnect''"
  by (simp_all add: plain_value_def yes_digit_def in_range_def)

lemma export_success:
  "export_profile can_open conn = (Inr (), file) \<longleftrightarrow>
     (\<exists>g. can_open \<and> conn_data conn ''gateway'' = Some g \<and> g \<noteq> [] \<and> file = Some (export_text (export_lines conn g)))"
  by (auto simp: export_profile_def Let_def split: option.splits)

lemma export_lines_distinct: "distinct (map fst (export_lines conn g))"
  by (simp add: export_lines_def Let_def)

lemma export_lines_plain:
  assumes "plain_profile conn" "conn_data conn ''gateway'' = Some g"
  shows "list_all (\<lambda>kv. plain_value (snd kv)) (export_lines conn g)"
proof -
  have d: "plain_cstr (conn_data conn k)" "plain_cstr (conn_secret conn k)" "plain_cstr (connection_id conn)" for k
    using assms(1) by (auto simp: plain_profile_def)
  moreover have "plain_value g" using d(1) [of "''gateway''"] assms(2) by (simp add: plain_cstr_def)
  ultimately show ?thesis
    by (simp add: export_lines_def Let_def plain_printf plain_text_or token_secret_def)
qed

lemma export_lines_keys:
  "list_all (\<lambda>kv. fst kv \<noteq> [] \<and>
     list_all name_char (fst kv)) (export_lines conn g)"
  by (simp add: export_lines_def Let_def name_char_def in_range_def)

lemma load_exported:
  assumes "keyfile_law load" "plain_profile conn" "export_profile can_open conn = (Inr (), Some file)"
  obtains g kf where "load file = Some kf" "conn_data conn ''gateway'' = Some g" "g \<noteq> []"
    "\<And>k. kf_get_string kf k = map_of (export_lines conn g) k"
    "\<And>k. kf_get_boolean kf k = (map_of (export_lines conn g) k = Some ''1'' \<or> map_of (export_lines conn g) k = Some ''true'')"
proof -
  from assms(3) obtain g where g: "conn_data conn ''gateway'' = Some g" "g \<noteq> []"
    "file = export_text (export_lines conn g)" by (auto simp: export_success)
  have "list_all (\<lambda>kv. fst kv \<noteq> [] \<and> list_all name_char (fst kv) \<and>
      plain_value (snd kv)) (export_lines conn g)"
    using export_lines_keys [of conn g] export_lines_plain [OF assms(2) g(1)] by (simp add: list_all_iff)
  then obtain kf where "load (export_text (export_lines conn g)) = Some kf"
    "\<forall>k. kf_get_string kf k = map_of (export_lines conn g) k"
    "\<forall>k. kf_get_boolean kf k = (map_of (export_lines conn g) k = Some ''1'' \<or> map_of (export_lines conn g) k = Some ''true'')"
    using assms(1) export_lines_distinct [of conn g] unfolding keyfile_law_def by blast
  with g that show ?thesis by blast
qed

section \<open>Export, then import\<close>

definition text_keys :: "string list" where
  "text_keys = [''gateway'', ''cacert'', ''proxy'', ''useragent'', ''csd_wrapper'', ''reported_os'', ''mcacert'', ''mcakey'',
     ''usercert'', ''userkey'', ''stoken_source'', ''entra_conditional_access_sso_url'',
     ''entra_conditional_access_authority'', ''entra_conditional_access_client_id'',
     ''entra_conditional_access_redirect_uri'']"

definition switch_keys :: "string list" where
  "switch_keys = [''enable_csd_trojan'', ''pem_passphrase_fsid'', ''prevent_invalid_cert'', ''disable_udp'',
     ''entra_conditional_access'']"

definition imported_keys :: "string list" where
  "imported_keys = ''protocol'' # text_keys @ switch_keys"

lemma import_Inr:
  assumes "kf_get_string kf ''Host'' = Some g"
  obtains s where
    "import_profile (Some kf) = Inr \<lparr>c_con = Some \<lparr>cs_id = kf_get_string kf ''Description'', cs_interface = None,
       cs_permissions = []\<rparr>, c_vpn = Some s\<rparr>"
    "\<And>k. get_data_item s k = (case last_put (import_items kf) k of Some v \<Rightarrow> Some v
       | None \<Rightarrow> if k = ''gateway'' then Some g else None)"
    "\<And>k. get_secret s k = (if k = ''stoken_string'' then kf_get_string kf ''StokenString'' else None)"
    "vs_service s = NM_VPN_SERVICE_TYPE_OPENCONNECT"
proof -
  let ?new = "nm_setting_vpn_new\<lparr>vs_service := NM_VPN_SERVICE_TYPE_OPENCONNECT\<rparr>"
  let ?filled = "put_opts add_data_item (import_items kf) (add_data_item ''gateway'' g ?new)"
  let ?s = "put_opts add_secret [(''stoken_string'', kf_get_string kf ''StokenString'')] ?filled"
  have 0: "get_data_item (nm_setting_vpn_new\<lparr>vs_service := x\<rparr>) k = None"
    "get_secret (nm_setting_vpn_new\<lparr>vs_service := x\<rparr>) k = None" for k x
    by (simp_all add: get_data_item_def get_secret_def nm_setting_vpn_new_def)
  have sec: "get_secret (put_opts add_data_item kvs x) = get_secret x" for kvs x
    by (simp add: get_secret_def fun_eq_iff put_opts_frame)
  show ?thesis
  proof (rule that [of ?s])
    show "import_profile (Some kf) = Inr \<lparr>c_con = Some \<lparr>cs_id = kf_get_string kf ''Description'', cs_interface = None,
       cs_permissions = []\<rparr>, c_vpn = Some ?s\<rparr>"
      using assms by (simp add: import_profile_def Let_def)
    show "get_data_item ?s k = (case last_put (import_items kf) k of Some v \<Rightarrow> Some v
       | None \<Rightarrow> if k = ''gateway'' then Some g else None)" for k
      by (cases "kf_get_string kf ''StokenString''")
        (simp_all add: data_items.get_put_opts data_items.get_put 0 split: option.splits)
    show "get_secret ?s k = (if k = ''stoken_string'' then kf_get_string kf ''StokenString'' else None)" for k
      by (cases "kf_get_string kf ''StokenString''") (simp_all add: secrets.get_put sec 0)
    show "vs_service ?s = NM_VPN_SERVICE_TYPE_OPENCONNECT"
      by (cases "kf_get_string kf ''StokenString''") (simp_all add: put_opts_frame add_secret_def)
  qed
qed

text \<open>The importer and the exporter, key by key.\<close>

lemma import_lookup:
  "last_put (import_items kf) ''gateway'' = None"
  "last_put (import_items kf) ''cacert'' = not_null_text (kf_get_string kf ''CACert'')"
  "last_put (import_items kf) ''protocol'' = kf_get_string kf ''Protocol''"
  "last_put (import_items kf) ''proxy'' = kf_get_string kf ''Proxy''"
  "last_put (import_items kf) ''useragent'' = kf_get_string kf ''UserAgent''"
  "last_put (import_items kf) ''enable_csd_trojan'' = some_if (kf_get_boolean kf ''CSDEnable'') ''yes''"
  "last_put (import_items kf) ''csd_wrapper'' = kf_get_string kf ''CSDWrapper''"
  "last_put (import_items kf) ''reported_os'' = kf_get_string kf ''ReportedOS''"
  "last_put (import_items kf) ''mcacert'' = not_null_text (kf_get_string kf ''MachineCertificate'')"
  "last_put (import_items kf) ''mcakey'' = not_null_text (kf_get_string kf ''MachinePrivateKey'')"
  "last_put (import_items kf) ''usercert'' = not_null_text (kf_get_string kf ''UserCertificate'')"
  "last_put (import_items kf) ''userkey'' = not_null_text (kf_get_string kf ''PrivateKey'')"
  "last_put (import_items kf) ''pem_passphrase_fsid'' = some_if (kf_get_boolean kf ''FSID'') ''yes''"
  "last_put (import_items kf) ''prevent_invalid_cert'' = some_if (kf_get_boolean kf ''PreventInvalidCert'') ''yes''"
  "last_put (import_items kf) ''disable_udp'' = some_if (kf_get_boolean kf ''DisableUDP'') ''yes''"
  "last_put (import_items kf) ''stoken_source'' = kf_get_string kf ''StokenSource''"
  "last_put (import_items kf) ''stoken_string'' = None"
  "last_put (import_items kf) ''entra_conditional_access'' = some_if (kf_get_boolean kf ''EntraConditionalAccess'') ''yes''"
  "last_put (import_items kf) ''entra_conditional_access_sso_url'' = kf_get_string kf ''EntraConditionalAccessSSOURL''"
  "last_put (import_items kf) ''entra_conditional_access_authority'' = kf_get_string kf ''EntraConditionalAccessAuthority''"
  "last_put (import_items kf) ''entra_conditional_access_client_id'' = kf_get_string kf ''EntraConditionalAccessClientID''"
  "last_put (import_items kf) ''entra_conditional_access_redirect_uri'' = kf_get_string kf ''EntraConditionalAccessRedirectURI''"
  by (simp_all add: import_items_def add_yes_def Let_def case_option_self some_if_def)

lemma export_lookup:
  "map_of (export_lines conn g) ''Description'' = Some (printf_s (connection_id conn))"
  "map_of (export_lines conn g) ''Host'' = Some g"
  "map_of (export_lines conn g) ''CACert'' = Some (text_or [] (conn_data conn ''cacert''))"
  "map_of (export_lines conn g) ''Protocol'' = Some (text_or ''anyconnect'' (conn_data conn ''protocol''))"
  "map_of (export_lines conn g) ''Proxy'' = Some (text_or [] (conn_data conn ''proxy''))"
  "map_of (export_lines conn g) ''UserAgent'' = Some (text_or [] (conn_data conn ''useragent''))"
  "map_of (export_lines conn g) ''CSDEnable'' = Some (yes_digit (conn_data conn ''enable_csd_trojan''))"
  "map_of (export_lines conn g) ''CSDWrapper'' = Some (text_or [] (conn_data conn ''csd_wrapper''))"
  "map_of (export_lines conn g) ''ReportedOS'' = Some (text_or [] (conn_data conn ''reported_os''))"
  "map_of (export_lines conn g) ''MachineCertificate'' = Some (text_or [] (conn_data conn ''mcacert''))"
  "map_of (export_lines conn g) ''MachinePrivateKey'' = Some (text_or [] (conn_data conn ''mcakey''))"
  "map_of (export_lines conn g) ''UserCertificate'' = Some (text_or [] (conn_data conn ''usercert''))"
  "map_of (export_lines conn g) ''PrivateKey'' = Some (text_or [] (conn_data conn ''userkey''))"
  "map_of (export_lines conn g) ''FSID'' = Some (yes_digit (conn_data conn ''pem_passphrase_fsid''))"
  "map_of (export_lines conn g) ''PreventInvalidCert'' = Some (yes_digit (conn_data conn ''prevent_invalid_cert''))"
  "map_of (export_lines conn g) ''DisableUDP'' = Some (yes_digit (conn_data conn ''disable_udp''))"
  "map_of (export_lines conn g) ''StokenSource'' = Some (text_or [] (conn_data conn ''stoken_source''))"
  "map_of (export_lines conn g) ''StokenString'' = Some (text_or [] (token_secret conn))"
  "map_of (export_lines conn g) ''EntraConditionalAccess'' = Some (yes_digit (conn_data conn ''entra_conditional_access''))"
  "map_of (export_lines conn g) ''EntraConditionalAccessSSOURL'' = Some (text_or [] (conn_data conn ''entra_conditional_access_sso_url''))"
  "map_of (export_lines conn g) ''EntraConditionalAccessAuthority'' = Some (text_or [] (conn_data conn ''entra_conditional_access_authority''))"
  "map_of (export_lines conn g) ''EntraConditionalAccessClientID'' = Some (text_or [] (conn_data conn ''entra_conditional_access_client_id''))"
  "map_of (export_lines conn g) ''EntraConditionalAccessRedirectURI'' = Some (text_or [] (conn_data conn ''entra_conditional_access_redirect_uri''))"
  by (simp_all add: export_lines_def Let_def)

lemma yes_digit_iff [simp]: "yes_digit v = ''1'' \<longleftrightarrow> streq v ''yes''" "yes_digit v \<noteq> ''true''"
  by (simp_all add: yes_digit_def)

lemma import_items_keys: "fst ` set (import_items kf) \<subseteq> set imported_keys"
  by (simp add: import_items_def Let_def add_yes_def imported_keys_def text_keys_def switch_keys_def)

lemma import_other: "k \<notin> set imported_keys \<Longrightarrow> last_put (import_items kf) k = None"
  using import_items_keys [of kf] by (auto intro: last_put_None)

text \<open>Exporting a connection depends on these texts only, so reading them back changes nothing.\<close>

lemma text_or_again [simp]: "text_or dflt (Some (text_or dflt v)) = text_or dflt v"
  by (cases v) (auto simp: text_or_def)

lemma not_null_text_or: "v \<noteq> Some ''(null)'' \<Longrightarrow> not_null_text (Some (text_or [] v)) = Some (text_or [] v)"
  by (cases v) (auto simp: text_or_def not_null_text_def)

lemma printf_again [simp]: "printf_s (Some t) = t"
  by (simp add: printf_s_def)

lemma yes_digit_again [simp]: "yes_digit (some_if (streq v ''yes'') ''yes'') = yes_digit v"
  by (simp add: yes_digit_def some_if_def)

text \<open>C28: What export and import together do to a profile of plain values, key by key. The name comes back, as
  \<open>(null)\<close> if there was none. Of the keys the file has a line for, a text comes back as it was, a missing
  one as an empty text, which has no effect; a missing or empty protocol becomes \<open>anyconnect\<close>; a switch
  comes back exactly if it was \<open>yes\<close>, so an explicit \<open>no\<close> or any other value is gone. The soft token
  comes back as the one secret. Nothing else does: every other item and secret is missing. And exporting
  the imported profile writes the same file again, so further trips lose nothing more.\<close>

theorem export_import_roundtrip:
  assumes "keyfile_law load" "plain_profile conn" "export_profile can_open conn = (Inr (), Some file)"
  shows "\<exists>conn'. import_profile (load file) = Inr conn' \<and>
    connection_id conn' = Some (printf_s (connection_id conn)) \<and>
    list_all (\<lambda>k. conn_data conn' k = Some (text_or [] (conn_data conn k))) text_keys \<and>
    list_all (\<lambda>k. conn_data conn' k = (if conn_data conn k = Some ''yes'' then Some ''yes'' else None)) switch_keys \<and>
    conn_data conn' ''protocol'' = Some (text_or ''anyconnect'' (conn_data conn ''protocol'')) \<and>
    (\<forall>k. if k \<in> set imported_keys then True else conn_data conn' k = None) \<and>
    (\<forall>k. conn_secret conn' k = (if k = ''stoken_string'' then Some (text_or [] (token_secret conn)) else None)) \<and>
    export_profile can_open conn' = (Inr (), Some file)"
proof -
  obtain g kf where l: "load file = Some kf" and g: "conn_data conn ''gateway'' = Some g" "g \<noteq> []"
    and kf: "\<And>k. kf_get_string kf k = map_of (export_lines conn g) k"
    "\<And>k. kf_get_boolean kf k = (map_of (export_lines conn g) k = Some ''1'' \<or> map_of (export_lines conn g) k = Some ''true'')"
    by (rule load_exported [OF assms]) blast
  have host: "kf_get_string kf ''Host'' = Some g" by (simp add: kf export_lookup)
  obtain s where i: "import_profile (Some kf) = Inr \<lparr>c_con = Some \<lparr>cs_id = kf_get_string kf ''Description'',
       cs_interface = None, cs_permissions = []\<rparr>, c_vpn = Some s\<rparr>" (is "_ = Inr ?c")
    and d: "\<And>k. get_data_item s k = (case last_put (import_items kf) k of Some v \<Rightarrow> Some v
       | None \<Rightarrow> if k = ''gateway'' then Some g else None)"
    and x: "\<And>k. get_secret s k = (if k = ''stoken_string'' then kf_get_string kf ''StokenString'' else None)"
    and "vs_service s = NM_VPN_SERVICE_TYPE_OPENCONNECT"
    by (rule import_Inr [OF host], rule that)
  note it = d import_lookup kf export_lookup
  have nn: "conn_data conn k \<noteq> Some ''(null)''" for k using assms(2) by (simp add: plain_profile_def)
  have name: "connection_id ?c = Some (printf_s (connection_id conn))"
    by (simp add: connection_id_def kf export_lookup)
  have texts: "list_all (\<lambda>k. conn_data ?c k = Some (text_or [] (conn_data conn k))) text_keys"
    using g(2) by (simp add: text_keys_def it not_null_text_or [OF nn] g(1)) (simp add: text_or_def)
  have switches: "list_all (\<lambda>k. conn_data ?c k = some_if (streq (conn_data conn k) ''yes'') ''yes'') switch_keys"
    by (simp add: switch_keys_def it some_if_def)
  have protocol: "conn_data ?c ''protocol'' = Some (text_or ''anyconnect'' (conn_data conn ''protocol''))"
    by (simp add: it)
  have other: "conn_data ?c k = None" if "k \<notin> set imported_keys" for k
    using import_other [OF that, of kf] that by (simp add: d) (simp add: imported_keys_def text_keys_def)
  have secret: "conn_secret ?c k = (if k = ''stoken_string'' then Some (text_or [] (token_secret conn)) else None)" for k
    by (simp add: x kf export_lookup)
  have token: "text_or [] (token_secret ?c) = text_or [] (token_secret conn)"
    using other [of "''stoken_string''"] secret [of "''stoken_string''"]
    by (simp add: token_secret_def Let_def imported_keys_def text_keys_def switch_keys_def) (simp add: text_or_def)
  have "conn_data ?c ''gateway'' = Some g" using texts g by (simp add: text_keys_def text_or_def)
  moreover have "export_lines ?c g = export_lines conn g"
    using texts switches by (simp add: export_lines_def Let_def name protocol token text_keys_def switch_keys_def del: conn_mk)
  ultimately have "export_profile can_open ?c = (Inr (), Some file)"
    using assms(3) g by (auto simp: export_success)
  with l i name texts switches protocol other secret show ?thesis
    by (intro exI [of _ ?c]) (simp add: streq_iff some_if_def)
qed

section \<open>What the file loses\<close>

text \<open>The keys the exporter reads.\<close>

definition exported_keys :: "string list" where
  "exported_keys = ''stoken_string'' # imported_keys"

definition with_data :: "string \<Rightarrow> string \<Rightarrow> connection \<Rightarrow> connection" where
  "with_data k v conn = conn\<lparr>c_vpn := map_option (add_data_item k v) (c_vpn conn)\<rparr>"

lemma with_data_lookup:
  "k \<noteq> k' \<Longrightarrow> conn_data (with_data k v conn) k' = conn_data conn k'"
  "conn_secret (with_data k v conn) = conn_secret conn"
  "connection_id (with_data k v conn) = connection_id conn"
  by (auto simp: conn_data_def conn_secret_def connection_id_def with_data_def data_items.get_put fun_eq_iff
      split: option.splits)

text \<open>Export has no line for the settings of this plugin: whatever value a item outside the
  exporter's keys gets, such as the portal, the direct mode, the browser or the HTTPS-only choice, the
  exported file is the same.\<close>

theorem export_ignores_other_settings:
  "if k \<in> set exported_keys then True else export_profile can_open (with_data k v conn) = export_profile can_open conn"
proof (cases "k \<in> set exported_keys")
  case False
  then have "conn_data (with_data k v conn) k' = conn_data conn k'" if "k' \<in> set exported_keys" for k'
    using that with_data_lookup(1) by metis
  then have "export_lines (with_data k v conn) g = export_lines conn g"
    "conn_data (with_data k v conn) ''gateway'' = conn_data conn ''gateway''" for g
    by (simp_all add: export_lines_def token_secret_def with_data_lookup(2,3) exported_keys_def imported_keys_def
        text_keys_def switch_keys_def Let_def)
  then show ?thesis by (simp add: export_profile_def cong: option.case_cong if_cong)
qed simp

lemma import_setting:
  assumes "import_profile kf0 = Inr conn"
  obtains kf g s where "kf0 = Some kf" "kf_get_string kf ''Host'' = Some g" "c_vpn conn = Some s"
    "\<And>k. get_data_item s k = (case last_put (import_items kf) k of Some v \<Rightarrow> Some v
       | None \<Rightarrow> if k = ''gateway'' then Some g else None)"
proof -
  from assms obtain kf where kf: "kf0 = Some kf" by (cases kf0) (auto simp: import_profile_def)
  with assms obtain g where g: "kf_get_string kf ''Host'' = Some g"
    by (cases "kf_get_string kf ''Host''") (auto simp: import_profile_def Let_def)
  show ?thesis by (rule import_Inr [OF g]) (use assms kf g that in auto)
qed

lemma import_items_keys_flags: "''cookie-flags'' \<notin> set imported_keys" "''no_dtls'' \<notin> set imported_keys"
  by (simp_all add: imported_keys_def text_keys_def switch_keys_def)

text \<open>An imported profile is not ready to use: the importer sets no secret flags, so, libnm reading a
  missing flag as none or, without the secret, not at all, the service turns the profile away for the
  flags of its cookie until another tool sets them.\<close>

theorem imported_profile_lacks_flags:
  assumes "import_profile keyfile = Inr conn"
    and "\<And>s k. get_data_item s (k @ ''-flags'') = None \<Longrightarrow> \<not> safe_flags (gf s k)"
  shows "\<exists>s. c_vpn conn = Some s \<and> validate_auth_secret_flags gf s = Inl (UnsafeSecretFlags ''cookie'')"
proof -
  obtain kf g s where s: "c_vpn conn = Some s"
    "\<And>k. get_data_item s k = (case last_put (import_items kf) k of Some v \<Rightarrow> Some v | None \<Rightarrow> if k = ''gateway'' then Some g else None)"
    by (rule import_setting [OF assms(1)]) blast
  have "get_data_item s (''cookie'' @ ''-flags'') = None"
    using import_other [OF import_items_keys_flags(1), of kf] by (simp add: s(2))
  then have "\<not> safe_flags (gf s ''cookie'')" using assms(2) by simp
  then have "validate_auth_secret_flags gf s = Inl (UnsafeSecretFlags ''cookie'')"
    by (simp add: validate_auth_secret_flags_def check_secret_flags_cases)
  with s(1) show ?thesis by blast
qed

text \<open>Export and import turn the UDP channel off: a profile that allows it only through
  \<open>disable_udp=no\<close> comes back without that setting, and its absence means HTTPS-only to the service.\<close>

theorem roundtrip_turns_dtls_off:
  assumes "keyfile_law load" "plain_profile conn" "export_profile can_open conn = (Inr (), Some file)"
    and "c_vpn conn = Some s" "get_data_item s ''no_dtls'' = None" "get_data_item s ''disable_udp'' = Some ''no''"
  shows "\<not> no_dtls s \<and> (\<exists>conn' s'. import_profile (load file) = Inr conn' \<and> c_vpn conn' = Some s' \<and> no_dtls s')"
proof -
  obtain g kf where l: "load file = Some kf"
    and kf: "\<And>k. kf_get_string kf k = map_of (export_lines conn g) k"
    "\<And>k. kf_get_boolean kf k = (map_of (export_lines conn g) k = Some ''1'' \<or> map_of (export_lines conn g) k = Some ''true'')"
    by (rule load_exported [OF assms(1-3)]) blast
  have "conn_data conn ''disable_udp'' = Some ''no''" using assms(4,6) by (simp add: conn_data_def)
  then have u: "\<not> kf_get_boolean kf ''DisableUDP''" by (simp add: kf export_lookup)
  have host: "kf_get_string kf ''Host'' = Some g" by (simp add: kf export_lookup)
  obtain s' where i: "import_profile (Some kf) = Inr \<lparr>c_con = Some \<lparr>cs_id = kf_get_string kf ''Description'',
       cs_interface = None, cs_permissions = []\<rparr>, c_vpn = Some s'\<rparr>"
    and d: "\<And>k. get_data_item s' k = (case last_put (import_items kf) k of Some v \<Rightarrow> Some v
       | None \<Rightarrow> if k = ''gateway'' then Some g else None)"
    and "\<And>k. get_secret s' k = (if k = ''stoken_string'' then kf_get_string kf ''StokenString'' else None)"
    and "vs_service s' = NM_VPN_SERVICE_TYPE_OPENCONNECT"
    by (rule import_Inr [OF host], rule that)
  have "get_data_item s' ''no_dtls'' = None" using import_other [OF import_items_keys_flags(2), of kf] by (simp add: d)
  moreover have "get_data_item s' ''disable_udp'' = None" using u by (simp add: d import_lookup)
  ultimately have "no_dtls s'" by (simp add: no_dtls_def)
  then show ?thesis using l i assms(5,6) by (auto simp: no_dtls_def)
qed

section \<open>Examples\<close>

text \<open>A reader of plain key files, for which the law holds.\<close>

definition sample_pairs :: "string \<Rightarrow> (string \<times> string) list" where
  "sample_pairs text = map (\<lambda>l. (takeWhile (\<lambda>c. c \<noteq> CHR ''='') l, tl (dropWhile (\<lambda>c. c \<noteq> CHR ''='') l)))
     (filter (\<lambda>l. CHR ''='' \<in> set l) (split_pieces (\<lambda>c. c = CHR 0x0A) text))"

definition sample_load :: "string \<Rightarrow> keyfile option" where
  "sample_load text = Some \<lparr>kf_get_string = map_of (sample_pairs text),
     kf_get_boolean = (\<lambda>k. map_of (sample_pairs text) k = Some ''1'' \<or> map_of (sample_pairs text) k = Some ''true'')\<rparr>"

definition line_ok :: "string \<times> string \<Rightarrow> bool" where
  "line_ok kv \<longleftrightarrow> list_all (\<lambda>c. c \<noteq> CHR ''='' \<and> c \<noteq> CHR 0x0A) (fst kv) \<and> list_all (\<lambda>c. c \<noteq> CHR 0x0A) (snd kv)"

lemma split_lines:
  "list_all line_ok kvs \<Longrightarrow>
     split_pieces (\<lambda>c. c = CHR 0x0A) (concat (map export_line kvs)) = map (\<lambda>kv. fst kv @ ''='' @ snd kv) kvs @ [[]]"
proof (induction kvs)
  case (Cons kv kvs)
  have "\<forall>c \<in> set (fst kv @ ''='' @ snd kv). \<not> c = CHR 0x0A"
    using Cons.prems by (auto simp: line_ok_def list_all_iff)
  from split_pieces_append [OF this refl, of "concat (map export_line kvs)"]
  have "split_pieces (\<lambda>c. c = CHR 0x0A) ((fst kv @ ''='' @ snd kv) @ CHR 0x0A # concat (map export_line kvs)) =
      (fst kv @ ''='' @ snd kv) # map (\<lambda>kv. fst kv @ ''='' @ snd kv) kvs @ [[]]" using Cons by simp
  moreover have "concat (map export_line (kv # kvs)) = (fst kv @ ''='' @ snd kv) @ CHR 0x0A # concat (map export_line kvs)"
    by (simp add: export_line_def)
  ultimately show ?case by simp
qed simp

lemma sample_pairs_text: "list_all line_ok kvs \<Longrightarrow> sample_pairs (export_text kvs) = kvs"
proof -
  assume ok: "list_all line_ok kvs"
  have "split_pieces (\<lambda>c. c = CHR 0x0A) (export_text kvs) =
      ''[openconnect]'' # map (\<lambda>kv. fst kv @ ''='' @ snd kv) kvs @ [[]]"
    using split_pieces_append [of "''[openconnect]''" "\<lambda>c. c = CHR 0x0A" "CHR 0x0A" "concat (map export_line kvs)"]
      split_lines [OF ok] by (simp add: export_text_def)
  then have s: "sample_pairs (export_text kvs) = map (\<lambda>kv. (takeWhile (\<lambda>c. c \<noteq> CHR ''='') (fst kv @ ''='' @ snd kv),
      tl (dropWhile (\<lambda>c. c \<noteq> CHR ''='') (fst kv @ ''='' @ snd kv)))) kvs"
    by (simp add: sample_pairs_def filter_map o_def)
  have e: "takeWhile (\<lambda>c. c \<noteq> CHR ''='') (fst kv @ ''='' @ snd kv) = fst kv \<and>
      tl (dropWhile (\<lambda>c. c \<noteq> CHR ''='') (fst kv @ ''='' @ snd kv)) = snd kv" if "kv \<in> set kvs" for kv
  proof -
    have "\<forall>c \<in> set (fst kv). c \<noteq> CHR ''=''" using ok that by (auto simp: list_all_iff line_ok_def)
    then show ?thesis by (simp add: takeWhile_append2 dropWhile_append2)
  qed
  show ?thesis unfolding s using e by (intro map_idI) simp
qed

lemma not_name_char: "\<not> name_char (CHR ''='')" "\<not> name_char (CHR 0x0A)"
  by (simp_all add: name_char_def in_range_def)

lemma name_char_line: "name_char c \<Longrightarrow> c \<noteq> CHR ''='' \<and> c \<noteq> CHR 0x0A"
  using not_name_char by metis

lemma not_in_range: "\<not> in_range 0x20 0x7E (CHR 0x0A)"
  by (simp add: in_range_def)

lemma plain_line: "plain_value v \<Longrightarrow> list_all (\<lambda>c. c \<noteq> CHR 0x0A) v"
  unfolding plain_value_def list_all_iff using not_in_range by blast

lemma sample_keyfile_law: "keyfile_law sample_load"
  unfolding keyfile_law_def
proof (intro allI impI)
  fix kvs :: "(string \<times> string) list"
  assume a: "distinct (map fst kvs) \<and> list_all (\<lambda>kv. fst kv \<noteq> [] \<and> list_all name_char (fst kv) \<and> plain_value (snd kv)) kvs"
  have "list_all name_char k \<Longrightarrow> list_all (\<lambda>c. c \<noteq> CHR ''='' \<and> c \<noteq> CHR 0x0A) k" for k
    using name_char_line by (simp add: list_all_iff)
  with a plain_line have "list_all line_ok kvs" unfolding line_ok_def list_all_iff [of _ kvs] by blast
  then show "\<exists>kf. sample_load (export_text kvs) = Some kf \<and> (\<forall>k. kf_get_string kf k = map_of kvs k) \<and>
      (\<forall>k. kf_get_boolean kf k = (map_of kvs k = Some ''1'' \<or> map_of kvs k = Some ''true''))"
    by (simp add: sample_load_def sample_pairs_text)
qed

definition sample_profile :: connection where
  "sample_profile = \<lparr>c_con = Some \<lparr>cs_id = Some ''work'', cs_interface = None, cs_permissions = []\<rparr>,
     c_vpn = Some \<lparr>vs_data = [(''gateway'', ''gw.example''), (''disable_udp'', ''no''), (''usercert'', ''/c.pem'')],
       vs_secrets = [], vs_service = NM_VPN_SERVICE_TYPE_OPENCONNECT, vs_timeout = 0\<rparr>\<rparr>"

lemma sample_profile_plain: "plain_profile sample_profile"
  by (auto simp: plain_profile_def plain_cstr_def connection_id_def conn_data_def conn_secret_def sample_profile_def
      get_data_item_def get_secret_def plain_value_def in_range_def)

lemma sample_exported: "\<exists>contents. export_profile True sample_profile = (Inr (), Some contents)"
  by (simp add: export_success) (simp add: conn_data_def sample_profile_def get_data_item_def)

theorem export_import_roundtrip_witness:
  "\<exists>contents conn'. export_profile True sample_profile = (Inr (), Some contents) \<and> import_profile (sample_load contents) = Inr conn' \<and>
     connection_id conn' = Some ''work'' \<and> conn_data conn' ''usercert'' = Some ''/c.pem'' \<and> conn_data conn' ''disable_udp'' = None \<and>
     export_profile True conn' = (Inr (), Some contents)"
proof -
  obtain contents where f: "export_profile True sample_profile = (Inr (), Some contents)" using sample_exported by blast
  have "printf_s (connection_id sample_profile) = ''work''"
    "text_or [] (conn_data sample_profile ''usercert'') = ''/c.pem''"
    "conn_data sample_profile ''disable_udp'' \<noteq> Some ''yes''" by code_simp+
  with f export_import_roundtrip [OF sample_keyfile_law sample_profile_plain f] show ?thesis
    by (auto simp: text_keys_def switch_keys_def)
qed

theorem roundtrip_turns_dtls_off_witness:
  "\<exists>contents conn' s'. export_profile True sample_profile = (Inr (), Some contents) \<and> import_profile (sample_load contents) = Inr conn' \<and>
     c_vpn conn' = Some s' \<and> no_dtls s'"
proof -
  obtain contents where f: "export_profile True sample_profile = (Inr (), Some contents)" using sample_exported by blast
  obtain s where s: "c_vpn sample_profile = Some s" "get_data_item s ''no_dtls'' = None"
    "get_data_item s ''disable_udp'' = Some ''no''" by (simp add: sample_profile_def get_data_item_def)
  from roundtrip_turns_dtls_off [OF sample_keyfile_law sample_profile_plain f s] f show ?thesis by blast
qed

definition host_only :: keyfile where
  "host_only = \<lparr>kf_get_string = [''Host'' \<mapsto> ''gw.example''], kf_get_boolean = (\<lambda>k. False)\<rparr>"

theorem imported_profile_lacks_flags_witness:
  "\<exists>conn s. import_profile (Some host_only) = Inr conn \<and> c_vpn conn = Some s \<and>
     validate_auth_secret_flags sample_get_flags s = Inl (UnsafeSecretFlags ''cookie'')"
proof -
  obtain conn where c: "import_profile (Some host_only) = Inr conn"
    by (simp add: import_profile_def host_only_def Let_def)
  have "\<not> safe_flags (sample_get_flags s k)" if "get_data_item s (k @ ''-flags'') = None" for s k
    using that by (simp add: sample_get_flags_def safe_flags_def)
  from imported_profile_lacks_flags [of _ _ sample_get_flags, OF c this] c show ?thesis by blast
qed

end
