(* ===== verification/Macros_Facts.thy ===== *)
theory Macros_Facts
  imports Macros "HOL-Library.List_Lexorder"
begin

unbundle bit_operations_syntax

text \<open>
  What the macros promise: the power-of-two test, the algebra of flags, the round trip of packed version
  numbers, quoting within a buffer, and the GLib replacements against GLib's documented results.
\<close>

section \<open>Integers\<close>

lemma nat_and_pred: "(n AND (n - 1) = 0) = (n = 0 \<or> (\<exists>k. n = 2 ^ k))" for n :: nat
proof (induction n rule: less_induct)
  case (less n)
  show ?case
  proof (cases "n = 0")
    case False
    show ?thesis
    proof (cases "even n")
      case True
      then obtain m where m: "n = 2 * m" by blast
      with False have m0: "0 < m" by simp
      then have n1: "n - 1 = 2 * (m - 1) + 1" using m by simp
      have "2 * m AND (2 * (m - 1) + 1) = 2 * (m AND (m - 1))" by (subst and_rec) simp
      with n1 m have a: "n AND (n - 1) = 2 * (m AND (m - 1))" by simp
      have "(\<exists>k. n = 2 ^ k) = (\<exists>k. m = 2 ^ k)"
      proof
        assume "\<exists>k. n = 2 ^ k"
        then obtain k where "n = 2 ^ k" by blast
        then show "\<exists>k. m = 2 ^ k" using m m0 True by (cases k) auto
      qed (auto simp: m intro: exI [of _ "Suc _"])
      then show ?thesis using less [of m] m m0 a by simp
    next
      case odd: False
      then obtain m where m: "n = 2 * m + 1" by (elim oddE)
      have "(2 * m + 1) AND (2 * m) = 2 * m" by (subst and_rec) simp
      with m have a: "n AND (n - 1) = 2 * m" by simp
      have "(\<exists>k. n = 2 ^ k) = (m = 0)"
      proof
        assume "\<exists>k. n = 2 ^ k"
        then obtain k where "n = 2 ^ k" by blast
        then show "m = 0" using odd m by (cases k) auto
      qed (auto simp: m intro: exI [of _ 0])
      then show ?thesis using a m by simp
    qed
  qed simp
qed


lemma unat_and_pred: "x \<noteq> 0 \<Longrightarrow> unat (x AND (x - 1)) = unat x AND (unat x - 1)" for x :: "'a::len word"
  by (simp add: unsigned_and_eq unat_minus_one)

lemma power_of_two_unsigned:
  fixes x :: "'a::len word"
  shows "nm_utils_is_power_of_two False x \<longleftrightarrow> x = 0 \<or> (\<exists>k < LENGTH('a). x = 2 ^ k)"
proof (cases "x = 0")
  case False
  have "x AND (x - 1) = 0 \<longleftrightarrow> (\<exists>k. unat x = 2 ^ k)"
    using unat_and_pred [OF False] nat_and_pred [of "unat x"] False by (simp add: unat_eq_0 [symmetric])
  also have "\<dots> \<longleftrightarrow> (\<exists>k < LENGTH('a). x = 2 ^ k)"
  proof
    assume "\<exists>k. unat x = 2 ^ k"
    then obtain k where k: "unat x = 2 ^ k" by blast
    have "unat x < 2 ^ LENGTH('a)" by (rule unsigned_less)
    with k have "(2::nat) ^ k < 2 ^ LENGTH('a)" by simp
    then have "k < LENGTH('a)" by simp
    moreover have "x = 2 ^ k" using arg_cong [OF k, of "of_nat :: nat \<Rightarrow> 'a word"] by simp
    ultimately show "\<exists>k < LENGTH('a). x = 2 ^ k" by blast
  next
    assume "\<exists>k < LENGTH('a). x = 2 ^ k"
    then obtain k where "k < LENGTH('a)" "x = 2 ^ k" by blast
    then have "unat x = 2 ^ k" by (intro of_nat_inverse) simp_all
    then show "\<exists>k. unat x = 2 ^ k" by blast
  qed
  finally show ?thesis using False by (simp add: nm_utils_is_power_of_two_def)
qed (simp add: nm_utils_is_power_of_two_def)

lemma flags_laws:
  "NM_FLAGS_ALL (NM_FLAGS_SET flags val) val" "\<not> NM_FLAGS_ANY (NM_FLAGS_UNSET flags val) val"
  "NM_FLAGS_ASSIGN flags val b = (if b then NM_FLAGS_SET flags val else NM_FLAGS_UNSET flags val)"
  "val AND other = 0 \<Longrightarrow> NM_FLAGS_ANY (NM_FLAGS_ASSIGN flags val b) other = NM_FLAGS_ANY flags other"
proof -
  show "NM_FLAGS_ALL (NM_FLAGS_SET flags val) val" "\<not> NM_FLAGS_ANY (NM_FLAGS_UNSET flags val) val"
    by (simp_all add: NM_FLAGS_ALL_def NM_FLAGS_SET_def NM_FLAGS_ANY_def NM_FLAGS_UNSET_def bit_eq_iff)
      (auto simp: bit_simps)
  show "NM_FLAGS_ASSIGN flags val b = (if b then NM_FLAGS_SET flags val else NM_FLAGS_UNSET flags val)"
    by (simp add: NM_FLAGS_ASSIGN_def NM_FLAGS_SET_def NM_FLAGS_UNSET_def)
  assume "val AND other = 0"
  then have "\<not> bit val n \<or> \<not> bit other n" for n using bit_and_iff [of val other n] by auto
  then have "(flags OR val) AND other = flags AND other" "(flags AND NOT val) AND other = flags AND other"
    by (auto intro!: bit_eqI simp: bit_simps bit_imp_le_length)
  then show "NM_FLAGS_ANY (NM_FLAGS_ASSIGN flags val b) other = NM_FLAGS_ANY flags other"
    by (simp add: NM_FLAGS_ANY_def NM_FLAGS_ASSIGN_def)
qed

text \<open>For a signed type the negative values are excluded, and with them the one whose only bit is the sign.\<close>

lemma power_of_two_signed:
  fixes x :: "'a::len word"
  shows "nm_utils_is_power_of_two True x \<longleftrightarrow> 0 \<le> sint x \<and> (x = 0 \<or> (\<exists>k < LENGTH('a). x = 2 ^ k))"
  using power_of_two_unsigned [of x] by (auto simp: nm_utils_is_power_of_two_def)

lemma version_roundtrip:
  assumes "major < 0x10000" "minor < 0x100" "micro < 0x100"
  shows "nm_decode_version (nm_encode_version major minor micro) = (major, minor, micro)"
proof -
  have mask: "(0xFFFF0000 :: u32) = push_bit 16 (mask 16)" "(0xFF00 :: u32) = push_bit 8 (mask 8)" "(0xFF :: u32) = mask 8"
    by (simp_all add: mask_eq_exp_minus_1)
  have small: "take_bit 16 major = major" "take_bit 8 minor = minor" "take_bit 8 micro = micro"
    using assms less_mask_eq [of major 16] less_mask_eq [of minor 8] less_mask_eq [of micro 8] by (simp_all add: take_bit_eq_mask)
  then have bits: "bit major n \<Longrightarrow> n < 16" "bit minor n \<Longrightarrow> n < 8" "bit micro n \<Longrightarrow> n < 8" for n
    by (metis bit_take_bit_iff)+
  let ?v = "nm_encode_version major minor micro"
  have "drop_bit 16 (?v AND 0xFFFF0000) = major" "drop_bit 8 (?v AND 0xFF00) = minor" "?v AND 0xFF = micro"
    unfolding mask nm_encode_version_def
    by (rule bit_eqI; auto simp: bit_simps dest: bits)+
  then show ?thesis by (simp add: nm_decode_version_def)
qed

text \<open>Without masking in \<open>nm_encode_version\<close>, a component that does not fit leaks into the next.\<close>

lemma version_overflow: "nm_decode_version (nm_encode_version 1 256 0) = (1, 0, 0)"
  by (simp add: nm_encode_version_def nm_decode_version_def)

section \<open>Strings\<close>

lemma in_set_eval_iff: "in_set_eval x ys \<longleftrightarrow> x \<in> set ys"
  by (induction ys) auto

lemma in_strset_eval_iff: "in_strset_eval x ys \<longleftrightarrow> Some x \<in> set ys"
  by (induction ys) (auto simp: in_strset_streq_def split: option.splits)

lemma in_strset_iff: "NM_IN_STRSET x ys \<longleftrightarrow> x \<in> set ys"
  by (cases x) (simp_all add: NM_IN_STRSET_def in_set_eval_iff in_strset_eval_iff)

text \<open>\<open>nm_strquote_a\<close> never leaves its buffer and always terminates it: for a buffer of at least six
  bytes the result has at most that many, ends with the only terminator, and is the whole string in
  quotes if that fits, else the longest beginning that fits with a caret for the closing quote.\<close>

theorem strquote_bounds:
  assumes "6 \<le> bufsize" "list_all (\<lambda>c. c \<noteq> CHR 0x00) s"
  shows "length (nm_strquote_a bufsize (Some s)) \<le> bufsize \<and>
    (\<exists>body. nm_strquote_a bufsize (Some s) = CHR 0x27 # body @ [CHR 0x00] \<and> list_all (\<lambda>c. c \<noteq> CHR 0x00) body \<and>
       (if length s + 3 \<le> bufsize then body = s @ [CHR 0x27]
        else body = take (bufsize - 3) s @ ''^'' \<and> length body = bufsize - 2))"
proof (cases "length s + 3 \<le> bufsize")
  case True
  then show ?thesis using assms(2) by (intro conjI exI [of _ "s @ [CHR 0x27]"]) (simp_all add: nm_strquote_a_def Let_def)
next
  case False
  have "list_all (\<lambda>c. c \<noteq> CHR 0x00) (take (bufsize - 3) s)"
    using assms(2) unfolding list_all_iff by (blast dest: in_set_takeD)
  then show ?thesis
    using False assms(1) by (intro conjI exI [of _ "take (bufsize - 3) s @ ''^''"]) (simp_all add: nm_strquote_a_def Let_def)
qed

theorem strquote_bounds_witness:
  "nm_strquote_a 6 (Some ''abcdef'') = [CHR 0x27, CHR ''a'', CHR ''b'', CHR ''c'', CHR ''^'', CHR 0x00]"
proof -
  have "list_all (\<lambda>c. c \<noteq> CHR 0x00) ''abcdef''" by simp
  from strquote_bounds [of 6, OF _ this] show ?thesis by auto
qed

section \<open>Clearing\<close>

lemma clear_twice:
  "clear_with release (fst (snd (clear_with release var))) = (False, fst (snd (clear_with release var)), [])"
  "fst (clear_with release var) \<longleftrightarrow> (case var of None \<Rightarrow> False | Some v \<Rightarrow> v \<noteq> 0)"
  by (auto simp: clear_with_def split: option.splits)

section \<open>GLib of any version\<close>

text \<open>The version test is the lexicographic order.\<close>

lemma check_version_order:
  "GLIB_CHECK_VERSION (a, b, c) (a', b', c') \<longleftrightarrow> a' < a \<or> a' = a \<and> (b' < b \<or> b' = b \<and> c' \<le> c)"
  by (auto simp: GLIB_CHECK_VERSION_def)

lemma nm_check_version_running:
  "GLIB_CHECK_VERSION running headers \<Longrightarrow> nm_glib_check_version headers running want = GLIB_CHECK_VERSION running want"
  by (cases headers; cases running; cases want) (auto simp: nm_glib_check_version_def GLIB_CHECK_VERSION_def)

text \<open>The wrappers give GLib's new result with an old GLib, whose own result is void.\<close>

lemma hash_table_insert_any_version:
  assumes "\<And>k v h. native k v h = (h k = None, h(k \<mapsto> v))" "\<And>k v h. snd (old k v h) = h(k \<mapsto> v)"
    and "GLIB_CHECK_VERSION new (2, 40, 0)" "\<not> GLIB_CHECK_VERSION prev (2, 40, 0)"
  shows "nm_g_hash_table_insert prev old k v h = nm_g_hash_table_insert new native k v h"
    "nm_g_hash_table_replace prev old k v h = nm_g_hash_table_replace new native k v h"
  using assms by (simp_all add: nm_g_hash_table_insert_def nm_g_hash_table_replace_def)

text \<open>The replacement of \<open>g_ptr_array_insert\<close> for an old GLib, which appends and then moves the tail
  inside the array, inserts at the index, appends for the index -1, and leaves the array alone for every
  other index.\<close>

theorem ptr_array_insert_spec:
  "nm_g_ptr_array_insert xs index d =
     (if index = -1 then xs @ [d]
      else if 0 \<le> index \<and> index \<le> int (length xs) then take (nat index) xs @ d # drop (nat index) xs
      else xs)"
proof (cases "0 \<le> index \<and> index \<le> int (length xs)")
  case True
  then obtain n where n: "index = int n" "n \<le> length xs" by (metis int_nat_eq nat_le_iff)
  have "nat (index + 1) = Suc n" "nat (int (length (xs @ [d])) - index - 1) = length xs - n" using n by auto
  moreover have "memmove (xs @ [d]) (Suc n) n (length xs - n) = take (Suc n) (xs @ [d]) @ drop n xs"
    if "n < length xs" using that by (simp add: memmove_def)
  moreover have "(take (Suc n) (xs @ [d]) @ drop n xs)[n := d] = take n xs @ d # drop n xs" if "n < length xs"
    using that by (simp add: take_Suc_conv_app_nth list_update_append)
  ultimately show ?thesis using n by (auto simp: nm_g_ptr_array_insert_def Let_def)
qed (auto simp: nm_g_ptr_array_insert_def)

lemma keys_loop_spec:
  "i + length ks < length ret \<Longrightarrow>
     keys_loop ks ret i = (take i ret @ map Some ks @ None # drop (Suc (i + length ks)) ret, i + length ks)"
proof (induction ks ret i rule: keys_loop.induct)
  case (1 ret i)
  then show ?case by (simp add: upd_conv_take_nth_drop)
next
  case (2 key iter ret i)
  then have "take (i + 1) (ret[i := Some key]) = take i ret @ [Some key]" by (simp add: take_Suc_conv_app_nth)
  with 2 show ?case by simp
qed

lemma keys_as_array: "nm_g_hash_table_get_keys_as_array ks = (map Some ks @ [None], length ks)"
  by (simp add: nm_g_hash_table_get_keys_as_array_def keys_loop_spec)

lemma strv_loop_spec: "strv_loop (map Some ss @ None # rest) str = Some (str \<in> set ss)"
  by (induction ss) auto

section \<open>Strings\<close>

text \<open>\<open>strcmp\<close> is the lexicographic order of the bytes, so the compare functions sort by a linear order.\<close>

definition bytes :: "string \<Rightarrow> nat list" where
  "bytes s = map of_char s"

lemma bytes_inject: "bytes s = bytes t \<longleftrightarrow> s = t"
  by (auto simp: bytes_def inj_def dest: map_injective)

lemma strcmp_less: "c_strcmp s t < 0 \<longleftrightarrow> bytes s < bytes t"
  by (induction s t rule: c_strcmp.induct) (auto simp: bytes_def)

lemma strcmp_zero: "c_strcmp s t = 0 \<longleftrightarrow> s = t"
  by (induction s t rule: c_strcmp.induct) auto

lemma strcmp_le: "c_strcmp s t \<le> 0 \<longleftrightarrow> bytes s \<le> bytes t"
  using strcmp_less [of s t] strcmp_zero [of s t] by (auto simp: le_less bytes_inject)

interpretation strcmp: linorder "\<lambda>s t. c_strcmp s t \<le> 0" "\<lambda>s t. c_strcmp s t < 0"
  by unfold_locales (auto simp: strcmp_le strcmp_less strcmp_zero bytes_inject less_le)

lemma streq_spec: "nm_streq s t \<longleftrightarrow> s = t" "nm_streq0 a b \<longleftrightarrow> a = b"
  by (simp add: nm_streq_def strcmp_zero) (cases a; cases b; simp add: nm_streq0_def strcmp_zero)

text \<open>A quark function returns its name's quark on every call, and asks for it once.\<close>

lemma quark_calls:
  assumes "intern name \<noteq> 0"
  shows "((snd \<circ> quark_fn intern name) ^^ Suc n) (0, 0) = (intern name, 1)"
    "fst (quark_fn intern name (((snd \<circ> quark_fn intern name) ^^ n) (0, 0))) = intern name"
proof -
  show "((snd \<circ> quark_fn intern name) ^^ Suc n) (0, 0) = (intern name, 1)" for n
    using assms by (induction n) (simp_all add: quark_fn_def)
  then show "fst (quark_fn intern name (((snd \<circ> quark_fn intern name) ^^ n) (0, 0))) = intern name"
    using assms by (cases n) (simp_all add: quark_fn_def del: funpow.simps)
qed

lemma sprintf_fits: "nm_sprintf_bufa n s = Some t \<Longrightarrow> length t < n \<and> (length s < n \<longrightarrow> t = s)"
  by (auto simp: nm_sprintf_bufa_def g_snprintf_def max_def split: if_splits)

text \<open>What is left after stripping starts and ends with something else than white space.\<close>

lemma strstrip_ends:
  assumes "nm_strstrip (Some s) = Some t" "t \<noteq> []"
  shows "\<not> g_ascii_isspace (hd t) \<and> \<not> g_ascii_isspace (last t)"
proof -
  let ?u = "dropWhile g_ascii_isspace s"
  have t: "t = g_strchomp ?u" using assms(1) by (simp add: nm_strstrip_def)
  then have "rev t = dropWhile g_ascii_isspace (rev ?u)" by (simp add: g_strchomp_def)
  then have l: "\<not> g_ascii_isspace (hd (rev t))"
    using assms(2) hd_dropWhile [of g_ascii_isspace "rev ?u"] by (metis rev_is_Nil_conv)
  have u: "?u = t @ rev (takeWhile g_ascii_isspace (rev ?u))"
    using takeWhile_dropWhile_id [of g_ascii_isspace "rev ?u"] by (simp add: t g_strchomp_def flip: rev_append)
  have "hd ?u = hd t" "?u \<noteq> []" using assms(2) u by (metis hd_append2, metis Nil_is_append_conv)
  then have "\<not> g_ascii_isspace (hd t)" using hd_dropWhile [of g_ascii_isspace s] by metis
  then show ?thesis using l by (simp add: hd_rev)
qed

text \<open>A file is written exactly when saving succeeds, and then with what the key file prints; an error is
  returned for every failed write when there is a place for it, and one already there is kept.\<close>

lemma key_file_saved:
  "g_key_file_save_to_file to_data set_contents key_file filename error = Some (True, error') \<longleftrightarrow>
     (\<exists>kf name contents. key_file = Some kf \<and> filename = Some name \<and> to_data kf = Some contents \<and>
        set_contents name contents = Inr () \<and> (error = None \<or> error = Some None) \<and> error' = error)"
  "g_key_file_save_to_file to_data set_contents key_file filename (Some (Some e)) = Some (False, error') \<Longrightarrow>
     error' = Some (Some e)"
  by (auto simp: g_key_file_save_to_file_def split: option.splits sum.splits)

text \<open>The variable is NULL before the destructor runs, so that clearing is safe when the destructor clears again.\<close>

lemma clear_pointer_order:
  "g_clear_pointer p = as @ DestroyPointee q # bs \<Longrightarrow> q = p \<and> p \<noteq> 0 \<and> SetPointer 0 \<in> set as \<and> bs = []"
  by (cases as) (auto simp: g_clear_pointer_def Cons_eq_append_conv split: if_splits)

lemma cmpmem_passes:
  "g_assert_cmpmem m1 (length m1) m2 (length m2) = CmpmemPassed \<longleftrightarrow> m1 = m2"
  by (auto simp: g_assert_cmpmem_def)

end
