(* ===== verification/Objects.thy ===== *)
theory Objects
  imports Plugin_Facts Oc_Import_Facts Macros_Facts
begin

text \<open>
  The objects around the editors: which GTK objects an editor holds and gives back when it is disposed of,
  on every path of its constructor, and the interface tables of the two plugins against the
  capabilities they announce.
\<close>

section \<open>References\<close>

text \<open>The pointers in the private structure and the references taken on what they point to.\<close>

datatype editor_obj = Builder | MainWidget | WindowGroup

record obj_refs =
  ptr :: "editor_obj \<Rightarrow> bool"
  held :: "editor_obj \<Rightarrow> int"

definition no_refs :: obj_refs where
  "no_refs = \<lparr>ptr = (\<lambda>ob. False), held = (\<lambda>ob. 0)\<rparr>"

definition take_ref :: "editor_obj \<Rightarrow> obj_refs \<Rightarrow> obj_refs" where
  "take_ref ob s = s\<lparr>ptr := (ptr s)(ob := True), held := (held s)(ob := held s ob + 1)\<rparr>"

definition unref_object :: "editor_obj \<Rightarrow> obj_refs \<Rightarrow> obj_refs" where
  "unref_object ob s = (if ptr s ob then s\<lparr>held := (held s)(ob := held s ob - 1)\<rparr> else s)"

text \<open>\<open>dispose\<close> of the openconnect editor leaves its pointers; that of the gpclient editor clears its only one.\<close>

definition oc_dispose :: "obj_refs \<Rightarrow> obj_refs" where
  "oc_dispose s = unref_object Builder (unref_object MainWidget (unref_object WindowGroup s))"

definition gpclient_editor_dispose :: "obj_refs \<Rightarrow> obj_refs" where
  "gpclient_editor_dispose s =
     (if ptr s MainWidget then (unref_object MainWidget s)\<lparr>ptr := (ptr s)(MainWidget := False)\<rparr> else s)"

text \<open>Which steps of \<open>nm_vpn_editor_new\<close> succeed. Dropping the new object's last reference disposes of it.\<close>

record new_steps =
  object_created :: bool
  resource_loaded :: bool
  widget_found :: bool
  plugin_initialised :: bool

definition nm_vpn_editor_new_refs :: "new_steps \<Rightarrow> bool \<times> obj_refs" where
  "nm_vpn_editor_new_refs st =
     (if \<not> object_created st then (False, no_refs)
      else
        let s = take_ref Builder no_refs
        in if \<not> resource_loaded st then (False, oc_dispose s)
           else if \<not> widget_found st then (False, oc_dispose s)
           else
             let s = take_ref WindowGroup (take_ref MainWidget s)
             in if \<not> plugin_initialised st then (False, oc_dispose s) else (True, s))"

definition gpclient_editor_new_refs :: "bool \<Rightarrow> bool \<times> obj_refs" where
  "gpclient_editor_new_refs created = (if \<not> created then (False, no_refs) else (True, take_ref MainWidget no_refs))"

text \<open>What GObject asks of \<open>dispose\<close>, which may run more than once: it gives back each owned object and
  forgets it.\<close>

locale disposable =
  fixes dispose :: "obj_refs \<Rightarrow> obj_refs"
    and owned :: "editor_obj set"
  assumes dispose_held: "held (dispose s) ob = held s ob - (if ob \<in> owned \<and> ptr s ob then 1 else 0)"
    and dispose_ptr: "ob \<in> owned \<Longrightarrow> \<not> ptr (dispose s) ob"
begin

lemma dispose_again: "held (dispose (dispose s)) = held (dispose s)"
  by (auto simp: fun_eq_iff dispose_held dispose_ptr)

lemma dispose_many: "held ((dispose ^^ Suc n) s) = held (dispose s)"
  by (induction n) (simp, simp add: fun_eq_iff dispose_held dispose_ptr)

end

interpretation gp_editor: disposable gpclient_editor_dispose "{MainWidget}"
  by unfold_locales (auto simp: gpclient_editor_dispose_def unref_object_def)

lemmas ref_ops = take_ref_def unref_object_def no_refs_def oc_dispose_def gpclient_editor_dispose_def

text \<open>C38: No constructor leaks and no single disposal is unbalanced: whichever step of the openconnect editor's
  constructor fails, every object it took is given back, and an editor it returned gives back all three
  when it is disposed of. The gpclient editor does so however often it is disposed of.\<close>

theorem editors_give_back_objects:
  "held ((if fst (nm_vpn_editor_new_refs st) then oc_dispose else id) (snd (nm_vpn_editor_new_refs st))) = (\<lambda>ob. 0) \<and>
   held ((gpclient_editor_dispose ^^ Suc n) (snd (gpclient_editor_new_refs created))) = (\<lambda>ob. 0)"
proof -
  have "held (gpclient_editor_dispose (snd (gpclient_editor_new_refs created))) = (\<lambda>ob. 0)"
    by (auto simp: gpclient_editor_new_refs_def ref_ops fun_eq_iff)
  then show ?thesis
    unfolding gp_editor.dispose_many
    by (auto simp: nm_vpn_editor_new_refs_def ref_ops fun_eq_iff Let_def)
qed

text \<open>The openconnect editor is not disposable in that sense: run twice, its \<open>dispose\<close> gives up references it
  does not have.\<close>

theorem oc_dispose_twice:
  "held (oc_dispose (oc_dispose (snd (nm_vpn_editor_new_refs \<lparr>object_created = True, resource_loaded = True,
     widget_found = True, plugin_initialised = True\<rparr>)))) = (\<lambda>ob. - 1)"
  by (auto simp: nm_vpn_editor_new_refs_def ref_ops fun_eq_iff) (metis editor_obj.exhaust)

section \<open>Interface tables\<close>

text \<open>\<open>NMVpnEditorPluginInterface\<close> without \<open>get_editor\<close>, which both fill; \<open>None\<close> is a NULL pointer.\<close>

record plugin_interface =
  if_capabilities :: u32
  if_import_from_file :: "(keyfile option \<Rightarrow> gerror + connection) option"
  if_export_to_file :: "(bool \<Rightarrow> connection \<Rightarrow> (gerror + unit) \<times> cstr) option"
  if_notify_plugin_info_set :: "(int \<times> oc_vpn_proto list \<Rightarrow> bool \<Rightarrow> oc_plugin \<Rightarrow> oc_plugin) option"
  if_get_vt :: "(oc_plugin \<Rightarrow> plugin_vt) option"

definition openconnect_editor_plugin_interface_init :: plugin_interface where
  "openconnect_editor_plugin_interface_init =
     \<lparr>if_capabilities = get_capabilities, if_import_from_file = Some import_profile, if_export_to_file = Some export_profile,
      if_notify_plugin_info_set = Some notify_plugin_info_set, if_get_vt = Some vt\<rparr>"

definition gpclient_editor_plugin_interface_init :: plugin_interface where
  "gpclient_editor_plugin_interface_init =
     \<lparr>if_capabilities = plugin_get_capabilities, if_import_from_file = None, if_export_to_file = None,
      if_notify_plugin_info_set = None, if_get_vt = None\<rparr>"

text \<open>A plugin announces import and export exactly if it implements them.\<close>

theorem capabilities_match_functions:
  "list_all (\<lambda>i. NM_FLAGS_HAS (if_capabilities i) NM_VPN_EDITOR_PLUGIN_CAPABILITY_IMPORT = (if_import_from_file i \<noteq> None) \<and>
       NM_FLAGS_HAS (if_capabilities i) NM_VPN_EDITOR_PLUGIN_CAPABILITY_EXPORT = (if_export_to_file i \<noteq> None))
     [openconnect_editor_plugin_interface_init, gpclient_editor_plugin_interface_init]"
  by (simp add: openconnect_editor_plugin_interface_init_def gpclient_editor_plugin_interface_init_def NM_FLAGS_HAS_def
      NM_FLAGS_ANY_def get_capabilities_def plugin_get_capabilities_def NM_VPN_EDITOR_PLUGIN_CAPABILITY_IMPORT_def
      NM_VPN_EDITOR_PLUGIN_CAPABILITY_EXPORT_def NM_VPN_EDITOR_PLUGIN_CAPABILITY_IPV6_def NM_VPN_EDITOR_PLUGIN_CAPABILITY_NONE_def)

text \<open>The error domain of import and export, interned on its first use.\<close>

definition nm_openconnect_import_export_error_quark :: "(string \<Rightarrow> u32) \<Rightarrow> u32 \<times> nat \<Rightarrow> u32 \<times> (u32 \<times> nat)" where
  "nm_openconnect_import_export_error_quark intern = quark_fn intern ''nm-openconnect-import-export-error-quark''"

end
