(* ===== verification/Oc_Editor.thy ===== *)
theory Oc_Editor
  imports Plugin_Utils CLib
begin

text \<open>
  \<open>properties/nm-openconnect-editor.c\<close> and \<open>auth-helpers.c\<close>: the editor inherited from the
  openconnect plugin, kept in the tree. The record \<open>oc_editor\<close> holds what the widgets of
  \<open>nm-openconnect-dialog.ui\<close> hold.

  The parameter \<open>oc_env\<close> collects what is not under \<open>src/\<close>: what libopenconnect supports, its
  protocols (count and array) and its flag for machine certificates, whether \<open>WITH_SSO_MIB\<close> is
  defined, what loading the UI resource reports, the row a GTK combo box with so many rows is on after
  \<open>gtk_combo_box_set_active\<close>, and what an \<open>NmaCertChooser\<close> gives back after it was set to a location.
  libnm's \<open>nm_setting_set_secret_flags\<close> is the parameter \<open>set_flags\<close>.
\<close>

section \<open>Widgets\<close>

datatype ck_scheme = SchemePath | SchemePkcs11

record oc_env =
  env_stoken :: bool
  env_oath :: bool
  env_yubioath :: bool
  env_protocols :: "int \<times> oc_vpn_proto list"
  env_auth_mca :: u32
  env_sso_mib :: bool
  env_ui_error :: "gerror option"
  env_set_active :: "nat \<Rightarrow> nat \<Rightarrow> nat option"
  env_chooser :: "ck_scheme \<Rightarrow> string \<Rightarrow> cstr"

record token_row =
  tr_pref_value :: string
  tr_type :: string
  tr_editable :: bool

record oc_editor =
  oc_gateway :: string
  oc_proxy :: string
  oc_user_agent :: string
  oc_fsid :: bool
  oc_prevent_invalid_cert :: bool
  oc_disable_udp :: bool
  oc_csd :: bool
  oc_csd_wrapper :: string
  oc_reported_os :: string
  oc_entra :: bool
  oc_sso_url :: string
  oc_authority :: string
  oc_client_id :: string
  oc_redirect_uri :: string
  oc_token_rows :: "token_row list"
  oc_token_active :: "nat option"
  oc_token_shown :: bool
  oc_secret_text :: string
  oc_secret_sensitive :: bool
  oc_protocol_rows :: "oc_vpn_proto list"
  oc_protocol_active :: "nat option"
  oc_ca_cert :: cstr
  oc_mca_cert :: cstr
  oc_mca_key :: cstr
  oc_mca_shown :: bool
  oc_user_cert :: cstr
  oc_user_key :: cstr
  oc_changed :: nat

definition token_mode_list :: "token_row list" where
  "token_mode_list =
     [\<lparr>tr_pref_value = ''disabled'', tr_type = ''any'', tr_editable = False\<rparr>,
      \<lparr>tr_pref_value = ''stokenrc'', tr_type = ''stoken'', tr_editable = False\<rparr>,
      \<lparr>tr_pref_value = ''manual'', tr_type = ''stoken'', tr_editable = True\<rparr>,
      \<lparr>tr_pref_value = ''totp'', tr_type = ''totp'', tr_editable = True\<rparr>,
      \<lparr>tr_pref_value = ''hotp'', tr_type = ''hotp'', tr_editable = True\<rparr>,
      \<lparr>tr_pref_value = ''yubioath'', tr_type = ''yubioath'', tr_editable = True\<rparr>]"

text \<open>The widgets as the UI file leaves them: the token combo box is on its first row, the protocol
  combo box has no rows and so no active one.\<close>

definition built_widgets :: oc_editor where
  "built_widgets =
     \<lparr>oc_gateway = [], oc_proxy = [], oc_user_agent = [], oc_fsid = False, oc_prevent_invalid_cert = False,
      oc_disable_udp = False, oc_csd = False, oc_csd_wrapper = [], oc_reported_os = [], oc_entra = False,
      oc_sso_url = [], oc_authority = [], oc_client_id = [], oc_redirect_uri = [],
      oc_token_rows = token_mode_list, oc_token_active = Some 0, oc_token_shown = False,
      oc_secret_text = [], oc_secret_sensitive = False, oc_protocol_rows = [], oc_protocol_active = None,
      oc_ca_cert = None, oc_mca_cert = None, oc_mca_key = None, oc_mca_shown = True,
      oc_user_cert = None, oc_user_key = None, oc_changed = 0\<rparr>"

section \<open>The token section\<close>

definition row_removed :: "oc_env \<Rightarrow> string \<Rightarrow> bool" where
  "row_removed env token_type =
     (if token_type = ''stoken'' \<and> \<not> env_stoken env then True
      else if token_type = ''totp'' \<and> \<not> env_oath env then True
      else if token_type = ''hotp'' \<and> \<not> env_oath env then True
      else if token_type = ''yubioath'' \<and> \<not> env_yubioath env then True
      else False)"

text \<open>The loop over the list store: the rows left in it and \<open>valid_rows\<close>.\<close>

fun token_mode_loop :: "oc_env \<Rightarrow> token_row list \<Rightarrow> nat \<Rightarrow> token_row list \<times> nat" where
  "token_mode_loop env [] valid_rows = ([], valid_rows)"
| "token_mode_loop env (r # rs) valid_rows =
     (if row_removed env (tr_type r) then token_mode_loop env rs valid_rows
      else (case token_mode_loop env rs (valid_rows + 1) of (rs', n) \<Rightarrow> (r # rs', n)))"

definition init_token_mode_options :: "oc_env \<Rightarrow> token_row list \<Rightarrow> token_row list \<times> bool" where
  "init_token_mode_options env model =
     (if model = [] then ([], False)
      else (case token_mode_loop env model 0 of (rows, valid_rows) \<Rightarrow> (rows, valid_rows > 1)))"

text \<open>The search loop of both combo boxes: the last row with the value, or the first row.\<close>

fun active_option :: "string \<Rightarrow> string list \<Rightarrow> nat \<Rightarrow> nat \<Rightarrow> nat" where
  "active_option value [] i active = active"
| "active_option value (pref # prefs) i active =
     active_option value prefs (i + 1) (if value = pref then i else active)"

definition secret_or_item :: "vpn_setting \<Rightarrow> string \<Rightarrow> cstr" where
  "secret_or_item s_vpn key = (case get_secret s_vpn key of None \<Rightarrow> get_data_item s_vpn key | Some v \<Rightarrow> Some v)"

definition init_token_ui :: "oc_env \<Rightarrow> vpn_setting option \<Rightarrow> oc_editor \<Rightarrow> oc_editor" where
  "init_token_ui env s_vpn ed =
     (let (rows, shown) = init_token_mode_options env (oc_token_rows ed);
          ed = ed\<lparr>oc_token_rows := rows\<rparr>
      in if \<not> shown then ed
         else
           let ed = ed\<lparr>oc_token_shown := True\<rparr> in
           case s_vpn of
             None \<Rightarrow> ed
           | Some s \<Rightarrow>
               let active = (case get_data_item s NM_OPENCONNECT_KEY_TOKEN_MODE of
                     None \<Rightarrow> 0
                   | Some value \<Rightarrow> active_option value (map tr_pref_value rows) 0 0);
                   ed = ed\<lparr>oc_token_active := env_set_active env (length rows) active\<rparr>
               in case secret_or_item s NM_OPENCONNECT_KEY_TOKEN_SECRET of
                    None \<Rightarrow> ed
                  | Some value \<Rightarrow> ed\<lparr>oc_secret_text := value\<rparr>)"

section \<open>The protocol\<close>

text \<open>\<open>for (i = 0; i < n; i++)\<close> with a signed \<open>n\<close>: a negative count adds no row.\<close>

definition init_protocol_combo_options :: "oc_env \<Rightarrow> oc_editor \<Rightarrow> oc_editor" where
  "init_protocol_combo_options env ed =
     (let (n, protos) = env_protocols env in
      ed\<lparr>oc_protocol_rows := oc_protocol_rows ed @ take (nat n) protos\<rparr>)"

definition init_protocol_ui :: "oc_env \<Rightarrow> vpn_setting option \<Rightarrow> oc_editor \<Rightarrow> oc_editor option" where
  "init_protocol_ui env s_vpn ed =
     (let ed = init_protocol_combo_options env ed; rows = oc_protocol_rows ed in
      case s_vpn of
        None \<Rightarrow> Some ed
      | Some s \<Rightarrow>
          (case get_data_item s NM_OPENCONNECT_KEY_PROTOCOL of
             None \<Rightarrow> Some (ed\<lparr>oc_protocol_active := env_set_active env (length rows) 0\<rparr>)
           | Some value \<Rightarrow>
               if rows = [] then None
               else Some (ed\<lparr>oc_protocol_active :=
                 env_set_active env (length rows) (active_option value (map op_name rows) 0 0)\<rparr>)))"

section \<open>Certificates\<close>

definition location_scheme :: "string \<Rightarrow> ck_scheme" where
  "location_scheme value = (if has_prefix value ''pkcs11:'' then SchemePkcs11 else SchemePath)"

definition chosen :: "oc_env \<Rightarrow> (string \<Rightarrow> ck_scheme) \<Rightarrow> cstr \<Rightarrow> cstr \<Rightarrow> cstr" where
  "chosen env scheme old value =
     (case value of
        Some v \<Rightarrow> if v \<noteq> [] then env_chooser env (scheme v) v else old
      | None \<Rightarrow> old)"

definition tls_pw_init_auth_widget :: "oc_env \<Rightarrow> vpn_setting option \<Rightarrow> oc_editor \<Rightarrow> oc_editor" where
  "tls_pw_init_auth_widget env s_vpn ed =
     (case s_vpn of
        None \<Rightarrow> ed
      | Some s \<Rightarrow>
          ed\<lparr>oc_ca_cert := chosen env (\<lambda>_. SchemePath) (oc_ca_cert ed) (get_data_item s NM_OPENCONNECT_KEY_CACERT),
             oc_mca_cert := chosen env location_scheme (oc_mca_cert ed) (get_data_item s NM_OPENCONNECT_KEY_MCACERT),
             oc_mca_key := chosen env location_scheme (oc_mca_key ed) (get_data_item s NM_OPENCONNECT_KEY_MCAKEY),
             oc_user_cert := chosen env location_scheme (oc_user_cert ed) (get_data_item s NM_OPENCONNECT_KEY_USERCERT),
             oc_user_key := chosen env location_scheme (oc_user_key ed) (get_data_item s NM_OPENCONNECT_KEY_PRIVKEY)\<rparr>)"

section \<open>Construction\<close>

definition set_text :: "cstr \<Rightarrow> string \<Rightarrow> string" where
  "set_text value old = (case value of Some v \<Rightarrow> v | None \<Rightarrow> old)"

definition set_check :: "cstr \<Rightarrow> bool \<Rightarrow> bool" where
  "set_check value old = (if streq value ''yes'' then True else old)"

definition init_entries :: "vpn_setting \<Rightarrow> oc_editor \<Rightarrow> oc_editor" where
  "init_entries s ed =
     ed\<lparr>oc_gateway := set_text (get_data_item s NM_OPENCONNECT_KEY_GATEWAY) (oc_gateway ed),
        oc_proxy := set_text (get_data_item s NM_OPENCONNECT_KEY_PROXY) (oc_proxy ed),
        oc_user_agent := set_text (get_data_item s NM_OPENCONNECT_KEY_USERAGENT) (oc_user_agent ed),
        oc_fsid := set_check (get_data_item s NM_OPENCONNECT_KEY_PEM_PASSPHRASE_FSID) (oc_fsid ed),
        oc_prevent_invalid_cert :=
          set_check (get_data_item s NM_OPENCONNECT_KEY_PREVENT_INVALID_CERT) (oc_prevent_invalid_cert ed),
        oc_disable_udp := set_check (get_data_item s NM_OPENCONNECT_KEY_DISABLE_UDP) (oc_disable_udp ed),
        oc_csd := set_check (get_data_item s NM_OPENCONNECT_KEY_CSD_ENABLE) (oc_csd ed),
        oc_csd_wrapper := set_text (get_data_item s NM_OPENCONNECT_KEY_CSD_WRAPPER) (oc_csd_wrapper ed),
        oc_reported_os := set_text (get_data_item s NM_OPENCONNECT_KEY_REPORTED_OS) (oc_reported_os ed)\<rparr>"

definition init_entra :: "vpn_setting \<Rightarrow> oc_editor \<Rightarrow> oc_editor" where
  "init_entra s ed =
     ed\<lparr>oc_entra := set_check (get_data_item s NM_OPENCONNECT_KEY_ENTRA_CA) (oc_entra ed),
        oc_sso_url := set_text (get_data_item s NM_OPENCONNECT_KEY_ENTRA_CA_SSO_URL) (oc_sso_url ed),
        oc_authority := set_text (get_data_item s NM_OPENCONNECT_KEY_ENTRA_CA_AUTHORITY) (oc_authority ed),
        oc_client_id := set_text (get_data_item s NM_OPENCONNECT_KEY_ENTRA_CA_CLIENT_ID) (oc_client_id ed),
        oc_redirect_uri := set_text (get_data_item s NM_OPENCONNECT_KEY_ENTRA_CA_REDIRECT_URI) (oc_redirect_uri ed)\<rparr>"

definition init_editor_plugin :: "oc_env \<Rightarrow> connection \<Rightarrow> oc_editor \<Rightarrow> oc_editor option" where
  "init_editor_plugin env connection ed =
     (let s_vpn = c_vpn connection;
          ed = (case s_vpn of None \<Rightarrow> ed | Some s \<Rightarrow> init_entries s ed);
          ed = (if env_sso_mib env then (case s_vpn of None \<Rightarrow> ed | Some s \<Rightarrow> init_entra s ed) else ed);
          ed = init_token_ui env s_vpn ed
      in case init_protocol_ui env s_vpn ed of
           None \<Rightarrow> None
         | Some ed \<Rightarrow> Some (tls_pw_init_auth_widget env s_vpn ed))"

text \<open>\<open>Inl None\<close> is a NULL result with no error set.\<close>

definition nm_vpn_editor_new :: "oc_env \<Rightarrow> connection \<Rightarrow> gerror option + oc_editor" where
  "nm_vpn_editor_new env connection =
     (case env_ui_error env of
        Some e \<Rightarrow> Inl (Some e)
      | None \<Rightarrow>
          (case init_editor_plugin env connection built_widgets of
             None \<Rightarrow> Inl None
           | Some ed \<Rightarrow> Inr ed))"

section \<open>What the user does\<close>

definition stuff_changed_cb :: "oc_editor \<Rightarrow> oc_editor" where
  "stuff_changed_cb ed = ed\<lparr>oc_changed := oc_changed ed + 1\<rparr>"

text \<open>What a certificate chooser lets the user pick: an absolute file name, a PKCS#11 URI, or nothing.\<close>

definition location :: "cstr \<Rightarrow> bool" where
  "location l \<longleftrightarrow> (case l of None \<Rightarrow> True | Some v \<Rightarrow> has_prefix v ''/'' \<or> has_prefix v ''pkcs11:'')"

datatype oc_event =
    TypeGateway string | TypeProxy string | TypeUserAgent string | ToggleFsid | TogglePrevent | ToggleUdp
  | ToggleCsd | TypeCsdWrapper string | TypeReportedOs string | ToggleEntra | TypeSsoUrl string
  | TypeAuthority string | TypeClientId string | TypeRedirectUri string | PickTokenMode nat
  | TypeTokenSecret string | PickProtocol nat | PickCa cstr | PickMcaCert cstr | PickMcaKey cstr
  | PickUserCert cstr | PickUserKey cstr

text \<open>Whether the widget is there to be used, and what it holds afterwards.\<close>

fun oc_offers :: "oc_env \<Rightarrow> oc_event \<Rightarrow> oc_editor \<Rightarrow> bool" where
  "oc_offers env ToggleEntra ed = env_sso_mib env"
| "oc_offers env (TypeSsoUrl t) ed = env_sso_mib env"
| "oc_offers env (TypeAuthority t) ed = env_sso_mib env"
| "oc_offers env (TypeClientId t) ed = env_sso_mib env"
| "oc_offers env (TypeRedirectUri t) ed = env_sso_mib env"
| "oc_offers env (PickTokenMode i) ed = (oc_token_shown ed \<and> i < length (oc_token_rows ed))"
| "oc_offers env (TypeTokenSecret t) ed = (oc_token_shown ed \<and> oc_secret_sensitive ed)"
| "oc_offers env (PickProtocol i) ed = (i < length (oc_protocol_rows ed))"
| "oc_offers env (PickCa l) ed = location l"
| "oc_offers env (PickMcaCert l) ed = (oc_mca_shown ed \<and> location l)"
| "oc_offers env (PickMcaKey l) ed = (oc_mca_shown ed \<and> location l)"
| "oc_offers env (PickUserCert l) ed = location l"
| "oc_offers env (PickUserKey l) ed = location l"
| "oc_offers env ev ed = True"

fun oc_input :: "oc_event \<Rightarrow> oc_editor \<Rightarrow> oc_editor" where
  "oc_input (TypeGateway t) ed = ed\<lparr>oc_gateway := t\<rparr>"
| "oc_input (TypeProxy t) ed = ed\<lparr>oc_proxy := t\<rparr>"
| "oc_input (TypeUserAgent t) ed = ed\<lparr>oc_user_agent := t\<rparr>"
| "oc_input ToggleFsid ed = ed\<lparr>oc_fsid := \<not> oc_fsid ed\<rparr>"
| "oc_input TogglePrevent ed = ed\<lparr>oc_prevent_invalid_cert := \<not> oc_prevent_invalid_cert ed\<rparr>"
| "oc_input ToggleUdp ed = ed\<lparr>oc_disable_udp := \<not> oc_disable_udp ed\<rparr>"
| "oc_input ToggleCsd ed = ed\<lparr>oc_csd := \<not> oc_csd ed\<rparr>"
| "oc_input (TypeCsdWrapper t) ed = ed\<lparr>oc_csd_wrapper := t\<rparr>"
| "oc_input (TypeReportedOs t) ed = ed\<lparr>oc_reported_os := t\<rparr>"
| "oc_input ToggleEntra ed = ed\<lparr>oc_entra := \<not> oc_entra ed\<rparr>"
| "oc_input (TypeSsoUrl t) ed = ed\<lparr>oc_sso_url := t\<rparr>"
| "oc_input (TypeAuthority t) ed = ed\<lparr>oc_authority := t\<rparr>"
| "oc_input (TypeClientId t) ed = ed\<lparr>oc_client_id := t\<rparr>"
| "oc_input (TypeRedirectUri t) ed = ed\<lparr>oc_redirect_uri := t\<rparr>"
| "oc_input (PickTokenMode i) ed = ed\<lparr>oc_token_active := Some i\<rparr>"
| "oc_input (TypeTokenSecret t) ed = ed\<lparr>oc_secret_text := t\<rparr>"
| "oc_input (PickProtocol i) ed = ed\<lparr>oc_protocol_active := Some i\<rparr>"
| "oc_input (PickCa l) ed = ed\<lparr>oc_ca_cert := l\<rparr>"
| "oc_input (PickMcaCert l) ed = ed\<lparr>oc_mca_cert := l\<rparr>"
| "oc_input (PickMcaKey l) ed = ed\<lparr>oc_mca_key := l\<rparr>"
| "oc_input (PickUserCert l) ed = ed\<lparr>oc_user_cert := l\<rparr>"
| "oc_input (PickUserKey l) ed = ed\<lparr>oc_user_key := l\<rparr>"

definition oc_react :: "oc_env \<Rightarrow> oc_event \<Rightarrow> oc_editor \<Rightarrow> oc_editor" where
  "oc_react env ev ed = (if oc_offers env ev ed then stuff_changed_cb (oc_input ev ed) else ed)"

section \<open>Saving\<close>

definition auth_widget_check_validity :: "gerror + unit" where
  "auth_widget_check_validity = Inr ()"

definition check_validity :: "oc_editor \<Rightarrow> gerror + unit" where
  "check_validity ed =
     (if oc_gateway ed = [] then Inl (InvalidProperty NM_OPENCONNECT_KEY_GATEWAY)
      else if oc_proxy ed \<noteq> [] \<and> \<not> has_prefix (oc_proxy ed) ''socks://'' \<and> \<not> has_prefix (oc_proxy ed) ''http://''
      then Inl (InvalidProperty NM_OPENCONNECT_KEY_PROXY)
      else case auth_widget_check_validity of Inl e \<Rightarrow> Inl e | Inr _ \<Rightarrow> Inr ())"

text \<open>\<open>*src >= ' ' && *src <= '~'\<close>; the bytes above 127 fail one of the tests whether \<open>char\<close> is
  signed or not.\<close>

definition printable :: "char \<Rightarrow> bool" where
  "printable c \<longleftrightarrow> 0x20 \<le> (of_char c :: nat) \<and> (of_char c :: nat) \<le> 0x7E"

text \<open>The loop over the buffer with its two pointers; the final store ends the string at \<open>dst\<close>.\<close>

function zap :: "string \<Rightarrow> nat \<Rightarrow> nat \<Rightarrow> string" where
  "zap str src dst =
     (if src < length str
      then (if printable (str ! src) then zap (str[dst := str ! src]) (src + 1) (dst + 1) else zap str (src + 1) dst)
      else take dst str)"
  by auto
termination by (relation "measure (\<lambda>(str, src, dst). length str - src)") auto

declare zap.simps [simp del]

definition yes_no :: "bool \<Rightarrow> string" where
  "yes_no b = (if b then ''yes'' else ''no'')"

definition text_item :: "string \<Rightarrow> string \<Rightarrow> string \<times> cstr" where
  "text_item key str = (key, if str \<noteq> [] then Some str else None)"

definition active_protocol :: "oc_editor \<Rightarrow> oc_vpn_proto option" where
  "active_protocol ed = (case oc_protocol_active ed of None \<Rightarrow> None | Some i \<Rightarrow> Some (oc_protocol_rows ed ! i))"

definition active_token :: "oc_editor \<Rightarrow> token_row option" where
  "active_token ed = (case oc_token_active ed of None \<Rightarrow> None | Some i \<Rightarrow> Some (oc_token_rows ed ! i))"

text \<open>The calls of \<open>nm_setting_vpn_add_data_item\<close> in their order; \<open>protocol\<close> is the one of the profile
  before.\<close>

definition oc_items :: "oc_env \<Rightarrow> cstr \<Rightarrow> oc_editor \<Rightarrow> (string \<times> cstr) list" where
  "oc_items env protocol ed =
     [(NM_OPENCONNECT_KEY_PROTOCOL, protocol),
      (NM_OPENCONNECT_KEY_PROTOCOL, map_option op_name (active_protocol ed)),
      text_item NM_OPENCONNECT_KEY_GATEWAY (oc_gateway ed),
      text_item NM_OPENCONNECT_KEY_PROXY (oc_proxy ed),
      text_item NM_OPENCONNECT_KEY_USERAGENT (oc_user_agent ed),
      (NM_OPENCONNECT_KEY_PEM_PASSPHRASE_FSID, Some (yes_no (oc_fsid ed))),
      (NM_OPENCONNECT_KEY_PREVENT_INVALID_CERT, Some (yes_no (oc_prevent_invalid_cert ed))),
      (NM_OPENCONNECT_KEY_DISABLE_UDP, Some (yes_no (oc_disable_udp ed))),
      (NM_OPENCONNECT_KEY_CSD_ENABLE, Some (yes_no (oc_csd ed))),
      text_item NM_OPENCONNECT_KEY_CSD_WRAPPER (oc_csd_wrapper ed),
      text_item NM_OPENCONNECT_KEY_REPORTED_OS (oc_reported_os ed)] @
     (if env_sso_mib env then
        [(NM_OPENCONNECT_KEY_ENTRA_CA, Some (yes_no (oc_entra ed))),
         text_item NM_OPENCONNECT_KEY_ENTRA_CA_SSO_URL (oc_sso_url ed),
         text_item NM_OPENCONNECT_KEY_ENTRA_CA_AUTHORITY (oc_authority ed),
         text_item NM_OPENCONNECT_KEY_ENTRA_CA_CLIENT_ID (oc_client_id ed),
         text_item NM_OPENCONNECT_KEY_ENTRA_CA_REDIRECT_URI (oc_redirect_uri ed)]
      else []) @
     [(NM_OPENCONNECT_KEY_TOKEN_MODE, map_option tr_pref_value (active_token ed))]"

definition oc_flags :: "set_flags \<Rightarrow> vpn_setting \<Rightarrow> vpn_setting" where
  "oc_flags set_flags s_vpn =
     (let s_vpn = set_flags ''gwcert'' NM_SETTING_SECRET_FLAG_NOT_SAVED s_vpn;
          s_vpn = set_flags ''cookie'' NM_SETTING_SECRET_FLAG_NOT_SAVED s_vpn;
          s_vpn = set_flags ''gateway'' NM_SETTING_SECRET_FLAG_NOT_SAVED s_vpn;
          s_vpn = set_flags ''resolve'' NM_SETTING_SECRET_FLAG_NOT_SAVED s_vpn;
          s_vpn = set_flags ''xmlconfig'' NM_SETTING_SECRET_FLAG_NONE s_vpn;
          s_vpn = set_flags ''lasthost'' NM_SETTING_SECRET_FLAG_NONE s_vpn;
          s_vpn = set_flags ''autoconnect'' NM_SETTING_SECRET_FLAG_NONE s_vpn
      in set_flags ''certsigs'' NM_SETTING_SECRET_FLAG_NONE s_vpn)"

definition update_cert_from_filechooser :: "string \<Rightarrow> cstr \<Rightarrow> vpn_setting \<Rightarrow> vpn_setting" where
  "update_cert_from_filechooser key filename s_vpn =
     (let (s_vpn, authtype) =
        (if nonempty filename then (add_data_item key (the filename) s_vpn, ''cert'')
         else (remove_data_item key s_vpn, ''password''))
      in if key = NM_OPENCONNECT_KEY_USERCERT \<or> key = NM_OPENCONNECT_KEY_MCACERT
         then add_data_item NM_OPENCONNECT_KEY_AUTHTYPE authtype s_vpn else s_vpn)"

definition update_key_from_filechooser :: "string \<Rightarrow> cstr \<Rightarrow> vpn_setting \<Rightarrow> vpn_setting" where
  "update_key_from_filechooser key filename s_vpn =
     (if nonempty filename then add_data_item key (the filename) s_vpn else remove_data_item key s_vpn)"

definition auth_widget_update_connection :: "oc_editor \<Rightarrow> vpn_setting \<Rightarrow> vpn_setting" where
  "auth_widget_update_connection ed s_vpn =
     (let s_vpn = update_cert_from_filechooser NM_OPENCONNECT_KEY_CACERT (oc_ca_cert ed) s_vpn;
          s_vpn = update_cert_from_filechooser NM_OPENCONNECT_KEY_MCACERT (oc_mca_cert ed) s_vpn;
          s_vpn = update_key_from_filechooser NM_OPENCONNECT_KEY_MCAKEY (oc_mca_key ed) s_vpn;
          s_vpn = update_cert_from_filechooser NM_OPENCONNECT_KEY_USERCERT (oc_user_cert ed) s_vpn
      in update_key_from_filechooser NM_OPENCONNECT_KEY_PRIVKEY (oc_user_key ed) s_vpn)"

text \<open>Saving also refreshes widgets: the machine certificate follows the protocol's flags, the token
  secret the token mode.\<close>

definition oc_refresh :: "oc_env \<Rightarrow> oc_editor \<Rightarrow> oc_editor" where
  "oc_refresh env ed =
     (let ed = (case active_protocol ed of
                  None \<Rightarrow> ed
                | Some p \<Rightarrow> ed\<lparr>oc_mca_shown := and (word_of_int (op_flags p)) (env_auth_mca env) \<noteq> 0\<rparr>)
      in ed\<lparr>oc_secret_sensitive := (case active_token ed of None \<Rightarrow> False | Some r \<Rightarrow> tr_editable r)\<rparr>)"

definition oc_setting :: "oc_env \<Rightarrow> set_flags \<Rightarrow> cstr \<Rightarrow> oc_editor \<Rightarrow> vpn_setting" where
  "oc_setting env set_flags protocol ed =
     (let s_vpn = nm_setting_vpn_new\<lparr>vs_service := NM_VPN_SERVICE_TYPE_OPENCONNECT\<rparr>;
          s_vpn = put_opts add_data_item (oc_items env protocol ed) s_vpn;
          str = zap (oc_secret_text ed) 0 0;
          s_vpn = (if str \<noteq> [] then add_secret NM_OPENCONNECT_KEY_TOKEN_SECRET str s_vpn else s_vpn);
          s_vpn = oc_flags set_flags s_vpn
      in auth_widget_update_connection ed s_vpn)"

definition update_connection ::
  "oc_env \<Rightarrow> set_flags \<Rightarrow> oc_editor \<Rightarrow> connection \<Rightarrow> oc_editor \<times> (gerror + connection)" where
  "update_connection env set_flags ed connection =
     (let protocol = (case c_vpn connection of
                        None \<Rightarrow> None | Some s_vpn \<Rightarrow> get_data_item s_vpn NM_OPENCONNECT_KEY_PROTOCOL);
          ed = oc_refresh env ed
      in (ed, case check_validity ed of
                Inl e \<Rightarrow> Inl e
              | Inr _ \<Rightarrow> Inr (connection\<lparr>c_vpn := Some (oc_setting env set_flags protocol ed)\<rparr>)))"

end
