(* ===== verification/Oc_Editor_Facts.thy ===== *)
theory Oc_Editor_Facts
  imports Oc_Editor Gp_Editor_Facts
begin

text \<open>
  What the openconnect editor guarantees: the token secret it stores is the typed one without control
  characters, a saved profile passes the service's validators, and opening and saving a profile again
  changes nothing. And what it loses: the settings it has no widget for, an unknown protocol, and the
  soft token where libopenconnect supports none.
\<close>

section \<open>The library and GTK, as documented\<close>

definition active_law :: "oc_env \<Rightarrow> bool" where
  "active_law env \<longleftrightarrow> (\<forall>n i. if i < n then env_set_active env n i = Some i else env_set_active env n i = None)"

definition chooser_law :: "oc_env \<Rightarrow> bool" where
  "chooser_law env \<longleftrightarrow> (\<forall>sch v. location (env_chooser env sch v) \<and>
     (if has_prefix v ''/'' then env_chooser env SchemePath v = Some v else True) \<and>
     (if has_prefix v ''pkcs11:'' then env_chooser env SchemePkcs11 v = Some v else True))"

definition oc_env_law :: "oc_env \<Rightarrow> bool" where
  "oc_env_law env \<longleftrightarrow> active_law env \<and> chooser_law env"

section \<open>The token secret\<close>

lemma zap_buffer:
  "dst \<le> src \<Longrightarrow> src \<le> length str \<Longrightarrow> zap str src dst = take dst str @ filter printable (drop src str)"
proof (induction str src dst rule: zap.induct)
  case (1 str src dst)
  show ?case
  proof (cases "src < length str")
    case True
    then have d: "drop src str = str ! src # drop (Suc src) str" by (simp add: Cons_nth_drop_Suc)
    show ?thesis
    proof (cases "printable (str ! src)")
      case p: True
      have "take (dst + 1) (str[dst := str ! src]) = take dst str @ [str ! src]"
        using True 1(3) by (simp add: take_Suc_conv_app_nth)
      moreover have "drop (src + 1) (str[dst := str ! src]) = drop (Suc src) str" using 1(3) by simp
      ultimately show ?thesis
        using 1(1) [OF True p] True 1(3) p by (subst zap.simps) (simp add: d)
    next
      case False
      then show ?thesis using 1(2) [OF True False] True 1(3) by (subst zap.simps) (simp add: d)
    qed
  qed (use 1 in \<open>simp add: zap.simps [of str]\<close>)
qed

lemma zap_filter [simp]: "zap str 0 0 = filter printable str"
  by (simp add: zap_buffer)

section \<open>The combo boxes\<close>

lemma token_mode_loop_filter:
  "token_mode_loop env rows n =
     (filter (\<lambda>r. \<not> row_removed env (tr_type r)) rows, n + length (filter (\<lambda>r. \<not> row_removed env (tr_type r)) rows))"
  by (induction env rows n rule: token_mode_loop.induct) auto

definition offered_rows :: "oc_env \<Rightarrow> token_row list" where
  "offered_rows env = filter (\<lambda>r. \<not> row_removed env (tr_type r)) token_mode_list"

definition token_section :: "oc_env \<Rightarrow> bool" where
  "token_section env \<longleftrightarrow> env_stoken env \<or> env_oath env \<or> env_yubioath env"

lemma offered_rows_cons: "\<exists>rs. offered_rows env = \<lparr>tr_pref_value = ''disabled'', tr_type = ''any'', tr_editable = False\<rparr> # rs"
  by (simp add: offered_rows_def token_mode_list_def row_removed_def)

lemma init_token_mode_options_rows:
  "init_token_mode_options env token_mode_list = (offered_rows env, token_section env)"
proof -
  have "length (offered_rows env) > 1 \<longleftrightarrow> token_section env"
    by (auto simp: offered_rows_def token_mode_list_def row_removed_def token_section_def)
  then show ?thesis
    by (simp add: init_token_mode_options_def token_mode_loop_filter offered_rows_def token_mode_list_def
        del: filter.simps)
qed

lemma active_option_absent: "v \<notin> set prefs \<Longrightarrow> active_option v prefs i active = active"
  by (induction v prefs i active rule: active_option.induct) auto

lemma active_option_present:
  "v \<in> set prefs \<Longrightarrow> \<exists>j < length prefs. active_option v prefs i active = i + j \<and> prefs ! j = v"
proof (induction v prefs i active rule: active_option.induct)
  case (2 v pref prefs i active)
  show ?case
  proof (cases "v \<in> set prefs")
    case True
    with 2 obtain j where "j < length prefs" "active_option v (pref # prefs) i active = i + 1 + j" "prefs ! j = v" by auto
    then show ?thesis by (intro exI [of _ "Suc j"]) simp
  qed (use 2 in \<open>auto simp: active_option_absent\<close>)
qed simp

lemma active_option_start: "prefs \<noteq> [] \<Longrightarrow> active_option v prefs 0 0 < length prefs"
  using active_option_present [of v prefs 0 0] active_option_absent [of v prefs 0 0] by (cases "v \<in> set prefs") auto

lemma active_option_hit: "v \<in> set prefs \<Longrightarrow> prefs ! active_option v prefs 0 0 = v"
  using active_option_present [of v prefs 0 0] by auto

section \<open>Sessions of the editor\<close>

inductive oc_step :: "oc_env \<Rightarrow> set_flags \<Rightarrow> oc_editor \<Rightarrow> oc_editor \<Rightarrow> bool" for env sf where
  react: "oc_step env sf ed (oc_react env ev ed)"
| save: "oc_step env sf ed (fst (update_connection env sf ed conn))"

definition oc_init :: "oc_env \<Rightarrow> connection \<Rightarrow> oc_editor \<Rightarrow> bool" where
  "oc_init env conn ed \<longleftrightarrow> oc_env_law env \<and> nm_vpn_editor_new env conn = Inr ed"

definition offered_protocols :: "oc_env \<Rightarrow> oc_vpn_proto list" where
  "offered_protocols env = take (nat (fst (env_protocols env))) (snd (env_protocols env))"

text \<open>The combo boxes are on one of their rows, the token section is used only where it is shown, and the
  choosers hold locations.\<close>

definition oc_inv :: "oc_env \<Rightarrow> oc_editor \<Rightarrow> bool" where
  "oc_inv env ed \<longleftrightarrow>
     oc_token_rows ed = offered_rows env \<and> oc_token_shown ed = token_section env \<and>
     (\<exists>i < length (offered_rows env). oc_token_active ed = Some i \<and>
        (if token_section env then True else i = 0 \<and> oc_secret_text ed = [])) \<and>
     oc_protocol_rows ed = offered_protocols env \<and>
     (case oc_protocol_active ed of None \<Rightarrow> True | Some i \<Rightarrow> i < length (offered_protocols env)) \<and>
     location (oc_ca_cert ed) \<and> location (oc_mca_cert ed) \<and> location (oc_mca_key ed) \<and>
     location (oc_user_cert ed) \<and> location (oc_user_key ed)"

lemma location_None [simp]: "location None"
  by (simp add: location_def)

lemma chosen_location: "oc_env_law env \<Longrightarrow> location old \<Longrightarrow> location (chosen env scheme old value)"
  by (auto simp: chosen_def oc_env_law_def chooser_law_def split: option.splits)

lemma set_active_Some: "oc_env_law env \<Longrightarrow> i < n \<Longrightarrow> env_set_active env n i = Some i"
  by (simp add: oc_env_law_def active_law_def)

lemma set_active_cases: "oc_env_law env \<Longrightarrow> env_set_active env n i = (if i < n then Some i else None)"
  unfolding oc_env_law_def active_law_def by presburger

lemma built_simps [simp]:
  "oc_token_rows built_widgets = token_mode_list" "oc_token_active built_widgets = Some 0" "\<not> oc_token_shown built_widgets"
  "oc_secret_text built_widgets = []" "oc_protocol_rows built_widgets = []" "oc_protocol_active built_widgets = None"
  "oc_ca_cert built_widgets = None" "oc_mca_cert built_widgets = None" "oc_mca_key built_widgets = None"
  "oc_user_cert built_widgets = None" "oc_user_key built_widgets = None" "oc_gateway built_widgets = []"
  "oc_proxy built_widgets = []" "oc_user_agent built_widgets = []" "\<not> oc_fsid built_widgets"
  "\<not> oc_prevent_invalid_cert built_widgets" "\<not> oc_disable_udp built_widgets" "\<not> oc_csd built_widgets"
  "oc_csd_wrapper built_widgets = []" "oc_reported_os built_widgets = []" "\<not> oc_entra built_widgets"
  "oc_sso_url built_widgets = []" "oc_authority built_widgets = []" "oc_client_id built_widgets = []"
  "oc_redirect_uri built_widgets = []"
  by (simp_all add: built_widgets_def)

text \<open>The editor opened on a VPN setting, widget group by widget group.\<close>

definition entered :: "oc_env \<Rightarrow> vpn_setting option \<Rightarrow> oc_editor" where
  "entered env s_vpn =
     (case s_vpn of None \<Rightarrow> built_widgets
      | Some s \<Rightarrow> if env_sso_mib env then init_entra s (init_entries s built_widgets) else init_entries s built_widgets)"

lemma entered_frame [simp]:
  "oc_token_rows (entered env s_vpn) = token_mode_list" "oc_token_active (entered env s_vpn) = Some 0"
  "\<not> oc_token_shown (entered env s_vpn)"
  "oc_secret_text (entered env s_vpn) = []" "oc_protocol_rows (entered env s_vpn) = []"
  "oc_protocol_active (entered env s_vpn) = None" "oc_ca_cert (entered env s_vpn) = None"
  "oc_mca_cert (entered env s_vpn) = None" "oc_mca_key (entered env s_vpn) = None"
  "oc_user_cert (entered env s_vpn) = None" "oc_user_key (entered env s_vpn) = None"
  by (cases s_vpn; simp add: entered_def init_entra_def init_entries_def)+

definition with_token :: "oc_env \<Rightarrow> vpn_setting option \<Rightarrow> oc_editor" where
  "with_token env s_vpn = init_token_ui env s_vpn (entered env s_vpn)"

lemma with_token_frame [simp]:
  "oc_token_rows (with_token env s_vpn) = offered_rows env" "oc_token_shown (with_token env s_vpn) = token_section env"
  "oc_protocol_rows (with_token env s_vpn) = []" "oc_protocol_active (with_token env s_vpn) = None"
  "oc_ca_cert (with_token env s_vpn) = None"
  "oc_mca_cert (with_token env s_vpn) = None" "oc_mca_key (with_token env s_vpn) = None"
  "oc_user_cert (with_token env s_vpn) = None" "oc_user_key (with_token env s_vpn) = None"
  by (simp_all add: with_token_def init_token_ui_def init_token_mode_options_rows Let_def split: option.splits)

lemma with_token_active:
  "oc_token_active (with_token env s_vpn) =
     (case s_vpn of None \<Rightarrow> Some 0
      | Some s \<Rightarrow> if token_section env then env_set_active env (length (offered_rows env))
          (case get_data_item s ''stoken_source'' of None \<Rightarrow> 0
           | Some v \<Rightarrow> active_option v (map tr_pref_value (offered_rows env)) 0 0) else Some 0)"
  "oc_secret_text (with_token env s_vpn) =
     (case s_vpn of None \<Rightarrow> []
      | Some s \<Rightarrow> if token_section env then set_text (secret_or_item s ''stoken_string'') [] else [])"
  by (simp_all add: with_token_def init_token_ui_def init_token_mode_options_rows Let_def set_text_def split: option.splits)

definition protocol_option :: "oc_env \<Rightarrow> vpn_setting \<Rightarrow> nat" where
  "protocol_option env s =
     (case get_data_item s ''protocol'' of None \<Rightarrow> 0
      | Some v \<Rightarrow> active_option v (map op_name (offered_protocols env)) 0 0)"

definition with_protocol :: "oc_env \<Rightarrow> vpn_setting option \<Rightarrow> oc_editor \<Rightarrow> oc_editor" where
  "with_protocol env s_vpn ed =
     (case s_vpn of None \<Rightarrow> ed\<lparr>oc_protocol_rows := offered_protocols env\<rparr>
      | Some s \<Rightarrow> ed\<lparr>oc_protocol_rows := offered_protocols env,
          oc_protocol_active := env_set_active env (length (offered_protocols env)) (protocol_option env s)\<rparr>)"

definition opened :: "oc_env \<Rightarrow> vpn_setting option \<Rightarrow> oc_editor" where
  "opened env s_vpn = tls_pw_init_auth_widget env s_vpn (with_protocol env s_vpn (with_token env s_vpn))"

definition openable :: "oc_env \<Rightarrow> vpn_setting option \<Rightarrow> bool" where
  "openable env s_vpn \<longleftrightarrow> env_ui_error env = None \<and>
     (case s_vpn of None \<Rightarrow> True
      | Some s \<Rightarrow> get_data_item s ''protocol'' = None \<or> offered_protocols env \<noteq> [])"

lemma editor_new_cases:
  "nm_vpn_editor_new env conn =
     (if openable env (c_vpn conn) then Inr (opened env (c_vpn conn)) else Inl (env_ui_error env))"
proof -
  have i: "init_editor_plugin env conn built_widgets =
      (case init_protocol_ui env (c_vpn conn) (with_token env (c_vpn conn)) of
         None \<Rightarrow> None | Some ed \<Rightarrow> Some (tls_pw_init_auth_widget env (c_vpn conn) ed))"
    by (cases "c_vpn conn") (simp_all add: init_editor_plugin_def with_token_def entered_def Let_def cong: option.case_cong)
  have "init_protocol_ui env (c_vpn conn) ed =
      (if openable (env\<lparr>env_ui_error := None\<rparr>) (c_vpn conn) then Some (with_protocol env (c_vpn conn) ed) else None)"
    if "oc_protocol_rows ed = []" for ed
    using that by (cases "c_vpn conn"; cases "env_protocols env")
      (auto simp: init_protocol_ui_def init_protocol_combo_options_def offered_protocols_def openable_def
        protocol_option_def with_protocol_def Let_def split: option.splits)
  from this [of "with_token env (c_vpn conn)"] show ?thesis
    by (auto simp: nm_vpn_editor_new_def i openable_def opened_def offered_protocols_def split: option.splits)
qed

lemma opened_frame [simp]:
  "oc_token_rows (opened env s_vpn) = offered_rows env" "oc_token_shown (opened env s_vpn) = token_section env"
  "oc_token_active (opened env s_vpn) = oc_token_active (with_token env s_vpn)"
  "oc_secret_text (opened env s_vpn) = oc_secret_text (with_token env s_vpn)"
  "oc_protocol_rows (opened env s_vpn) = offered_protocols env"
  "oc_protocol_active (opened env s_vpn) = (case s_vpn of None \<Rightarrow> None
       | Some s \<Rightarrow> env_set_active env (length (offered_protocols env)) (protocol_option env s))"
  by (simp_all add: opened_def tls_pw_init_auth_widget_def with_protocol_def split: option.splits)

lemma opened_certs [simp]:
  "oc_ca_cert (opened env (Some s)) = chosen env (\<lambda>_. SchemePath) None (get_data_item s ''cacert'')"
  "oc_mca_cert (opened env (Some s)) = chosen env location_scheme None (get_data_item s ''mcacert'')"
  "oc_mca_key (opened env (Some s)) = chosen env location_scheme None (get_data_item s ''mcakey'')"
  "oc_user_cert (opened env (Some s)) = chosen env location_scheme None (get_data_item s ''usercert'')"
  "oc_user_key (opened env (Some s)) = chosen env location_scheme None (get_data_item s ''userkey'')"
  by (simp_all add: opened_def tls_pw_init_auth_widget_def with_protocol_def)

lemma opened_certs_new [simp]:
  "oc_ca_cert (opened env None) = None" "oc_mca_cert (opened env None) = None" "oc_mca_key (opened env None) = None"
  "oc_user_cert (opened env None) = None" "oc_user_key (opened env None) = None"
  by (simp_all add: opened_def tls_pw_init_auth_widget_def with_protocol_def)

lemma opened_inv: "oc_env_law env \<Longrightarrow> oc_inv env (opened env s_vpn)"
proof -
  assume law: "oc_env_law env"
  obtain rs where rs: "offered_rows env = \<lparr>tr_pref_value = ''disabled'', tr_type = ''any'', tr_editable = False\<rparr> # rs"
    using offered_rows_cons by blast
  have t: "active_option v (map tr_pref_value (offered_rows env)) 0 0 < length (offered_rows env)" for v
    using active_option_start [of "map tr_pref_value (offered_rows env)" v] rs by simp
  have "(case w of None \<Rightarrow> 0 | Some v \<Rightarrow> active_option v (map tr_pref_value (offered_rows env)) 0 0) < length (offered_rows env)" for w
    using t rs by (cases w) auto
  then have "\<exists>i < length (offered_rows env). oc_token_active (opened env s_vpn) = Some i \<and>
      (if token_section env then True else i = 0 \<and> oc_secret_text (opened env s_vpn) = [])"
    using rs by (cases s_vpn) (auto simp: with_token_active set_active_Some [OF law])
  moreover have "case oc_protocol_active (opened env s_vpn) of None \<Rightarrow> True | Some i \<Rightarrow> i < length (offered_protocols env)"
    by (cases s_vpn) (auto simp: set_active_cases [OF law])
  moreover have "location (oc_ca_cert (opened env s_vpn))" "location (oc_mca_cert (opened env s_vpn))"
    "location (oc_mca_key (opened env s_vpn))" "location (oc_user_cert (opened env s_vpn))"
    "location (oc_user_key (opened env s_vpn))"
    by (cases s_vpn; simp add: chosen_location [OF law])+
  ultimately show ?thesis by (simp add: oc_inv_def)
qed

interpretation oc: invariant_system "oc_init env conn" "oc_step env sf" "oc_inv env" for env conn sf
proof unfold_locales
  show "oc_init env conn ed \<Longrightarrow> oc_inv env ed" for ed
    by (auto simp: oc_init_def editor_new_cases opened_inv split: if_splits)
  show "oc_inv env ed'" if i: "oc_inv env ed" and s: "oc_step env sf ed ed'" for ed ed'
    using s
  proof cases
    case (react ev)
    then show ?thesis using i
      by (cases ev) (auto simp: oc_react_def oc_inv_def stuff_changed_cb_def split: if_splits)
  next
    case (save conn)
    then show ?thesis using i
      by (auto simp: update_connection_def oc_refresh_def oc_inv_def Let_def split: option.splits)
  qed
qed

section \<open>The saved setting\<close>

definition flag_items :: "(u32 \<Rightarrow> string) \<Rightarrow> (string \<times> cstr) list" where
  "flag_items flag_text = map (\<lambda>k. (k @ ''-flags'', Some (flag_text 2))) [''gwcert'', ''cookie'', ''gateway'', ''resolve''] @
     map (\<lambda>k. (k @ ''-flags'', Some (flag_text 0))) [''xmlconfig'', ''lasthost'', ''autoconnect'', ''certsigs'']"

lemma oc_flags_items: "flags_law gf sf flag_text \<Longrightarrow> oc_flags sf s = put_opts add_data_item (flag_items flag_text) s"
  by (simp add: flags_law_def oc_flags_def flag_items_def)

definition cert_type :: "cstr \<Rightarrow> string" where
  "cert_type filename = (if nonempty filename then ''cert'' else ''password'')"

text \<open>What the editor writes, in order, apart from removals of items that are not there.\<close>

definition cert_items :: "oc_editor \<Rightarrow> (string \<times> cstr) list" where
  "cert_items ed = [(''cacert'', val (oc_ca_cert ed)), (''mcacert'', val (oc_mca_cert ed)),
     (''authtype'', Some (cert_type (oc_mca_cert ed))), (''mcakey'', val (oc_mca_key ed)),
     (''usercert'', val (oc_user_cert ed)), (''authtype'', Some (cert_type (oc_user_cert ed))),
     (''userkey'', val (oc_user_key ed))]"

definition oc_all_items :: "(u32 \<Rightarrow> string) \<Rightarrow> oc_env \<Rightarrow> cstr \<Rightarrow> oc_editor \<Rightarrow> (string \<times> cstr) list" where
  "oc_all_items flag_text env protocol ed = oc_items env protocol ed @ flag_items flag_text @ cert_items ed"

lemma remove_absent: "get_data_item s k = None \<Longrightarrow> remove_data_item k s = s"
proof -
  assume "get_data_item s k = None"
  then have "k \<notin> fst ` set (vs_data s)" by (simp add: get_data_item_def map_of_eq_None_iff)
  then have "sdel k (vs_data s) = vs_data s" unfolding sdel_def by (intro filter_True) force
  then show ?thesis by (simp add: remove_data_item_def)
qed

lemma cert_step:
  "get_data_item s k = None \<Longrightarrow> k \<noteq> ''usercert'' \<Longrightarrow> k \<noteq> ''mcacert'' \<Longrightarrow>
     update_cert_from_filechooser k f s = put_opts add_data_item [(k, val f)] s"
  "get_data_item s k = None \<Longrightarrow> k = ''usercert'' \<or> k = ''mcacert'' \<Longrightarrow>
     update_cert_from_filechooser k f s = put_opts add_data_item [(k, val f), (''authtype'', Some (cert_type f))] s"
  "get_data_item s k = None \<Longrightarrow> update_key_from_filechooser k f s = put_opts add_data_item [(k, val f)] s"
  by (cases f; auto simp: update_cert_from_filechooser_def update_key_from_filechooser_def remove_absent cert_type_def
      val_def Let_def split: if_splits)+

lemma auth_update_items:
  assumes "list_all (\<lambda>k. get_data_item s k = None) [''cacert'', ''mcacert'', ''mcakey'', ''usercert'', ''userkey'']"
  shows "auth_widget_update_connection ed s = put_opts add_data_item (cert_items ed) s"
  using assms
  by (simp add: auth_widget_update_connection_def cert_step data_items.get_put_opts cert_items_def put_opts_append [symmetric]
      del: val_simps split: option.splits)

definition blank_oc :: vpn_setting where
  "blank_oc = \<lparr>vs_data = [], vs_secrets = [], vs_service = NM_VPN_SERVICE_TYPE_OPENCONNECT, vs_timeout = 0\<rparr>"

lemma get_blank_oc [simp]: "get_data_item blank_oc k = None" "get_secret blank_oc k = None"
  by (simp_all add: blank_oc_def get_data_item_def get_secret_def)

definition stored_secret :: "oc_editor \<Rightarrow> vpn_setting \<Rightarrow> vpn_setting" where
  "stored_secret ed s =
     (if filter printable (oc_secret_text ed) \<noteq> [] then add_secret ''stoken_string'' (filter printable (oc_secret_text ed)) s
      else s)"

lemma add_secret_data: "add_secret k v (put_opts add_data_item kvs s) = put_opts add_data_item kvs (add_secret k v s)"
proof -
  have "add_secret k v (add_data_item k' v' s) = add_data_item k' v' (add_secret k v s)" for k' v' s
    by (simp add: add_secret_def add_data_item_def)
  then show ?thesis
    by (induction kvs arbitrary: s) (auto simp: put_opts_def put_opt_def split: option.splits)
qed

lemma oc_items_keys: "fst ` set (oc_items env protocol ed) \<subseteq>
    {''protocol'', ''gateway'', ''proxy'', ''useragent'', ''pem_passphrase_fsid'', ''prevent_invalid_cert'', ''disable_udp'',
     ''enable_csd_trojan'', ''csd_wrapper'', ''reported_os'', ''entra_conditional_access'', ''entra_conditional_access_sso_url'',
     ''entra_conditional_access_authority'', ''entra_conditional_access_client_id'', ''entra_conditional_access_redirect_uri'',
     ''stoken_source''}"
  by (auto simp: oc_items_def text_item_def)

lemma flag_items_keys: "fst ` set (flag_items flag_text) =
    {''gwcert-flags'', ''cookie-flags'', ''gateway-flags'', ''resolve-flags'', ''xmlconfig-flags'', ''lasthost-flags'',
     ''autoconnect-flags'', ''certsigs-flags''}"
  by (simp add: flag_items_def)

lemma no_put: "k \<notin> fst ` set kvs \<Longrightarrow> get_data_item s k = None \<Longrightarrow> get_data_item (put_opts add_data_item kvs s) k = None"
  by (simp add: data_items.get_put_opts_other)

lemma stored_secret_frame [simp]:
  "get_data_item (stored_secret ed s) = get_data_item s" "vs_data (stored_secret ed s) = vs_data s"
  "vs_service (stored_secret ed s) = vs_service s"
  by (simp_all add: stored_secret_def) (simp_all add: add_secret_def)

lemma oc_setting_items:
  assumes "flags_law gf sf flag_text"
  shows "oc_setting env sf protocol ed = put_opts add_data_item (oc_all_items flag_text env protocol ed) (stored_secret ed blank_oc)"
proof -
  let ?s = "put_opts add_data_item (oc_items env protocol ed @ flag_items flag_text) (stored_secret ed blank_oc)"
  have "list_all (\<lambda>k. k \<notin> fst ` set (oc_items env protocol ed @ flag_items flag_text))
      [''cacert'', ''mcacert'', ''mcakey'', ''usercert'', ''userkey'']"
    using oc_items_keys [of env protocol ed] flag_items_keys [of flag_text] by (auto simp del: set_append simp: set_append image_Un)
  then have "list_all (\<lambda>k. get_data_item ?s k = None) [''cacert'', ''mcacert'', ''mcakey'', ''usercert'', ''userkey'']"
    by (auto intro!: no_put)
  note a = auth_update_items [OF this, of ed]
  have "nm_setting_vpn_new\<lparr>vs_service := NM_VPN_SERVICE_TYPE_OPENCONNECT\<rparr> = blank_oc"
    by (simp add: nm_setting_vpn_new_def blank_oc_def)
  then have "oc_setting env sf protocol ed = auth_widget_update_connection ed ?s"
    by (simp add: oc_setting_def stored_secret_def add_secret_data oc_flags_items [OF assms] put_opts_append Let_def)
  with a show ?thesis by (simp add: put_opts_append oc_all_items_def)
qed

lemma get_oc_setting:
  assumes "flags_law gf sf flag_text"
  shows "get_data_item (oc_setting env sf protocol ed) k = last_put (oc_all_items flag_text env protocol ed) k"
    "get_secret (oc_setting env sf protocol ed) k =
      (if k = ''stoken_string'' then val (Some (filter printable (oc_secret_text ed))) else None)"
    "vs_service (oc_setting env sf protocol ed) = NM_VPN_SERVICE_TYPE_OPENCONNECT"
  using assms
  by (auto simp: oc_setting_items data_items.get_put_opts put_opts_frame get_secret_def stored_secret_def split: option.splits)
    (auto simp: add_secret_def map_of_sput blank_oc_def)

section \<open>A saved profile and the service\<close>

lemma oc_lookup_none:
  "k \<notin> fst ` set (flag_items flag_text @ cert_items ed) \<Longrightarrow>
     last_put (oc_all_items flag_text env protocol ed) k = last_put (oc_items env protocol ed) k"
  by (simp add: oc_all_items_def last_put_append last_put_None image_Un)

lemma cert_items_keys: "fst ` set (cert_items ed) = {''cacert'', ''mcacert'', ''authtype'', ''mcakey'', ''usercert'', ''userkey''}"
  by (auto simp: cert_items_def)

lemma oc_item_lookup:
  "last_put (oc_items env p ed) ''gateway'' = val (Some (oc_gateway ed))"
  "last_put (oc_items env p ed) ''proxy'' = val (Some (oc_proxy ed))"
  "last_put (oc_items env p ed) ''useragent'' = val (Some (oc_user_agent ed))"
  "last_put (oc_items env p ed) ''csd_wrapper'' = val (Some (oc_csd_wrapper ed))"
  "last_put (oc_items env p ed) ''reported_os'' = val (Some (oc_reported_os ed))"
  "last_put (oc_items env p ed) ''pem_passphrase_fsid'' = Some (yes_no (oc_fsid ed))"
  "last_put (oc_items env p ed) ''prevent_invalid_cert'' = Some (yes_no (oc_prevent_invalid_cert ed))"
  "last_put (oc_items env p ed) ''disable_udp'' = Some (yes_no (oc_disable_udp ed))"
  "last_put (oc_items env p ed) ''enable_csd_trojan'' = Some (yes_no (oc_csd ed))"
  "last_put (oc_items env p ed) ''stoken_source'' = map_option tr_pref_value (active_token ed)"
  "last_put (oc_items env p ed) ''protocol'' =
     (case map_option op_name (active_protocol ed) of Some v \<Rightarrow> Some v | None \<Rightarrow> p)"
  "last_put (oc_items env p ed) ''entra_conditional_access'' = some_if (env_sso_mib env) (yes_no (oc_entra ed))"
  "last_put (oc_items env p ed) ''entra_conditional_access_sso_url'' =
     (if env_sso_mib env then val (Some (oc_sso_url ed)) else None)"
  "last_put (oc_items env p ed) ''entra_conditional_access_authority'' =
     (if env_sso_mib env then val (Some (oc_authority ed)) else None)"
  "last_put (oc_items env p ed) ''entra_conditional_access_client_id'' =
     (if env_sso_mib env then val (Some (oc_client_id ed)) else None)"
  "last_put (oc_items env p ed) ''entra_conditional_access_redirect_uri'' =
     (if env_sso_mib env then val (Some (oc_redirect_uri ed)) else None)"
  by (simp_all add: oc_items_def text_item_def last_put_append case_option_self split: option.splits)

lemma val_val [simp]: "val (val s) = val s"
  by (cases s) simp_all

lemma cert_lookup:
  "last_put (oc_all_items flag_text env p ed) ''cacert'' = val (oc_ca_cert ed)"
  "last_put (oc_all_items flag_text env p ed) ''mcacert'' = val (oc_mca_cert ed)"
  "last_put (oc_all_items flag_text env p ed) ''mcakey'' = val (oc_mca_key ed)"
  "last_put (oc_all_items flag_text env p ed) ''usercert'' = val (oc_user_cert ed)"
  "last_put (oc_all_items flag_text env p ed) ''userkey'' = val (oc_user_key ed)"
  "last_put (oc_all_items flag_text env p ed) ''authtype'' = Some (cert_type (oc_user_cert ed))"
proof -
  have n: "last_put (oc_items env p ed) k = None"
    if "k \<in> {''cacert'', ''mcacert'', ''mcakey'', ''usercert'', ''userkey'', ''authtype''}" for k
    using oc_items_keys [of env p ed] that by (intro last_put_None) auto
  show "last_put (oc_all_items flag_text env p ed) ''cacert'' = val (oc_ca_cert ed)"
    "last_put (oc_all_items flag_text env p ed) ''mcacert'' = val (oc_mca_cert ed)"
    "last_put (oc_all_items flag_text env p ed) ''mcakey'' = val (oc_mca_key ed)"
    "last_put (oc_all_items flag_text env p ed) ''usercert'' = val (oc_user_cert ed)"
    "last_put (oc_all_items flag_text env p ed) ''userkey'' = val (oc_user_key ed)"
    "last_put (oc_all_items flag_text env p ed) ''authtype'' = Some (cert_type (oc_user_cert ed))"
    by (simp_all add: oc_all_items_def last_put_append cert_items_def flag_items_def n case_option_self cong: option.case_cong)
qed

lemma flag_lookup:
  "last_put (oc_all_items flag_text env p ed) ''cookie-flags'' = Some (flag_text 2)"
  "last_put (oc_all_items flag_text env p ed) ''gateway-flags'' = Some (flag_text 2)"
  by (simp_all add: oc_all_items_def last_put_append cert_items_def flag_items_def)

definition oc_keys :: "string list" where
  "oc_keys = [''protocol'', ''gateway'', ''proxy'', ''useragent'', ''pem_passphrase_fsid'', ''prevent_invalid_cert'', ''disable_udp'',
     ''enable_csd_trojan'', ''csd_wrapper'', ''reported_os'', ''entra_conditional_access'', ''entra_conditional_access_sso_url'',
     ''entra_conditional_access_authority'', ''entra_conditional_access_client_id'', ''entra_conditional_access_redirect_uri'',
     ''stoken_source'', ''gwcert-flags'', ''cookie-flags'', ''gateway-flags'', ''resolve-flags'', ''xmlconfig-flags'',
     ''lasthost-flags'', ''autoconnect-flags'', ''certsigs-flags'', ''cacert'', ''mcacert'', ''authtype'', ''mcakey'',
     ''usercert'', ''userkey'']"

lemma oc_lookup_other: "k \<notin> set oc_keys \<Longrightarrow> last_put (oc_all_items flag_text env p ed) k = None"
proof (rule last_put_None)
  assume "k \<notin> set oc_keys"
  moreover have "fst ` set (oc_all_items flag_text env p ed) \<subseteq> set oc_keys"
    using oc_items_keys [of env p ed] by (auto simp: oc_all_items_def image_Un flag_items_keys cert_items_keys oc_keys_def)
  ultimately show "k \<notin> fst ` set (oc_all_items flag_text env p ed)" by blast
qed

lemma yes_no_text [simp]: "yes_no b = ''yes'' \<longleftrightarrow> b" "yes_no b = ''no'' \<longleftrightarrow> \<not> b" "yes_no b \<noteq> []"
  by (simp_all add: yes_no_def)

lemma oc_boolean_items:
  "list_all (\<lambda>kv. fst kv \<notin> set boolean_settings \<or> snd kv \<in> {Some ''yes'', Some ''no''}) (oc_all_items flag_text env p ed)"
  by (simp add: oc_all_items_def oc_items_def flag_items_def cert_items_def text_item_def boolean_settings_def del: disj_not1)

lemma oc_properties_ok:
  assumes "flags_law gf sf flag_text"
  shows "nm_openconnect_properties_validate (oc_setting env sf p ed) = Inr ()"
proof -
  have "vs_data (oc_setting env sf p ed) \<noteq> []"
    using get_oc_setting(1) [OF assms, of env p ed "''cookie-flags''"] by (auto simp: flag_lookup get_data_item_def)
  moreover have "\<not> bad_item valid_properties (k, v)" if "(k, Some v) \<in> set (oc_all_items flag_text env p ed)" for k v
    using oc_boolean_items [of flag_text env p ed] that by (auto simp: list_all_iff bad_item_properties)
  moreover have "set (vs_data (oc_setting env sf p ed)) \<subseteq> {(k, v). (k, Some v) \<in> set (oc_all_items flag_text env p ed)}"
    using put_opts_items [of "oc_all_items flag_text env p ed" "stored_secret ed blank_oc"]
    by (simp add: oc_setting_items [OF assms] blank_oc_def)
  ultimately show ?thesis by (auto simp: properties_validate_ok)
qed

lemma oc_flags_ok:
  assumes "flags_law gf sf flag_text" "flags_read_law gf"
  shows "validate_auth_secret_flags gf (oc_setting env sf p ed) = Inr ()"
proof -
  have "gf (oc_setting env sf p ed) k = Some 2" if "k = ''cookie'' \<or> k = ''gateway''" for k
  proof -
    have "get_data_item (oc_setting env sf p ed) (k @ ''-flags'') = get_data_item (sf k 2 blank_oc) (k @ ''-flags'')"
      using that assms(1) by (auto simp: get_oc_setting(1) [OF assms(1)] flag_lookup flags_law_def data_items.get_put)
    then have "gf (oc_setting env sf p ed) k = gf (sf k 2 blank_oc) k"
      using assms(2) [unfolded flags_read_law_def, rule_format, of "oc_setting env sf p ed" k "sf k 2 blank_oc"]
        assms(1) by (simp add: flags_law_def data_items.get_put)
    also have "\<dots> = Some 2" using assms(1) unfolding flags_law_def by blast
    finally show ?thesis .
  qed
  then have "check_secret_flags gf (oc_setting env sf p ed) [''cookie'', ''gateway''] = Inr ()"
    by (simp add: check_secret_flags_cases safe_flags_def)
  then show ?thesis by (simp add: validate_auth_secret_flags_def)
qed

definition old_protocol :: "connection \<Rightarrow> cstr" where
  "old_protocol conn = (case c_vpn conn of None \<Rightarrow> None | Some s \<Rightarrow> get_data_item s ''protocol'')"

lemma oc_refresh_frame [simp]:
  "oc_items env p (oc_refresh env ed) = oc_items env p ed" "cert_items (oc_refresh env ed) = cert_items ed"
  "check_validity (oc_refresh env ed) = check_validity ed" "oc_secret_text (oc_refresh env ed) = oc_secret_text ed"
  by (simp_all add: oc_refresh_def oc_items_def cert_items_def check_validity_def active_protocol_def active_token_def Let_def
      split: option.splits)

lemma oc_update_Inr:
  assumes "flags_law gf sf flag_text"
  shows "snd (update_connection env sf ed conn) = Inr conn' \<longleftrightarrow>
     check_validity ed = Inr () \<and> conn' = conn\<lparr>c_vpn := Some (oc_setting env sf (old_protocol conn) ed)\<rparr>"
proof -
  have "oc_setting env sf p (oc_refresh env ed) = oc_setting env sf p ed" for p
    by (simp add: oc_setting_items [OF assms] oc_all_items_def stored_secret_def)
  then show ?thesis
    by (cases "check_validity ed") (auto simp: update_connection_def old_protocol_def Let_def cong: option.case_cong)
qed

lemma check_validity_ok:
  "check_validity ed = Inr () \<longleftrightarrow> oc_gateway ed \<noteq> [] \<and>
     (oc_proxy ed = [] \<or> has_prefix (oc_proxy ed) ''socks://'' \<or> has_prefix (oc_proxy ed) ''http://'')"
  by (simp add: check_validity_def auth_widget_check_validity_def)

lemma oc_data:
  assumes "flags_law gf sf flag_text" "k \<in> set (take 16 oc_keys)"
  shows "get_data_item (oc_setting env sf p ed) k = last_put (oc_items env p ed) k"
proof -
  have "k \<notin> fst ` set (flag_items flag_text @ cert_items ed)"
    using assms(2) by (auto simp: oc_keys_def image_Un flag_items_keys cert_items_keys)
  from oc_lookup_none [OF this, of env p] show ?thesis by (simp add: get_oc_setting(1) [OF assms(1)])
qed

text \<open>C24: What this editor saves the service accepts: the profile passes the validation of settings and of
  secret flags, and is read with the HTTPS-only choice shown. But having no widget for the portal and
  the mode, the editor turns every profile into one that connects to the gateway directly.\<close>

theorem oc_saved_profile_is_accepted:
  assumes "flags_law gf sf flag_text" "flags_read_law gf" "snd (update_connection env sf ed conn) = Inr conn'"
  shows "\<exists>s. c_vpn conn' = Some s \<and> c_con conn' = c_con conn \<and> vs_service s = NM_VPN_SERVICE_TYPE_OPENCONNECT \<and>
    nm_openconnect_properties_validate s = Inr () \<and> validate_auth_secret_flags gf s = Inr () \<and>
    no_dtls s = oc_disable_udp ed \<and> configured_mode s = Some (Direct (oc_gateway ed)) \<and>
    (\<forall>k. if k \<in> set oc_keys then True else get_data_item s k = None)"
proof -
  let ?s = "oc_setting env sf (old_protocol conn) ed"
  note u = oc_update_Inr [OF assms(1), THEN iffD1, OF assms(3)]
  note other = oc_lookup_other [of _ flag_text env "old_protocol conn" ed]
  have o: "get_data_item ?s k = None" if "k \<notin> set oc_keys" for k
    using other [OF that] by (simp add: get_oc_setting(1) [OF assms(1)])
  have d: "get_data_item ?s ''gateway'' = Some (oc_gateway ed)" "get_data_item ?s ''disable_udp'' = Some (yes_no (oc_disable_udp ed))"
    using u by (auto simp: oc_data [OF assms(1)] oc_keys_def oc_item_lookup check_validity_ok)
  have n: "get_data_item ?s ''portal'' = None" "get_data_item ?s ''as_gateway'' = None"
    "get_data_item ?s ''auto_gateway'' = None" "get_data_item ?s ''no_dtls'' = None"
    by (rule o, simp add: oc_keys_def)+
  have "configured_mode ?s = Some (Direct (oc_gateway ed))"
    using u by (simp add: configured_mode_def n d get_oc_setting(2) [OF assms(1)] check_validity_ok)
  moreover have "no_dtls ?s = oc_disable_udp ed" by (simp add: no_dtls_def n d)
  ultimately show ?thesis
    using u o oc_properties_ok [OF assms(1)] oc_flags_ok [OF assms(1,2)] get_oc_setting(3) [OF assms(1)] by auto
qed

text \<open>The token secret is stored without its control and non-ASCII characters: the two-pointer loop over
  the text buffer computes exactly the printable ASCII characters in their order, and what is left, if
  anything, is saved as the secret.\<close>

theorem token_secret_is_filtered:
  assumes "flags_law gf sf flag_text" "snd (update_connection env sf ed conn) = Inr conn'"
  shows "zap (oc_secret_text ed) 0 0 = filter printable (oc_secret_text ed) \<and>
    (\<exists>s. c_vpn conn' = Some s \<and> get_secret s ''stoken_string'' = val (Some (zap (oc_secret_text ed) 0 0)))"
  using oc_update_Inr [OF assms(1), THEN iffD1, OF assms(2)] by (auto simp: get_oc_setting(2) [OF assms(1)])

text \<open>A profile whose protocol this libopenconnect does not offer cannot be edited without changing it:
  opening and saving it silently sets the first protocol of the list.\<close>

theorem unknown_protocol_is_replaced:
  assumes "oc_env_law env" "flags_law gf sf flag_text" "old_protocol conn = Some v"
    and "v \<notin> op_name ` set (offered_protocols env)" "nm_vpn_editor_new env conn = Inr ed"
    and "snd (update_connection env sf ed conn) = Inr conn'"
  shows "\<exists>p ps. offered_protocols env = p # ps \<and> old_protocol conn' = Some (op_name p)"
proof -
  from assms(3) obtain s where s: "c_vpn conn = Some s" "get_data_item s ''protocol'' = Some v"
    by (auto simp: old_protocol_def split: option.splits)
  with assms(5) have ed: "ed = opened env (Some s)" "offered_protocols env \<noteq> []"
    by (auto simp: editor_new_cases openable_def split: if_splits)
  then obtain p ps where p: "offered_protocols env = p # ps" by (cases "offered_protocols env") auto
  have "protocol_option env s = 0"
    using assms(4) by (simp add: protocol_option_def s active_option_absent)
  then have "active_protocol ed = Some p"
    by (simp add: active_protocol_def ed p set_active_cases [OF assms(1)])
  moreover have "c_vpn conn' = Some (oc_setting env sf (Some v) ed)"
    using oc_update_Inr [OF assms(2), THEN iffD1, OF assms(6)] assms(3) by simp
  ultimately have "old_protocol conn' = Some (op_name p)"
    by (simp add: old_protocol_def oc_data [OF assms(2)] oc_keys_def oc_item_lookup)
  with p show ?thesis by blast
qed

text \<open>Where libopenconnect supports no soft tokens, the editor cannot keep one: whatever the user does,
  the token section stays hidden, and what is saved has the token mode disabled and no token secret.\<close>

theorem no_token_support_drops_token:
  assumes "reach (oc_init env conn0) (oc_step env sf) ed" "\<not> token_section env" "flags_law gf sf flag_text"
    and "snd (update_connection env sf ed conn) = Inr conn'"
  shows "\<not> oc_token_shown ed \<and> (\<exists>s. c_vpn conn' = Some s \<and> get_data_item s ''stoken_source'' = Some ''disabled'' \<and>
    get_secret s ''stoken_string'' = None \<and> get_data_item s ''stoken_string'' = None)"
proof -
  have i: "oc_inv env ed" using oc.reach_inv [OF assms(1)] .
  have c: "c_vpn conn' = Some (oc_setting env sf (old_protocol conn) ed)"
    using oc_update_Inr [OF assms(3), THEN iffD1, OF assms(4)] by simp
  obtain rs where "offered_rows env = \<lparr>tr_pref_value = ''disabled'', tr_type = ''any'', tr_editable = False\<rparr> # rs"
    using offered_rows_cons by blast
  with i assms(2) have "map_option tr_pref_value (active_token ed) = Some ''disabled''" "oc_secret_text ed = []"
    by (auto simp: oc_inv_def active_token_def)
  moreover have "''stoken_string'' \<notin> set oc_keys" by (simp add: oc_keys_def)
  ultimately show ?thesis
    using i assms(2) c oc_lookup_other [of "''stoken_string''" flag_text env "old_protocol conn" ed]
    by (simp add: oc_data [OF assms(3)] oc_keys_def oc_item_lookup get_oc_setting(2) [OF assms(3)] oc_inv_def
        get_oc_setting(1) [OF assms(3), of _ _ _ "''stoken_string''"])
qed

section \<open>Opening a saved profile\<close>

lemma opened_entered:
  "oc_gateway (opened env s_vpn) = oc_gateway (entered env s_vpn)"
  "oc_proxy (opened env s_vpn) = oc_proxy (entered env s_vpn)"
  "oc_user_agent (opened env s_vpn) = oc_user_agent (entered env s_vpn)"
  "oc_fsid (opened env s_vpn) = oc_fsid (entered env s_vpn)"
  "oc_prevent_invalid_cert (opened env s_vpn) = oc_prevent_invalid_cert (entered env s_vpn)"
  "oc_disable_udp (opened env s_vpn) = oc_disable_udp (entered env s_vpn)"
  "oc_csd (opened env s_vpn) = oc_csd (entered env s_vpn)"
  "oc_csd_wrapper (opened env s_vpn) = oc_csd_wrapper (entered env s_vpn)"
  "oc_reported_os (opened env s_vpn) = oc_reported_os (entered env s_vpn)"
  "oc_entra (opened env s_vpn) = oc_entra (entered env s_vpn)"
  "oc_sso_url (opened env s_vpn) = oc_sso_url (entered env s_vpn)"
  "oc_authority (opened env s_vpn) = oc_authority (entered env s_vpn)"
  "oc_client_id (opened env s_vpn) = oc_client_id (entered env s_vpn)"
  "oc_redirect_uri (opened env s_vpn) = oc_redirect_uri (entered env s_vpn)"
  by (simp_all add: opened_def tls_pw_init_auth_widget_def with_protocol_def with_token_def init_token_ui_def
      init_token_mode_options_rows Let_def split: option.split)

lemma opened_entries:
  "oc_gateway (opened env (Some s)) = set_text (get_data_item s ''gateway'') []"
  "oc_proxy (opened env (Some s)) = set_text (get_data_item s ''proxy'') []"
  "oc_user_agent (opened env (Some s)) = set_text (get_data_item s ''useragent'') []"
  "oc_fsid (opened env (Some s)) = streq (get_data_item s ''pem_passphrase_fsid'') ''yes''"
  "oc_prevent_invalid_cert (opened env (Some s)) = streq (get_data_item s ''prevent_invalid_cert'') ''yes''"
  "oc_disable_udp (opened env (Some s)) = streq (get_data_item s ''disable_udp'') ''yes''"
  "oc_csd (opened env (Some s)) = streq (get_data_item s ''enable_csd_trojan'') ''yes''"
  "oc_csd_wrapper (opened env (Some s)) = set_text (get_data_item s ''csd_wrapper'') []"
  "oc_reported_os (opened env (Some s)) = set_text (get_data_item s ''reported_os'') []"
  "env_sso_mib env \<Longrightarrow> oc_entra (opened env (Some s)) = streq (get_data_item s ''entra_conditional_access'') ''yes''"
  "env_sso_mib env \<Longrightarrow> oc_sso_url (opened env (Some s)) = set_text (get_data_item s ''entra_conditional_access_sso_url'') []"
  "env_sso_mib env \<Longrightarrow> oc_authority (opened env (Some s)) = set_text (get_data_item s ''entra_conditional_access_authority'') []"
  "env_sso_mib env \<Longrightarrow> oc_client_id (opened env (Some s)) = set_text (get_data_item s ''entra_conditional_access_client_id'') []"
  "env_sso_mib env \<Longrightarrow> oc_redirect_uri (opened env (Some s)) = set_text (get_data_item s ''entra_conditional_access_redirect_uri'') []"
  by (simp_all add: opened_entered entered_def init_entra_def init_entries_def set_check_def)

lemma set_text_val [simp]: "set_text (val (Some t)) [] = t"
  by (cases t) (simp_all add: set_text_def)

lemma chosen_val:
  assumes "oc_env_law env" "location l"
  shows "chosen env location_scheme None (val l) = l"
    "(case l of None \<Rightarrow> True | Some v \<Rightarrow> \<not> has_prefix v ''pkcs11:'') \<Longrightarrow> chosen env (\<lambda>_. SchemePath) None (val l) = l"
proof -
  have law: "has_prefix v ''/'' \<Longrightarrow> env_chooser env SchemePath v = Some v"
    "has_prefix v ''pkcs11:'' \<Longrightarrow> env_chooser env SchemePkcs11 v = Some v" for v
    using assms(1) unfolding oc_env_law_def chooser_law_def by meson+
  show "chosen env location_scheme None (val l) = l"
    using assms(2) law by (cases l) (auto simp: chosen_def location_def location_scheme_def)
  show "chosen env (\<lambda>_. SchemePath) None (val l) = l" if "case l of None \<Rightarrow> True | Some v \<Rightarrow> \<not> has_prefix v ''pkcs11:''"
    using that assms(2) law by (cases l) (auto simp: chosen_def location_def)
qed

lemma oc_certs:
  assumes "flags_law gf sf flag_text"
  shows "get_data_item (oc_setting env sf p ed) ''cacert'' = val (oc_ca_cert ed)"
    "get_data_item (oc_setting env sf p ed) ''mcacert'' = val (oc_mca_cert ed)"
    "get_data_item (oc_setting env sf p ed) ''mcakey'' = val (oc_mca_key ed)"
    "get_data_item (oc_setting env sf p ed) ''usercert'' = val (oc_user_cert ed)"
    "get_data_item (oc_setting env sf p ed) ''userkey'' = val (oc_user_key ed)"
  by (simp_all add: get_oc_setting(1) [OF assms] cert_lookup)

lemma oc_data_keys:
  assumes "flags_law gf sf flag_text"
  shows "list_all (\<lambda>k. get_data_item (oc_setting env sf p ed) k = last_put (oc_items env p ed) k) (take 16 oc_keys)"
  using oc_data [OF assms] by (simp add: list_all_iff)

definition same_entries :: "oc_env \<Rightarrow> oc_editor \<Rightarrow> oc_editor \<Rightarrow> bool" where
  "same_entries env ed ed' \<longleftrightarrow>
     oc_gateway ed' = oc_gateway ed \<and> oc_proxy ed' = oc_proxy ed \<and> oc_user_agent ed' = oc_user_agent ed \<and>
     oc_fsid ed' = oc_fsid ed \<and> oc_prevent_invalid_cert ed' = oc_prevent_invalid_cert ed \<and>
     oc_disable_udp ed' = oc_disable_udp ed \<and> oc_csd ed' = oc_csd ed \<and> oc_csd_wrapper ed' = oc_csd_wrapper ed \<and>
     oc_reported_os ed' = oc_reported_os ed \<and>
     (if env_sso_mib env
      then oc_entra ed' = oc_entra ed \<and> oc_sso_url ed' = oc_sso_url ed \<and> oc_authority ed' = oc_authority ed \<and>
        oc_client_id ed' = oc_client_id ed \<and> oc_redirect_uri ed' = oc_redirect_uri ed
      else True)"

lemma reopened_entries:
  assumes "flags_law gf sf flag_text"
  shows "same_entries env ed (opened env (Some (oc_setting env sf p ed)))"
  using oc_data_keys [OF assms, of env p ed, unfolded oc_keys_def, simplified, simplified oc_item_lookup]
  by (simp add: same_entries_def opened_entries set_text_def del: set_text_val)

text \<open>The rows of the combo boxes come back.\<close>

lemma reopened_protocol:
  assumes "oc_env_law env" "get_data_item s ''protocol'' = Some v" "v \<in> op_name ` set (offered_protocols env)"
  shows "map_option op_name (active_protocol (opened env (Some s))) = Some v"
proof -
  let ?i = "active_option v (map op_name (offered_protocols env)) 0 0"
  have "map op_name (offered_protocols env) \<noteq> []" "v \<in> set (map op_name (offered_protocols env))" using assms(3) by auto
  then have "?i < length (offered_protocols env)" "op_name (offered_protocols env ! ?i) = v"
    using active_option_start [of "map op_name (offered_protocols env)" v] active_option_hit [of v "map op_name (offered_protocols env)"]
    by auto
  then show ?thesis
    by (simp add: active_protocol_def protocol_option_def assms(2) set_active_Some [OF assms(1)])
qed

lemma reopened_token:
  assumes "oc_env_law env" "oc_inv env ed"
    and "get_data_item s ''stoken_source'' = map_option tr_pref_value (active_token ed)"
  shows "map_option tr_pref_value (active_token (opened env (Some s))) = map_option tr_pref_value (active_token ed)"
proof (cases "token_section env")
  case True
  from assms(2) obtain i where i: "i < length (offered_rows env)" "oc_token_active ed = Some i" "oc_token_rows ed = offered_rows env"
    by (auto simp: oc_inv_def)
  let ?v = "tr_pref_value (offered_rows env ! i)" and ?prefs = "map tr_pref_value (offered_rows env)"
  have v: "get_data_item s ''stoken_source'' = Some ?v" using assms(3) i by (simp add: active_token_def)
  have "?v \<in> set ?prefs" "?prefs \<noteq> []" using i(1) by auto
  then have "active_option ?v ?prefs 0 0 < length (offered_rows env)"
    "tr_pref_value (offered_rows env ! active_option ?v ?prefs 0 0) = ?v"
    using active_option_start [of ?prefs ?v] active_option_hit [of ?v ?prefs] by auto
  then show ?thesis
    using True i by (simp add: active_token_def with_token_active v set_active_Some [OF assms(1)])
next
  case False
  with assms(2) show ?thesis by (auto simp: oc_inv_def active_token_def with_token_active)
qed

lemma reopened_secret:
  assumes "oc_inv env ed" "get_data_item s ''stoken_string'' = None"
    and "get_secret s ''stoken_string'' = val (Some (filter printable (oc_secret_text ed)))"
  shows "filter printable (oc_secret_text (opened env (Some s))) = filter printable (oc_secret_text ed)"
  using assms by (auto simp: oc_inv_def with_token_active secret_or_item_def set_text_def split: option.splits)

lemma put_protocol:
  "put_opts add_data_item ((k, p) # (k, Some v) # kvs) (stored_secret ed blank_oc) =
     put_opts add_data_item ((k, Some v) # kvs) (stored_secret ed blank_oc)"
proof -
  have "add_data_item k v (add_data_item k w (stored_secret ed blank_oc)) = add_data_item k v (stored_secret ed blank_oc)" for w
    by (simp add: add_data_item_def blank_oc_def)
  then show ?thesis by (cases p) simp_all
qed

text \<open>Two editors that agree on what is saved.\<close>

definition same_saved :: "oc_env \<Rightarrow> oc_editor \<Rightarrow> oc_editor \<Rightarrow> bool" where
  "same_saved env ed ed' \<longleftrightarrow> tl (oc_items env None ed) = tl (oc_items env None ed') \<and> cert_items ed = cert_items ed' \<and>
     filter printable (oc_secret_text ed) = filter printable (oc_secret_text ed')"

lemma oc_items_tl: "oc_items env p ed = (''protocol'', p) # tl (oc_items env None ed)"
  by (simp add: oc_items_def)

lemma same_saved_setting:
  assumes "flags_law gf sf flag_text" "same_saved env ed ed'" "active_protocol ed \<noteq> None"
  shows "oc_setting env sf p' ed' = oc_setting env sf p ed"
proof -
  obtain v rest where v: "tl (oc_items env None ed) = (''protocol'', Some v) # rest"
    using assms(3) by (auto simp: oc_items_def)
  then have v': "tl (oc_items env None ed') = (''protocol'', Some v) # rest" using assms(2) by (simp add: same_saved_def)
  have c: "cert_items ed' = cert_items ed" "stored_secret ed' = stored_secret ed"
    using assms(2) by (simp_all add: same_saved_def stored_secret_def fun_eq_iff)
  show ?thesis
    using put_protocol [of "''protocol''" p v "rest @ flag_items flag_text @ cert_items ed" ed]
      put_protocol [of "''protocol''" p' v "rest @ flag_items flag_text @ cert_items ed" ed]
    by (simp add: oc_setting_items [OF assms(1)] oc_all_items_def oc_items_tl [of env p ed] oc_items_tl [of env p' ed'] v v' c)
qed

text \<open>C23: Opening a saved profile and saving it again changes nothing: for every state the user can bring
  the editor to with a protocol selected and a CA certificate that is a file, the editor opens on the
  saved connection and saves exactly the same connection.\<close>

theorem oc_reopen_and_save_is_identity:
  assumes "reach (oc_init env conn0) (oc_step env sf) ed" "flags_law gf sf flag_text" "oc_protocol_active ed \<noteq> None"
    and "case oc_ca_cert ed of None \<Rightarrow> True | Some v \<Rightarrow> \<not> has_prefix v ''pkcs11:''"
    and "snd (update_connection env sf ed conn) = Inr conn'"
  shows "\<exists>ed'. nm_vpn_editor_new env conn' = Inr ed' \<and> snd (update_connection env sf ed' conn') = Inr conn'"
proof -
  have init: "oc_env_law env \<and> env_ui_error env = None" using assms(1)
    by (induction rule: reach.induct) (auto simp: oc_init_def editor_new_cases openable_def split: if_splits)
  then have law: "oc_env_law env" and ui: "env_ui_error env = None" by auto
  have i: "oc_inv env ed" using oc.reach_inv [OF assms(1)] .
  define s where "s = oc_setting env sf (old_protocol conn) ed"
  define ed' where "ed' = opened env (Some s)"
  have u: "check_validity ed = Inr ()" "conn' = conn\<lparr>c_vpn := Some s\<rparr>"
    using oc_update_Inr [OF assms(2), THEN iffD1, OF assms(5)] by (simp_all add: s_def)
  note d = oc_data [OF assms(2), of _ env "old_protocol conn" ed, folded s_def]
  note get = get_oc_setting [OF assms(2), of env "old_protocol conn" ed, folded s_def]
  obtain j where j: "oc_protocol_active ed = Some j" "j < length (offered_protocols env)" "oc_protocol_rows ed = offered_protocols env"
    using assms(3) i by (auto simp: oc_inv_def)
  then have p: "active_protocol ed = Some (offered_protocols env ! j)" by (simp add: active_protocol_def)
  have name: "get_data_item s ''protocol'' = Some (op_name (offered_protocols env ! j))"
    by (simp add: d oc_keys_def oc_item_lookup p)
  moreover have "op_name (offered_protocols env ! j) \<in> op_name ` set (offered_protocols env)" using j(2) by simp
  ultimately have p': "map_option op_name (active_protocol ed') = map_option op_name (active_protocol ed)"
    using reopened_protocol [OF law] p by (simp add: ed'_def)
  have t: "map_option tr_pref_value (active_token ed') = map_option tr_pref_value (active_token ed)"
    unfolding ed'_def by (rule reopened_token [OF law i]) (simp add: d oc_keys_def oc_item_lookup)
  have "get_data_item s ''stoken_string'' = None"
    using oc_lookup_other [of "''stoken_string''" flag_text env "old_protocol conn" ed] by (simp add: get oc_keys_def)
  then have sec: "filter printable (oc_secret_text ed') = filter printable (oc_secret_text ed)"
    unfolding ed'_def by (rule reopened_secret [OF i]) (simp add: get)
  note w = reopened_entries [OF assms(2), of env ed "old_protocol conn", folded s_def ed'_def, unfolded same_entries_def]
  have texts: "tl (oc_items env None ed) = tl (oc_items env None ed')"
    by (cases "env_sso_mib env") (simp_all add: oc_items_def p' t w)
  have "location (oc_ca_cert ed)" "location (oc_mca_cert ed)" "location (oc_mca_key ed)" "location (oc_user_cert ed)"
    "location (oc_user_key ed)" using i by (simp_all add: oc_inv_def)
  then have "cert_items ed = cert_items ed'"
    using assms(4)
    by (simp add: cert_items_def ed'_def oc_certs [OF assms(2), of env "old_protocol conn" ed, folded s_def] chosen_val [OF law])
  then have same: "same_saved env ed ed'" using texts sec by (simp add: same_saved_def)
  have "check_validity ed' = Inr ()"
    using u(1) by (simp add: check_validity_ok w)
  then have "snd (update_connection env sf ed' conn') = Inr conn'"
    using same_saved_setting [OF assms(2) same, of "old_protocol conn'" "old_protocol conn"] p u(2)
    by (simp add: oc_update_Inr [OF assms(2)] s_def)
  moreover have "nm_vpn_editor_new env conn' = Inr ed'"
    using ui name j(2) u(2) by (auto simp: editor_new_cases openable_def ed'_def)
  ultimately show ?thesis by blast
qed

section \<open>Examples\<close>

definition sample_env :: oc_env where
  "sample_env = \<lparr>env_stoken = True, env_oath = False, env_yubioath = False,
     env_protocols = (2, [\<lparr>op_name = ''anyconnect'', op_pretty_name = ''Cisco'', op_description = [], op_flags = 0\<rparr>,
       \<lparr>op_name = ''gp'', op_pretty_name = ''GlobalProtect'', op_description = [], op_flags = 0\<rparr>]),
     env_auth_mca = 128, env_sso_mib = False, env_ui_error = None,
     env_set_active = (\<lambda>n i. if i < n then Some i else None),
     env_chooser = (\<lambda>sch v. if location (Some v) then Some v else None)\<rparr>"

lemma sample_env_law: "oc_env_law sample_env" "oc_env_law (sample_env\<lparr>env_stoken := False\<rparr>)"
  by (auto simp: oc_env_law_def active_law_def chooser_law_def sample_env_def location_def)

definition oc_profile :: connection where
  "oc_profile = \<lparr>c_con = None, c_vpn = Some \<lparr>vs_data = [(''gateway'', ''gw.example''), (''protocol'', ''gp''),
     (''portal'', ''vpn.example''), (''stoken_source'', ''manual''), (''usercert'', ''/c.pem'')],
     vs_secrets = [(''stoken_string'', [CHR ''7'', CHR 0x0A, CHR ''8''])], vs_service = [], vs_timeout = 0\<rparr>\<rparr>"

lemma sample_opened:
  "nm_vpn_editor_new sample_env oc_profile = Inr (opened sample_env (c_vpn oc_profile))"
  "nm_vpn_editor_new (sample_env\<lparr>env_stoken := False\<rparr>) oc_profile = Inr (opened (sample_env\<lparr>env_stoken := False\<rparr>) (c_vpn oc_profile))"
  by (auto simp: editor_new_cases openable_def sample_env_def oc_profile_def offered_protocols_def)

definition oc_saved :: "oc_env \<Rightarrow> connection" where
  "oc_saved env = oc_profile\<lparr>c_vpn := Some (oc_setting env sample_set_flags (old_protocol oc_profile) (opened env (c_vpn oc_profile)))\<rparr>"

lemma oc_sample_save: "snd (update_connection env sample_set_flags (opened env (c_vpn oc_profile)) oc_profile) = Inr (oc_saved env)"
proof -
  have "check_validity (opened env (c_vpn oc_profile)) = Inr ()"
    by (simp add: check_validity_ok oc_profile_def opened_entries get_data_item_def set_text_def)
  then show ?thesis by (simp add: oc_update_Inr [OF sample_flags_law] oc_saved_def)
qed

lemma oc_sample_reach:
  "reach (oc_init sample_env oc_profile) (oc_step sample_env sample_set_flags) (opened sample_env (c_vpn oc_profile))"
  "reach (oc_init (sample_env\<lparr>env_stoken := False\<rparr>) oc_profile) (oc_step (sample_env\<lparr>env_stoken := False\<rparr>) sample_set_flags)
     (opened (sample_env\<lparr>env_stoken := False\<rparr>) (c_vpn oc_profile))"
  by (rule reach_init, simp add: oc_init_def sample_env_law sample_opened)+

theorem oc_saved_profile_is_accepted_witness:
  "\<exists>s. c_vpn (oc_saved sample_env) = Some s \<and> get_data_item s ''portal'' = None \<and>
     configured_mode s = Some (Direct ''gw.example'')"
proof -
  have "oc_gateway (opened sample_env (c_vpn oc_profile)) = ''gw.example''"
    by (simp add: oc_profile_def opened_entries get_data_item_def set_text_def)
  with oc_saved_profile_is_accepted [OF sample_flags_law sample_flags_read oc_sample_save, of sample_env]
  obtain s where "c_vpn (oc_saved sample_env) = Some s" "configured_mode s = Some (Direct ''gw.example'')"
    "\<forall>k. if k \<in> set oc_keys then True else get_data_item s k = None" by metis
  moreover from this(3) have "get_data_item s ''portal'' = None"
    by (rule allE [where x = "''portal''"]) (simp add: oc_keys_def)
  ultimately show ?thesis by blast
qed

theorem token_secret_is_filtered_witness:
  "\<exists>s. c_vpn (oc_saved sample_env) = Some s \<and> get_secret s ''stoken_string'' = Some ''78''"
proof -
  have "oc_secret_text (opened sample_env (c_vpn oc_profile)) = [CHR ''7'', CHR 0x0A, CHR ''8'']"
    by (simp add: oc_profile_def with_token_active secret_or_item_def get_secret_def set_text_def token_section_def sample_env_def)
  then have "filter printable (oc_secret_text (opened sample_env (c_vpn oc_profile))) = ''78''"
    by (simp add: printable_def)
  with token_secret_is_filtered [OF sample_flags_law oc_sample_save, of sample_env] show ?thesis by auto
qed

theorem no_token_support_drops_token_witness:
  "\<exists>s. c_vpn (oc_saved (sample_env\<lparr>env_stoken := False\<rparr>)) = Some s \<and> get_data_item s ''stoken_source'' = Some ''disabled''"
proof -
  have "\<not> token_section (sample_env\<lparr>env_stoken := False\<rparr>)" by (simp add: token_section_def sample_env_def)
  from no_token_support_drops_token [OF oc_sample_reach(2) this sample_flags_law oc_sample_save] show ?thesis by blast
qed

theorem oc_reopen_and_save_is_identity_witness:
  "\<exists>ed'. nm_vpn_editor_new sample_env (oc_saved sample_env) = Inr ed' \<and>
     snd (update_connection sample_env sample_set_flags ed' (oc_saved sample_env)) = Inr (oc_saved sample_env)"
proof (rule oc_reopen_and_save_is_identity [OF oc_sample_reach(1) sample_flags_law _ _ oc_sample_save])
  show "oc_protocol_active (opened sample_env (c_vpn oc_profile)) \<noteq> None"
    by (simp add: oc_profile_def sample_env_def protocol_option_def offered_protocols_def get_data_item_def)
  show "case oc_ca_cert (opened sample_env (c_vpn oc_profile)) of None \<Rightarrow> True | Some v \<Rightarrow> \<not> has_prefix v ''pkcs11:''"
    by (simp add: oc_profile_def chosen_def get_data_item_def)
qed

definition other_profile :: connection where
  "other_profile = \<lparr>c_con = None, c_vpn = Some \<lparr>vs_data = [(''gateway'', ''gw.example''), (''protocol'', ''nc'')],
     vs_secrets = [], vs_service = [], vs_timeout = 0\<rparr>\<rparr>"

theorem unknown_protocol_is_replaced_witness:
  "\<exists>ed conn'. nm_vpn_editor_new sample_env other_profile = Inr ed \<and>
     snd (update_connection sample_env sample_set_flags ed other_profile) = Inr conn' \<and> old_protocol conn' = Some ''anyconnect''"
proof -
  let ?ed = "opened sample_env (c_vpn other_profile)"
  have n: "nm_vpn_editor_new sample_env other_profile = Inr ?ed"
    by (simp add: editor_new_cases openable_def sample_env_def other_profile_def offered_protocols_def)
  have "check_validity ?ed = Inr ()"
    by (simp add: check_validity_ok other_profile_def opened_entries get_data_item_def set_text_def)
  then obtain conn' where u: "snd (update_connection sample_env sample_set_flags ?ed other_profile) = Inr conn'"
    by (simp add: oc_update_Inr [OF sample_flags_law])
  have p: "old_protocol other_profile = Some ''nc''" by (simp add: old_protocol_def other_profile_def get_data_item_def)
  have o: "offered_protocols sample_env = snd (env_protocols sample_env)" by (simp add: offered_protocols_def sample_env_def)
  have "''nc'' \<notin> op_name ` set (offered_protocols sample_env)" unfolding o by (simp add: sample_env_def)
  from unknown_protocol_is_replaced [OF sample_env_law(1) sample_flags_law p this n u] n u show ?thesis
    unfolding o by (auto simp: sample_env_def)
qed

end
