(* ===== verification/Spec2Isabelle.thy ===== *)
theory Spec2Isabelle
  imports Reconnect Child_Group Noninterference Service_Spec Logging Helper_Types Objects Oc_Editor_Facts
begin

text \<open>
  A model of \<open>networkmanager-gpclient\<close>, the NetworkManager plugin that runs \<open>gpclient\<close> (GlobalProtect),
  with the theorems that make it correct. Paths are relative to \<open>src/\<close>.

  \<^bold>\<open>The program.\<close> NetworkManager loads an editor plugin (\<open>properties/\<close>) that shows a profile and writes it
  back. To connect it asks the service \<open>src/nm-gpclient-service.c\<close> over D-Bus whether secrets are missing,
  runs the dialog \<open>auth-dialog/nm-gpclient-auth-dialog.c\<close> in the user's session, which authenticates with
  \<open>gpauth\<close> and prints the gateway and a cookie, and calls the service again. The service validates the
  profile, prepares a TUN device and the lock file, starts \<open>gpclient\<close> with the profile's command line and
  watches it. When the tunnel is up \<open>gpclient\<close> runs the script hook \<open>src/nm-gpclient-service-helper.c\<close>,
  which reads the network configuration from its environment and sends it to the service.

  \<^bold>\<open>The theories and what they model.\<close>
  \<^item> \<open>Prelude\<close>, \<open>Store\<close>, \<open>Transition\<close>: C strings that may be NULL; the key/value interface (locales
    \<open>kv_put\<close>, \<open>kv_store\<close>) with the lemmas on sequences of guarded updates; reachability and the locale
    \<open>invariant_system\<close> of an inductive invariant.
  \<^item> \<open>Defines\<close>, \<open>Settings\<close>, \<open>Errors\<close>, \<open>CLib\<close>, \<open>Nm_Utils\<close>, \<open>Inet\<close>, \<open>Macros\<close>: the names of
    \<open>shared/nm-service-defines.h\<close>; profiles as libnm hands them out (both item tables are instances of
    \<open>kv_store\<close>); the reported errors; \<open>strtol\<close>, \<open>atoi\<close> and the wait-status macros on words; the strict
    parsers of \<open>shared/nm-utils/nm-shared-utils.c\<close> and the log tags of \<open>nm-vpn-plugin-macros.h\<close>; \<open>g_strsplit\<close>
    and \<open>inet_pton\<close>; flags, packed versions, quoting and the GLib replacements of \<open>nm-macros-internal.h\<close>,
    \<open>nm-glib.h\<close> and \<open>gsystem-local-alloc.h\<close>, with their facts in \<open>Macros_Facts\<close>.
  \<^item> \<open>Validation\<close>: the setting and secret tables and the validators of the service (locale \<open>prop_table\<close>,
    interpreted on both tables). \<open>Platform\<close>: the answers of the system (\<open>sys\<close>) and what handlers do to it
    (\<open>world\<close>, with a trace of actions). \<open>Service_Env\<close>, \<open>Command\<close>, \<open>Tun\<close>, \<open>Lock\<close>: the child's environment and
    command line, the TUN device, the lock file. \<open>Service\<close>: the state \<open>NMOpenconnectPluginPrivate\<close> and every
    virtual method and callback. \<open>Service_Loop\<close>: these as events of a step relation, with its invariant.
    \<open>Service_Spec\<close>: the protocol the service follows towards the system and NetworkManager, an automaton over
    its actions, which the callbacks simulate (locale \<open>monitored_system\<close>). \<open>Service_Main\<close>: start-up. \<open>Logging\<close>: the
    log macros of the service and the helper down to the counting of macro arguments, the messages about
    an exit, the signal dispositions and the table of virtual methods.
  \<^item> \<open>Helper\<close>, \<open>Helper_Facts\<close>, \<open>Helper_Types\<close>: parsing of the environment, the dictionaries sent, and the
    types libnm's interface gives their keys.
  \<^item> \<open>Auth_Dialog\<close>, \<open>Auth_Facts\<close>: the collection loop over \<open>gpauth\<close>'s pipes, the \<open>QUIT\<close> protocol and the answer.
    The two pipes are two interpretations of the locale \<open>child_pipe\<close>. \<open>Getopt\<close>: its command line.
  \<^item> \<open>Gp_Editor\<close>, \<open>Gp_Editor_Facts\<close>: the gpclient editor. \<open>Oc_Editor\<close>, \<open>Oc_Editor_Facts\<close>, \<open>Oc_Import_Export\<close>,
    \<open>Oc_Import_Facts\<close>: the editor, import and export inherited from the openconnect plugin, which
    \<open>Makefile.am\<close> keeps in the tree but no longer compiles. \<open>Plugin_Utils\<close>, \<open>Plugin_Facts\<close>: loading an editor library, the
    plugin objects and their function tables. \<open>Objects\<close>: the GTK objects the editors hold and release (locale
    \<open>disposable\<close>), and the interface tables of the plugins.
  \<^item> \<open>Tests\<close>, \<open>Reconnect\<close>: the programs \<open>tools/test-secret-flags.c\<close>, \<open>test-disconnect.c\<close> and
    \<open>test-reconnect.c\<close> as executions of the model, with libnm's and the kernel's answers as parameters.
  \<^item> \<open>Child_Group\<close>: the child's process group and how the signals reach it. \<open>Secrecy\<close>: the cookie of a
    connection attempt goes to the child's standard input only; \<open>Noninterference\<close>: so it does in whole runs.
  \<^item> \<open>Dialog_Service\<close>, \<open>Session\<close> and this theory: properties of several parts together.

  A handler is a function of its parameters, of what the system answers and of the state; it returns the
  new state, and an error as a value of \<open>gerror + 'a\<close>. What the code prints or logs is only modelled where
  another part reads it, and for the messages about the exit of the child.

  \<^bold>\<open>What the theorems show.\<close> The service: a successful connect passed every validation and started exactly
  one child, with the arguments of the configured mode; a live lock holder is never disturbed; every exit
  is reported once; and, as long as NetworkManager connects only when no child is left, the plugin's
  bookkeeping matches its children in every reachable state, every SIGKILL follows a SIGINT to the same
  group, and its actions are words of the protocol: one session after the other, each exit accounted for;
  the requests to stop arrive, and in no run does anything but a child's standard input depend on a cookie.
  Two theorems show what goes wrong when NetworkManager reconnects earlier, which the protocol rules out: from
  every state with the old kill timer armed the new child is killed, and the old child's late exit orphans it. The
  helper joins the service that started it: same bus name, same log. The helper: the routes, search domains and default
  route sent are exactly those of the environment, in range. The dialog: an accepted answer is the
  complete output of a \<open>gpauth\<close> that succeeded; however it is told to stop, it sends \<open>gpauth\<close> one SIGTERM
  and, from two seconds later, SIGKILL in each round until it has gone, and then fails without waiting for the pipes.
  The editors: what they save passes the service's validators and reads as shown, opening and saving again
  is the identity, and what each editor, import and export lose: export and import, key by key, exactly.
  Together: the profile seen in the editor is the one \<open>gpclient\<close> is told, and what the repository's own C
  tests assert of this program's functions holds, not only for the processes and libnm they happen to run
  with but for all that keep the stated laws. Their assertions on their own pipes, forks and files are left out.

  \<^bold>\<open>Bounds, loops and fuel.\<close> No definition uses fuel. Loops over data are structural recursion or have a
  \<open>measure\<close>: the two-pointer loops \<open>compact\<close> and \<open>zap\<close>, the index loops over protocols (an unsigned index
  against a 32-bit limit, with reading outside the array as a result), the route loop up to the announced
  number. The one loop without a bound, \<open>collect_loop\<close>, consumes the list of what the system answers in
  each round; a list that ends early leaves it running, the result \<open>None\<close>, and
  \<open>cancelled_collection_ends\<close> says which rounds make it return. The main loop of the service is the
  relation \<open>svc_step\<close>. Integers of fixed width that can wrap, truncate or be tested bitwise are words.

  \<^bold>\<open>Parameters and hypotheses.\<close> Not under \<open>src/\<close>, and so arguments of the definitions: the kernel and libc's
  user database, D-Bus and libnm's plugin base class, libnm's secret flags, GLib's \<open>g_ascii_strtoll\<close> and key
  file parser, IPv6 parsing, the dynamic linker, GTK's combo boxes, \<open>NmaCertChooser\<close> and libopenconnect. Where
  a theorem relies on one, its documented behaviour is a named predicate (\<open>flags_law\<close>, \<open>flags_read_law\<close>,
  \<open>combo_law\<close>, \<open>keyfile_law\<close>, \<open>oc_env_law\<close>, \<open>pton6_law\<close>, \<open>own_child\<close>, and for the tests \<open>base_law\<close>,
  \<open>flag_text_law\<close>, \<open>stored_flags_law\<close>, \<open>round_trip_law\<close>, \<open>read_details_law\<close>) and its witness instantiates it
  with a function. libnm keeps the flags of a secret in a data item; where the item is missing its answer depends
  on whether the setting has the secret, which is what \<open>flags_read_law\<close> leaves open and the witnesses do.

  \<^bold>\<open>Not modelled.\<close> Pure preprocessor material and wrappers around a single GLib call in the macro headers;
  type registration, class initialisation of the editors and layout of widgets; diagnostics on standard error and
  the other log messages, among them libnm's dump of the profile at the debug levels, which shows its secrets; the
  test driver, the forking and the watchdogs of the programs under \<open>tools/\<close>; the browser helper shell script,
  packaging and message catalogues. Memory is not modelled: allocation always succeeds, and releasing
  is left out except where the code counts on it (descriptors, child watches, the editor library, the
  objects an editor holds).
  Also left out: \<open>prctl\<close> in the dialog's child before \<open>exec\<close>.

  \<^bold>\<open>Plan.\<close> Every C file with behaviour of its own has its theory. What is left is declarations, layout and
  registration, and the texts of error messages, of which the model keeps the error and what it names.
\<close>

section \<open>From the service to its helper\<close>

lemma show_int_nonneg: "0 \<le> i \<Longrightarrow> show_int i = show_nat (nat i)"
  by (simp add: show_int_def)

lemma strict_parse_show_nat:
  assumes "\<forall>s. strtoll s 10 = c_strtoll s" "lo \<le> int n" "int n \<le> hi" "int n \<le> LONG_MAX"
  shows "nm_utils_ascii_str_to_int64 strtoll (Some (show_nat n)) 10 lo hi fallback = (int n, EOK)"
proof (rule str_to_int64_of_strtol)
  have "dropWhile g_ascii_isspace (show_nat n) = show_nat n"
    using show_nat_digits [of n] show_nat_nonempty [of n] digit_not_g_space by (cases "show_nat n") auto
  then show "show_nat n = dropWhile g_ascii_isspace (show_nat n)" by simp
  show "strtol10 (show_nat n) = (int n, False, [])"
    using strtol10_show_nat [of n "[]" "[]"] assms(4) by simp
qed (use assms show_nat_nonempty [of n] in \<open>auto dest: sym\<close>)

text \<open>The log level the service runs with is the one its helper reads back from the environment it
  inherits, however the service came to it.\<close>

lemma log_level_handoff:
  assumes "\<forall>s. strtoll s 10 = c_strtoll s"
    and "service_main strtoll initable cfg sys getpid opts = Run s envp quit"
    and "getenv helper ''NM_VPN_LOG_LEVEL'' = map_of envp ''NM_VPN_LOG_LEVEL''"
  shows "helper_log_level strtoll helper = log_level s"
proof -
  have l: "0 \<le> log_level s" "log_level s \<le> 7"
    using service_main_Run(3) [OF assms(2)] service_log_level_range [of strtoll _ "sys_environ sys"] by auto
  have "getenv helper ''NM_VPN_LOG_LEVEL'' = Some (show_nat (nat (log_level s)))"
    using service_main_Run(2) [OF assms(2)] assms(3) l by (simp add: inherited_env_lookup show_int_nonneg)
  then show ?thesis
    using strict_parse_show_nat [of strtoll 0 "nat (log_level s)" 7 LOG_NOTICE] assms(1) l
    by (simp add: helper_log_level_def LONG_MAX_def)
qed

text \<open>C27: The helper joins the service that started its \<open>gpclient\<close>: when the three variables reach it as they are in
  the child's environment, it calls the bus name of that service, unless the service was itself started with
  another one in its environment, which wins over \<open>--bus-name\<close>. And it writes a message exactly when the
  service would: its line starts as the service's, with the service's pid and the tag of the level.\<close>

theorem helper_joins_service:
  assumes "\<forall>s. strtoll s 10 = c_strtoll s"
    and "service_main strtoll initable cfg sys getpid opts = Run s envp quit" "sys_environ sys' = envp"
    and "list_all (\<lambda>k. getenv helper k = map_of (gpclient_env cfg sys' s_con v) k) handoff_keys"
    and "length args \<le> 18" "printf fmt args = Some m"
  shows "helper_bus_path helper =
      (case map_of (sys_environ sys) ''NM_DBUS_SERVICE_OPENCONNECT'' of
         Some inherited \<Rightarrow> inherited
       | None \<Rightarrow> (case opt_bus_name opts of Some name \<Rightarrow> name | None \<Rightarrow> NM_DBUS_SERVICE_OPENCONNECT)) \<and>
    service_NMLOG (log_level s) getpid level (PStr fmt # args) =
      Some (if log_level s \<ge> level then log_head (show_int getpid) level @ m @ [CHR 0x0A] else []) \<and>
    helper_NMLOG (helper_log_level strtoll helper) (helper_log_prefix_token helper) hpid level (PStr fmt # args) =
      Some (if log_level s \<ge> level
            then log_head (show_int getpid) level @ ''[helper-'' @ show_int hpid @ ''] '' @ m @ [CHR 0x0A] else [])"
proof -
  have env: "getenv helper k = map_of envp k" if "k \<in> set handoff_keys" for k
    using assms(3,4) that by (simp add: list_all_iff gpclient_env_keeps)
  then have "getenv helper ''NM_VPN_LOG_PREFIX_TOKEN'' = Some (show_int getpid)"
    "getenv helper ''NM_DBUS_SERVICE_OPENCONNECT'' = map_of envp ''NM_DBUS_SERVICE_OPENCONNECT''"
    "helper_log_level strtoll helper = log_level s"
    using service_main_Run(2) [OF assms(2)] log_level_handoff [OF assms(1,2), of helper]
    by (simp_all add: inherited_env_lookup handoff_keys_def)
  then show ?thesis
    using assms(5,6) service_main_Run(2) [OF assms(2)]
    by (simp add: service_NMLOG_line helper_NMLOG_line helper_log_prefix_token_def helper_bus_path_def inherited_env_lookup
        split: option.split)
qed

lemma sample_main:
  "service_main (\<lambda>s b. c_strtoll s) (\<lambda>n w. Inr ()) (sample_config\<lparr>cfg_modprobe := []\<rparr>) sample_sys 1 default_options =
     Run (initial_service False 5\<lparr>gl_loop := True\<rparr>) (inherited_env 5 1 (Some NM_DBUS_SERVICE_OPENCONNECT) (sys_environ sample_sys)) True"
  by (simp add: service_main_def debug_enabled_def service_log_level_def nm_utils_ascii_str_to_int64_def
      load_tun_module_def nm_openconnect_plugin_new_def default_options_def sample_sys_def Let_def)

theorem helper_joins_service_witness:
  "helper_NMLOG 5 ''1'' 77 4 [PStr ''died with %d'', PInt 9] = Some (''nm-gpclient[1] <warn>  [helper-77] died with 9'' @ [CHR 0x0A])"
proof -
  let ?e = "inherited_env 5 1 (Some NM_DBUS_SERVICE_OPENCONNECT) (sys_environ sample_sys)"
  let ?h = "sample_helper\<lparr>h_environ := ?e\<rparr>"
  have "printf ''died with %d'' [PInt 9] = Some ''died with 9''" "helper_log_prefix_token ?h = ''1''"
    "log_head (show_int 1) 4 = ''nm-gpclient[1] <warn>  ''" "show_int 77 = ''77''"
    "helper_log_level (\<lambda>s b. c_strtoll s) ?h = 5"
    "list_all (\<lambda>k. getenv ?h k = map_of (gpclient_env sample_config (sample_sys\<lparr>sys_environ := ?e\<rparr>) sample_con sample_vpn) k) handoff_keys"
    by code_simp+
  then show ?thesis
    using helper_joins_service [OF _ sample_main, of "sample_sys\<lparr>sys_environ := ?e\<rparr>" ?h sample_con sample_vpn "[PInt 9]"
        "''died with %d''" "''died with 9''" 4 77]
    by (simp add: initial_service_def gpclient_env_def)
qed

end
